(* ===== verification/Prelude.thy ===== *)
theory Prelude
  imports Main "HOL-Library.Word"
begin

text \<open>
  The prelude of the development: the collections of simplification rules that the component
  theories fill and use, the widths of the machine integers of the sources, and the generic lemmas
  on alignment, lists, maps and options that more than one component needs.

  \<^item> \<open>ctype_defs\<close> collects the declarations of the C headers whose unfolding is cheap (type
    synonyms and enumerations), \<open>ctype_layout\<close> the computed sizes and alignments of the records, so
    that a record of records is laid out from the layouts of its parts;
  \<^item> \<open>cache_simps\<close> collects the facts about the memoising helpers of the command line client.
\<close>

named_theorems ctype_defs "declarations of the C headers that are unfolded when a type is laid out"
named_theorems ctype_layout "computed sizes and alignments of the records of the C headers"
named_theorems cache_simps "results of the memoised functions of the client"

type_synonym u8 = "8 word"
type_synonym u32 = "32 word"
type_synonym u64 = "64 word"
type_synonym i32 = "32 word"
type_synonym i64 = "64 word"

section \<open>Rounding up to a multiple\<close>

definition align_up :: "nat \<Rightarrow> nat \<Rightarrow> nat" where
  "align_up a n = (n + a - 1) div a * a"

lemma align_up_dvd [simp]: "a dvd align_up a n"
  by (simp add: align_up_def)

lemma align_up_ge: "0 < a \<Longrightarrow> n \<le> align_up a n"
  unfolding align_up_def
  using div_mult_mod_eq [of "n + a - 1" a] mod_less_divisor [of a "n + a - 1"] by linarith

lemma align_up_less: "0 < a \<Longrightarrow> align_up a n < n + a"
  unfolding align_up_def using div_times_less_eq_dividend [of "n + a - 1" a] by linarith

lemma align_up_1 [simp]: "align_up 1 n = n" "align_up (Suc 0) n = n"
  by (simp_all add: align_up_def)

lemma align_up_least:
  assumes "a dvd m" "n \<le> m"
  shows "align_up a n \<le> m"
proof (cases "a = 0")
  case True
  then show ?thesis by (simp add: align_up_def)
next
  case False
  from assms(1) obtain k where k: "m = a * k" ..
  have "n + a - 1 \<le> (a - 1) + k * a"
    using assms(2) k False by (simp add: ac_simps)
  then have "(n + a - 1) div a \<le> ((a - 1) + k * a) div a"
    by (rule div_le_mono)
  also have "\<dots> = k" using False by (subst div_mult_self1) auto
  finally show ?thesis using k by (simp add: align_up_def ac_simps)
qed

lemma align_up_id: "0 < a \<Longrightarrow> a dvd n \<Longrightarrow> align_up a n = n"
  by (intro antisym align_up_least align_up_ge) auto

lemma align_up_mono: "0 < a \<Longrightarrow> m \<le> n \<Longrightarrow> align_up a m \<le> align_up a n"
  by (rule align_up_least) (auto intro: order_trans align_up_ge)

section \<open>Decimal numbers\<close>

fun show_nat :: "nat \<Rightarrow> string" where
  "show_nat n = (if n < 10 then [char_of (48 + n)] else show_nat (n div 10) @ [char_of (48 + n mod 10)])"

declare show_nat.simps [simp del]

lemma show_nat_length: "n < 10 ^ Suc k \<Longrightarrow> 1 \<le> length (show_nat n) \<and> length (show_nat n) \<le> Suc k"
proof (induction n arbitrary: k rule: show_nat.induct)
  case (1 n)
  show ?case
  proof (cases "n < 10")
    case True
    then show ?thesis by (subst (1 2) show_nat.simps) simp
  next
    case False
    then obtain m where m: "k = Suc m" using 1(2) by (cases k) auto
    then have "n div 10 < 10 ^ Suc m" using 1(2) by (simp add: div_less_iff_less_mult)
    from 1(1) [OF False this] show ?thesis
      using False m by (subst (1 2) show_nat.simps) simp
  qed
qed

end
