(* ===== verification/CTypes.thy ===== *)
theory CTypes
  imports Prelude
begin

text \<open>
  C object types as the headers declare them and the layout the target ABI gives them.

  The type declarations of \<^verbatim>\<open>src/src/bpf/vmlinux.h\<close> and \<^verbatim>\<open>src/src/bpf/bpftune.h\<close> become values of
  \<open>ctype\<close>; \<open>sizeof\<close>, \<open>alignof\<close> and \<open>offset_bits\<close> compute their layout by the rules of the
  LP64 System V ABI, which both the x86-64 kernel and the BPF target follow: a member goes to the
  next multiple of its alignment, a bit-field stays in the storage unit of its declared type, a
  record is padded to a multiple of its strictest member.  The theorems hold for every
  well-formed type: members come in order and do not overlap, each lies inside the record and at
  a multiple of its alignment, and every access path stays within the object.
\<close>

section \<open>Types and members\<close>

datatype cbase =
    CBool | CChar | CSChar | CUChar | CShort | CUShort | CInt | CUInt
  | CLong | CULong | CLLong | CULLong | CInt128 | CUInt128

text \<open>
  A pointer keeps the spelling of its target, which may be an incomplete type; a pointer to a
  function keeps nothing, since its signature has no part in the layout.  The name of an
  anonymous record is the empty string.  \<open>Bits\<close> is a named bit-field, \<open>Pad\<close> an unnamed one.
\<close>

datatype ctype =
    Base cbase
  | Ptr string
  | FnPtr
  | Enum string "(string \<times> int) list"
  | Array nat ctype
  | Struct string bool "cmember list"
  | Union string bool "cmember list"
and cmember =
    Field string ctype
  | Anon ctype
  | Bits string ctype nat
  | Pad ctype nat

fun base_size :: "cbase \<Rightarrow> nat" where
  "base_size CBool = 1"
| "base_size CChar = 1"
| "base_size CSChar = 1"
| "base_size CUChar = 1"
| "base_size CShort = 2"
| "base_size CUShort = 2"
| "base_size CInt = 4"
| "base_size CUInt = 4"
| "base_size CLong = 8"
| "base_size CULong = 8"
| "base_size CLLong = 8"
| "base_size CULLong = 8"
| "base_size CInt128 = 16"
| "base_size CUInt128 = 16"

text \<open>An enumeration is an \<^verbatim>\<open>int\<close> or \<^verbatim>\<open>unsigned int\<close> unless a constant needs 64 bits.\<close>

fun fits_int32 :: "(string \<times> int) list \<Rightarrow> bool" where
  "fits_int32 [] = True"
| "fits_int32 ((n, v) # es) = (- 2147483648 \<le> v \<and> v \<le> 4294967295 \<and> fits_int32 es)"

definition enum_size :: "(string \<times> int) list \<Rightarrow> nat" where
  "enum_size es = (if fits_int32 es then 4 else 8)"

section \<open>Size, alignment and placement\<close>

fun alignof :: "ctype \<Rightarrow> nat"
  and member_align :: "cmember \<Rightarrow> nat"
  and members_align :: "cmember list \<Rightarrow> nat"
where
  "alignof (Base b) = base_size b"
| "alignof (Ptr s) = 8"
| "alignof FnPtr = 8"
| "alignof (Enum n es) = enum_size es"
| "alignof (Array k t) = alignof t"
| "alignof (Struct n p ms) = (if p then 1 else members_align ms)"
| "alignof (Union n p ms) = (if p then 1 else members_align ms)"
| "member_align (Field n t) = alignof t"
| "member_align (Anon t) = alignof t"
| "member_align (Bits n t w) = alignof t"
| "member_align (Pad t w) = 1"
| "members_align [] = 1"
| "members_align (m # ms) = max (member_align m) (members_align ms)"

text \<open>
  The first bit of a member that follows \<open>pos\<close> bits, from the size and alignment of its type: an
  ordinary member is aligned, to a byte in a packed record; a bit-field of \<open>w\<close> bits starts at
  \<open>pos\<close> unless it would cross a boundary of its unit of \<open>u\<close> bits.
\<close>

definition field_start :: "bool \<Rightarrow> nat \<Rightarrow> nat \<Rightarrow> nat" where
  "field_start p a pos = align_up (if p then 8 else 8 * a) pos"

definition bits_start :: "bool \<Rightarrow> nat \<Rightarrow> nat \<Rightarrow> nat \<Rightarrow> nat" where
  "bits_start p u w pos =
     (if w = 0 then align_up u pos
      else if p \<or> pos div u = (pos + w - 1) div u then pos
      else align_up u pos)"

fun sizeof :: "ctype \<Rightarrow> nat"
  and member_bits :: "cmember \<Rightarrow> nat"
  and member_start :: "bool \<Rightarrow> nat \<Rightarrow> cmember \<Rightarrow> nat"
  and struct_end :: "bool \<Rightarrow> nat \<Rightarrow> cmember list \<Rightarrow> nat"
  and union_end :: "cmember list \<Rightarrow> nat"
where
  "sizeof (Base b) = base_size b"
| "sizeof (Ptr s) = 8"
| "sizeof FnPtr = 8"
| "sizeof (Enum n es) = enum_size es"
| "sizeof (Array k t) = k * sizeof t"
| "sizeof (Struct n p ms) =
     align_up (if p then 1 else members_align ms) (align_up 8 (struct_end p 0 ms) div 8)"
| "sizeof (Union n p ms) =
     align_up (if p then 1 else members_align ms) (align_up 8 (union_end ms) div 8)"
| "member_bits (Field n t) = 8 * sizeof t"
| "member_bits (Anon t) = 8 * sizeof t"
| "member_bits (Bits n t w) = w"
| "member_bits (Pad t w) = w"
| "member_start p pos (Field n t) = field_start p (alignof t) pos"
| "member_start p pos (Anon t) = field_start p (alignof t) pos"
| "member_start p pos (Bits n t w) = bits_start p (8 * sizeof t) w pos"
| "member_start p pos (Pad t w) = bits_start p (8 * sizeof t) w pos"
| "struct_end p pos [] = pos"
| "struct_end p pos (m # ms) = struct_end p (member_start p pos m + member_bits m) ms"
| "union_end [] = 0"
| "union_end (m # ms) = max (member_bits m) (union_end ms)"

text \<open>The members of a record with the first bit and the width of each, in declaration order.\<close>

fun placed :: "bool \<Rightarrow> nat \<Rightarrow> cmember list \<Rightarrow> (cmember \<times> nat \<times> nat) list" where
  "placed p pos [] = []"
| "placed p pos (m # ms) =
     (m, member_start p pos m, member_bits m)
       # placed p (member_start p pos m + member_bits m) ms"

fun layout :: "ctype \<Rightarrow> (cmember \<times> nat \<times> nat) list" where
  "layout (Struct n p ms) = placed p 0 ms"
| "layout (Union n p ms) = map (\<lambda>m. (m, 0, member_bits m)) ms"
| "layout t = []"

text \<open>
  A well-formed type: a bit-field fits in its declared integer type, and an anonymous member is a
  record, as C requires.
\<close>

fun wf_ctype :: "ctype \<Rightarrow> bool"
  and wf_member :: "cmember \<Rightarrow> bool"
  and wf_members :: "cmember list \<Rightarrow> bool"
where
  "wf_ctype (Base b) = True"
| "wf_ctype (Ptr s) = True"
| "wf_ctype FnPtr = True"
| "wf_ctype (Enum n es) = (es \<noteq> [])"
| "wf_ctype (Array k t) = wf_ctype t"
| "wf_ctype (Struct n p ms) = wf_members ms"
| "wf_ctype (Union n p ms) = wf_members ms"
| "wf_member (Field n t) = (n \<noteq> [] \<and> wf_ctype t)"
| "wf_member (Anon t) =
     ((case t of Struct n p ms \<Rightarrow> n = [] | Union n p ms \<Rightarrow> n = [] | _ \<Rightarrow> False) \<and> wf_ctype t)"
| "wf_member (Bits n t w) =
     (n \<noteq> [] \<and> 0 < w \<and> w \<le> 8 * sizeof t
       \<and> (case t of Base b \<Rightarrow> True | Enum n es \<Rightarrow> es \<noteq> [] | _ \<Rightarrow> False))"
| "wf_member (Pad t w) =
     (w \<le> 8 * sizeof t \<and> (case t of Base b \<Rightarrow> True | _ \<Rightarrow> False))"
| "wf_members [] = True"
| "wf_members (m # ms) = (wf_member m \<and> wf_members ms)"

section \<open>Alignments\<close>

lemma base_size_cases: "base_size b \<in> {1, 2, 4, 8, 16}"
  by (cases b) auto

lemma enum_size_cases: "enum_size es \<in> {4, 8}"
  by (simp add: enum_size_def)

text \<open>Every alignment is a power of two up to 16, so the larger of two is a multiple of the other.\<close>

abbreviation alignments :: "nat set" where
  "alignments \<equiv> {1, 2, 4, 8, 16}"

lemma max_alignments: "a \<in> alignments \<Longrightarrow> b \<in> alignments \<Longrightarrow> max a b \<in> alignments"
  by (simp add: max_def)

lemma dvd_max_alignments:
  "a \<in> alignments \<Longrightarrow> b \<in> alignments \<Longrightarrow> a dvd max a b \<and> b dvd max a b"
  by (elim insertE emptyE) simp_all

lemma alignof_alignments:
  "alignof t \<in> alignments"
  "member_align m \<in> alignments"
  "members_align ms \<in> alignments"
proof (induction t and m and ms rule: alignof_member_align_members_align.induct)
  case (4 n es)
  then show ?case using enum_size_cases [of es] by auto
next
  case (13 m ms)
  then show ?case using max_alignments by simp
qed (use base_size_cases in simp_all)

lemma align_pos [simp]: "0 < alignof t" "0 < member_align m" "0 < members_align ms"
  using alignof_alignments(1) [of t] alignof_alignments(2) [of m] alignof_alignments(3) [of ms]
  by auto

lemma member_align_dvd: "m \<in> set ms \<Longrightarrow> member_align m dvd members_align ms"
proof (induction ms)
  case (Cons m' ms)
  have dvds: "member_align m' dvd members_align (m' # ms)"
       "members_align ms dvd members_align (m' # ms)"
    using dvd_max_alignments [OF alignof_alignments(2) alignof_alignments(3)] by simp_all
  from Cons show ?case using dvds by (auto intro: dvd_trans)
qed simp

lemma alignof_dvd_sizeof: "alignof t dvd sizeof t"
  by (induction t rule: ctype.induct [of _ "\<lambda>_. True"]) (auto intro: dvd_mult)

section \<open>Placement of the members of a record\<close>

text \<open>The unit of a well-formed bit-field is not empty, so that rounding up to it makes sense.\<close>

lemma scalar_size_pos [simp]: "0 < base_size b" "0 < enum_size es"
  by (cases b) (simp_all add: enum_size_def)

lemma unit_pos:
  assumes "wf_member m" "m = Bits n t w \<or> m = Pad t w"
  shows "0 < sizeof t"
proof -
  have "(\<exists>b. t = Base b) \<or> (\<exists>k es. t = Enum k es)"
    using assms by (auto split: ctype.splits)
  then show ?thesis by auto
qed

lemma field_start_ge: "pos \<le> field_start p (alignof t) pos"
  by (simp add: field_start_def align_up_ge)

lemma bits_start_ge: "0 < u \<Longrightarrow> pos \<le> bits_start p u w pos"
  by (simp add: bits_start_def align_up_ge)

lemma member_start_ge: "wf_member m \<Longrightarrow> pos \<le> member_start p pos m"
  using unit_pos by (cases m) (force intro: field_start_ge bits_start_ge)+

lemma wf_members_iff: "wf_members ms \<longleftrightarrow> (\<forall>m \<in> set ms. wf_member m)"
  by (induction ms) auto

lemma struct_end_ge: "wf_members ms \<Longrightarrow> pos \<le> struct_end p pos ms"
proof (induction ms arbitrary: pos)
  case (Cons m ms)
  have "pos \<le> member_start p pos m + member_bits m"
    using Cons.prems member_start_ge [of m pos p] by simp
  also have "\<dots> \<le> struct_end p (member_start p pos m + member_bits m) ms"
    using Cons by simp
  finally show ?case by simp
qed simp

lemma placed_bounds:
  "wf_members ms \<Longrightarrow> (m, s, w) \<in> set (placed p pos ms) \<Longrightarrow>
     pos \<le> s \<and> s + w \<le> struct_end p pos ms"
proof (induction ms arbitrary: pos)
  case (Cons m' ms)
  let ?pos = "member_start p pos m' + member_bits m'"
  have pos: "pos \<le> ?pos" "?pos \<le> struct_end p ?pos ms"
    using Cons.prems(1) member_start_ge [of m' pos p] struct_end_ge [of ms ?pos p] by auto
  from Cons.prems consider "s = member_start p pos m'" "w = member_bits m'"
    | "(m, s, w) \<in> set (placed p ?pos ms)" by auto
  then show ?case
    using Cons.IH [of ?pos] Cons.prems(1) pos member_start_ge [of m' pos p] by cases auto
qed simp

lemma placed_sorted:
  "wf_members ms \<Longrightarrow> sorted_wrt (\<lambda>(m, s, w) (m', s', w'). s + w \<le> s') (placed p pos ms)"
  by (induction ms arbitrary: pos) (auto dest: placed_bounds)

lemma length_placed [simp]: "length (placed p pos ms) = length ms"
  by (induction ms arbitrary: pos) auto

lemma placed_members: "(m, s, w) \<in> set (placed p pos ms) \<Longrightarrow> m \<in> set ms \<and> w = member_bits m"
  by (induction ms arbitrary: pos) auto

lemma placed_aligned:
  "(m, s, w) \<in> set (placed False pos ms) \<Longrightarrow> m = Field n t \<or> m = Anon t \<Longrightarrow> 8 * alignof t dvd s"
  by (induction ms arbitrary: pos) (auto simp: field_start_def)

lemma record_size_ge: "0 < a \<Longrightarrow> n \<le> 8 * align_up a (align_up 8 n div 8)"
proof -
  assume a: "0 < a"
  have "n \<le> align_up 8 n" by (simp add: align_up_ge)
  also have "\<dots> = 8 * (align_up 8 n div 8)" by simp
  also have "\<dots> \<le> 8 * align_up a (align_up 8 n div 8)"
    using a by (intro mult_le_mono2 align_up_ge)
  finally show ?thesis .
qed

lemma union_end_ge: "m \<in> set ms \<Longrightarrow> member_bits m \<le> union_end ms"
  by (induction ms) auto

lemma layout_bounds:
  assumes "wf_ctype t" "(m, s, w) \<in> set (layout t)"
  shows "s + w \<le> 8 * sizeof t"
proof -
  consider (struct) n p ms where "t = Struct n p ms" | (union) n p ms where "t = Union n p ms"
    using assms(2) by (cases t) auto
  then show ?thesis
  proof cases
    case struct
    with assms have "s + w \<le> struct_end p 0 ms" by (auto dest: placed_bounds)
    also have "\<dots> \<le> 8 * sizeof t"
      unfolding struct sizeof.simps by (rule record_size_ge) simp
    finally show ?thesis .
  next
    case union
    with assms have "s + w \<le> union_end ms" by (auto dest: union_end_ge)
    also have "\<dots> \<le> 8 * sizeof t"
      unfolding union sizeof.simps by (rule record_size_ge) simp
    finally show ?thesis .
  qed
qed

lemma layout_sorted:
  "wf_ctype t \<Longrightarrow> t = Struct n p ms \<Longrightarrow>
     sorted_wrt (\<lambda>(m, s, w) (m', s', w'). s + w \<le> s') (layout t)"
  by (simp add: placed_sorted)

lemma layout_aligned:
  "t = Struct n p ms \<Longrightarrow> \<not> p \<Longrightarrow> (m, s, w) \<in> set (layout t) \<Longrightarrow> m = Field f u \<or> m = Anon u \<Longrightarrow>
     8 * alignof u dvd s"
  by (simp add: placed_aligned)

section \<open>Access paths\<close>

text \<open>
  A member access \<open>.f\<close> finds \<open>f\<close> among the members of a record and of its anonymous
  members; \<open>[i]\<close> selects an element of an array.  The result is the type that is reached, its
  first bit and its width.
\<close>

datatype cstep = Dot string | At nat

fun field_at :: "ctype \<Rightarrow> string \<Rightarrow> (ctype \<times> nat \<times> nat) option"
  and member_at :: "cmember \<Rightarrow> string \<Rightarrow> (ctype \<times> nat \<times> nat) option"
  and struct_at :: "bool \<Rightarrow> nat \<Rightarrow> cmember list \<Rightarrow> string \<Rightarrow> (ctype \<times> nat \<times> nat) option"
  and union_at :: "cmember list \<Rightarrow> string \<Rightarrow> (ctype \<times> nat \<times> nat) option"
where
  "field_at (Struct n p ms) f = struct_at p 0 ms f"
| "field_at (Union n p ms) f = union_at ms f"
| "field_at (Base b) f = None"
| "field_at (Ptr s) f = None"
| "field_at FnPtr f = None"
| "field_at (Enum n es) f = None"
| "field_at (Array k t) f = None"
| "member_at (Field n t) f = (if n = f then Some (t, 0, 8 * sizeof t) else None)"
| "member_at (Anon t) f = field_at t f"
| "member_at (Bits n t w) f = (if n = f then Some (t, 0, w) else None)"
| "member_at (Pad t w) f = None"
| "struct_at p pos [] f = None"
| "struct_at p pos (m # ms) f =
     (case member_at m f of
        Some (t, s, w) \<Rightarrow> Some (t, member_start p pos m + s, w)
      | None \<Rightarrow> struct_at p (member_start p pos m + member_bits m) ms f)"
| "union_at [] f = None"
| "union_at (m # ms) f =
     (case member_at m f of Some r \<Rightarrow> Some r | None \<Rightarrow> union_at ms f)"

fun step_at :: "ctype \<Rightarrow> cstep \<Rightarrow> (ctype \<times> nat \<times> nat) option" where
  "step_at t (Dot f) = field_at t f"
| "step_at t (At i) =
     (case t of
        Array k u \<Rightarrow> if i < k then Some (u, i * (8 * sizeof u), 8 * sizeof u) else None
      | _ \<Rightarrow> None)"

fun path_at :: "ctype \<Rightarrow> cstep list \<Rightarrow> (ctype \<times> nat \<times> nat) option" where
  "path_at t [] = Some (t, 0, 8 * sizeof t)"
| "path_at t [c] = step_at t c"
| "path_at t (c # cs) =
     (case step_at t c of
        None \<Rightarrow> None
      | Some (u, s, w) \<Rightarrow>
          (case path_at u cs of
             None \<Rightarrow> None
           | Some (v, s', w') \<Rightarrow> Some (v, s + s', w')))"

definition offset_bytes :: "ctype \<Rightarrow> string \<Rightarrow> nat option" where
  "offset_bytes t f = map_option (\<lambda>(u, s, w). s div 8) (field_at t f)"

lemma field_at_bounds:
  "wf_ctype t \<Longrightarrow> field_at t f = Some (u, s, w) \<Longrightarrow> s + w \<le> 8 * sizeof t"
  "wf_member m \<Longrightarrow> member_at m f = Some (u, s, w) \<Longrightarrow> s + w \<le> member_bits m"
  "wf_members ms \<Longrightarrow> struct_at p pos ms f = Some (u, s, w) \<Longrightarrow> s + w \<le> struct_end p pos ms"
  "wf_members ms \<Longrightarrow> union_at ms f = Some (u, s, w) \<Longrightarrow> s + w \<le> union_end ms"
proof (induction t f and m f and p pos ms f and ms f arbitrary: s and s and s and s
    rule: field_at_member_at_struct_at_union_at.induct)
  case (1 n p ms f)
  then have "s + w \<le> struct_end p 0 ms" by simp
  also have "\<dots> \<le> 8 * sizeof (Struct n p ms)"
    unfolding sizeof.simps by (rule record_size_ge) simp
  finally show ?case .
next
  case (2 n p ms f)
  then have "s + w \<le> union_end ms" by simp
  also have "\<dots> \<le> 8 * sizeof (Union n p ms)"
    unfolding sizeof.simps by (rule record_size_ge) simp
  finally show ?case .
next
  case (13 p pos m ms f)
  let ?pos = "member_start p pos m + member_bits m"
  have le: "?pos \<le> struct_end p ?pos ms"
    using 13 by (auto intro: struct_end_ge)
  show ?case
  proof (cases "member_at m f")
    case None
    with 13 show ?thesis by simp
  next
    case (Some r)
    obtain t s' w' where r: "r = (t, s', w')" by (cases r)
    with Some 13 have "s' + w \<le> member_bits m" and "s = member_start p pos m + s'" by auto
    with le show ?thesis by simp
  qed
next
  case (15 m ms f)
  then show ?case by (cases "member_at m f") fastforce+
qed (auto split: if_splits)

lemma field_at_wf:
  "wf_ctype t \<Longrightarrow> field_at t f = Some (u, s, w) \<Longrightarrow> wf_ctype u"
  "wf_member m \<Longrightarrow> member_at m f = Some (u, s, w) \<Longrightarrow> wf_ctype u"
  "wf_members ms \<Longrightarrow> struct_at p pos ms f = Some (u, s, w) \<Longrightarrow> wf_ctype u"
  "wf_members ms \<Longrightarrow> union_at ms f = Some (u, s, w) \<Longrightarrow> wf_ctype u"
proof (induction t f and m f and p pos ms f and ms f arbitrary: s and s and s and s
    rule: field_at_member_at_struct_at_union_at.induct)
  case (10 n t w f)
  then show ?case by (cases t) (auto split: if_splits)
next
  case (13 p pos m ms f)
  then show ?case by (cases "member_at m f") fastforce+
next
  case (15 m ms f)
  then show ?case by (cases "member_at m f") fastforce+
qed (auto split: if_splits)

lemma step_at_bounds:
  assumes "wf_ctype t" "step_at t c = Some (u, s, w)"
  shows "s + w \<le> 8 * sizeof t \<and> wf_ctype u"
proof (cases c)
  case (Dot f)
  with assms show ?thesis by (auto dest: field_at_bounds field_at_wf)
next
  case (At i)
  with assms(2) obtain k u' where t: "t = Array k u'" by (cases t) simp_all
  with assms(2) At have k: "u = u'" "i < k" "s = i * (8 * sizeof u)" "w = 8 * sizeof u"
    by (auto split: if_splits)
  then have "s + w = Suc i * (8 * sizeof u)" by simp
  also have "\<dots> \<le> k * (8 * sizeof u)" using k(2) by (intro mult_le_mono1) simp
  finally show ?thesis using k(1) t assms(1) by (simp add: ac_simps)
qed

section \<open>Evaluating a layout\<close>

text \<open>
  The rules that compute the layout of a closed type, and those for the long runs of unnamed
  64-bit fields that stand for page alignment: a run that starts on a multiple of 64 bits adds its
  own width and nothing else.
\<close>

lemmas layout_eval = field_start_def bits_start_def align_up_def enum_size_def
  numeral_2_eq_2 [symmetric]

lemma struct_end_append:
  "struct_end p pos (ms @ ms') = struct_end p (struct_end p pos ms) ms'"
  by (induction ms arbitrary: pos) simp_all

lemma members_align_append:
  "members_align (ms @ ms') = max (members_align ms) (members_align ms')"
  by (induction ms) (simp_all add: alignof_alignments less_imp_le_nat max.assoc Suc_leI)

lemma wf_members_append: "wf_members (ms @ ms') = (wf_members ms \<and> wf_members ms')"
  by (simp add: wf_members_iff ball_Un)

lemma pad64_start: "64 dvd pos \<Longrightarrow> bits_start False 64 64 pos = pos"
proof -
  assume "64 dvd pos"
  then obtain k where k: "pos = 64 * k" ..
  then have "(63 + pos) div 64 = pos div 64" by simp
  then show ?thesis by (simp add: bits_start_def add.commute)
qed

lemma struct_end_pad64:
  "64 dvd pos \<Longrightarrow> struct_end False pos (replicate n (Pad (Base CLong) 64)) = pos + 64 * n"
  by (induction n arbitrary: pos) (simp_all add: pad64_start)

lemma members_align_pad64: "members_align (replicate n (Pad t w)) = 1"
  by (induction n) simp_all

lemma wf_members_pad64: "wf_members (replicate n (Pad (Base CLong) 64))"
  by (simp add: wf_members_iff)

lemma struct_at_append:
  "struct_at p pos (ms @ ms') f =
     (case struct_at p pos ms f of
        Some r \<Rightarrow> Some r
      | None \<Rightarrow> struct_at p (struct_end p pos ms) ms' f)"
  by (induction ms arbitrary: pos) (simp_all split: option.splits)

lemma struct_at_pad64: "struct_at p pos (replicate n (Pad t w)) f = None"
  by (induction n arbitrary: pos) simp_all

lemmas padding_simps = struct_end_append members_align_append wf_members_append
  struct_end_pad64 members_align_pad64 wf_members_pad64 struct_at_append struct_at_pad64

end
