(* ===== verification/Vmlinux_Base.thy ===== *)
theory Vmlinux_Base
  imports CTypes
begin

text \<open>
  Declarations of \<^verbatim>\<open>src/src/bpf/vmlinux.h\<close> that the kernel records of the profiler are built from:
  fixed-width and kernel type synonyms, reference counts, lists, trees, locks, timers and wait
  queues.  Each definition is one declaration of the header, in the header's member order, followed
  by its computed size and alignment.  A definition is named after the tag with the kind of the
  declaration in front; an anonymous enumeration is named after its first constant.
\<close>

definition typedef___u32 :: ctype where
  [ctype_defs]: "typedef___u32 = Base CUInt"

definition typedef_u32 :: ctype where
  [ctype_defs]: "typedef_u32 = typedef___u32"

definition typedef_atomic_t :: ctype where
  "typedef_atomic_t = Struct '''' False [
     Field ''counter'' (Base CInt)]"

lemma typedef_atomic_t_layout [ctype_layout]:
  "sizeof typedef_atomic_t = 4" "alignof typedef_atomic_t = 4" "wf_ctype typedef_atomic_t"
  by (simp_all add: typedef_atomic_t_def ctype_defs ctype_layout layout_eval)

definition struct_refcount_struct :: ctype where
  "struct_refcount_struct = Struct ''refcount_struct'' False [
     Field ''refs'' typedef_atomic_t]"

lemma struct_refcount_struct_layout [ctype_layout]:
  "sizeof struct_refcount_struct = 4" "alignof struct_refcount_struct = 4" "wf_ctype struct_refcount_struct"
  by (simp_all add: struct_refcount_struct_def ctype_defs ctype_layout layout_eval)

definition typedef_refcount_t :: ctype where
  [ctype_defs]: "typedef_refcount_t = struct_refcount_struct"

definition struct_llist_node :: ctype where
  "struct_llist_node = Struct ''llist_node'' False [
     Field ''next'' (Ptr ''struct llist_node'')]"

lemma struct_llist_node_layout [ctype_layout]:
  "sizeof struct_llist_node = 8" "alignof struct_llist_node = 8" "wf_ctype struct_llist_node"
  by (simp_all add: struct_llist_node_def ctype_defs ctype_layout layout_eval)

definition struct___call_single_node :: ctype where
  "struct___call_single_node = Struct ''__call_single_node'' False [
     Field ''llist'' struct_llist_node,
     Anon (Union '''' False [
         Field ''u_flags'' (Base CUInt),
         Field ''a_flags'' typedef_atomic_t])]"

lemma struct___call_single_node_layout [ctype_layout]:
  "sizeof struct___call_single_node = 16" "alignof struct___call_single_node = 8" "wf_ctype struct___call_single_node"
  by (simp_all add: struct___call_single_node_def ctype_defs ctype_layout layout_eval)

definition struct_load_weight :: ctype where
  "struct_load_weight = Struct ''load_weight'' False [
     Field ''weight'' (Base CULong),
     Field ''inv_weight'' typedef_u32]"

lemma struct_load_weight_layout [ctype_layout]:
  "sizeof struct_load_weight = 16" "alignof struct_load_weight = 8" "wf_ctype struct_load_weight"
  by (simp_all add: struct_load_weight_def ctype_defs ctype_layout layout_eval)

definition struct_rb_node :: ctype where
  "struct_rb_node = Struct ''rb_node'' False [
     Field ''__rb_parent_color'' (Base CULong),
     Field ''rb_right'' (Ptr ''struct rb_node''),
     Field ''rb_left'' (Ptr ''struct rb_node'')]"

lemma struct_rb_node_layout [ctype_layout]:
  "sizeof struct_rb_node = 24" "alignof struct_rb_node = 8" "wf_ctype struct_rb_node"
  by (simp_all add: struct_rb_node_def ctype_defs ctype_layout layout_eval)

definition struct_list_head :: ctype where
  "struct_list_head = Struct ''list_head'' False [
     Field ''next'' (Ptr ''struct list_head''),
     Field ''prev'' (Ptr ''struct list_head'')]"

lemma struct_list_head_layout [ctype_layout]:
  "sizeof struct_list_head = 16" "alignof struct_list_head = 8" "wf_ctype struct_list_head"
  by (simp_all add: struct_list_head_def ctype_defs ctype_layout layout_eval)

definition typedef___u64 :: ctype where
  [ctype_defs]: "typedef___u64 = Base CULLong"

definition typedef_u64 :: ctype where
  [ctype_defs]: "typedef_u64 = typedef___u64"

definition typedef___s64 :: ctype where
  [ctype_defs]: "typedef___s64 = Base CLLong"

definition typedef_s64 :: ctype where
  [ctype_defs]: "typedef_s64 = typedef___s64"

definition struct_util_est :: ctype where
  "struct_util_est = Struct ''util_est'' False [
     Field ''enqueued'' (Base CUInt),
     Field ''ewma'' (Base CUInt)]"

lemma struct_util_est_layout [ctype_layout]:
  "sizeof struct_util_est = 8" "alignof struct_util_est = 4" "wf_ctype struct_util_est"
  by (simp_all add: struct_util_est_def ctype_defs ctype_layout layout_eval)

definition typedef_ktime_t :: ctype where
  [ctype_defs]: "typedef_ktime_t = typedef_s64"

definition struct_timerqueue_node :: ctype where
  "struct_timerqueue_node = Struct ''timerqueue_node'' False [
     Field ''node'' struct_rb_node,
     Field ''expires'' typedef_ktime_t]"

lemma struct_timerqueue_node_layout [ctype_layout]:
  "sizeof struct_timerqueue_node = 32" "alignof struct_timerqueue_node = 8" "wf_ctype struct_timerqueue_node"
  by (simp_all add: struct_timerqueue_node_def ctype_defs ctype_layout layout_eval)

definition typedef___u8 :: ctype where
  [ctype_defs]: "typedef___u8 = Base CUChar"

definition typedef_u8 :: ctype where
  [ctype_defs]: "typedef_u8 = typedef___u8"

definition struct_hrtimer :: ctype where
  "struct_hrtimer = Struct ''hrtimer'' False [
     Field ''node'' struct_timerqueue_node,
     Field ''_softexpires'' typedef_ktime_t,
     Field ''function'' FnPtr,
     Field ''base'' (Ptr ''struct hrtimer_clock_base''),
     Field ''state'' typedef_u8,
     Field ''is_rel'' typedef_u8,
     Field ''is_soft'' typedef_u8,
     Field ''is_hard'' typedef_u8]"

lemma struct_hrtimer_layout [ctype_layout]:
  "sizeof struct_hrtimer = 64" "alignof struct_hrtimer = 8" "wf_ctype struct_hrtimer"
  by (simp_all add: struct_hrtimer_def ctype_defs ctype_layout layout_eval)

definition struct_cpumask :: ctype where
  "struct_cpumask = Struct ''cpumask'' False [
     Field ''bits'' (Array 1 (Base CULong))]"

lemma struct_cpumask_layout [ctype_layout]:
  "sizeof struct_cpumask = 8" "alignof struct_cpumask = 8" "wf_ctype struct_cpumask"
  by (simp_all add: struct_cpumask_def ctype_defs ctype_layout layout_eval)

definition typedef_cpumask_t :: ctype where
  [ctype_defs]: "typedef_cpumask_t = struct_cpumask"

definition struct_plist_node :: ctype where
  "struct_plist_node = Struct ''plist_node'' False [
     Field ''prio'' (Base CInt),
     Field ''prio_list'' struct_list_head,
     Field ''node_list'' struct_list_head]"

lemma struct_plist_node_layout [ctype_layout]:
  "sizeof struct_plist_node = 40" "alignof struct_plist_node = 8" "wf_ctype struct_plist_node"
  by (simp_all add: struct_plist_node_def ctype_defs ctype_layout layout_eval)

definition typedef___kernel_clockid_t :: ctype where
  [ctype_defs]: "typedef___kernel_clockid_t = Base CInt"

definition typedef_clockid_t :: ctype where
  [ctype_defs]: "typedef_clockid_t = typedef___kernel_clockid_t"

definition enum_timespec_type :: ctype where
  "enum_timespec_type = Enum ''timespec_type'' [
     (''TT_NONE'', 0),
     (''TT_NATIVE'', 1),
     (''TT_COMPAT'', 2)]"

lemma enum_timespec_type_layout [ctype_layout]:
  "sizeof enum_timespec_type = 4" "alignof enum_timespec_type = 4" "wf_ctype enum_timespec_type"
  by (simp_all add: enum_timespec_type_def ctype_defs ctype_layout layout_eval)

definition typedef___kernel_pid_t :: ctype where
  [ctype_defs]: "typedef___kernel_pid_t = Base CInt"

definition typedef_pid_t :: ctype where
  [ctype_defs]: "typedef_pid_t = typedef___kernel_pid_t"

definition struct_hlist_node :: ctype where
  "struct_hlist_node = Struct ''hlist_node'' False [
     Field ''next'' (Ptr ''struct hlist_node''),
     Field ''pprev'' (Ptr ''struct hlist_node *'')]"

lemma struct_hlist_node_layout [ctype_layout]:
  "sizeof struct_hlist_node = 16" "alignof struct_hlist_node = 8" "wf_ctype struct_hlist_node"
  by (simp_all add: struct_hlist_node_def ctype_defs ctype_layout layout_eval)

definition typedef___u16 :: ctype where
  [ctype_defs]: "typedef___u16 = Base CUShort"

definition typedef_u16 :: ctype where
  [ctype_defs]: "typedef_u16 = typedef___u16"

definition struct_qspinlock :: ctype where
  "struct_qspinlock = Struct ''qspinlock'' False [
     Anon (Union '''' False [
         Field ''val'' typedef_atomic_t,
         Anon (Struct '''' False [
             Field ''locked'' typedef_u8,
             Field ''pending'' typedef_u8]),
         Anon (Struct '''' False [
             Field ''locked_pending'' typedef_u16,
             Field ''tail'' typedef_u16])])]"

lemma struct_qspinlock_layout [ctype_layout]:
  "sizeof struct_qspinlock = 4" "alignof struct_qspinlock = 4" "wf_ctype struct_qspinlock"
  by (simp_all add: struct_qspinlock_def ctype_defs ctype_layout layout_eval)

definition typedef_arch_spinlock_t :: ctype where
  [ctype_defs]: "typedef_arch_spinlock_t = struct_qspinlock"

definition struct_raw_spinlock :: ctype where
  "struct_raw_spinlock = Struct ''raw_spinlock'' False [
     Field ''raw_lock'' typedef_arch_spinlock_t]"

lemma struct_raw_spinlock_layout [ctype_layout]:
  "sizeof struct_raw_spinlock = 4" "alignof struct_raw_spinlock = 4" "wf_ctype struct_raw_spinlock"
  by (simp_all add: struct_raw_spinlock_def ctype_defs ctype_layout layout_eval)

definition typedef_raw_spinlock_t :: ctype where
  [ctype_defs]: "typedef_raw_spinlock_t = struct_raw_spinlock"

definition struct_prev_cputime :: ctype where
  "struct_prev_cputime = Struct ''prev_cputime'' False [
     Field ''utime'' typedef_u64,
     Field ''stime'' typedef_u64,
     Field ''lock'' typedef_raw_spinlock_t]"

lemma struct_prev_cputime_layout [ctype_layout]:
  "sizeof struct_prev_cputime = 24" "alignof struct_prev_cputime = 8" "wf_ctype struct_prev_cputime"
  by (simp_all add: struct_prev_cputime_def ctype_defs ctype_layout layout_eval)

definition struct_rb_root :: ctype where
  "struct_rb_root = Struct ''rb_root'' False [
     Field ''rb_node'' (Ptr ''struct rb_node'')]"

lemma struct_rb_root_layout [ctype_layout]:
  "sizeof struct_rb_root = 8" "alignof struct_rb_root = 8" "wf_ctype struct_rb_root"
  by (simp_all add: struct_rb_root_def ctype_defs ctype_layout layout_eval)

definition struct_rb_root_cached :: ctype where
  "struct_rb_root_cached = Struct ''rb_root_cached'' False [
     Field ''rb_root'' struct_rb_root,
     Field ''rb_leftmost'' (Ptr ''struct rb_node'')]"

lemma struct_rb_root_cached_layout [ctype_layout]:
  "sizeof struct_rb_root_cached = 16" "alignof struct_rb_root_cached = 8" "wf_ctype struct_rb_root_cached"
  by (simp_all add: struct_rb_root_cached_def ctype_defs ctype_layout layout_eval)

definition struct_timerqueue_head :: ctype where
  "struct_timerqueue_head = Struct ''timerqueue_head'' False [
     Field ''rb_root'' struct_rb_root_cached]"

lemma struct_timerqueue_head_layout [ctype_layout]:
  "sizeof struct_timerqueue_head = 16" "alignof struct_timerqueue_head = 8" "wf_ctype struct_timerqueue_head"
  by (simp_all add: struct_timerqueue_head_def ctype_defs ctype_layout layout_eval)

definition typedef___kernel_ulong_t :: ctype where
  [ctype_defs]: "typedef___kernel_ulong_t = Base CULong"

definition typedef___kernel_size_t :: ctype where
  [ctype_defs]: "typedef___kernel_size_t = typedef___kernel_ulong_t"

definition typedef_size_t :: ctype where
  [ctype_defs]: "typedef_size_t = typedef___kernel_size_t"

definition typedef___kernel_uid32_t :: ctype where
  [ctype_defs]: "typedef___kernel_uid32_t = Base CUInt"

definition typedef_uid_t :: ctype where
  [ctype_defs]: "typedef_uid_t = typedef___kernel_uid32_t"

definition typedef_kuid_t :: ctype where
  "typedef_kuid_t = Struct '''' False [
     Field ''val'' typedef_uid_t]"

lemma typedef_kuid_t_layout [ctype_layout]:
  "sizeof typedef_kuid_t = 4" "alignof typedef_kuid_t = 4" "wf_ctype typedef_kuid_t"
  by (simp_all add: typedef_kuid_t_def ctype_defs ctype_layout layout_eval)

definition struct_spinlock :: ctype where
  "struct_spinlock = Struct ''spinlock'' False [
     Anon (Union '''' False [
         Field ''rlock'' struct_raw_spinlock])]"

lemma struct_spinlock_layout [ctype_layout]:
  "sizeof struct_spinlock = 4" "alignof struct_spinlock = 4" "wf_ctype struct_spinlock"
  by (simp_all add: struct_spinlock_def ctype_defs ctype_layout layout_eval)

definition typedef_spinlock_t :: ctype where
  [ctype_defs]: "typedef_spinlock_t = struct_spinlock"

definition struct_wake_q_node :: ctype where
  "struct_wake_q_node = Struct ''wake_q_node'' False [
     Field ''next'' (Ptr ''struct wake_q_node'')]"

lemma struct_wake_q_node_layout [ctype_layout]:
  "sizeof struct_wake_q_node = 8" "alignof struct_wake_q_node = 8" "wf_ctype struct_wake_q_node"
  by (simp_all add: struct_wake_q_node_def ctype_defs ctype_layout layout_eval)

definition typedef_nodemask_t :: ctype where
  "typedef_nodemask_t = Struct '''' False [
     Field ''bits'' (Array 1 (Base CULong))]"

lemma typedef_nodemask_t_layout [ctype_layout]:
  "sizeof typedef_nodemask_t = 8" "alignof typedef_nodemask_t = 8" "wf_ctype typedef_nodemask_t"
  by (simp_all add: typedef_nodemask_t_def ctype_defs ctype_layout layout_eval)

definition struct_seqcount :: ctype where
  "struct_seqcount = Struct ''seqcount'' False [
     Field ''sequence'' (Base CUInt)]"

lemma struct_seqcount_layout [ctype_layout]:
  "sizeof struct_seqcount = 4" "alignof struct_seqcount = 4" "wf_ctype struct_seqcount"
  by (simp_all add: struct_seqcount_def ctype_defs ctype_layout layout_eval)

definition typedef_seqcount_t :: ctype where
  [ctype_defs]: "typedef_seqcount_t = struct_seqcount"

definition typedef_atomic64_t :: ctype where
  "typedef_atomic64_t = Struct '''' False [
     Field ''counter'' typedef_s64]"

lemma typedef_atomic64_t_layout [ctype_layout]:
  "sizeof typedef_atomic64_t = 8" "alignof typedef_atomic64_t = 8" "wf_ctype typedef_atomic64_t"
  by (simp_all add: typedef_atomic64_t_def ctype_defs ctype_layout layout_eval)

definition typedef_atomic_long_t :: ctype where
  [ctype_defs]: "typedef_atomic_long_t = typedef_atomic64_t"

definition struct_optimistic_spin_queue :: ctype where
  "struct_optimistic_spin_queue = Struct ''optimistic_spin_queue'' False [
     Field ''tail'' typedef_atomic_t]"

lemma struct_optimistic_spin_queue_layout [ctype_layout]:
  "sizeof struct_optimistic_spin_queue = 4" "alignof struct_optimistic_spin_queue = 4" "wf_ctype struct_optimistic_spin_queue"
  by (simp_all add: struct_optimistic_spin_queue_def ctype_defs ctype_layout layout_eval)

definition struct_mutex :: ctype where
  "struct_mutex = Struct ''mutex'' False [
     Field ''owner'' typedef_atomic_long_t,
     Field ''wait_lock'' typedef_spinlock_t,
     Field ''osq'' struct_optimistic_spin_queue,
     Field ''wait_list'' struct_list_head]"

lemma struct_mutex_layout [ctype_layout]:
  "sizeof struct_mutex = 32" "alignof struct_mutex = 8" "wf_ctype struct_mutex"
  by (simp_all add: struct_mutex_def ctype_defs ctype_layout layout_eval)

definition typedef_bool :: ctype where
  [ctype_defs]: "typedef_bool = Base CBool"

definition struct_callback_head :: ctype where
  "struct_callback_head = Struct ''callback_head'' False [
     Field ''next'' (Ptr ''struct callback_head''),
     Field ''func'' FnPtr]"

lemma struct_callback_head_layout [ctype_layout]:
  "sizeof struct_callback_head = 16" "alignof struct_callback_head = 8" "wf_ctype struct_callback_head"
  by (simp_all add: struct_callback_head_def ctype_defs ctype_layout layout_eval)

definition struct_rw_semaphore :: ctype where
  "struct_rw_semaphore = Struct ''rw_semaphore'' False [
     Field ''count'' typedef_atomic_long_t,
     Field ''owner'' typedef_atomic_long_t,
     Field ''osq'' struct_optimistic_spin_queue,
     Field ''wait_lock'' typedef_raw_spinlock_t,
     Field ''wait_list'' struct_list_head]"

lemma struct_rw_semaphore_layout [ctype_layout]:
  "sizeof struct_rw_semaphore = 40" "alignof struct_rw_semaphore = 8" "wf_ctype struct_rw_semaphore"
  by (simp_all add: struct_rw_semaphore_def ctype_defs ctype_layout layout_eval)

definition typedef___s16 :: ctype where
  [ctype_defs]: "typedef___s16 = Base CShort"

definition typedef_s16 :: ctype where
  [ctype_defs]: "typedef_s16 = typedef___s16"

definition typedef_work_func_t :: ctype where
  [ctype_defs]: "typedef_work_func_t = FnPtr"

definition struct_work_struct :: ctype where
  "struct_work_struct = Struct ''work_struct'' False [
     Field ''data'' typedef_atomic_long_t,
     Field ''entry'' struct_list_head,
     Field ''func'' typedef_work_func_t]"

lemma struct_work_struct_layout [ctype_layout]:
  "sizeof struct_work_struct = 32" "alignof struct_work_struct = 8" "wf_ctype struct_work_struct"
  by (simp_all add: struct_work_struct_def ctype_defs ctype_layout layout_eval)

definition typedef___kernel_gid32_t :: ctype where
  [ctype_defs]: "typedef___kernel_gid32_t = Base CUInt"

definition typedef_gid_t :: ctype where
  [ctype_defs]: "typedef_gid_t = typedef___kernel_gid32_t"

definition typedef_kgid_t :: ctype where
  "typedef_kgid_t = Struct '''' False [
     Field ''val'' typedef_gid_t]"

lemma typedef_kgid_t_layout [ctype_layout]:
  "sizeof typedef_kgid_t = 4" "alignof typedef_kgid_t = 4" "wf_ctype typedef_kgid_t"
  by (simp_all add: typedef_kgid_t_def ctype_defs ctype_layout layout_eval)

definition struct_wait_queue_head :: ctype where
  "struct_wait_queue_head = Struct ''wait_queue_head'' False [
     Field ''lock'' typedef_spinlock_t,
     Field ''head'' struct_list_head]"

lemma struct_wait_queue_head_layout [ctype_layout]:
  "sizeof struct_wait_queue_head = 24" "alignof struct_wait_queue_head = 8" "wf_ctype struct_wait_queue_head"
  by (simp_all add: struct_wait_queue_head_def ctype_defs ctype_layout layout_eval)

definition typedef_wait_queue_head_t :: ctype where
  [ctype_defs]: "typedef_wait_queue_head_t = struct_wait_queue_head"

definition struct_hlist_head :: ctype where
  "struct_hlist_head = Struct ''hlist_head'' False [
     Field ''first'' (Ptr ''struct hlist_node'')]"

lemma struct_hlist_head_layout [ctype_layout]:
  "sizeof struct_hlist_head = 8" "alignof struct_hlist_head = 8" "wf_ctype struct_hlist_head"
  by (simp_all add: struct_hlist_head_def ctype_defs ctype_layout layout_eval)

definition typedef_seqlock_t :: ctype where
  "typedef_seqlock_t = Struct '''' False [
     Field ''seqcount'' struct_seqcount,
     Field ''lock'' typedef_spinlock_t]"

lemma typedef_seqlock_t_layout [ctype_layout]:
  "sizeof typedef_seqlock_t = 8" "alignof typedef_seqlock_t = 4" "wf_ctype typedef_seqlock_t"
  by (simp_all add: typedef_seqlock_t_def ctype_defs ctype_layout layout_eval)

definition struct_percpu_ref :: ctype where
  "struct_percpu_ref = Struct ''percpu_ref'' False [
     Field ''count'' typedef_atomic_long_t,
     Field ''percpu_count_ptr'' (Base CULong),
     Field ''release'' (Ptr ''percpu_ref_func_t''),
     Field ''confirm_switch'' (Ptr ''percpu_ref_func_t''),
     Bits ''force_atomic'' typedef_bool 1,
     Bits ''allow_reinit'' typedef_bool 1,
     Field ''rcu'' struct_callback_head]"

lemma struct_percpu_ref_layout [ctype_layout]:
  "sizeof struct_percpu_ref = 56" "alignof struct_percpu_ref = 8" "wf_ctype struct_percpu_ref"
  by (simp_all add: struct_percpu_ref_def ctype_defs ctype_layout layout_eval)

definition struct_rcu_work :: ctype where
  "struct_rcu_work = Struct ''rcu_work'' False [
     Field ''work'' struct_work_struct,
     Field ''rcu'' struct_callback_head,
     Field ''wq'' (Ptr ''struct workqueue_struct'')]"

lemma struct_rcu_work_layout [ctype_layout]:
  "sizeof struct_rcu_work = 56" "alignof struct_rcu_work = 8" "wf_ctype struct_rcu_work"
  by (simp_all add: struct_rcu_work_def ctype_defs ctype_layout layout_eval)

definition typedef___s32 :: ctype where
  [ctype_defs]: "typedef___s32 = Base CInt"

definition typedef_s32 :: ctype where
  [ctype_defs]: "typedef_s32 = typedef___s32"

definition typedef_int32_t :: ctype where
  [ctype_defs]: "typedef_int32_t = typedef_s32"

definition typedef_time64_t :: ctype where
  [ctype_defs]: "typedef_time64_t = typedef___s64"

definition typedef_uint32_t :: ctype where
  [ctype_defs]: "typedef_uint32_t = typedef_u32"

definition typedef_phys_addr_t :: ctype where
  [ctype_defs]: "typedef_phys_addr_t = typedef_u64"

definition typedef_gfp_t :: ctype where
  [ctype_defs]: "typedef_gfp_t = Base CUInt"

definition struct_xarray :: ctype where
  "struct_xarray = Struct ''xarray'' False [
     Field ''xa_lock'' typedef_spinlock_t,
     Field ''xa_flags'' typedef_gfp_t,
     Field ''xa_head'' (Ptr ''void'')]"

lemma struct_xarray_layout [ctype_layout]:
  "sizeof struct_xarray = 16" "alignof struct_xarray = 8" "wf_ctype struct_xarray"
  by (simp_all add: struct_xarray_def ctype_defs ctype_layout layout_eval)

definition struct_swait_queue_head :: ctype where
  "struct_swait_queue_head = Struct ''swait_queue_head'' False [
     Field ''lock'' typedef_raw_spinlock_t,
     Field ''task_list'' struct_list_head]"

lemma struct_swait_queue_head_layout [ctype_layout]:
  "sizeof struct_swait_queue_head = 24" "alignof struct_swait_queue_head = 8" "wf_ctype struct_swait_queue_head"
  by (simp_all add: struct_swait_queue_head_def ctype_defs ctype_layout layout_eval)

definition struct_completion :: ctype where
  "struct_completion = Struct ''completion'' False [
     Field ''done'' (Base CUInt),
     Field ''wait'' struct_swait_queue_head]"

lemma struct_completion_layout [ctype_layout]:
  "sizeof struct_completion = 32" "alignof struct_completion = 8" "wf_ctype struct_completion"
  by (simp_all add: struct_completion_def ctype_defs ctype_layout layout_eval)

definition typedef___kernel_timer_t :: ctype where
  [ctype_defs]: "typedef___kernel_timer_t = Base CInt"

definition typedef___kernel_long_t :: ctype where
  [ctype_defs]: "typedef___kernel_long_t = Base CLong"

definition typedef___kernel_clock_t :: ctype where
  [ctype_defs]: "typedef___kernel_clock_t = typedef___kernel_long_t"

end
