(* ===== verification/Vmlinux_Task.thy ===== *)
theory Vmlinux_Task
  imports Vmlinux_Base
begin

text \<open>
  The scheduler's view of a task: \<^verbatim>\<open>struct task_struct\<close> of \<^verbatim>\<open>src/src/bpf/vmlinux.h\<close> and the records it
  contains.  The helpers that the profiling program calls read the thread group id and the
  command name of the interrupted task from this record.
\<close>

definition struct_thread_info :: ctype where
  "struct_thread_info = Struct ''thread_info'' False [
     Field ''flags'' (Base CULong),
     Field ''status'' typedef_u32]"

lemma struct_thread_info_layout [ctype_layout]:
  "sizeof struct_thread_info = 16" "alignof struct_thread_info = 8" "wf_ctype struct_thread_info"
  by (simp_all add: struct_thread_info_def ctype_defs ctype_layout layout_eval)

definition struct_sched_statistics :: ctype where
  "struct_sched_statistics = Struct ''sched_statistics'' False [
     Field ''wait_start'' typedef_u64,
     Field ''wait_max'' typedef_u64,
     Field ''wait_count'' typedef_u64,
     Field ''wait_sum'' typedef_u64,
     Field ''iowait_count'' typedef_u64,
     Field ''iowait_sum'' typedef_u64,
     Field ''sleep_start'' typedef_u64,
     Field ''sleep_max'' typedef_u64,
     Field ''sum_sleep_runtime'' typedef_s64,
     Field ''block_start'' typedef_u64,
     Field ''block_max'' typedef_u64,
     Field ''exec_max'' typedef_u64,
     Field ''slice_max'' typedef_u64,
     Field ''nr_migrations_cold'' typedef_u64,
     Field ''nr_failed_migrations_affine'' typedef_u64,
     Field ''nr_failed_migrations_running'' typedef_u64,
     Field ''nr_failed_migrations_hot'' typedef_u64,
     Field ''nr_forced_migrations'' typedef_u64,
     Field ''nr_wakeups'' typedef_u64,
     Field ''nr_wakeups_sync'' typedef_u64,
     Field ''nr_wakeups_migrate'' typedef_u64,
     Field ''nr_wakeups_local'' typedef_u64,
     Field ''nr_wakeups_remote'' typedef_u64,
     Field ''nr_wakeups_affine'' typedef_u64,
     Field ''nr_wakeups_affine_attempts'' typedef_u64,
     Field ''nr_wakeups_passive'' typedef_u64,
     Field ''nr_wakeups_idle'' typedef_u64]"

lemma struct_sched_statistics_layout [ctype_layout]:
  "sizeof struct_sched_statistics = 216" "alignof struct_sched_statistics = 8" "wf_ctype struct_sched_statistics"
  by (simp_all add: struct_sched_statistics_def ctype_defs ctype_layout layout_eval)

definition struct_sched_avg :: ctype where
  "struct_sched_avg = Struct ''sched_avg'' False [
     Field ''last_update_time'' typedef_u64,
     Field ''load_sum'' typedef_u64,
     Field ''runnable_sum'' typedef_u64,
     Field ''util_sum'' typedef_u32,
     Field ''period_contrib'' typedef_u32,
     Field ''load_avg'' (Base CULong),
     Field ''runnable_avg'' (Base CULong),
     Field ''util_avg'' (Base CULong),
     Field ''util_est'' struct_util_est]"

lemma struct_sched_avg_layout [ctype_layout]:
  "sizeof struct_sched_avg = 64" "alignof struct_sched_avg = 8" "wf_ctype struct_sched_avg"
  by (simp_all add: struct_sched_avg_def ctype_defs ctype_layout layout_eval)

definition struct_sched_entity :: ctype where
  "struct_sched_entity = Struct ''sched_entity'' False [
     Field ''load'' struct_load_weight,
     Field ''run_node'' struct_rb_node,
     Field ''group_node'' struct_list_head,
     Field ''on_rq'' (Base CUInt),
     Field ''exec_start'' typedef_u64,
     Field ''sum_exec_runtime'' typedef_u64,
     Field ''vruntime'' typedef_u64,
     Field ''prev_sum_exec_runtime'' typedef_u64,
     Field ''nr_migrations'' typedef_u64,
     Field ''statistics'' struct_sched_statistics,
     Field ''depth'' (Base CInt),
     Field ''parent'' (Ptr ''struct sched_entity''),
     Field ''cfs_rq'' (Ptr ''struct cfs_rq''),
     Field ''my_q'' (Ptr ''struct cfs_rq''),
     Field ''runnable_weight'' (Base CULong),
     Pad (Base CLong) 64,
     Pad (Base CLong) 64,
     Pad (Base CLong) 64,
     Field ''avg'' struct_sched_avg]"

lemma struct_sched_entity_layout [ctype_layout]:
  "sizeof struct_sched_entity = 448" "alignof struct_sched_entity = 8" "wf_ctype struct_sched_entity"
  by (simp_all add: struct_sched_entity_def ctype_defs ctype_layout layout_eval)

definition struct_sched_rt_entity :: ctype where
  "struct_sched_rt_entity = Struct ''sched_rt_entity'' False [
     Field ''run_list'' struct_list_head,
     Field ''timeout'' (Base CULong),
     Field ''watchdog_stamp'' (Base CULong),
     Field ''time_slice'' (Base CUInt),
     Field ''on_rq'' (Base CUShort),
     Field ''on_list'' (Base CUShort),
     Field ''back'' (Ptr ''struct sched_rt_entity'')]"

lemma struct_sched_rt_entity_layout [ctype_layout]:
  "sizeof struct_sched_rt_entity = 48" "alignof struct_sched_rt_entity = 8" "wf_ctype struct_sched_rt_entity"
  by (simp_all add: struct_sched_rt_entity_def ctype_defs ctype_layout layout_eval)

definition struct_sched_dl_entity :: ctype where
  "struct_sched_dl_entity = Struct ''sched_dl_entity'' False [
     Field ''rb_node'' struct_rb_node,
     Field ''dl_runtime'' typedef_u64,
     Field ''dl_deadline'' typedef_u64,
     Field ''dl_period'' typedef_u64,
     Field ''dl_bw'' typedef_u64,
     Field ''dl_density'' typedef_u64,
     Field ''runtime'' typedef_s64,
     Field ''deadline'' typedef_u64,
     Field ''flags'' (Base CUInt),
     Bits ''dl_throttled'' (Base CUInt) 1,
     Bits ''dl_boosted'' (Base CUInt) 1,
     Bits ''dl_yielded'' (Base CUInt) 1,
     Bits ''dl_non_contending'' (Base CUInt) 1,
     Bits ''dl_overrun'' (Base CUInt) 1,
     Field ''dl_timer'' struct_hrtimer,
     Field ''inactive_timer'' struct_hrtimer]"

lemma struct_sched_dl_entity_layout [ctype_layout]:
  "sizeof struct_sched_dl_entity = 216" "alignof struct_sched_dl_entity = 8" "wf_ctype struct_sched_dl_entity"
  by (simp_all add: struct_sched_dl_entity_def ctype_defs ctype_layout layout_eval)

definition struct_sched_info :: ctype where
  "struct_sched_info = Struct ''sched_info'' False [
     Field ''pcount'' (Base CULong),
     Field ''run_delay'' (Base CULLong),
     Field ''last_arrival'' (Base CULLong),
     Field ''last_queued'' (Base CULLong)]"

lemma struct_sched_info_layout [ctype_layout]:
  "sizeof struct_sched_info = 32" "alignof struct_sched_info = 8" "wf_ctype struct_sched_info"
  by (simp_all add: struct_sched_info_def ctype_defs ctype_layout layout_eval)

definition struct_vmacache :: ctype where
  "struct_vmacache = Struct ''vmacache'' False [
     Field ''seqnum'' typedef_u64,
     Field ''vmas'' (Array 4 (Ptr ''struct vm_area_struct''))]"

lemma struct_vmacache_layout [ctype_layout]:
  "sizeof struct_vmacache = 40" "alignof struct_vmacache = 8" "wf_ctype struct_vmacache"
  by (simp_all add: struct_vmacache_def ctype_defs ctype_layout layout_eval)

definition struct_task_rss_stat :: ctype where
  "struct_task_rss_stat = Struct ''task_rss_stat'' False [
     Field ''events'' (Base CInt),
     Field ''count'' (Array 4 (Base CInt))]"

lemma struct_task_rss_stat_layout [ctype_layout]:
  "sizeof struct_task_rss_stat = 20" "alignof struct_task_rss_stat = 4" "wf_ctype struct_task_rss_stat"
  by (simp_all add: struct_task_rss_stat_def ctype_defs ctype_layout layout_eval)

definition struct_restart_block :: ctype where
  "struct_restart_block = Struct ''restart_block'' False [
     Field ''fn'' FnPtr,
     Anon (Union '''' False [
         Field ''futex'' (Struct '''' False [
             Field ''uaddr'' (Ptr ''u32''),
             Field ''val'' typedef_u32,
             Field ''flags'' typedef_u32,
             Field ''bitset'' typedef_u32,
             Field ''time'' typedef_u64,
             Field ''uaddr2'' (Ptr ''u32'')]),
         Field ''nanosleep'' (Struct '''' False [
             Field ''clockid'' typedef_clockid_t,
             Field ''type'' enum_timespec_type,
             Anon (Union '''' False [
                 Field ''rmtp'' (Ptr ''struct __kernel_timespec''),
                 Field ''compat_rmtp'' (Ptr ''struct old_timespec32'')]),
             Field ''expires'' typedef_u64]),
         Field ''poll'' (Struct '''' False [
             Field ''ufds'' (Ptr ''struct pollfd''),
             Field ''nfds'' (Base CInt),
             Field ''has_timeout'' (Base CInt),
             Field ''tv_sec'' (Base CULong),
             Field ''tv_nsec'' (Base CULong)])])]"

lemma struct_restart_block_layout [ctype_layout]:
  "sizeof struct_restart_block = 48" "alignof struct_restart_block = 8" "wf_ctype struct_restart_block"
  by (simp_all add: struct_restart_block_def ctype_defs ctype_layout layout_eval)

definition struct_posix_cputimer_base :: ctype where
  "struct_posix_cputimer_base = Struct ''posix_cputimer_base'' False [
     Field ''nextevt'' typedef_u64,
     Field ''tqhead'' struct_timerqueue_head]"

lemma struct_posix_cputimer_base_layout [ctype_layout]:
  "sizeof struct_posix_cputimer_base = 24" "alignof struct_posix_cputimer_base = 8" "wf_ctype struct_posix_cputimer_base"
  by (simp_all add: struct_posix_cputimer_base_def ctype_defs ctype_layout layout_eval)

definition struct_posix_cputimers :: ctype where
  "struct_posix_cputimers = Struct ''posix_cputimers'' False [
     Field ''bases'' (Array 3 struct_posix_cputimer_base),
     Field ''timers_active'' (Base CUInt),
     Field ''expiry_active'' (Base CUInt)]"

lemma struct_posix_cputimers_layout [ctype_layout]:
  "sizeof struct_posix_cputimers = 80" "alignof struct_posix_cputimers = 8" "wf_ctype struct_posix_cputimers"
  by (simp_all add: struct_posix_cputimers_def ctype_defs ctype_layout layout_eval)

definition struct_sysv_sem :: ctype where
  "struct_sysv_sem = Struct ''sysv_sem'' False [
     Field ''undo_list'' (Ptr ''struct sem_undo_list'')]"

lemma struct_sysv_sem_layout [ctype_layout]:
  "sizeof struct_sysv_sem = 8" "alignof struct_sysv_sem = 8" "wf_ctype struct_sysv_sem"
  by (simp_all add: struct_sysv_sem_def ctype_defs ctype_layout layout_eval)

definition struct_sysv_shm :: ctype where
  "struct_sysv_shm = Struct ''sysv_shm'' False [
     Field ''shm_clist'' struct_list_head]"

lemma struct_sysv_shm_layout [ctype_layout]:
  "sizeof struct_sysv_shm = 16" "alignof struct_sysv_shm = 8" "wf_ctype struct_sysv_shm"
  by (simp_all add: struct_sysv_shm_def ctype_defs ctype_layout layout_eval)

definition typedef_sigset_t :: ctype where
  "typedef_sigset_t = Struct '''' False [
     Field ''sig'' (Array 1 (Base CULong))]"

lemma typedef_sigset_t_layout [ctype_layout]:
  "sizeof typedef_sigset_t = 8" "alignof typedef_sigset_t = 8" "wf_ctype typedef_sigset_t"
  by (simp_all add: typedef_sigset_t_def ctype_defs ctype_layout layout_eval)

definition struct_sigpending :: ctype where
  "struct_sigpending = Struct ''sigpending'' False [
     Field ''list'' struct_list_head,
     Field ''signal'' typedef_sigset_t]"

lemma struct_sigpending_layout [ctype_layout]:
  "sizeof struct_sigpending = 24" "alignof struct_sigpending = 8" "wf_ctype struct_sigpending"
  by (simp_all add: struct_sigpending_def ctype_defs ctype_layout layout_eval)

definition struct_seccomp :: ctype where
  "struct_seccomp = Struct ''seccomp'' False [
     Field ''mode'' (Base CInt),
     Field ''filter'' (Ptr ''struct seccomp_filter'')]"

lemma struct_seccomp_layout [ctype_layout]:
  "sizeof struct_seccomp = 16" "alignof struct_seccomp = 8" "wf_ctype struct_seccomp"
  by (simp_all add: struct_seccomp_def ctype_defs ctype_layout layout_eval)

definition struct_task_io_accounting :: ctype where
  "struct_task_io_accounting = Struct ''task_io_accounting'' False [
     Field ''rchar'' typedef_u64,
     Field ''wchar'' typedef_u64,
     Field ''syscr'' typedef_u64,
     Field ''syscw'' typedef_u64,
     Field ''read_bytes'' typedef_u64,
     Field ''write_bytes'' typedef_u64,
     Field ''cancelled_write_bytes'' typedef_u64]"

lemma struct_task_io_accounting_layout [ctype_layout]:
  "sizeof struct_task_io_accounting = 56" "alignof struct_task_io_accounting = 8" "wf_ctype struct_task_io_accounting"
  by (simp_all add: struct_task_io_accounting_def ctype_defs ctype_layout layout_eval)

definition struct_arch_tlbflush_unmap_batch :: ctype where
  "struct_arch_tlbflush_unmap_batch = Struct ''arch_tlbflush_unmap_batch'' False [
     Field ''cpumask'' struct_cpumask]"

lemma struct_arch_tlbflush_unmap_batch_layout [ctype_layout]:
  "sizeof struct_arch_tlbflush_unmap_batch = 8" "alignof struct_arch_tlbflush_unmap_batch = 8" "wf_ctype struct_arch_tlbflush_unmap_batch"
  by (simp_all add: struct_arch_tlbflush_unmap_batch_def ctype_defs ctype_layout layout_eval)

definition struct_tlbflush_unmap_batch :: ctype where
  "struct_tlbflush_unmap_batch = Struct ''tlbflush_unmap_batch'' False [
     Field ''arch'' struct_arch_tlbflush_unmap_batch,
     Field ''flush_required'' typedef_bool,
     Field ''writable'' typedef_bool]"

lemma struct_tlbflush_unmap_batch_layout [ctype_layout]:
  "sizeof struct_tlbflush_unmap_batch = 16" "alignof struct_tlbflush_unmap_batch = 8" "wf_ctype struct_tlbflush_unmap_batch"
  by (simp_all add: struct_tlbflush_unmap_batch_def ctype_defs ctype_layout layout_eval)

definition struct_page_frag :: ctype where
  "struct_page_frag = Struct ''page_frag'' False [
     Field ''page'' (Ptr ''struct page''),
     Field ''offset'' typedef___u32,
     Field ''size'' typedef___u32]"

lemma struct_page_frag_layout [ctype_layout]:
  "sizeof struct_page_frag = 16" "alignof struct_page_frag = 8" "wf_ctype struct_page_frag"
  by (simp_all add: struct_page_frag_def ctype_defs ctype_layout layout_eval)

definition struct_desc_struct :: ctype where
  "struct_desc_struct = Struct ''desc_struct'' False [
     Field ''limit0'' typedef_u16,
     Field ''base0'' typedef_u16,
     Bits ''base1'' typedef_u16 8,
     Bits ''type'' typedef_u16 4,
     Bits ''s'' typedef_u16 1,
     Bits ''dpl'' typedef_u16 2,
     Bits ''p'' typedef_u16 1,
     Bits ''limit1'' typedef_u16 4,
     Bits ''avl'' typedef_u16 1,
     Bits ''l'' typedef_u16 1,
     Bits ''d'' typedef_u16 1,
     Bits ''g'' typedef_u16 1,
     Bits ''base2'' typedef_u16 8]"

lemma struct_desc_struct_layout [ctype_layout]:
  "sizeof struct_desc_struct = 8" "alignof struct_desc_struct = 2" "wf_ctype struct_desc_struct"
  by (simp_all add: struct_desc_struct_def ctype_defs ctype_layout layout_eval)

definition typedef_mm_segment_t :: ctype where
  "typedef_mm_segment_t = Struct '''' False [
     Field ''seg'' (Base CULong)]"

lemma typedef_mm_segment_t_layout [ctype_layout]:
  "sizeof typedef_mm_segment_t = 8" "alignof typedef_mm_segment_t = 8" "wf_ctype typedef_mm_segment_t"
  by (simp_all add: typedef_mm_segment_t_def ctype_defs ctype_layout layout_eval)

definition struct_fregs_state :: ctype where
  "struct_fregs_state = Struct ''fregs_state'' False [
     Field ''cwd'' typedef_u32,
     Field ''swd'' typedef_u32,
     Field ''twd'' typedef_u32,
     Field ''fip'' typedef_u32,
     Field ''fcs'' typedef_u32,
     Field ''foo'' typedef_u32,
     Field ''fos'' typedef_u32,
     Field ''st_space'' (Array 20 typedef_u32),
     Field ''status'' typedef_u32]"

lemma struct_fregs_state_layout [ctype_layout]:
  "sizeof struct_fregs_state = 112" "alignof struct_fregs_state = 4" "wf_ctype struct_fregs_state"
  by (simp_all add: struct_fregs_state_def ctype_defs ctype_layout layout_eval)

definition struct_fxregs_state :: ctype where
  "struct_fxregs_state = Struct ''fxregs_state'' False [
     Field ''cwd'' typedef_u16,
     Field ''swd'' typedef_u16,
     Field ''twd'' typedef_u16,
     Field ''fop'' typedef_u16,
     Anon (Union '''' False [
         Anon (Struct '''' False [
             Field ''rip'' typedef_u64,
             Field ''rdp'' typedef_u64]),
         Anon (Struct '''' False [
             Field ''fip'' typedef_u32,
             Field ''fcs'' typedef_u32,
             Field ''foo'' typedef_u32,
             Field ''fos'' typedef_u32])]),
     Field ''mxcsr'' typedef_u32,
     Field ''mxcsr_mask'' typedef_u32,
     Field ''st_space'' (Array 32 typedef_u32),
     Field ''xmm_space'' (Array 64 typedef_u32),
     Field ''padding'' (Array 12 typedef_u32),
     Anon (Union '''' False [
         Field ''padding1'' (Array 12 typedef_u32),
         Field ''sw_reserved'' (Array 12 typedef_u32)])]"

lemma struct_fxregs_state_layout [ctype_layout]:
  "sizeof struct_fxregs_state = 512" "alignof struct_fxregs_state = 8" "wf_ctype struct_fxregs_state"
  by (simp_all add: struct_fxregs_state_def ctype_defs ctype_layout layout_eval)

definition struct_swregs_state :: ctype where
  "struct_swregs_state = Struct ''swregs_state'' False [
     Field ''cwd'' typedef_u32,
     Field ''swd'' typedef_u32,
     Field ''twd'' typedef_u32,
     Field ''fip'' typedef_u32,
     Field ''fcs'' typedef_u32,
     Field ''foo'' typedef_u32,
     Field ''fos'' typedef_u32,
     Field ''st_space'' (Array 20 typedef_u32),
     Field ''ftop'' typedef_u8,
     Field ''changed'' typedef_u8,
     Field ''lookahead'' typedef_u8,
     Field ''no_update'' typedef_u8,
     Field ''rm'' typedef_u8,
     Field ''alimit'' typedef_u8,
     Field ''info'' (Ptr ''struct math_emu_info''),
     Field ''entry_eip'' typedef_u32]"

lemma struct_swregs_state_layout [ctype_layout]:
  "sizeof struct_swregs_state = 136" "alignof struct_swregs_state = 8" "wf_ctype struct_swregs_state"
  by (simp_all add: struct_swregs_state_def ctype_defs ctype_layout layout_eval)

definition struct_xstate_header :: ctype where
  "struct_xstate_header = Struct ''xstate_header'' False [
     Field ''xfeatures'' typedef_u64,
     Field ''xcomp_bv'' typedef_u64,
     Field ''reserved'' (Array 6 typedef_u64)]"

lemma struct_xstate_header_layout [ctype_layout]:
  "sizeof struct_xstate_header = 64" "alignof struct_xstate_header = 8" "wf_ctype struct_xstate_header"
  by (simp_all add: struct_xstate_header_def ctype_defs ctype_layout layout_eval)

definition struct_xregs_state :: ctype where
  "struct_xregs_state = Struct ''xregs_state'' False [
     Field ''i387'' struct_fxregs_state,
     Field ''header'' struct_xstate_header,
     Field ''extended_state_area'' (Array 0 typedef_u8)]"

lemma struct_xregs_state_layout [ctype_layout]:
  "sizeof struct_xregs_state = 576" "alignof struct_xregs_state = 8" "wf_ctype struct_xregs_state"
  by (simp_all add: struct_xregs_state_def ctype_defs ctype_layout layout_eval)

definition union_fpregs_state :: ctype where
  "union_fpregs_state = Union ''fpregs_state'' False [
     Field ''fsave'' struct_fregs_state,
     Field ''fxsave'' struct_fxregs_state,
     Field ''soft'' struct_swregs_state,
     Field ''xsave'' struct_xregs_state,
     Field ''__padding'' (Array 4096 typedef_u8)]"

lemma union_fpregs_state_layout [ctype_layout]:
  "sizeof union_fpregs_state = 4096" "alignof union_fpregs_state = 8" "wf_ctype union_fpregs_state"
  by (simp_all add: union_fpregs_state_def ctype_defs ctype_layout layout_eval)

definition struct_fpu :: ctype where
  "struct_fpu = Struct ''fpu'' False [
     Field ''last_cpu'' (Base CUInt),
     Field ''avx512_timestamp'' (Base CULong),
     Pad (Base CLong) 64,
     Pad (Base CLong) 64,
     Pad (Base CLong) 64,
     Pad (Base CLong) 64,
     Pad (Base CLong) 64,
     Pad (Base CLong) 64,
     Field ''state'' union_fpregs_state]"

lemma struct_fpu_layout [ctype_layout]:
  "sizeof struct_fpu = 4160" "alignof struct_fpu = 8" "wf_ctype struct_fpu"
  by (simp_all add: struct_fpu_def ctype_defs ctype_layout layout_eval)

definition struct_thread_struct :: ctype where
  "struct_thread_struct = Struct ''thread_struct'' False [
     Field ''tls_array'' (Array 3 struct_desc_struct),
     Field ''sp'' (Base CULong),
     Field ''es'' (Base CUShort),
     Field ''ds'' (Base CUShort),
     Field ''fsindex'' (Base CUShort),
     Field ''gsindex'' (Base CUShort),
     Field ''fsbase'' (Base CULong),
     Field ''gsbase'' (Base CULong),
     Field ''ptrace_bps'' (Array 4 (Ptr ''struct perf_event'')),
     Field ''debugreg6'' (Base CULong),
     Field ''ptrace_dr7'' (Base CULong),
     Field ''cr2'' (Base CULong),
     Field ''trap_nr'' (Base CULong),
     Field ''error_code'' (Base CULong),
     Field ''io_bitmap'' (Ptr ''struct io_bitmap''),
     Field ''iopl_emul'' (Base CULong),
     Field ''addr_limit'' typedef_mm_segment_t,
     Bits ''sig_on_uaccess_err'' (Base CUInt) 1,
     Pad (Base CLong) 63,
     Pad (Base CLong) 64,
     Pad (Base CLong) 64,
     Pad (Base CLong) 64,
     Pad (Base CLong) 64,
     Field ''fpu'' struct_fpu]"

lemma struct_thread_struct_layout [ctype_layout]:
  "sizeof struct_thread_struct = 4352" "alignof struct_thread_struct = 8" "wf_ctype struct_thread_struct"
  by (simp_all add: struct_thread_struct_def ctype_defs ctype_layout layout_eval)

definition struct_task_struct :: ctype where
  "struct_task_struct = Struct ''task_struct'' False [
     Field ''thread_info'' struct_thread_info,
     Field ''state'' (Base CLong),
     Field ''stack'' (Ptr ''void''),
     Field ''usage'' typedef_refcount_t,
     Field ''flags'' (Base CUInt),
     Field ''ptrace'' (Base CUInt),
     Field ''on_cpu'' (Base CInt),
     Field ''wake_entry'' struct___call_single_node,
     Field ''cpu'' (Base CUInt),
     Field ''wakee_flips'' (Base CUInt),
     Field ''wakee_flip_decay_ts'' (Base CULong),
     Field ''last_wakee'' (Ptr ''struct task_struct''),
     Field ''recent_used_cpu'' (Base CInt),
     Field ''wake_cpu'' (Base CInt),
     Field ''on_rq'' (Base CInt),
     Field ''prio'' (Base CInt),
     Field ''static_prio'' (Base CInt),
     Field ''normal_prio'' (Base CInt),
     Field ''rt_priority'' (Base CUInt),
     Field ''sched_class'' (Ptr ''struct sched_class''),
     Field ''se'' struct_sched_entity,
     Field ''rt'' struct_sched_rt_entity,
     Field ''sched_task_group'' (Ptr ''struct task_group''),
     Field ''dl'' struct_sched_dl_entity,
     Field ''btrace_seq'' (Base CUInt),
     Field ''policy'' (Base CUInt),
     Field ''nr_cpus_allowed'' (Base CInt),
     Field ''cpus_ptr'' (Ptr ''cpumask_t''),
     Field ''cpus_mask'' typedef_cpumask_t,
     Field ''sched_info'' struct_sched_info,
     Field ''tasks'' struct_list_head,
     Field ''pushable_tasks'' struct_plist_node,
     Field ''pushable_dl_tasks'' struct_rb_node,
     Field ''mm'' (Ptr ''struct mm_struct''),
     Field ''active_mm'' (Ptr ''struct mm_struct''),
     Field ''vmacache'' struct_vmacache,
     Field ''rss_stat'' struct_task_rss_stat,
     Field ''exit_state'' (Base CInt),
     Field ''exit_code'' (Base CInt),
     Field ''exit_signal'' (Base CInt),
     Field ''pdeath_signal'' (Base CInt),
     Field ''jobctl'' (Base CULong),
     Field ''personality'' (Base CUInt),
     Bits ''sched_reset_on_fork'' (Base CUInt) 1,
     Bits ''sched_contributes_to_load'' (Base CUInt) 1,
     Bits ''sched_migrated'' (Base CUInt) 1,
     Bits ''sched_remote_wakeup'' (Base CUInt) 1,
     Pad (Base CInt) 28,
     Bits ''in_execve'' (Base CUInt) 1,
     Bits ''in_iowait'' (Base CUInt) 1,
     Bits ''restore_sigmask'' (Base CUInt) 1,
     Bits ''no_cgroup_migration'' (Base CUInt) 1,
     Bits ''frozen'' (Base CUInt) 1,
     Field ''atomic_flags'' (Base CULong),
     Field ''restart_block'' struct_restart_block,
     Field ''pid'' typedef_pid_t,
     Field ''tgid'' typedef_pid_t,
     Field ''stack_canary'' (Base CULong),
     Field ''real_parent'' (Ptr ''struct task_struct''),
     Field ''parent'' (Ptr ''struct task_struct''),
     Field ''children'' struct_list_head,
     Field ''sibling'' struct_list_head,
     Field ''group_leader'' (Ptr ''struct task_struct''),
     Field ''ptraced'' struct_list_head,
     Field ''ptrace_entry'' struct_list_head,
     Field ''thread_pid'' (Ptr ''struct pid''),
     Field ''pid_links'' (Array 4 struct_hlist_node),
     Field ''thread_group'' struct_list_head,
     Field ''thread_node'' struct_list_head,
     Field ''vfork_done'' (Ptr ''struct completion''),
     Field ''set_child_tid'' (Ptr ''int''),
     Field ''clear_child_tid'' (Ptr ''int''),
     Field ''utime'' typedef_u64,
     Field ''stime'' typedef_u64,
     Field ''gtime'' typedef_u64,
     Field ''prev_cputime'' struct_prev_cputime,
     Field ''nvcsw'' (Base CULong),
     Field ''nivcsw'' (Base CULong),
     Field ''start_time'' typedef_u64,
     Field ''start_boottime'' typedef_u64,
     Field ''min_flt'' (Base CULong),
     Field ''maj_flt'' (Base CULong),
     Field ''posix_cputimers'' struct_posix_cputimers,
     Field ''ptracer_cred'' (Ptr ''struct cred''),
     Field ''real_cred'' (Ptr ''struct cred''),
     Field ''cred'' (Ptr ''struct cred''),
     Field ''cached_requested_key'' (Ptr ''struct key''),
     Field ''comm'' (Array 16 (Base CChar)),
     Field ''nameidata'' (Ptr ''struct nameidata''),
     Field ''sysvsem'' struct_sysv_sem,
     Field ''sysvshm'' struct_sysv_shm,
     Field ''fs'' (Ptr ''struct fs_struct''),
     Field ''files'' (Ptr ''struct files_struct''),
     Field ''nsproxy'' (Ptr ''struct nsproxy''),
     Field ''signal'' (Ptr ''struct signal_struct''),
     Field ''sighand'' (Ptr ''struct sighand_struct''),
     Field ''blocked'' typedef_sigset_t,
     Field ''real_blocked'' typedef_sigset_t,
     Field ''saved_sigmask'' typedef_sigset_t,
     Field ''pending'' struct_sigpending,
     Field ''sas_ss_sp'' (Base CULong),
     Field ''sas_ss_size'' typedef_size_t,
     Field ''sas_ss_flags'' (Base CUInt),
     Field ''task_works'' (Ptr ''struct callback_head''),
     Field ''audit_context'' (Ptr ''struct audit_context''),
     Field ''loginuid'' typedef_kuid_t,
     Field ''sessionid'' (Base CUInt),
     Field ''seccomp'' struct_seccomp,
     Field ''parent_exec_id'' typedef_u64,
     Field ''self_exec_id'' typedef_u64,
     Field ''alloc_lock'' typedef_spinlock_t,
     Field ''pi_lock'' typedef_raw_spinlock_t,
     Field ''wake_q'' struct_wake_q_node,
     Field ''pi_waiters'' struct_rb_root_cached,
     Field ''pi_top_task'' (Ptr ''struct task_struct''),
     Field ''pi_blocked_on'' (Ptr ''struct rt_mutex_waiter''),
     Field ''journal_info'' (Ptr ''void''),
     Field ''bio_list'' (Ptr ''struct bio_list''),
     Field ''plug'' (Ptr ''struct blk_plug''),
     Field ''reclaim_state'' (Ptr ''struct reclaim_state''),
     Field ''backing_dev_info'' (Ptr ''struct backing_dev_info''),
     Field ''io_context'' (Ptr ''struct io_context''),
     Field ''capture_control'' (Ptr ''struct capture_control''),
     Field ''ptrace_message'' (Base CULong),
     Field ''last_siginfo'' (Ptr ''kernel_siginfo_t''),
     Field ''ioac'' struct_task_io_accounting,
     Field ''acct_rss_mem1'' typedef_u64,
     Field ''acct_vm_mem1'' typedef_u64,
     Field ''acct_timexpd'' typedef_u64,
     Field ''mems_allowed'' typedef_nodemask_t,
     Field ''mems_allowed_seq'' typedef_seqcount_t,
     Field ''cpuset_mem_spread_rotor'' (Base CInt),
     Field ''cpuset_slab_spread_rotor'' (Base CInt),
     Field ''cgroups'' (Ptr ''struct css_set''),
     Field ''cg_list'' struct_list_head,
     Field ''robust_list'' (Ptr ''struct robust_list_head''),
     Field ''compat_robust_list'' (Ptr ''struct compat_robust_list_head''),
     Field ''pi_state_list'' struct_list_head,
     Field ''pi_state_cache'' (Ptr ''struct futex_pi_state''),
     Field ''futex_exit_mutex'' struct_mutex,
     Field ''futex_state'' (Base CUInt),
     Field ''perf_event_ctxp'' (Array 2 (Ptr ''struct perf_event_context'')),
     Field ''perf_event_mutex'' struct_mutex,
     Field ''perf_event_list'' struct_list_head,
     Field ''mempolicy'' (Ptr ''struct mempolicy''),
     Field ''il_prev'' (Base CShort),
     Field ''pref_node_fork'' (Base CShort),
     Field ''rseq'' (Ptr ''struct rseq''),
     Field ''rseq_sig'' typedef_u32,
     Field ''rseq_event_mask'' (Base CULong),
     Field ''tlb_ubc'' struct_tlbflush_unmap_batch,
     Anon (Union '''' False [
         Field ''rcu_users'' typedef_refcount_t,
         Field ''rcu'' struct_callback_head]),
     Field ''splice_pipe'' (Ptr ''struct pipe_inode_info''),
     Field ''task_frag'' struct_page_frag,
     Field ''delays'' (Ptr ''struct task_delay_info''),
     Field ''nr_dirtied'' (Base CInt),
     Field ''nr_dirtied_pause'' (Base CInt),
     Field ''dirty_paused_when'' (Base CULong),
     Field ''timer_slack_ns'' typedef_u64,
     Field ''default_timer_slack_ns'' typedef_u64,
     Field ''trace'' (Base CULong),
     Field ''trace_recursion'' (Base CULong),
     Field ''utask'' (Ptr ''struct uprobe_task''),
     Field ''pagefault_disabled'' (Base CInt),
     Field ''oom_reaper_list'' (Ptr ''struct task_struct''),
     Field ''stack_vm_area'' (Ptr ''struct vm_struct''),
     Field ''stack_refcount'' typedef_refcount_t,
     Field ''security'' (Ptr ''void''),
     Field ''mce_addr'' typedef_u64,
     Bits ''mce_ripv'' typedef___u64 1,
     Bits ''mce_whole_page'' typedef___u64 1,
     Bits ''__mce_reserved'' typedef___u64 62,
     Field ''mce_kill_me'' struct_callback_head,
     Pad (Base CLong) 64,
     Pad (Base CLong) 64,
     Pad (Base CLong) 64,
     Pad (Base CLong) 64,
     Pad (Base CLong) 64,
     Pad (Base CLong) 64,
     Field ''thread'' struct_thread_struct]"

lemma struct_task_struct_layout [ctype_layout]:
  "sizeof struct_task_struct = 6848" "alignof struct_task_struct = 8" "wf_ctype struct_task_struct"
  by (simp_all add: struct_task_struct_def ctype_defs ctype_layout layout_eval)

end
