(* ===== verification/Vmlinux_Process.thy ===== *)
theory Vmlinux_Process
  imports Vmlinux_Task
begin

text \<open>
  The records of \<^verbatim>\<open>src/src/bpf/vmlinux.h\<close> that a task points to: address space, credentials, signals, files,
  control groups, keys and the other per-process state.
\<close>

definition struct_mm_rss_stat :: ctype where
  "struct_mm_rss_stat = Struct ''mm_rss_stat'' False [
     Field ''count'' (Array 4 typedef_atomic_long_t)]"

lemma struct_mm_rss_stat_layout [ctype_layout]:
  "sizeof struct_mm_rss_stat = 32" "alignof struct_mm_rss_stat = 8" "wf_ctype struct_mm_rss_stat"
  by (simp_all add: struct_mm_rss_stat_def ctype_defs ctype_layout layout_eval)

definition typedef_mm_context_t :: ctype where
  "typedef_mm_context_t = Struct '''' False [
     Field ''ctx_id'' typedef_u64,
     Field ''tlb_gen'' typedef_atomic64_t,
     Field ''ldt_usr_sem'' struct_rw_semaphore,
     Field ''ldt'' (Ptr ''struct ldt_struct''),
     Field ''ia32_compat'' (Base CUShort),
     Field ''lock'' struct_mutex,
     Field ''vdso'' (Ptr ''void''),
     Field ''vdso_image'' (Ptr ''struct vdso_image''),
     Field ''perf_rdpmc_allowed'' typedef_atomic_t,
     Field ''pkey_allocation_map'' typedef_u16,
     Field ''execute_only_pkey'' typedef_s16]"

lemma typedef_mm_context_t_layout [ctype_layout]:
  "sizeof typedef_mm_context_t = 128" "alignof typedef_mm_context_t = 8" "wf_ctype typedef_mm_context_t"
  by (simp_all add: typedef_mm_context_t_def ctype_defs ctype_layout layout_eval)

definition struct_uprobes_state :: ctype where
  "struct_uprobes_state = Struct ''uprobes_state'' False [
     Field ''xol_area'' (Ptr ''struct xol_area'')]"

lemma struct_uprobes_state_layout [ctype_layout]:
  "sizeof struct_uprobes_state = 8" "alignof struct_uprobes_state = 8" "wf_ctype struct_uprobes_state"
  by (simp_all add: struct_uprobes_state_def ctype_defs ctype_layout layout_eval)

definition struct_mm_struct :: ctype where
  "struct_mm_struct = Struct ''mm_struct'' False [
     Anon (Struct '''' False [
         Field ''mmap'' (Ptr ''struct vm_area_struct''),
         Field ''mm_rb'' struct_rb_root,
         Field ''vmacache_seqnum'' typedef_u64,
         Field ''get_unmapped_area'' FnPtr,
         Field ''mmap_base'' (Base CULong),
         Field ''mmap_legacy_base'' (Base CULong),
         Field ''mmap_compat_base'' (Base CULong),
         Field ''mmap_compat_legacy_base'' (Base CULong),
         Field ''task_size'' (Base CULong),
         Field ''highest_vm_end'' (Base CULong),
         Field ''pgd'' (Ptr ''pgd_t''),
         Field ''membarrier_state'' typedef_atomic_t,
         Field ''mm_users'' typedef_atomic_t,
         Field ''mm_count'' typedef_atomic_t,
         Field ''pgtables_bytes'' typedef_atomic_long_t,
         Field ''map_count'' (Base CInt),
         Field ''page_table_lock'' typedef_spinlock_t,
         Field ''mmap_lock'' struct_rw_semaphore,
         Field ''mmlist'' struct_list_head,
         Field ''hiwater_rss'' (Base CULong),
         Field ''hiwater_vm'' (Base CULong),
         Field ''total_vm'' (Base CULong),
         Field ''locked_vm'' (Base CULong),
         Field ''pinned_vm'' typedef_atomic64_t,
         Field ''data_vm'' (Base CULong),
         Field ''exec_vm'' (Base CULong),
         Field ''stack_vm'' (Base CULong),
         Field ''def_flags'' (Base CULong),
         Field ''arg_lock'' typedef_spinlock_t,
         Field ''start_code'' (Base CULong),
         Field ''end_code'' (Base CULong),
         Field ''start_data'' (Base CULong),
         Field ''end_data'' (Base CULong),
         Field ''start_brk'' (Base CULong),
         Field ''brk'' (Base CULong),
         Field ''start_stack'' (Base CULong),
         Field ''arg_start'' (Base CULong),
         Field ''arg_end'' (Base CULong),
         Field ''env_start'' (Base CULong),
         Field ''env_end'' (Base CULong),
         Field ''saved_auxv'' (Array 46 (Base CULong)),
         Field ''rss_stat'' struct_mm_rss_stat,
         Field ''binfmt'' (Ptr ''struct linux_binfmt''),
         Field ''context'' typedef_mm_context_t,
         Field ''flags'' (Base CULong),
         Field ''core_state'' (Ptr ''struct core_state''),
         Field ''ioctx_lock'' typedef_spinlock_t,
         Field ''ioctx_table'' (Ptr ''struct kioctx_table''),
         Field ''user_ns'' (Ptr ''struct user_namespace''),
         Field ''exe_file'' (Ptr ''struct file''),
         Field ''notifier_subscriptions'' (Ptr ''struct mmu_notifier_subscriptions''),
         Field ''tlb_flush_pending'' typedef_atomic_t,
         Field ''tlb_flush_batched'' typedef_bool,
         Field ''uprobes_state'' struct_uprobes_state,
         Field ''hugetlb_usage'' typedef_atomic_long_t,
         Field ''async_put_work'' struct_work_struct]),
     Field ''cpu_bitmap'' (Array 0 (Base CULong))]"

lemma struct_mm_struct_layout [ctype_layout]:
  "sizeof struct_mm_struct = 992" "alignof struct_mm_struct = 8" "wf_ctype struct_mm_struct"
  by (simp_all add: struct_mm_struct_def ctype_defs ctype_layout layout_eval)

definition struct_kernel_cap_struct :: ctype where
  "struct_kernel_cap_struct = Struct ''kernel_cap_struct'' False [
     Field ''cap'' (Array 2 typedef___u32)]"

lemma struct_kernel_cap_struct_layout [ctype_layout]:
  "sizeof struct_kernel_cap_struct = 8" "alignof struct_kernel_cap_struct = 4" "wf_ctype struct_kernel_cap_struct"
  by (simp_all add: struct_kernel_cap_struct_def ctype_defs ctype_layout layout_eval)

definition typedef_kernel_cap_t :: ctype where
  [ctype_defs]: "typedef_kernel_cap_t = struct_kernel_cap_struct"

definition struct_cred :: ctype where
  "struct_cred = Struct ''cred'' False [
     Field ''usage'' typedef_atomic_t,
     Field ''uid'' typedef_kuid_t,
     Field ''gid'' typedef_kgid_t,
     Field ''suid'' typedef_kuid_t,
     Field ''sgid'' typedef_kgid_t,
     Field ''euid'' typedef_kuid_t,
     Field ''egid'' typedef_kgid_t,
     Field ''fsuid'' typedef_kuid_t,
     Field ''fsgid'' typedef_kgid_t,
     Field ''securebits'' (Base CUInt),
     Field ''cap_inheritable'' typedef_kernel_cap_t,
     Field ''cap_permitted'' typedef_kernel_cap_t,
     Field ''cap_effective'' typedef_kernel_cap_t,
     Field ''cap_bset'' typedef_kernel_cap_t,
     Field ''cap_ambient'' typedef_kernel_cap_t,
     Field ''jit_keyring'' (Base CUChar),
     Field ''session_keyring'' (Ptr ''struct key''),
     Field ''process_keyring'' (Ptr ''struct key''),
     Field ''thread_keyring'' (Ptr ''struct key''),
     Field ''request_key_auth'' (Ptr ''struct key''),
     Field ''security'' (Ptr ''void''),
     Field ''user'' (Ptr ''struct user_struct''),
     Field ''user_ns'' (Ptr ''struct user_namespace''),
     Field ''group_info'' (Ptr ''struct group_info''),
     Anon (Union '''' False [
         Field ''non_rcu'' (Base CInt),
         Field ''rcu'' struct_callback_head])]"

lemma struct_cred_layout [ctype_layout]:
  "sizeof struct_cred = 168" "alignof struct_cred = 8" "wf_ctype struct_cred"
  by (simp_all add: struct_cred_def ctype_defs ctype_layout layout_eval)

definition struct_cpu_itimer :: ctype where
  "struct_cpu_itimer = Struct ''cpu_itimer'' False [
     Field ''expires'' typedef_u64,
     Field ''incr'' typedef_u64]"

lemma struct_cpu_itimer_layout [ctype_layout]:
  "sizeof struct_cpu_itimer = 16" "alignof struct_cpu_itimer = 8" "wf_ctype struct_cpu_itimer"
  by (simp_all add: struct_cpu_itimer_def ctype_defs ctype_layout layout_eval)

definition struct_task_cputime_atomic :: ctype where
  "struct_task_cputime_atomic = Struct ''task_cputime_atomic'' False [
     Field ''utime'' typedef_atomic64_t,
     Field ''stime'' typedef_atomic64_t,
     Field ''sum_exec_runtime'' typedef_atomic64_t]"

lemma struct_task_cputime_atomic_layout [ctype_layout]:
  "sizeof struct_task_cputime_atomic = 24" "alignof struct_task_cputime_atomic = 8" "wf_ctype struct_task_cputime_atomic"
  by (simp_all add: struct_task_cputime_atomic_def ctype_defs ctype_layout layout_eval)

definition struct_thread_group_cputimer :: ctype where
  "struct_thread_group_cputimer = Struct ''thread_group_cputimer'' False [
     Field ''cputime_atomic'' struct_task_cputime_atomic]"

lemma struct_thread_group_cputimer_layout [ctype_layout]:
  "sizeof struct_thread_group_cputimer = 24" "alignof struct_thread_group_cputimer = 8" "wf_ctype struct_thread_group_cputimer"
  by (simp_all add: struct_thread_group_cputimer_def ctype_defs ctype_layout layout_eval)

definition struct_rlimit :: ctype where
  "struct_rlimit = Struct ''rlimit'' False [
     Field ''rlim_cur'' typedef___kernel_ulong_t,
     Field ''rlim_max'' typedef___kernel_ulong_t]"

lemma struct_rlimit_layout [ctype_layout]:
  "sizeof struct_rlimit = 16" "alignof struct_rlimit = 8" "wf_ctype struct_rlimit"
  by (simp_all add: struct_rlimit_def ctype_defs ctype_layout layout_eval)

definition struct_pacct_struct :: ctype where
  "struct_pacct_struct = Struct ''pacct_struct'' False [
     Field ''ac_flag'' (Base CInt),
     Field ''ac_exitcode'' (Base CLong),
     Field ''ac_mem'' (Base CULong),
     Field ''ac_utime'' typedef_u64,
     Field ''ac_stime'' typedef_u64,
     Field ''ac_minflt'' (Base CULong),
     Field ''ac_majflt'' (Base CULong)]"

lemma struct_pacct_struct_layout [ctype_layout]:
  "sizeof struct_pacct_struct = 56" "alignof struct_pacct_struct = 8" "wf_ctype struct_pacct_struct"
  by (simp_all add: struct_pacct_struct_def ctype_defs ctype_layout layout_eval)

definition struct_signal_struct :: ctype where
  "struct_signal_struct = Struct ''signal_struct'' False [
     Field ''sigcnt'' typedef_refcount_t,
     Field ''live'' typedef_atomic_t,
     Field ''nr_threads'' (Base CInt),
     Field ''thread_head'' struct_list_head,
     Field ''wait_chldexit'' typedef_wait_queue_head_t,
     Field ''curr_target'' (Ptr ''struct task_struct''),
     Field ''shared_pending'' struct_sigpending,
     Field ''multiprocess'' struct_hlist_head,
     Field ''group_exit_code'' (Base CInt),
     Field ''notify_count'' (Base CInt),
     Field ''group_exit_task'' (Ptr ''struct task_struct''),
     Field ''group_stop_count'' (Base CInt),
     Field ''flags'' (Base CUInt),
     Bits ''is_child_subreaper'' (Base CUInt) 1,
     Bits ''has_child_subreaper'' (Base CUInt) 1,
     Field ''posix_timer_id'' (Base CInt),
     Field ''posix_timers'' struct_list_head,
     Field ''real_timer'' struct_hrtimer,
     Field ''it_real_incr'' typedef_ktime_t,
     Field ''it'' (Array 2 struct_cpu_itimer),
     Field ''cputimer'' struct_thread_group_cputimer,
     Field ''posix_cputimers'' struct_posix_cputimers,
     Field ''pids'' (Array 4 (Ptr ''struct pid'')),
     Field ''tty_old_pgrp'' (Ptr ''struct pid''),
     Field ''leader'' (Base CInt),
     Field ''tty'' (Ptr ''struct tty_struct''),
     Field ''stats_lock'' typedef_seqlock_t,
     Field ''utime'' typedef_u64,
     Field ''stime'' typedef_u64,
     Field ''cutime'' typedef_u64,
     Field ''cstime'' typedef_u64,
     Field ''gtime'' typedef_u64,
     Field ''cgtime'' typedef_u64,
     Field ''prev_cputime'' struct_prev_cputime,
     Field ''nvcsw'' (Base CULong),
     Field ''nivcsw'' (Base CULong),
     Field ''cnvcsw'' (Base CULong),
     Field ''cnivcsw'' (Base CULong),
     Field ''min_flt'' (Base CULong),
     Field ''maj_flt'' (Base CULong),
     Field ''cmin_flt'' (Base CULong),
     Field ''cmaj_flt'' (Base CULong),
     Field ''inblock'' (Base CULong),
     Field ''oublock'' (Base CULong),
     Field ''cinblock'' (Base CULong),
     Field ''coublock'' (Base CULong),
     Field ''maxrss'' (Base CULong),
     Field ''cmaxrss'' (Base CULong),
     Field ''ioac'' struct_task_io_accounting,
     Field ''sum_sched_runtime'' (Base CULLong),
     Field ''rlim'' (Array 16 struct_rlimit),
     Field ''pacct'' struct_pacct_struct,
     Field ''stats'' (Ptr ''struct taskstats''),
     Field ''audit_tty'' (Base CUInt),
     Field ''tty_audit_buf'' (Ptr ''struct tty_audit_buf''),
     Field ''oom_flag_origin'' typedef_bool,
     Field ''oom_score_adj'' (Base CShort),
     Field ''oom_score_adj_min'' (Base CShort),
     Field ''oom_mm'' (Ptr ''struct mm_struct''),
     Field ''cred_guard_mutex'' struct_mutex,
     Field ''exec_update_mutex'' struct_mutex]"

lemma struct_signal_struct_layout [ctype_layout]:
  "sizeof struct_signal_struct = 1080" "alignof struct_signal_struct = 8" "wf_ctype struct_signal_struct"
  by (simp_all add: struct_signal_struct_def ctype_defs ctype_layout layout_eval)

definition typedef___sighandler_t :: ctype where
  [ctype_defs]: "typedef___sighandler_t = Ptr ''__signalfn_t''"

definition typedef___sigrestore_t :: ctype where
  [ctype_defs]: "typedef___sigrestore_t = Ptr ''__restorefn_t''"

definition struct_sigaction :: ctype where
  "struct_sigaction = Struct ''sigaction'' False [
     Field ''sa_handler'' typedef___sighandler_t,
     Field ''sa_flags'' (Base CULong),
     Field ''sa_restorer'' typedef___sigrestore_t,
     Field ''sa_mask'' typedef_sigset_t]"

lemma struct_sigaction_layout [ctype_layout]:
  "sizeof struct_sigaction = 32" "alignof struct_sigaction = 8" "wf_ctype struct_sigaction"
  by (simp_all add: struct_sigaction_def ctype_defs ctype_layout layout_eval)

definition struct_k_sigaction :: ctype where
  "struct_k_sigaction = Struct ''k_sigaction'' False [
     Field ''sa'' struct_sigaction]"

lemma struct_k_sigaction_layout [ctype_layout]:
  "sizeof struct_k_sigaction = 32" "alignof struct_k_sigaction = 8" "wf_ctype struct_k_sigaction"
  by (simp_all add: struct_k_sigaction_def ctype_defs ctype_layout layout_eval)

definition struct_sighand_struct :: ctype where
  "struct_sighand_struct = Struct ''sighand_struct'' False [
     Field ''siglock'' typedef_spinlock_t,
     Field ''count'' typedef_refcount_t,
     Field ''signalfd_wqh'' typedef_wait_queue_head_t,
     Field ''action'' (Array 64 struct_k_sigaction)]"

lemma struct_sighand_struct_layout [ctype_layout]:
  "sizeof struct_sighand_struct = 2080" "alignof struct_sighand_struct = 8" "wf_ctype struct_sighand_struct"
  by (simp_all add: struct_sighand_struct_def ctype_defs ctype_layout layout_eval)

definition struct_path :: ctype where
  "struct_path = Struct ''path'' False [
     Field ''mnt'' (Ptr ''struct vfsmount''),
     Field ''dentry'' (Ptr ''struct dentry'')]"

lemma struct_path_layout [ctype_layout]:
  "sizeof struct_path = 16" "alignof struct_path = 8" "wf_ctype struct_path"
  by (simp_all add: struct_path_def ctype_defs ctype_layout layout_eval)

definition struct_fs_struct :: ctype where
  "struct_fs_struct = Struct ''fs_struct'' False [
     Field ''users'' (Base CInt),
     Field ''lock'' typedef_spinlock_t,
     Field ''seq'' typedef_seqcount_t,
     Field ''umask'' (Base CInt),
     Field ''in_exec'' (Base CInt),
     Field ''root'' struct_path,
     Field ''pwd'' struct_path]"

lemma struct_fs_struct_layout [ctype_layout]:
  "sizeof struct_fs_struct = 56" "alignof struct_fs_struct = 8" "wf_ctype struct_fs_struct"
  by (simp_all add: struct_fs_struct_def ctype_defs ctype_layout layout_eval)

definition struct_fdtable :: ctype where
  "struct_fdtable = Struct ''fdtable'' False [
     Field ''max_fds'' (Base CUInt),
     Field ''fd'' (Ptr ''struct file *''),
     Field ''close_on_exec'' (Ptr ''long unsigned int''),
     Field ''open_fds'' (Ptr ''long unsigned int''),
     Field ''full_fds_bits'' (Ptr ''long unsigned int''),
     Field ''rcu'' struct_callback_head]"

lemma struct_fdtable_layout [ctype_layout]:
  "sizeof struct_fdtable = 56" "alignof struct_fdtable = 8" "wf_ctype struct_fdtable"
  by (simp_all add: struct_fdtable_def ctype_defs ctype_layout layout_eval)

definition struct_files_struct :: ctype where
  "struct_files_struct = Struct ''files_struct'' False [
     Field ''count'' typedef_atomic_t,
     Field ''resize_in_progress'' typedef_bool,
     Field ''resize_wait'' typedef_wait_queue_head_t,
     Field ''fdt'' (Ptr ''struct fdtable''),
     Field ''fdtab'' struct_fdtable,
     Pad (Base CLong) 64,
     Pad (Base CLong) 64,
     Pad (Base CLong) 64,
     Pad (Base CLong) 64,
     Field ''file_lock'' typedef_spinlock_t,
     Field ''next_fd'' (Base CUInt),
     Field ''close_on_exec_init'' (Array 1 (Base CULong)),
     Field ''open_fds_init'' (Array 1 (Base CULong)),
     Field ''full_fds_bits_init'' (Array 1 (Base CULong)),
     Field ''fd_array'' (Array 64 (Ptr ''struct file'')),
     Pad (Base CLong) 64,
     Pad (Base CLong) 64,
     Pad (Base CLong) 64,
     Pad (Base CLong) 64]"

lemma struct_files_struct_layout [ctype_layout]:
  "sizeof struct_files_struct = 704" "alignof struct_files_struct = 8" "wf_ctype struct_files_struct"
  by (simp_all add: struct_files_struct_def ctype_defs ctype_layout layout_eval)

definition struct_nsproxy :: ctype where
  "struct_nsproxy = Struct ''nsproxy'' False [
     Field ''count'' typedef_atomic_t,
     Field ''uts_ns'' (Ptr ''struct uts_namespace''),
     Field ''ipc_ns'' (Ptr ''struct ipc_namespace''),
     Field ''mnt_ns'' (Ptr ''struct mnt_namespace''),
     Field ''pid_ns_for_children'' (Ptr ''struct pid_namespace''),
     Field ''net_ns'' (Ptr ''struct net''),
     Field ''time_ns'' (Ptr ''struct time_namespace''),
     Field ''time_ns_for_children'' (Ptr ''struct time_namespace''),
     Field ''cgroup_ns'' (Ptr ''struct cgroup_namespace'')]"

lemma struct_nsproxy_layout [ctype_layout]:
  "sizeof struct_nsproxy = 72" "alignof struct_nsproxy = 8" "wf_ctype struct_nsproxy"
  by (simp_all add: struct_nsproxy_def ctype_defs ctype_layout layout_eval)

definition struct_upid :: ctype where
  "struct_upid = Struct ''upid'' False [
     Field ''nr'' (Base CInt),
     Field ''ns'' (Ptr ''struct pid_namespace'')]"

lemma struct_upid_layout [ctype_layout]:
  "sizeof struct_upid = 16" "alignof struct_upid = 8" "wf_ctype struct_upid"
  by (simp_all add: struct_upid_def ctype_defs ctype_layout layout_eval)

definition struct_pid :: ctype where
  "struct_pid = Struct ''pid'' False [
     Field ''count'' typedef_refcount_t,
     Field ''level'' (Base CUInt),
     Field ''lock'' typedef_spinlock_t,
     Field ''tasks'' (Array 4 struct_hlist_head),
     Field ''inodes'' struct_hlist_head,
     Field ''wait_pidfd'' typedef_wait_queue_head_t,
     Field ''rcu'' struct_callback_head,
     Field ''numbers'' (Array 1 struct_upid)]"

lemma struct_pid_layout [ctype_layout]:
  "sizeof struct_pid = 112" "alignof struct_pid = 8" "wf_ctype struct_pid"
  by (simp_all add: struct_pid_def ctype_defs ctype_layout layout_eval)

definition struct_css_set :: ctype where
  "struct_css_set = Struct ''css_set'' False [
     Field ''subsys'' (Array 4 (Ptr ''struct cgroup_subsys_state'')),
     Field ''refcount'' typedef_refcount_t,
     Field ''dom_cset'' (Ptr ''struct css_set''),
     Field ''dfl_cgrp'' (Ptr ''struct cgroup''),
     Field ''nr_tasks'' (Base CInt),
     Field ''tasks'' struct_list_head,
     Field ''mg_tasks'' struct_list_head,
     Field ''dying_tasks'' struct_list_head,
     Field ''task_iters'' struct_list_head,
     Field ''e_cset_node'' (Array 4 struct_list_head),
     Field ''threaded_csets'' struct_list_head,
     Field ''threaded_csets_node'' struct_list_head,
     Field ''hlist'' struct_hlist_node,
     Field ''cgrp_links'' struct_list_head,
     Field ''mg_preload_node'' struct_list_head,
     Field ''mg_node'' struct_list_head,
     Field ''mg_src_cgrp'' (Ptr ''struct cgroup''),
     Field ''mg_dst_cgrp'' (Ptr ''struct cgroup''),
     Field ''mg_dst_cset'' (Ptr ''struct css_set''),
     Field ''dead'' typedef_bool,
     Field ''callback_head'' struct_callback_head]"

lemma struct_css_set_layout [ctype_layout]:
  "sizeof struct_css_set = 336" "alignof struct_css_set = 8" "wf_ctype struct_css_set"
  by (simp_all add: struct_css_set_def ctype_defs ctype_layout layout_eval)

definition struct_sched_class :: ctype where
  "struct_sched_class = Struct ''sched_class'' False [
     Field ''next'' (Ptr ''struct sched_class''),
     Field ''enqueue_task'' FnPtr,
     Field ''dequeue_task'' FnPtr,
     Field ''yield_task'' FnPtr,
     Field ''yield_to_task'' FnPtr,
     Field ''check_preempt_curr'' FnPtr,
     Field ''pick_next_task'' FnPtr,
     Field ''put_prev_task'' FnPtr,
     Field ''set_next_task'' FnPtr,
     Field ''balance'' FnPtr,
     Field ''select_task_rq'' FnPtr,
     Field ''migrate_task_rq'' FnPtr,
     Field ''task_woken'' FnPtr,
     Field ''set_cpus_allowed'' FnPtr,
     Field ''rq_online'' FnPtr,
     Field ''rq_offline'' FnPtr,
     Field ''task_tick'' FnPtr,
     Field ''task_fork'' FnPtr,
     Field ''task_dead'' FnPtr,
     Field ''switched_from'' FnPtr,
     Field ''switched_to'' FnPtr,
     Field ''prio_changed'' FnPtr,
     Field ''get_rr_interval'' FnPtr,
     Field ''update_curr'' FnPtr,
     Field ''task_change_group'' FnPtr]"

lemma struct_sched_class_layout [ctype_layout]:
  "sizeof struct_sched_class = 200" "alignof struct_sched_class = 8" "wf_ctype struct_sched_class"
  by (simp_all add: struct_sched_class_def ctype_defs ctype_layout layout_eval)

definition struct_cgroup_subsys_state :: ctype where
  "struct_cgroup_subsys_state = Struct ''cgroup_subsys_state'' False [
     Field ''cgroup'' (Ptr ''struct cgroup''),
     Field ''ss'' (Ptr ''struct cgroup_subsys''),
     Field ''refcnt'' struct_percpu_ref,
     Field ''sibling'' struct_list_head,
     Field ''children'' struct_list_head,
     Field ''rstat_css_node'' struct_list_head,
     Field ''id'' (Base CInt),
     Field ''flags'' (Base CUInt),
     Field ''serial_nr'' typedef_u64,
     Field ''online_cnt'' typedef_atomic_t,
     Field ''destroy_work'' struct_work_struct,
     Field ''destroy_rwork'' struct_rcu_work,
     Field ''parent'' (Ptr ''struct cgroup_subsys_state'')]"

lemma struct_cgroup_subsys_state_layout [ctype_layout]:
  "sizeof struct_cgroup_subsys_state = 240" "alignof struct_cgroup_subsys_state = 8" "wf_ctype struct_cgroup_subsys_state"
  by (simp_all add: struct_cgroup_subsys_state_def ctype_defs ctype_layout layout_eval)

definition struct_cfs_bandwidth :: ctype where
  "struct_cfs_bandwidth = Struct ''cfs_bandwidth'' False []"

lemma struct_cfs_bandwidth_layout [ctype_layout]:
  "sizeof struct_cfs_bandwidth = 0" "alignof struct_cfs_bandwidth = 1" "wf_ctype struct_cfs_bandwidth"
  by (simp_all add: struct_cfs_bandwidth_def ctype_defs ctype_layout layout_eval)

definition struct_task_group :: ctype where
  "struct_task_group = Struct ''task_group'' False [
     Field ''css'' struct_cgroup_subsys_state,
     Field ''se'' (Ptr ''struct sched_entity *''),
     Field ''cfs_rq'' (Ptr ''struct cfs_rq *''),
     Field ''shares'' (Base CULong),
     Pad (Base CLong) 64,
     Pad (Base CLong) 64,
     Pad (Base CLong) 64,
     Pad (Base CLong) 64,
     Pad (Base CLong) 64,
     Pad (Base CLong) 64,
     Pad (Base CLong) 64,
     Field ''load_avg'' typedef_atomic_long_t,
     Field ''rcu'' struct_callback_head,
     Field ''list'' struct_list_head,
     Field ''parent'' (Ptr ''struct task_group''),
     Field ''siblings'' struct_list_head,
     Field ''children'' struct_list_head,
     Field ''cfs_bandwidth'' struct_cfs_bandwidth,
     Pad (Base CLong) 64,
     Pad (Base CLong) 64,
     Pad (Base CLong) 64,
     Pad (Base CLong) 64,
     Pad (Base CLong) 64,
     Pad (Base CLong) 64]"

lemma struct_task_group_layout [ctype_layout]:
  "sizeof struct_task_group = 448" "alignof struct_task_group = 8" "wf_ctype struct_task_group"
  by (simp_all add: struct_task_group_def ctype_defs ctype_layout layout_eval)

definition typedef_key_serial_t :: ctype where
  [ctype_defs]: "typedef_key_serial_t = typedef_int32_t"

definition typedef_key_perm_t :: ctype where
  [ctype_defs]: "typedef_key_perm_t = typedef_uint32_t"

definition struct_keyring_index_key :: ctype where
  "struct_keyring_index_key = Struct ''keyring_index_key'' False [
     Field ''hash'' (Base CULong),
     Anon (Union '''' False [
         Anon (Struct '''' False [
             Field ''desc_len'' typedef_u16,
             Field ''desc'' (Array 6 (Base CChar))]),
         Field ''x'' (Base CULong)]),
     Field ''type'' (Ptr ''struct key_type''),
     Field ''domain_tag'' (Ptr ''struct key_tag''),
     Field ''description'' (Ptr ''char'')]"

lemma struct_keyring_index_key_layout [ctype_layout]:
  "sizeof struct_keyring_index_key = 40" "alignof struct_keyring_index_key = 8" "wf_ctype struct_keyring_index_key"
  by (simp_all add: struct_keyring_index_key_def ctype_defs ctype_layout layout_eval)

definition union_key_payload :: ctype where
  "union_key_payload = Union ''key_payload'' False [
     Field ''rcu_data0'' (Ptr ''void''),
     Field ''data'' (Array 4 (Ptr ''void''))]"

lemma union_key_payload_layout [ctype_layout]:
  "sizeof union_key_payload = 32" "alignof union_key_payload = 8" "wf_ctype union_key_payload"
  by (simp_all add: union_key_payload_def ctype_defs ctype_layout layout_eval)

definition struct_assoc_array :: ctype where
  "struct_assoc_array = Struct ''assoc_array'' False [
     Field ''root'' (Ptr ''struct assoc_array_ptr''),
     Field ''nr_leaves_on_tree'' (Base CULong)]"

lemma struct_assoc_array_layout [ctype_layout]:
  "sizeof struct_assoc_array = 16" "alignof struct_assoc_array = 8" "wf_ctype struct_assoc_array"
  by (simp_all add: struct_assoc_array_def ctype_defs ctype_layout layout_eval)

definition struct_key :: ctype where
  "struct_key = Struct ''key'' False [
     Field ''usage'' typedef_refcount_t,
     Field ''serial'' typedef_key_serial_t,
     Anon (Union '''' False [
         Field ''graveyard_link'' struct_list_head,
         Field ''serial_node'' struct_rb_node]),
     Field ''sem'' struct_rw_semaphore,
     Field ''user'' (Ptr ''struct key_user''),
     Field ''security'' (Ptr ''void''),
     Anon (Union '''' False [
         Field ''expiry'' typedef_time64_t,
         Field ''revoked_at'' typedef_time64_t]),
     Field ''last_used_at'' typedef_time64_t,
     Field ''uid'' typedef_kuid_t,
     Field ''gid'' typedef_kgid_t,
     Field ''perm'' typedef_key_perm_t,
     Field ''quotalen'' (Base CUShort),
     Field ''datalen'' (Base CUShort),
     Field ''state'' (Base CShort),
     Field ''flags'' (Base CULong),
     Anon (Union '''' False [
         Field ''index_key'' struct_keyring_index_key,
         Anon (Struct '''' False [
             Field ''hash'' (Base CULong),
             Field ''len_desc'' (Base CULong),
             Field ''type'' (Ptr ''struct key_type''),
             Field ''domain_tag'' (Ptr ''struct key_tag''),
             Field ''description'' (Ptr ''char'')])]),
     Anon (Union '''' False [
         Field ''payload'' union_key_payload,
         Anon (Struct '''' False [
             Field ''name_link'' struct_list_head,
             Field ''keys'' struct_assoc_array])]),
     Field ''restrict_link'' (Ptr ''struct key_restriction'')]"

lemma struct_key_layout [ctype_layout]:
  "sizeof struct_key = 216" "alignof struct_key = 8" "wf_ctype struct_key"
  by (simp_all add: struct_key_def ctype_defs ctype_layout layout_eval)

definition struct_vm_struct :: ctype where
  "struct_vm_struct = Struct ''vm_struct'' False [
     Field ''next'' (Ptr ''struct vm_struct''),
     Field ''addr'' (Ptr ''void''),
     Field ''size'' (Base CULong),
     Field ''flags'' (Base CULong),
     Field ''pages'' (Ptr ''struct page *''),
     Field ''nr_pages'' (Base CUInt),
     Field ''phys_addr'' typedef_phys_addr_t,
     Field ''caller'' (Ptr ''void'')]"

lemma struct_vm_struct_layout [ctype_layout]:
  "sizeof struct_vm_struct = 64" "alignof struct_vm_struct = 8" "wf_ctype struct_vm_struct"
  by (simp_all add: struct_vm_struct_def ctype_defs ctype_layout layout_eval)

definition struct_io_context :: ctype where
  "struct_io_context = Struct ''io_context'' False [
     Field ''refcount'' typedef_atomic_long_t,
     Field ''active_ref'' typedef_atomic_t,
     Field ''nr_tasks'' typedef_atomic_t,
     Field ''lock'' typedef_spinlock_t,
     Field ''ioprio'' (Base CUShort),
     Field ''nr_batch_requests'' (Base CInt),
     Field ''last_waited'' (Base CULong),
     Field ''icq_tree'' struct_xarray,
     Field ''icq_hint'' (Ptr ''struct io_cq''),
     Field ''icq_list'' struct_hlist_head,
     Field ''release_work'' struct_work_struct]"

lemma struct_io_context_layout [ctype_layout]:
  "sizeof struct_io_context = 104" "alignof struct_io_context = 8" "wf_ctype struct_io_context"
  by (simp_all add: struct_io_context_def ctype_defs ctype_layout layout_eval)

definition struct_rt_mutex :: ctype where
  "struct_rt_mutex = Struct ''rt_mutex'' False [
     Field ''wait_lock'' typedef_raw_spinlock_t,
     Field ''waiters'' struct_rb_root_cached,
     Field ''owner'' (Ptr ''struct task_struct'')]"

lemma struct_rt_mutex_layout [ctype_layout]:
  "sizeof struct_rt_mutex = 32" "alignof struct_rt_mutex = 8" "wf_ctype struct_rt_mutex"
  by (simp_all add: struct_rt_mutex_def ctype_defs ctype_layout layout_eval)

definition union_futex_key :: ctype where
  "union_futex_key = Union ''futex_key'' False [
     Field ''shared'' (Struct '''' False [
         Field ''i_seq'' typedef_u64,
         Field ''pgoff'' (Base CULong),
         Field ''offset'' (Base CUInt)]),
     Field ''private'' (Struct '''' False [
         Anon (Union '''' False [
             Field ''mm'' (Ptr ''struct mm_struct''),
             Field ''__tmp'' typedef_u64]),
         Field ''address'' (Base CULong),
         Field ''offset'' (Base CUInt)]),
     Field ''both'' (Struct '''' False [
         Field ''ptr'' typedef_u64,
         Field ''word'' (Base CULong),
         Field ''offset'' (Base CUInt)])]"

lemma union_futex_key_layout [ctype_layout]:
  "sizeof union_futex_key = 24" "alignof union_futex_key = 8" "wf_ctype union_futex_key"
  by (simp_all add: union_futex_key_def ctype_defs ctype_layout layout_eval)

definition struct_futex_pi_state :: ctype where
  "struct_futex_pi_state = Struct ''futex_pi_state'' False [
     Field ''list'' struct_list_head,
     Field ''pi_mutex'' struct_rt_mutex,
     Field ''owner'' (Ptr ''struct task_struct''),
     Field ''refcount'' typedef_refcount_t,
     Field ''key'' union_futex_key]"

lemma struct_futex_pi_state_layout [ctype_layout]:
  "sizeof struct_futex_pi_state = 88" "alignof struct_futex_pi_state = 8" "wf_ctype struct_futex_pi_state"
  by (simp_all add: struct_futex_pi_state_def ctype_defs ctype_layout layout_eval)

definition struct_pipe_inode_info :: ctype where
  "struct_pipe_inode_info = Struct ''pipe_inode_info'' False [
     Field ''mutex'' struct_mutex,
     Field ''rd_wait'' typedef_wait_queue_head_t,
     Field ''wr_wait'' typedef_wait_queue_head_t,
     Field ''head'' (Base CUInt),
     Field ''tail'' (Base CUInt),
     Field ''max_usage'' (Base CUInt),
     Field ''ring_size'' (Base CUInt),
     Field ''nr_accounted'' (Base CUInt),
     Field ''readers'' (Base CUInt),
     Field ''writers'' (Base CUInt),
     Field ''files'' (Base CUInt),
     Field ''r_counter'' (Base CUInt),
     Field ''w_counter'' (Base CUInt),
     Field ''tmp_page'' (Ptr ''struct page''),
     Field ''fasync_readers'' (Ptr ''struct fasync_struct''),
     Field ''fasync_writers'' (Ptr ''struct fasync_struct''),
     Field ''bufs'' (Ptr ''struct pipe_buffer''),
     Field ''user'' (Ptr ''struct user_struct'')]"

lemma struct_pipe_inode_info_layout [ctype_layout]:
  "sizeof struct_pipe_inode_info = 160" "alignof struct_pipe_inode_info = 8" "wf_ctype struct_pipe_inode_info"
  by (simp_all add: struct_pipe_inode_info_def ctype_defs ctype_layout layout_eval)

definition struct_rseq :: ctype where
  "struct_rseq = Struct ''rseq'' False [
     Field ''cpu_id_start'' typedef___u32,
     Field ''cpu_id'' typedef___u32,
     Field ''rseq_cs'' (Union '''' False [
         Field ''ptr64'' typedef___u64,
         Field ''ptr'' typedef___u64]),
     Field ''flags'' typedef___u32,
     Pad (Base CLong) 32,
     Pad (Base CLong) 64]"

lemma struct_rseq_layout [ctype_layout]:
  "sizeof struct_rseq = 32" "alignof struct_rseq = 8" "wf_ctype struct_rseq"
  by (simp_all add: struct_rseq_def ctype_defs ctype_layout layout_eval)

definition enum_uprobe_task_state :: ctype where
  "enum_uprobe_task_state = Enum ''uprobe_task_state'' [
     (''UTASK_RUNNING'', 0),
     (''UTASK_SSTEP'', 1),
     (''UTASK_SSTEP_ACK'', 2),
     (''UTASK_SSTEP_TRAPPED'', 3)]"

lemma enum_uprobe_task_state_layout [ctype_layout]:
  "sizeof enum_uprobe_task_state = 4" "alignof enum_uprobe_task_state = 4" "wf_ctype enum_uprobe_task_state"
  by (simp_all add: enum_uprobe_task_state_def ctype_defs ctype_layout layout_eval)

definition struct_arch_uprobe_task :: ctype where
  "struct_arch_uprobe_task = Struct ''arch_uprobe_task'' False [
     Field ''saved_scratch_register'' (Base CULong),
     Field ''saved_trap_nr'' (Base CUInt),
     Field ''saved_tf'' (Base CUInt)]"

lemma struct_arch_uprobe_task_layout [ctype_layout]:
  "sizeof struct_arch_uprobe_task = 16" "alignof struct_arch_uprobe_task = 8" "wf_ctype struct_arch_uprobe_task"
  by (simp_all add: struct_arch_uprobe_task_def ctype_defs ctype_layout layout_eval)

definition struct_uprobe_task :: ctype where
  "struct_uprobe_task = Struct ''uprobe_task'' False [
     Field ''state'' enum_uprobe_task_state,
     Anon (Union '''' False [
         Anon (Struct '''' False [
             Field ''autask'' struct_arch_uprobe_task,
             Field ''vaddr'' (Base CULong)]),
         Anon (Struct '''' False [
             Field ''dup_xol_work'' struct_callback_head,
             Field ''dup_xol_addr'' (Base CULong)])]),
     Field ''active_uprobe'' (Ptr ''struct uprobe''),
     Field ''xol_vaddr'' (Base CULong),
     Field ''return_instances'' (Ptr ''struct return_instance''),
     Field ''depth'' (Base CUInt)]"

lemma struct_uprobe_task_layout [ctype_layout]:
  "sizeof struct_uprobe_task = 64" "alignof struct_uprobe_task = 8" "wf_ctype struct_uprobe_task"
  by (simp_all add: struct_uprobe_task_def ctype_defs ctype_layout layout_eval)

definition struct_robust_list :: ctype where
  "struct_robust_list = Struct ''robust_list'' False [
     Field ''next'' (Ptr ''struct robust_list'')]"

lemma struct_robust_list_layout [ctype_layout]:
  "sizeof struct_robust_list = 8" "alignof struct_robust_list = 8" "wf_ctype struct_robust_list"
  by (simp_all add: struct_robust_list_def ctype_defs ctype_layout layout_eval)

definition struct_robust_list_head :: ctype where
  "struct_robust_list_head = Struct ''robust_list_head'' False [
     Field ''list'' struct_robust_list,
     Field ''futex_offset'' (Base CLong),
     Field ''list_op_pending'' (Ptr ''struct robust_list'')]"

lemma struct_robust_list_head_layout [ctype_layout]:
  "sizeof struct_robust_list_head = 24" "alignof struct_robust_list_head = 8" "wf_ctype struct_robust_list_head"
  by (simp_all add: struct_robust_list_head_def ctype_defs ctype_layout layout_eval)

definition typedef_compat_uptr_t :: ctype where
  [ctype_defs]: "typedef_compat_uptr_t = typedef_u32"

definition struct_compat_robust_list :: ctype where
  "struct_compat_robust_list = Struct ''compat_robust_list'' False [
     Field ''next'' typedef_compat_uptr_t]"

lemma struct_compat_robust_list_layout [ctype_layout]:
  "sizeof struct_compat_robust_list = 4" "alignof struct_compat_robust_list = 4" "wf_ctype struct_compat_robust_list"
  by (simp_all add: struct_compat_robust_list_def ctype_defs ctype_layout layout_eval)

definition typedef_compat_long_t :: ctype where
  [ctype_defs]: "typedef_compat_long_t = typedef_s32"

definition struct_compat_robust_list_head :: ctype where
  "struct_compat_robust_list_head = Struct ''compat_robust_list_head'' False [
     Field ''list'' struct_compat_robust_list,
     Field ''futex_offset'' typedef_compat_long_t,
     Field ''list_op_pending'' typedef_compat_uptr_t]"

lemma struct_compat_robust_list_head_layout [ctype_layout]:
  "sizeof struct_compat_robust_list_head = 12" "alignof struct_compat_robust_list_head = 4" "wf_ctype struct_compat_robust_list_head"
  by (simp_all add: struct_compat_robust_list_head_def ctype_defs ctype_layout layout_eval)

definition struct_mempolicy :: ctype where
  "struct_mempolicy = Struct ''mempolicy'' False [
     Field ''refcnt'' typedef_atomic_t,
     Field ''mode'' (Base CUShort),
     Field ''flags'' (Base CUShort),
     Field ''v'' (Union '''' False [
         Field ''preferred_node'' (Base CShort),
         Field ''nodes'' typedef_nodemask_t]),
     Field ''w'' (Union '''' False [
         Field ''cpuset_mems_allowed'' typedef_nodemask_t,
         Field ''user_nodemask'' typedef_nodemask_t])]"

lemma struct_mempolicy_layout [ctype_layout]:
  "sizeof struct_mempolicy = 24" "alignof struct_mempolicy = 8" "wf_ctype struct_mempolicy"
  by (simp_all add: struct_mempolicy_def ctype_defs ctype_layout layout_eval)

definition struct_task_delay_info :: ctype where
  "struct_task_delay_info = Struct ''task_delay_info'' False [
     Field ''lock'' typedef_raw_spinlock_t,
     Field ''flags'' (Base CUInt),
     Field ''blkio_start'' typedef_u64,
     Field ''blkio_delay'' typedef_u64,
     Field ''swapin_delay'' typedef_u64,
     Field ''blkio_count'' typedef_u32,
     Field ''swapin_count'' typedef_u32,
     Field ''freepages_start'' typedef_u64,
     Field ''freepages_delay'' typedef_u64,
     Field ''thrashing_start'' typedef_u64,
     Field ''thrashing_delay'' typedef_u64,
     Field ''freepages_count'' typedef_u32,
     Field ''thrashing_count'' typedef_u32]"

lemma struct_task_delay_info_layout [ctype_layout]:
  "sizeof struct_task_delay_info = 80" "alignof struct_task_delay_info = 8" "wf_ctype struct_task_delay_info"
  by (simp_all add: struct_task_delay_info_def ctype_defs ctype_layout layout_eval)

definition struct_rt_mutex_waiter :: ctype where
  "struct_rt_mutex_waiter = Struct ''rt_mutex_waiter'' False [
     Field ''tree_entry'' struct_rb_node,
     Field ''pi_tree_entry'' struct_rb_node,
     Field ''task'' (Ptr ''struct task_struct''),
     Field ''lock'' (Ptr ''struct rt_mutex''),
     Field ''prio'' (Base CInt),
     Field ''deadline'' typedef_u64]"

lemma struct_rt_mutex_waiter_layout [ctype_layout]:
  "sizeof struct_rt_mutex_waiter = 80" "alignof struct_rt_mutex_waiter = 8" "wf_ctype struct_rt_mutex_waiter"
  by (simp_all add: struct_rt_mutex_waiter_def ctype_defs ctype_layout layout_eval)

definition struct_bio_list :: ctype where
  "struct_bio_list = Struct ''bio_list'' False [
     Field ''head'' (Ptr ''struct bio''),
     Field ''tail'' (Ptr ''struct bio'')]"

lemma struct_bio_list_layout [ctype_layout]:
  "sizeof struct_bio_list = 16" "alignof struct_bio_list = 8" "wf_ctype struct_bio_list"
  by (simp_all add: struct_bio_list_def ctype_defs ctype_layout layout_eval)

definition struct_blk_plug :: ctype where
  "struct_blk_plug = Struct ''blk_plug'' False [
     Field ''mq_list'' struct_list_head,
     Field ''cb_list'' struct_list_head,
     Field ''rq_count'' (Base CUShort),
     Field ''multiple_queues'' typedef_bool]"

lemma struct_blk_plug_layout [ctype_layout]:
  "sizeof struct_blk_plug = 40" "alignof struct_blk_plug = 8" "wf_ctype struct_blk_plug"
  by (simp_all add: struct_blk_plug_def ctype_defs ctype_layout layout_eval)

definition typedef_pgprotval_t :: ctype where
  [ctype_defs]: "typedef_pgprotval_t = Base CULong"

definition struct_pgprot :: ctype where
  "struct_pgprot = Struct ''pgprot'' False [
     Field ''pgprot'' typedef_pgprotval_t]"

lemma struct_pgprot_layout [ctype_layout]:
  "sizeof struct_pgprot = 8" "alignof struct_pgprot = 8" "wf_ctype struct_pgprot"
  by (simp_all add: struct_pgprot_def ctype_defs ctype_layout layout_eval)

definition typedef_pgprot_t :: ctype where
  [ctype_defs]: "typedef_pgprot_t = struct_pgprot"

definition struct_vm_userfaultfd_ctx :: ctype where
  "struct_vm_userfaultfd_ctx = Struct ''vm_userfaultfd_ctx'' False []"

lemma struct_vm_userfaultfd_ctx_layout [ctype_layout]:
  "sizeof struct_vm_userfaultfd_ctx = 0" "alignof struct_vm_userfaultfd_ctx = 1" "wf_ctype struct_vm_userfaultfd_ctx"
  by (simp_all add: struct_vm_userfaultfd_ctx_def ctype_defs ctype_layout layout_eval)

definition struct_vm_area_struct :: ctype where
  "struct_vm_area_struct = Struct ''vm_area_struct'' False [
     Field ''vm_start'' (Base CULong),
     Field ''vm_end'' (Base CULong),
     Field ''vm_next'' (Ptr ''struct vm_area_struct''),
     Field ''vm_prev'' (Ptr ''struct vm_area_struct''),
     Field ''vm_rb'' struct_rb_node,
     Field ''rb_subtree_gap'' (Base CULong),
     Field ''vm_mm'' (Ptr ''struct mm_struct''),
     Field ''vm_page_prot'' typedef_pgprot_t,
     Field ''vm_flags'' (Base CULong),
     Field ''shared'' (Struct '''' False [
         Field ''rb'' struct_rb_node,
         Field ''rb_subtree_last'' (Base CULong)]),
     Field ''anon_vma_chain'' struct_list_head,
     Field ''anon_vma'' (Ptr ''struct anon_vma''),
     Field ''vm_ops'' (Ptr ''struct vm_operations_struct''),
     Field ''vm_pgoff'' (Base CULong),
     Field ''vm_file'' (Ptr ''struct file''),
     Field ''vm_private_data'' (Ptr ''void''),
     Field ''swap_readahead_info'' typedef_atomic_long_t,
     Field ''vm_policy'' (Ptr ''struct mempolicy''),
     Field ''vm_userfaultfd_ctx'' struct_vm_userfaultfd_ctx]"

lemma struct_vm_area_struct_layout [ctype_layout]:
  "sizeof struct_vm_area_struct = 192" "alignof struct_vm_area_struct = 8" "wf_ctype struct_vm_area_struct"
  by (simp_all add: struct_vm_area_struct_def ctype_defs ctype_layout layout_eval)

definition union_sigval :: ctype where
  "union_sigval = Union ''sigval'' False [
     Field ''sival_int'' (Base CInt),
     Field ''sival_ptr'' (Ptr ''void'')]"

lemma union_sigval_layout [ctype_layout]:
  "sizeof union_sigval = 8" "alignof union_sigval = 8" "wf_ctype union_sigval"
  by (simp_all add: union_sigval_def ctype_defs ctype_layout layout_eval)

definition typedef_sigval_t :: ctype where
  [ctype_defs]: "typedef_sigval_t = union_sigval"

definition union___sifields :: ctype where
  "union___sifields = Union ''__sifields'' False [
     Field ''_kill'' (Struct '''' False [
         Field ''_pid'' typedef___kernel_pid_t,
         Field ''_uid'' typedef___kernel_uid32_t]),
     Field ''_timer'' (Struct '''' False [
         Field ''_tid'' typedef___kernel_timer_t,
         Field ''_overrun'' (Base CInt),
         Field ''_sigval'' typedef_sigval_t,
         Field ''_sys_private'' (Base CInt)]),
     Field ''_rt'' (Struct '''' False [
         Field ''_pid'' typedef___kernel_pid_t,
         Field ''_uid'' typedef___kernel_uid32_t,
         Field ''_sigval'' typedef_sigval_t]),
     Field ''_sigchld'' (Struct '''' False [
         Field ''_pid'' typedef___kernel_pid_t,
         Field ''_uid'' typedef___kernel_uid32_t,
         Field ''_status'' (Base CInt),
         Field ''_utime'' typedef___kernel_clock_t,
         Field ''_stime'' typedef___kernel_clock_t]),
     Field ''_sigfault'' (Struct '''' False [
         Field ''_addr'' (Ptr ''void''),
         Anon (Union '''' False [
             Field ''_addr_lsb'' (Base CShort),
             Field ''_addr_bnd'' (Struct '''' False [
                 Field ''_dummy_bnd'' (Array 8 (Base CChar)),
                 Field ''_lower'' (Ptr ''void''),
                 Field ''_upper'' (Ptr ''void'')]),
             Field ''_addr_pkey'' (Struct '''' False [
                 Field ''_dummy_pkey'' (Array 8 (Base CChar)),
                 Field ''_pkey'' typedef___u32])])]),
     Field ''_sigpoll'' (Struct '''' False [
         Field ''_band'' (Base CLong),
         Field ''_fd'' (Base CInt)]),
     Field ''_sigsys'' (Struct '''' False [
         Field ''_call_addr'' (Ptr ''void''),
         Field ''_syscall'' (Base CInt),
         Field ''_arch'' (Base CUInt)])]"

lemma union___sifields_layout [ctype_layout]:
  "sizeof union___sifields = 32" "alignof union___sifields = 8" "wf_ctype union___sifields"
  by (simp_all add: union___sifields_def ctype_defs ctype_layout layout_eval)

definition struct_kernel_siginfo :: ctype where
  "struct_kernel_siginfo = Struct ''kernel_siginfo'' False [
     Anon (Struct '''' False [
         Field ''si_signo'' (Base CInt),
         Field ''si_errno'' (Base CInt),
         Field ''si_code'' (Base CInt),
         Field ''_sifields'' union___sifields])]"

lemma struct_kernel_siginfo_layout [ctype_layout]:
  "sizeof struct_kernel_siginfo = 48" "alignof struct_kernel_siginfo = 8" "wf_ctype struct_kernel_siginfo"
  by (simp_all add: struct_kernel_siginfo_def ctype_defs ctype_layout layout_eval)

definition typedef_kernel_siginfo_t :: ctype where
  [ctype_defs]: "typedef_kernel_siginfo_t = struct_kernel_siginfo"

end
