(* ===== verification/Vmlinux_Perf.thy ===== *)
theory Vmlinux_Perf
  imports Vmlinux_Process
begin

text \<open>
  The perf subsystem of \<^verbatim>\<open>src/src/bpf/vmlinux.h\<close>: the attributes the client passes to
  \<^verbatim>\<open>perf_event_open\<close>, the event and its context, the saved registers and call chains behind
  \<^verbatim>\<open>bpf_get_stack\<close>, and the enumerations of the interface.
\<close>

definition enum_perf_event_state :: ctype where
  "enum_perf_event_state = Enum ''perf_event_state'' [
     (''PERF_EVENT_STATE_DEAD'', 4294967292),
     (''PERF_EVENT_STATE_EXIT'', 4294967293),
     (''PERF_EVENT_STATE_ERROR'', 4294967294),
     (''PERF_EVENT_STATE_OFF'', 4294967295),
     (''PERF_EVENT_STATE_INACTIVE'', 0),
     (''PERF_EVENT_STATE_ACTIVE'', 1)]"

lemma enum_perf_event_state_layout [ctype_layout]:
  "sizeof enum_perf_event_state = 4" "alignof enum_perf_event_state = 4" "wf_ctype enum_perf_event_state"
  by (simp_all add: enum_perf_event_state_def ctype_defs ctype_layout layout_eval)

definition typedef_local_t :: ctype where
  "typedef_local_t = Struct '''' False [
     Field ''a'' typedef_atomic_long_t]"

lemma typedef_local_t_layout [ctype_layout]:
  "sizeof typedef_local_t = 8" "alignof typedef_local_t = 8" "wf_ctype typedef_local_t"
  by (simp_all add: typedef_local_t_def ctype_defs ctype_layout layout_eval)

definition typedef_local64_t :: ctype where
  "typedef_local64_t = Struct '''' False [
     Field ''a'' typedef_local_t]"

lemma typedef_local64_t_layout [ctype_layout]:
  "sizeof typedef_local64_t = 8" "alignof typedef_local64_t = 8" "wf_ctype typedef_local64_t"
  by (simp_all add: typedef_local64_t_def ctype_defs ctype_layout layout_eval)

definition struct_perf_event_attr :: ctype where
  "struct_perf_event_attr = Struct ''perf_event_attr'' False [
     Field ''type'' typedef___u32,
     Field ''size'' typedef___u32,
     Field ''config'' typedef___u64,
     Anon (Union '''' False [
         Field ''sample_period'' typedef___u64,
         Field ''sample_freq'' typedef___u64]),
     Field ''sample_type'' typedef___u64,
     Field ''read_format'' typedef___u64,
     Bits ''disabled'' typedef___u64 1,
     Bits ''inherit'' typedef___u64 1,
     Bits ''pinned'' typedef___u64 1,
     Bits ''exclusive'' typedef___u64 1,
     Bits ''exclude_user'' typedef___u64 1,
     Bits ''exclude_kernel'' typedef___u64 1,
     Bits ''exclude_hv'' typedef___u64 1,
     Bits ''exclude_idle'' typedef___u64 1,
     Bits ''mmap'' typedef___u64 1,
     Bits ''comm'' typedef___u64 1,
     Bits ''freq'' typedef___u64 1,
     Bits ''inherit_stat'' typedef___u64 1,
     Bits ''enable_on_exec'' typedef___u64 1,
     Bits ''task'' typedef___u64 1,
     Bits ''watermark'' typedef___u64 1,
     Bits ''precise_ip'' typedef___u64 2,
     Bits ''mmap_data'' typedef___u64 1,
     Bits ''sample_id_all'' typedef___u64 1,
     Bits ''exclude_host'' typedef___u64 1,
     Bits ''exclude_guest'' typedef___u64 1,
     Bits ''exclude_callchain_kernel'' typedef___u64 1,
     Bits ''exclude_callchain_user'' typedef___u64 1,
     Bits ''mmap2'' typedef___u64 1,
     Bits ''comm_exec'' typedef___u64 1,
     Bits ''use_clockid'' typedef___u64 1,
     Bits ''context_switch'' typedef___u64 1,
     Bits ''write_backward'' typedef___u64 1,
     Bits ''namespaces'' typedef___u64 1,
     Bits ''ksymbol'' typedef___u64 1,
     Bits ''bpf_event'' typedef___u64 1,
     Bits ''aux_output'' typedef___u64 1,
     Bits ''cgroup'' typedef___u64 1,
     Bits ''__reserved_1'' typedef___u64 31,
     Anon (Union '''' False [
         Field ''wakeup_events'' typedef___u32,
         Field ''wakeup_watermark'' typedef___u32]),
     Field ''bp_type'' typedef___u32,
     Anon (Union '''' False [
         Field ''bp_addr'' typedef___u64,
         Field ''kprobe_func'' typedef___u64,
         Field ''uprobe_path'' typedef___u64,
         Field ''config1'' typedef___u64]),
     Anon (Union '''' False [
         Field ''bp_len'' typedef___u64,
         Field ''kprobe_addr'' typedef___u64,
         Field ''probe_offset'' typedef___u64,
         Field ''config2'' typedef___u64]),
     Field ''branch_sample_type'' typedef___u64,
     Field ''sample_regs_user'' typedef___u64,
     Field ''sample_stack_user'' typedef___u32,
     Field ''clockid'' typedef___s32,
     Field ''sample_regs_intr'' typedef___u64,
     Field ''aux_watermark'' typedef___u32,
     Field ''sample_max_stack'' typedef___u16,
     Field ''__reserved_2'' typedef___u16,
     Field ''aux_sample_size'' typedef___u32,
     Field ''__reserved_3'' typedef___u32]"

lemma struct_perf_event_attr_layout [ctype_layout]:
  "sizeof struct_perf_event_attr = 120" "alignof struct_perf_event_attr = 8" "wf_ctype struct_perf_event_attr"
  by (simp_all add: struct_perf_event_attr_def ctype_defs ctype_layout layout_eval)

definition struct_hw_perf_event_extra :: ctype where
  "struct_hw_perf_event_extra = Struct ''hw_perf_event_extra'' False [
     Field ''config'' typedef_u64,
     Field ''reg'' (Base CUInt),
     Field ''alloc'' (Base CInt),
     Field ''idx'' (Base CInt)]"

lemma struct_hw_perf_event_extra_layout [ctype_layout]:
  "sizeof struct_hw_perf_event_extra = 24" "alignof struct_hw_perf_event_extra = 8" "wf_ctype struct_hw_perf_event_extra"
  by (simp_all add: struct_hw_perf_event_extra_def ctype_defs ctype_layout layout_eval)

definition struct_arch_hw_breakpoint :: ctype where
  "struct_arch_hw_breakpoint = Struct ''arch_hw_breakpoint'' False [
     Field ''address'' (Base CULong),
     Field ''mask'' (Base CULong),
     Field ''len'' typedef_u8,
     Field ''type'' typedef_u8]"

lemma struct_arch_hw_breakpoint_layout [ctype_layout]:
  "sizeof struct_arch_hw_breakpoint = 24" "alignof struct_arch_hw_breakpoint = 8" "wf_ctype struct_arch_hw_breakpoint"
  by (simp_all add: struct_arch_hw_breakpoint_def ctype_defs ctype_layout layout_eval)

definition struct_hw_perf_event :: ctype where
  "struct_hw_perf_event = Struct ''hw_perf_event'' False [
     Anon (Union '''' False [
         Anon (Struct '''' False [
             Field ''config'' typedef_u64,
             Field ''last_tag'' typedef_u64,
             Field ''config_base'' (Base CULong),
             Field ''event_base'' (Base CULong),
             Field ''event_base_rdpmc'' (Base CInt),
             Field ''idx'' (Base CInt),
             Field ''last_cpu'' (Base CInt),
             Field ''flags'' (Base CInt),
             Field ''extra_reg'' struct_hw_perf_event_extra,
             Field ''branch_reg'' struct_hw_perf_event_extra]),
         Anon (Struct '''' False [
             Field ''hrtimer'' struct_hrtimer]),
         Anon (Struct '''' False [
             Field ''tp_list'' struct_list_head]),
         Anon (Struct '''' False [
             Field ''pwr_acc'' typedef_u64,
             Field ''ptsc'' typedef_u64]),
         Anon (Struct '''' False [
             Field ''info'' struct_arch_hw_breakpoint,
             Field ''bp_list'' struct_list_head]),
         Anon (Struct '''' False [
             Field ''iommu_bank'' typedef_u8,
             Field ''iommu_cntr'' typedef_u8,
             Field ''padding'' typedef_u16,
             Field ''conf'' typedef_u64,
             Field ''conf1'' typedef_u64])]),
     Field ''target'' (Ptr ''struct task_struct''),
     Field ''addr_filters'' (Ptr ''void''),
     Field ''addr_filters_gen'' (Base CULong),
     Field ''state'' (Base CInt),
     Field ''prev_count'' typedef_local64_t,
     Field ''sample_period'' typedef_u64,
     Field ''last_period'' typedef_u64,
     Field ''period_left'' typedef_local64_t,
     Field ''interrupts_seq'' typedef_u64,
     Field ''interrupts'' typedef_u64,
     Field ''freq_time_stamp'' typedef_u64,
     Field ''freq_count_stamp'' typedef_u64]"

lemma struct_hw_perf_event_layout [ctype_layout]:
  "sizeof struct_hw_perf_event = 192" "alignof struct_hw_perf_event = 8" "wf_ctype struct_hw_perf_event"
  by (simp_all add: struct_hw_perf_event_def ctype_defs ctype_layout layout_eval)

definition struct_irq_work :: ctype where
  "struct_irq_work = Struct ''irq_work'' False [
     Anon (Union '''' False [
         Field ''node'' struct___call_single_node,
         Anon (Struct '''' False [
             Field ''llnode'' struct_llist_node,
             Field ''flags'' typedef_atomic_t])]),
     Field ''func'' FnPtr]"

lemma struct_irq_work_layout [ctype_layout]:
  "sizeof struct_irq_work = 24" "alignof struct_irq_work = 8" "wf_ctype struct_irq_work"
  by (simp_all add: struct_irq_work_def ctype_defs ctype_layout layout_eval)

definition struct_perf_addr_filters_head :: ctype where
  "struct_perf_addr_filters_head = Struct ''perf_addr_filters_head'' False [
     Field ''list'' struct_list_head,
     Field ''lock'' typedef_raw_spinlock_t,
     Field ''nr_file_filters'' (Base CUInt)]"

lemma struct_perf_addr_filters_head_layout [ctype_layout]:
  "sizeof struct_perf_addr_filters_head = 24" "alignof struct_perf_addr_filters_head = 8" "wf_ctype struct_perf_addr_filters_head"
  by (simp_all add: struct_perf_addr_filters_head_def ctype_defs ctype_layout layout_eval)

definition typedef_perf_overflow_handler_t :: ctype where
  [ctype_defs]: "typedef_perf_overflow_handler_t = FnPtr"

definition struct_perf_event :: ctype where
  "struct_perf_event = Struct ''perf_event'' False [
     Field ''event_entry'' struct_list_head,
     Field ''sibling_list'' struct_list_head,
     Field ''active_list'' struct_list_head,
     Field ''group_node'' struct_rb_node,
     Field ''group_index'' typedef_u64,
     Field ''migrate_entry'' struct_list_head,
     Field ''hlist_entry'' struct_hlist_node,
     Field ''active_entry'' struct_list_head,
     Field ''nr_siblings'' (Base CInt),
     Field ''event_caps'' (Base CInt),
     Field ''group_caps'' (Base CInt),
     Field ''group_leader'' (Ptr ''struct perf_event''),
     Field ''pmu'' (Ptr ''struct pmu''),
     Field ''pmu_private'' (Ptr ''void''),
     Field ''state'' enum_perf_event_state,
     Field ''attach_state'' (Base CUInt),
     Field ''count'' typedef_local64_t,
     Field ''child_count'' typedef_atomic64_t,
     Field ''total_time_enabled'' typedef_u64,
     Field ''total_time_running'' typedef_u64,
     Field ''tstamp'' typedef_u64,
     Field ''shadow_ctx_time'' typedef_u64,
     Field ''attr'' struct_perf_event_attr,
     Field ''header_size'' typedef_u16,
     Field ''id_header_size'' typedef_u16,
     Field ''read_size'' typedef_u16,
     Field ''hw'' struct_hw_perf_event,
     Field ''ctx'' (Ptr ''struct perf_event_context''),
     Field ''refcount'' typedef_atomic_long_t,
     Field ''child_total_time_enabled'' typedef_atomic64_t,
     Field ''child_total_time_running'' typedef_atomic64_t,
     Field ''child_mutex'' struct_mutex,
     Field ''child_list'' struct_list_head,
     Field ''parent'' (Ptr ''struct perf_event''),
     Field ''oncpu'' (Base CInt),
     Field ''cpu'' (Base CInt),
     Field ''owner_entry'' struct_list_head,
     Field ''owner'' (Ptr ''struct task_struct''),
     Field ''mmap_mutex'' struct_mutex,
     Field ''mmap_count'' typedef_atomic_t,
     Field ''rb'' (Ptr ''struct perf_buffer''),
     Field ''rb_entry'' struct_list_head,
     Field ''rcu_batches'' (Base CULong),
     Field ''rcu_pending'' (Base CInt),
     Field ''waitq'' typedef_wait_queue_head_t,
     Field ''fasync'' (Ptr ''struct fasync_struct''),
     Field ''pending_wakeup'' (Base CInt),
     Field ''pending_kill'' (Base CInt),
     Field ''pending_disable'' (Base CInt),
     Field ''pending'' struct_irq_work,
     Field ''event_limit'' typedef_atomic_t,
     Field ''addr_filters'' struct_perf_addr_filters_head,
     Field ''addr_filter_ranges'' (Ptr ''struct perf_addr_filter_range''),
     Field ''addr_filters_gen'' (Base CULong),
     Field ''aux_event'' (Ptr ''struct perf_event''),
     Field ''destroy'' FnPtr,
     Field ''callback_head'' struct_callback_head,
     Field ''ns'' (Ptr ''struct pid_namespace''),
     Field ''id'' typedef_u64,
     Field ''clock'' FnPtr,
     Field ''overflow_handler'' typedef_perf_overflow_handler_t,
     Field ''overflow_handler_context'' (Ptr ''void''),
     Field ''orig_overflow_handler'' typedef_perf_overflow_handler_t,
     Field ''prog'' (Ptr ''struct bpf_prog''),
     Field ''tp_event'' (Ptr ''struct trace_event_call''),
     Field ''filter'' (Ptr ''struct event_filter''),
     Field ''security'' (Ptr ''void''),
     Field ''sb_list'' struct_list_head]"

lemma struct_perf_event_layout [ctype_layout]:
  "sizeof struct_perf_event = 992" "alignof struct_perf_event = 8" "wf_ctype struct_perf_event"
  by (simp_all add: struct_perf_event_def ctype_defs ctype_layout layout_eval)

definition struct_pmu :: ctype where
  "struct_pmu = Struct ''pmu'' False [
     Field ''entry'' struct_list_head,
     Field ''module'' (Ptr ''struct module''),
     Field ''dev'' (Ptr ''struct device''),
     Field ''attr_groups'' (Ptr ''struct attribute_group *''),
     Field ''attr_update'' (Ptr ''struct attribute_group *''),
     Field ''name'' (Ptr ''char''),
     Field ''type'' (Base CInt),
     Field ''capabilities'' (Base CInt),
     Field ''pmu_disable_count'' (Ptr ''int''),
     Field ''pmu_cpu_context'' (Ptr ''struct perf_cpu_context''),
     Field ''exclusive_cnt'' typedef_atomic_t,
     Field ''task_ctx_nr'' (Base CInt),
     Field ''hrtimer_interval_ms'' (Base CInt),
     Field ''nr_addr_filters'' (Base CUInt),
     Field ''pmu_enable'' FnPtr,
     Field ''pmu_disable'' FnPtr,
     Field ''event_init'' FnPtr,
     Field ''event_mapped'' FnPtr,
     Field ''event_unmapped'' FnPtr,
     Field ''add'' FnPtr,
     Field ''del'' FnPtr,
     Field ''start'' FnPtr,
     Field ''stop'' FnPtr,
     Field ''read'' FnPtr,
     Field ''start_txn'' FnPtr,
     Field ''commit_txn'' FnPtr,
     Field ''cancel_txn'' FnPtr,
     Field ''event_idx'' FnPtr,
     Field ''sched_task'' FnPtr,
     Field ''task_ctx_size'' typedef_size_t,
     Field ''swap_task_ctx'' FnPtr,
     Field ''setup_aux'' FnPtr,
     Field ''free_aux'' FnPtr,
     Field ''snapshot_aux'' FnPtr,
     Field ''addr_filters_validate'' FnPtr,
     Field ''addr_filters_sync'' FnPtr,
     Field ''aux_output_match'' FnPtr,
     Field ''filter_match'' FnPtr,
     Field ''check_period'' FnPtr]"

lemma struct_pmu_layout [ctype_layout]:
  "sizeof struct_pmu = 296" "alignof struct_pmu = 8" "wf_ctype struct_pmu"
  by (simp_all add: struct_pmu_def ctype_defs ctype_layout layout_eval)

definition struct_perf_event_groups :: ctype where
  "struct_perf_event_groups = Struct ''perf_event_groups'' False [
     Field ''tree'' struct_rb_root,
     Field ''index'' typedef_u64]"

lemma struct_perf_event_groups_layout [ctype_layout]:
  "sizeof struct_perf_event_groups = 16" "alignof struct_perf_event_groups = 8" "wf_ctype struct_perf_event_groups"
  by (simp_all add: struct_perf_event_groups_def ctype_defs ctype_layout layout_eval)

definition struct_perf_event_context :: ctype where
  "struct_perf_event_context = Struct ''perf_event_context'' False [
     Field ''pmu'' (Ptr ''struct pmu''),
     Field ''lock'' typedef_raw_spinlock_t,
     Field ''mutex'' struct_mutex,
     Field ''active_ctx_list'' struct_list_head,
     Field ''pinned_groups'' struct_perf_event_groups,
     Field ''flexible_groups'' struct_perf_event_groups,
     Field ''event_list'' struct_list_head,
     Field ''pinned_active'' struct_list_head,
     Field ''flexible_active'' struct_list_head,
     Field ''nr_events'' (Base CInt),
     Field ''nr_active'' (Base CInt),
     Field ''is_active'' (Base CInt),
     Field ''nr_stat'' (Base CInt),
     Field ''nr_freq'' (Base CInt),
     Field ''rotate_disable'' (Base CInt),
     Field ''rotate_necessary'' (Base CInt),
     Field ''refcount'' typedef_refcount_t,
     Field ''task'' (Ptr ''struct task_struct''),
     Field ''time'' typedef_u64,
     Field ''timestamp'' typedef_u64,
     Field ''parent_ctx'' (Ptr ''struct perf_event_context''),
     Field ''parent_gen'' typedef_u64,
     Field ''generation'' typedef_u64,
     Field ''pin_count'' (Base CInt),
     Field ''task_ctx_data'' (Ptr ''void''),
     Field ''callback_head'' struct_callback_head]"

lemma struct_perf_event_context_layout [ctype_layout]:
  "sizeof struct_perf_event_context = 256" "alignof struct_perf_event_context = 8" "wf_ctype struct_perf_event_context"
  by (simp_all add: struct_perf_event_context_def ctype_defs ctype_layout layout_eval)

definition struct_perf_cpu_context :: ctype where
  "struct_perf_cpu_context = Struct ''perf_cpu_context'' False [
     Field ''ctx'' struct_perf_event_context,
     Field ''task_ctx'' (Ptr ''struct perf_event_context''),
     Field ''active_oncpu'' (Base CInt),
     Field ''exclusive'' (Base CInt),
     Field ''hrtimer_lock'' typedef_raw_spinlock_t,
     Field ''hrtimer'' struct_hrtimer,
     Field ''hrtimer_interval'' typedef_ktime_t,
     Field ''hrtimer_active'' (Base CUInt),
     Field ''sched_cb_entry'' struct_list_head,
     Field ''sched_cb_usage'' (Base CInt),
     Field ''online'' (Base CInt),
     Field ''heap_size'' (Base CInt),
     Field ''heap'' (Ptr ''struct perf_event *''),
     Field ''heap_default'' (Array 2 (Ptr ''struct perf_event''))]"

lemma struct_perf_cpu_context_layout [ctype_layout]:
  "sizeof struct_perf_cpu_context = 416" "alignof struct_perf_cpu_context = 8" "wf_ctype struct_perf_cpu_context"
  by (simp_all add: struct_perf_cpu_context_def ctype_defs ctype_layout layout_eval)

definition struct_perf_buffer :: ctype where
  "struct_perf_buffer = Struct ''perf_buffer'' False [
     Field ''refcount'' typedef_refcount_t,
     Field ''callback_head'' struct_callback_head,
     Field ''nr_pages'' (Base CInt),
     Field ''overwrite'' (Base CInt),
     Field ''paused'' (Base CInt),
     Field ''poll'' typedef_atomic_t,
     Field ''head'' typedef_local_t,
     Field ''nest'' (Base CUInt),
     Field ''events'' typedef_local_t,
     Field ''wakeup'' typedef_local_t,
     Field ''lost'' typedef_local_t,
     Field ''watermark'' (Base CLong),
     Field ''aux_watermark'' (Base CLong),
     Field ''event_lock'' typedef_spinlock_t,
     Field ''event_list'' struct_list_head,
     Field ''mmap_count'' typedef_atomic_t,
     Field ''mmap_locked'' (Base CULong),
     Field ''mmap_user'' (Ptr ''struct user_struct''),
     Field ''aux_head'' (Base CLong),
     Field ''aux_nest'' (Base CUInt),
     Field ''aux_wakeup'' (Base CLong),
     Field ''aux_pgoff'' (Base CULong),
     Field ''aux_nr_pages'' (Base CInt),
     Field ''aux_overwrite'' (Base CInt),
     Field ''aux_mmap_count'' typedef_atomic_t,
     Field ''aux_mmap_locked'' (Base CULong),
     Field ''free_aux'' FnPtr,
     Field ''aux_refcount'' typedef_refcount_t,
     Field ''aux_in_sampling'' (Base CInt),
     Field ''aux_pages'' (Ptr ''void *''),
     Field ''aux_priv'' (Ptr ''void''),
     Field ''user_page'' (Ptr ''struct perf_event_mmap_page''),
     Field ''data_pages'' (Array 0 (Ptr ''void''))]"

lemma struct_perf_buffer_layout [ctype_layout]:
  "sizeof struct_perf_buffer = 240" "alignof struct_perf_buffer = 8" "wf_ctype struct_perf_buffer"
  by (simp_all add: struct_perf_buffer_def ctype_defs ctype_layout layout_eval)

definition struct_perf_output_handle :: ctype where
  "struct_perf_output_handle = Struct ''perf_output_handle'' False [
     Field ''event'' (Ptr ''struct perf_event''),
     Field ''rb'' (Ptr ''struct perf_buffer''),
     Field ''wakeup'' (Base CULong),
     Field ''size'' (Base CULong),
     Field ''aux_flags'' typedef_u64,
     Anon (Union '''' False [
         Field ''addr'' (Ptr ''void''),
         Field ''head'' (Base CULong)]),
     Field ''page'' (Base CInt)]"

lemma struct_perf_output_handle_layout [ctype_layout]:
  "sizeof struct_perf_output_handle = 56" "alignof struct_perf_output_handle = 8" "wf_ctype struct_perf_output_handle"
  by (simp_all add: struct_perf_output_handle_def ctype_defs ctype_layout layout_eval)

definition union_perf_mem_data_src :: ctype where
  "union_perf_mem_data_src = Union ''perf_mem_data_src'' False [
     Field ''val'' typedef___u64,
     Anon (Struct '''' False [
         Bits ''mem_op'' typedef___u64 5,
         Bits ''mem_lvl'' typedef___u64 14,
         Bits ''mem_snoop'' typedef___u64 5,
         Bits ''mem_lock'' typedef___u64 2,
         Bits ''mem_dtlb'' typedef___u64 7,
         Bits ''mem_lvl_num'' typedef___u64 4,
         Bits ''mem_remote'' typedef___u64 1,
         Bits ''mem_snoopx'' typedef___u64 2,
         Bits ''mem_rsvd'' typedef___u64 24])]"

lemma union_perf_mem_data_src_layout [ctype_layout]:
  "sizeof union_perf_mem_data_src = 8" "alignof union_perf_mem_data_src = 8" "wf_ctype union_perf_mem_data_src"
  by (simp_all add: union_perf_mem_data_src_def ctype_defs ctype_layout layout_eval)

definition struct_perf_regs :: ctype where
  "struct_perf_regs = Struct ''perf_regs'' False [
     Field ''abi'' typedef___u64,
     Field ''regs'' (Ptr ''struct pt_regs'')]"

lemma struct_perf_regs_layout [ctype_layout]:
  "sizeof struct_perf_regs = 16" "alignof struct_perf_regs = 8" "wf_ctype struct_perf_regs"
  by (simp_all add: struct_perf_regs_def ctype_defs ctype_layout layout_eval)

definition struct_pt_regs :: ctype where
  "struct_pt_regs = Struct ''pt_regs'' False [
     Field ''r15'' (Base CULong),
     Field ''r14'' (Base CULong),
     Field ''r13'' (Base CULong),
     Field ''r12'' (Base CULong),
     Field ''bp'' (Base CULong),
     Field ''bx'' (Base CULong),
     Field ''r11'' (Base CULong),
     Field ''r10'' (Base CULong),
     Field ''r9'' (Base CULong),
     Field ''r8'' (Base CULong),
     Field ''ax'' (Base CULong),
     Field ''cx'' (Base CULong),
     Field ''dx'' (Base CULong),
     Field ''si'' (Base CULong),
     Field ''di'' (Base CULong),
     Field ''orig_ax'' (Base CULong),
     Field ''ip'' (Base CULong),
     Field ''cs'' (Base CULong),
     Field ''flags'' (Base CULong),
     Field ''sp'' (Base CULong),
     Field ''ss'' (Base CULong)]"

lemma struct_pt_regs_layout [ctype_layout]:
  "sizeof struct_pt_regs = 168" "alignof struct_pt_regs = 8" "wf_ctype struct_pt_regs"
  by (simp_all add: struct_pt_regs_def ctype_defs ctype_layout layout_eval)

definition struct_perf_sample_data :: ctype where
  "struct_perf_sample_data = Struct ''perf_sample_data'' False [
     Field ''addr'' typedef_u64,
     Field ''raw'' (Ptr ''struct perf_raw_record''),
     Field ''br_stack'' (Ptr ''struct perf_branch_stack''),
     Field ''period'' typedef_u64,
     Field ''weight'' typedef_u64,
     Field ''txn'' typedef_u64,
     Field ''data_src'' union_perf_mem_data_src,
     Field ''type'' typedef_u64,
     Field ''ip'' typedef_u64,
     Field ''tid_entry'' (Struct '''' False [
         Field ''pid'' typedef_u32,
         Field ''tid'' typedef_u32]),
     Field ''time'' typedef_u64,
     Field ''id'' typedef_u64,
     Field ''stream_id'' typedef_u64,
     Field ''cpu_entry'' (Struct '''' False [
         Field ''cpu'' typedef_u32,
         Field ''reserved'' typedef_u32]),
     Field ''callchain'' (Ptr ''struct perf_callchain_entry''),
     Field ''aux_size'' typedef_u64,
     Field ''regs_user'' struct_perf_regs,
     Field ''regs_user_copy'' struct_pt_regs,
     Field ''regs_intr'' struct_perf_regs,
     Field ''stack_user_size'' typedef_u64,
     Field ''phys_addr'' typedef_u64,
     Field ''cgroup'' typedef_u64,
     Pad (Base CLong) 64,
     Pad (Base CLong) 64,
     Pad (Base CLong) 64,
     Pad (Base CLong) 64]"

lemma struct_perf_sample_data_layout [ctype_layout]:
  "sizeof struct_perf_sample_data = 384" "alignof struct_perf_sample_data = 8" "wf_ctype struct_perf_sample_data"
  by (simp_all add: struct_perf_sample_data_def ctype_defs ctype_layout layout_eval)

definition struct_perf_event_mmap_page :: ctype where
  "struct_perf_event_mmap_page = Struct ''perf_event_mmap_page'' False [
     Field ''version'' typedef___u32,
     Field ''compat_version'' typedef___u32,
     Field ''lock'' typedef___u32,
     Field ''index'' typedef___u32,
     Field ''offset'' typedef___s64,
     Field ''time_enabled'' typedef___u64,
     Field ''time_running'' typedef___u64,
     Anon (Union '''' False [
         Field ''capabilities'' typedef___u64,
         Anon (Struct '''' False [
             Bits ''cap_bit0'' typedef___u64 1,
             Bits ''cap_bit0_is_deprecated'' typedef___u64 1,
             Bits ''cap_user_rdpmc'' typedef___u64 1,
             Bits ''cap_user_time'' typedef___u64 1,
             Bits ''cap_user_time_zero'' typedef___u64 1,
             Bits ''cap_____res'' typedef___u64 59])]),
     Field ''pmc_width'' typedef___u16,
     Field ''time_shift'' typedef___u16,
     Field ''time_mult'' typedef___u32,
     Field ''time_offset'' typedef___u64,
     Field ''time_zero'' typedef___u64,
     Field ''size'' typedef___u32,
     Field ''__reserved'' (Array 948 typedef___u8),
     Field ''data_head'' typedef___u64,
     Field ''data_tail'' typedef___u64,
     Field ''data_offset'' typedef___u64,
     Field ''data_size'' typedef___u64,
     Field ''aux_head'' typedef___u64,
     Field ''aux_tail'' typedef___u64,
     Field ''aux_offset'' typedef___u64,
     Field ''aux_size'' typedef___u64]"

lemma struct_perf_event_mmap_page_layout [ctype_layout]:
  "sizeof struct_perf_event_mmap_page = 1088" "alignof struct_perf_event_mmap_page = 8" "wf_ctype struct_perf_event_mmap_page"
  by (simp_all add: struct_perf_event_mmap_page_def ctype_defs ctype_layout layout_eval)

definition struct_perf_event_header :: ctype where
  "struct_perf_event_header = Struct ''perf_event_header'' False [
     Field ''type'' typedef___u32,
     Field ''misc'' typedef___u16,
     Field ''size'' typedef___u16]"

lemma struct_perf_event_header_layout [ctype_layout]:
  "sizeof struct_perf_event_header = 8" "alignof struct_perf_event_header = 4" "wf_ctype struct_perf_event_header"
  by (simp_all add: struct_perf_event_header_def ctype_defs ctype_layout layout_eval)

definition struct_perf_callchain_entry :: ctype where
  "struct_perf_callchain_entry = Struct ''perf_callchain_entry'' False [
     Field ''nr'' typedef___u64,
     Field ''ip'' (Array 0 typedef___u64)]"

lemma struct_perf_callchain_entry_layout [ctype_layout]:
  "sizeof struct_perf_callchain_entry = 8" "alignof struct_perf_callchain_entry = 8" "wf_ctype struct_perf_callchain_entry"
  by (simp_all add: struct_perf_callchain_entry_def ctype_defs ctype_layout layout_eval)

definition struct_perf_callchain_entry_ctx :: ctype where
  "struct_perf_callchain_entry_ctx = Struct ''perf_callchain_entry_ctx'' False [
     Field ''entry'' (Ptr ''struct perf_callchain_entry''),
     Field ''max_stack'' typedef_u32,
     Field ''nr'' typedef_u32,
     Field ''contexts'' (Base CShort),
     Field ''contexts_maxed'' typedef_bool]"

lemma struct_perf_callchain_entry_ctx_layout [ctype_layout]:
  "sizeof struct_perf_callchain_entry_ctx = 24" "alignof struct_perf_callchain_entry_ctx = 8" "wf_ctype struct_perf_callchain_entry_ctx"
  by (simp_all add: struct_perf_callchain_entry_ctx_def ctype_defs ctype_layout layout_eval)

definition typedef_perf_copy_f :: ctype where
  [ctype_defs]: "typedef_perf_copy_f = FnPtr"

definition struct_perf_raw_frag :: ctype where
  "struct_perf_raw_frag = Struct ''perf_raw_frag'' True [
     Anon (Union '''' False [
         Field ''next'' (Ptr ''struct perf_raw_frag''),
         Field ''pad'' (Base CULong)]),
     Field ''copy'' typedef_perf_copy_f,
     Field ''data'' (Ptr ''void''),
     Field ''size'' typedef_u32]"

lemma struct_perf_raw_frag_layout [ctype_layout]:
  "sizeof struct_perf_raw_frag = 28" "alignof struct_perf_raw_frag = 1" "wf_ctype struct_perf_raw_frag"
  by (simp_all add: struct_perf_raw_frag_def ctype_defs ctype_layout layout_eval)

definition struct_perf_raw_record :: ctype where
  "struct_perf_raw_record = Struct ''perf_raw_record'' False [
     Field ''frag'' struct_perf_raw_frag,
     Field ''size'' typedef_u32]"

lemma struct_perf_raw_record_layout [ctype_layout]:
  "sizeof struct_perf_raw_record = 32" "alignof struct_perf_raw_record = 4" "wf_ctype struct_perf_raw_record"
  by (simp_all add: struct_perf_raw_record_def ctype_defs ctype_layout layout_eval)

definition struct_perf_branch_entry :: ctype where
  "struct_perf_branch_entry = Struct ''perf_branch_entry'' False [
     Field ''from'' typedef___u64,
     Field ''to'' typedef___u64,
     Bits ''mispred'' typedef___u64 1,
     Bits ''predicted'' typedef___u64 1,
     Bits ''in_tx'' typedef___u64 1,
     Bits ''abort'' typedef___u64 1,
     Bits ''cycles'' typedef___u64 16,
     Bits ''type'' typedef___u64 4,
     Bits ''reserved'' typedef___u64 40]"

lemma struct_perf_branch_entry_layout [ctype_layout]:
  "sizeof struct_perf_branch_entry = 24" "alignof struct_perf_branch_entry = 8" "wf_ctype struct_perf_branch_entry"
  by (simp_all add: struct_perf_branch_entry_def ctype_defs ctype_layout layout_eval)

definition struct_perf_branch_stack :: ctype where
  "struct_perf_branch_stack = Struct ''perf_branch_stack'' False [
     Field ''nr'' typedef___u64,
     Field ''hw_idx'' typedef___u64,
     Field ''entries'' (Array 0 struct_perf_branch_entry)]"

lemma struct_perf_branch_stack_layout [ctype_layout]:
  "sizeof struct_perf_branch_stack = 16" "alignof struct_perf_branch_stack = 8" "wf_ctype struct_perf_branch_stack"
  by (simp_all add: struct_perf_branch_stack_def ctype_defs ctype_layout layout_eval)

definition struct_perf_event_query_bpf :: ctype where
  "struct_perf_event_query_bpf = Struct ''perf_event_query_bpf'' False [
     Field ''ids_len'' typedef___u32,
     Field ''prog_cnt'' typedef___u32,
     Field ''ids'' (Array 0 typedef___u32)]"

lemma struct_perf_event_query_bpf_layout [ctype_layout]:
  "sizeof struct_perf_event_query_bpf = 8" "alignof struct_perf_event_query_bpf = 4" "wf_ctype struct_perf_event_query_bpf"
  by (simp_all add: struct_perf_event_query_bpf_def ctype_defs ctype_layout layout_eval)

definition enum_perf_addr_filter_action_t :: ctype where
  "enum_perf_addr_filter_action_t = Enum ''perf_addr_filter_action_t'' [
     (''PERF_ADDR_FILTER_ACTION_STOP'', 0),
     (''PERF_ADDR_FILTER_ACTION_START'', 1),
     (''PERF_ADDR_FILTER_ACTION_FILTER'', 2)]"

lemma enum_perf_addr_filter_action_t_layout [ctype_layout]:
  "sizeof enum_perf_addr_filter_action_t = 4" "alignof enum_perf_addr_filter_action_t = 4" "wf_ctype enum_perf_addr_filter_action_t"
  by (simp_all add: enum_perf_addr_filter_action_t_def ctype_defs ctype_layout layout_eval)

definition struct_perf_addr_filter :: ctype where
  "struct_perf_addr_filter = Struct ''perf_addr_filter'' False [
     Field ''entry'' struct_list_head,
     Field ''path'' struct_path,
     Field ''offset'' (Base CULong),
     Field ''size'' (Base CULong),
     Field ''action'' enum_perf_addr_filter_action_t]"

lemma struct_perf_addr_filter_layout [ctype_layout]:
  "sizeof struct_perf_addr_filter = 56" "alignof struct_perf_addr_filter = 8" "wf_ctype struct_perf_addr_filter"
  by (simp_all add: struct_perf_addr_filter_def ctype_defs ctype_layout layout_eval)

definition struct_perf_read_data :: ctype where
  "struct_perf_read_data = Struct ''perf_read_data'' False [
     Field ''event'' (Ptr ''struct perf_event''),
     Field ''group'' typedef_bool,
     Field ''ret'' (Base CInt)]"

lemma struct_perf_read_data_layout [ctype_layout]:
  "sizeof struct_perf_read_data = 16" "alignof struct_perf_read_data = 8" "wf_ctype struct_perf_read_data"
  by (simp_all add: struct_perf_read_data_def ctype_defs ctype_layout layout_eval)

definition struct_perf_read_event :: ctype where
  "struct_perf_read_event = Struct ''perf_read_event'' False [
     Field ''header'' struct_perf_event_header,
     Field ''pid'' typedef_u32,
     Field ''tid'' typedef_u32]"

lemma struct_perf_read_event_layout [ctype_layout]:
  "sizeof struct_perf_read_event = 16" "alignof struct_perf_read_event = 4" "wf_ctype struct_perf_read_event"
  by (simp_all add: struct_perf_read_event_def ctype_defs ctype_layout layout_eval)

definition struct_perf_task_event :: ctype where
  "struct_perf_task_event = Struct ''perf_task_event'' False [
     Field ''task'' (Ptr ''struct task_struct''),
     Field ''task_ctx'' (Ptr ''struct perf_event_context''),
     Field ''event_id'' (Struct '''' False [
         Field ''header'' struct_perf_event_header,
         Field ''pid'' typedef_u32,
         Field ''ppid'' typedef_u32,
         Field ''tid'' typedef_u32,
         Field ''ptid'' typedef_u32,
         Field ''time'' typedef_u64])]"

lemma struct_perf_task_event_layout [ctype_layout]:
  "sizeof struct_perf_task_event = 48" "alignof struct_perf_task_event = 8" "wf_ctype struct_perf_task_event"
  by (simp_all add: struct_perf_task_event_def ctype_defs ctype_layout layout_eval)

definition struct_perf_comm_event :: ctype where
  "struct_perf_comm_event = Struct ''perf_comm_event'' False [
     Field ''task'' (Ptr ''struct task_struct''),
     Field ''comm'' (Ptr ''char''),
     Field ''comm_size'' (Base CInt),
     Field ''event_id'' (Struct '''' False [
         Field ''header'' struct_perf_event_header,
         Field ''pid'' typedef_u32,
         Field ''tid'' typedef_u32])]"

lemma struct_perf_comm_event_layout [ctype_layout]:
  "sizeof struct_perf_comm_event = 40" "alignof struct_perf_comm_event = 8" "wf_ctype struct_perf_comm_event"
  by (simp_all add: struct_perf_comm_event_def ctype_defs ctype_layout layout_eval)

definition struct_perf_mmap_event :: ctype where
  "struct_perf_mmap_event = Struct ''perf_mmap_event'' False [
     Field ''vma'' (Ptr ''struct vm_area_struct''),
     Field ''file_name'' (Ptr ''char''),
     Field ''file_size'' (Base CInt),
     Field ''maj'' (Base CInt),
     Field ''min'' (Base CInt),
     Field ''ino'' typedef_u64,
     Field ''ino_generation'' typedef_u64,
     Field ''prot'' typedef_u32,
     Field ''flags'' typedef_u32,
     Field ''event_id'' (Struct '''' False [
         Field ''header'' struct_perf_event_header,
         Field ''pid'' typedef_u32,
         Field ''tid'' typedef_u32,
         Field ''start'' typedef_u64,
         Field ''len'' typedef_u64,
         Field ''pgoff'' typedef_u64])]"

lemma struct_perf_mmap_event_layout [ctype_layout]:
  "sizeof struct_perf_mmap_event = 96" "alignof struct_perf_mmap_event = 8" "wf_ctype struct_perf_mmap_event"
  by (simp_all add: struct_perf_mmap_event_def ctype_defs ctype_layout layout_eval)

definition struct_perf_switch_event :: ctype where
  "struct_perf_switch_event = Struct ''perf_switch_event'' False [
     Field ''task'' (Ptr ''struct task_struct''),
     Field ''next_prev'' (Ptr ''struct task_struct''),
     Field ''event_id'' (Struct '''' False [
         Field ''header'' struct_perf_event_header,
         Field ''next_prev_pid'' typedef_u32,
         Field ''next_prev_tid'' typedef_u32])]"

lemma struct_perf_switch_event_layout [ctype_layout]:
  "sizeof struct_perf_switch_event = 32" "alignof struct_perf_switch_event = 8" "wf_ctype struct_perf_switch_event"
  by (simp_all add: struct_perf_switch_event_def ctype_defs ctype_layout layout_eval)

definition struct_perf_ksymbol_event :: ctype where
  "struct_perf_ksymbol_event = Struct ''perf_ksymbol_event'' False [
     Field ''name'' (Ptr ''char''),
     Field ''name_len'' (Base CInt),
     Field ''event_id'' (Struct '''' False [
         Field ''header'' struct_perf_event_header,
         Field ''addr'' typedef_u64,
         Field ''len'' typedef_u32,
         Field ''ksym_type'' typedef_u16,
         Field ''flags'' typedef_u16])]"

lemma struct_perf_ksymbol_event_layout [ctype_layout]:
  "sizeof struct_perf_ksymbol_event = 40" "alignof struct_perf_ksymbol_event = 8" "wf_ctype struct_perf_ksymbol_event"
  by (simp_all add: struct_perf_ksymbol_event_def ctype_defs ctype_layout layout_eval)

definition struct_perf_bpf_event :: ctype where
  "struct_perf_bpf_event = Struct ''perf_bpf_event'' False [
     Field ''prog'' (Ptr ''struct bpf_prog''),
     Field ''event_id'' (Struct '''' False [
         Field ''header'' struct_perf_event_header,
         Field ''type'' typedef_u16,
         Field ''flags'' typedef_u16,
         Field ''id'' typedef_u32,
         Field ''tag'' (Array 8 typedef_u8)])]"

lemma struct_perf_bpf_event_layout [ctype_layout]:
  "sizeof struct_perf_bpf_event = 32" "alignof struct_perf_bpf_event = 8" "wf_ctype struct_perf_bpf_event"
  by (simp_all add: struct_perf_bpf_event_def ctype_defs ctype_layout layout_eval)

definition struct_perf_ns_link_info :: ctype where
  "struct_perf_ns_link_info = Struct ''perf_ns_link_info'' False [
     Field ''dev'' typedef___u64,
     Field ''ino'' typedef___u64]"

lemma struct_perf_ns_link_info_layout [ctype_layout]:
  "sizeof struct_perf_ns_link_info = 16" "alignof struct_perf_ns_link_info = 8" "wf_ctype struct_perf_ns_link_info"
  by (simp_all add: struct_perf_ns_link_info_def ctype_defs ctype_layout layout_eval)

definition struct_perf_namespaces_event :: ctype where
  "struct_perf_namespaces_event = Struct ''perf_namespaces_event'' False [
     Field ''task'' (Ptr ''struct task_struct''),
     Field ''event_id'' (Struct '''' False [
         Field ''header'' struct_perf_event_header,
         Field ''pid'' typedef_u32,
         Field ''tid'' typedef_u32,
         Field ''nr_namespaces'' typedef_u64,
         Field ''link_info'' (Array 7 struct_perf_ns_link_info)])]"

lemma struct_perf_namespaces_event_layout [ctype_layout]:
  "sizeof struct_perf_namespaces_event = 144" "alignof struct_perf_namespaces_event = 8" "wf_ctype struct_perf_namespaces_event"
  by (simp_all add: struct_perf_namespaces_event_def ctype_defs ctype_layout layout_eval)

definition struct_qrwlock :: ctype where
  "struct_qrwlock = Struct ''qrwlock'' False [
     Anon (Union '''' False [
         Field ''cnts'' typedef_atomic_t,
         Anon (Struct '''' False [
             Field ''wlocked'' typedef_u8,
             Field ''__lstate'' (Array 3 typedef_u8)])]),
     Field ''wait_lock'' typedef_arch_spinlock_t]"

lemma struct_qrwlock_layout [ctype_layout]:
  "sizeof struct_qrwlock = 8" "alignof struct_qrwlock = 4" "wf_ctype struct_qrwlock"
  by (simp_all add: struct_qrwlock_def ctype_defs ctype_layout layout_eval)

definition typedef_arch_rwlock_t :: ctype where
  [ctype_defs]: "typedef_arch_rwlock_t = struct_qrwlock"

definition typedef_rwlock_t :: ctype where
  "typedef_rwlock_t = Struct '''' False [
     Field ''raw_lock'' typedef_arch_rwlock_t]"

lemma typedef_rwlock_t_layout [ctype_layout]:
  "sizeof typedef_rwlock_t = 8" "alignof typedef_rwlock_t = 4" "wf_ctype typedef_rwlock_t"
  by (simp_all add: typedef_rwlock_t_def ctype_defs ctype_layout layout_eval)

definition struct_fasync_struct :: ctype where
  "struct_fasync_struct = Struct ''fasync_struct'' False [
     Field ''fa_lock'' typedef_rwlock_t,
     Field ''magic'' (Base CInt),
     Field ''fa_fd'' (Base CInt),
     Field ''fa_next'' (Ptr ''struct fasync_struct''),
     Field ''fa_file'' (Ptr ''struct file''),
     Field ''fa_rcu'' struct_callback_head]"

lemma struct_fasync_struct_layout [ctype_layout]:
  "sizeof struct_fasync_struct = 48" "alignof struct_fasync_struct = 8" "wf_ctype struct_fasync_struct"
  by (simp_all add: struct_fasync_struct_def ctype_defs ctype_layout layout_eval)

definition struct_kref :: ctype where
  "struct_kref = Struct ''kref'' False [
     Field ''refcount'' typedef_refcount_t]"

lemma struct_kref_layout [ctype_layout]:
  "sizeof struct_kref = 4" "alignof struct_kref = 4" "wf_ctype struct_kref"
  by (simp_all add: struct_kref_def ctype_defs ctype_layout layout_eval)

definition struct_idr :: ctype where
  "struct_idr = Struct ''idr'' False [
     Field ''idr_rt'' struct_xarray,
     Field ''idr_base'' (Base CUInt),
     Field ''idr_next'' (Base CUInt)]"

lemma struct_idr_layout [ctype_layout]:
  "sizeof struct_idr = 24" "alignof struct_idr = 8" "wf_ctype struct_idr"
  by (simp_all add: struct_idr_def ctype_defs ctype_layout layout_eval)

definition struct_ns_common :: ctype where
  "struct_ns_common = Struct ''ns_common'' False [
     Field ''stashed'' typedef_atomic_long_t,
     Field ''ops'' (Ptr ''struct proc_ns_operations''),
     Field ''inum'' (Base CUInt)]"

lemma struct_ns_common_layout [ctype_layout]:
  "sizeof struct_ns_common = 24" "alignof struct_ns_common = 8" "wf_ctype struct_ns_common"
  by (simp_all add: struct_ns_common_def ctype_defs ctype_layout layout_eval)

definition struct_pid_namespace :: ctype where
  "struct_pid_namespace = Struct ''pid_namespace'' False [
     Field ''kref'' struct_kref,
     Field ''idr'' struct_idr,
     Field ''rcu'' struct_callback_head,
     Field ''pid_allocated'' (Base CUInt),
     Field ''child_reaper'' (Ptr ''struct task_struct''),
     Field ''pid_cachep'' (Ptr ''struct kmem_cache''),
     Field ''level'' (Base CUInt),
     Field ''parent'' (Ptr ''struct pid_namespace''),
     Field ''bacct'' (Ptr ''struct fs_pin''),
     Field ''user_ns'' (Ptr ''struct user_namespace''),
     Field ''ucounts'' (Ptr ''struct ucounts''),
     Field ''reboot'' (Base CInt),
     Field ''ns'' struct_ns_common]"

lemma struct_pid_namespace_layout [ctype_layout]:
  "sizeof struct_pid_namespace = 144" "alignof struct_pid_namespace = 8" "wf_ctype struct_pid_namespace"
  by (simp_all add: struct_pid_namespace_def ctype_defs ctype_layout layout_eval)

definition struct_trace_event :: ctype where
  "struct_trace_event = Struct ''trace_event'' False [
     Field ''node'' struct_hlist_node,
     Field ''list'' struct_list_head,
     Field ''type'' (Base CInt),
     Field ''funcs'' (Ptr ''struct trace_event_functions'')]"

lemma struct_trace_event_layout [ctype_layout]:
  "sizeof struct_trace_event = 48" "alignof struct_trace_event = 8" "wf_ctype struct_trace_event"
  by (simp_all add: struct_trace_event_def ctype_defs ctype_layout layout_eval)

definition struct_trace_event_call :: ctype where
  "struct_trace_event_call = Struct ''trace_event_call'' False [
     Field ''list'' struct_list_head,
     Field ''class'' (Ptr ''struct trace_event_class''),
     Anon (Union '''' False [
         Field ''name'' (Ptr ''char''),
         Field ''tp'' (Ptr ''struct tracepoint'')]),
     Field ''event'' struct_trace_event,
     Field ''print_fmt'' (Ptr ''char''),
     Field ''filter'' (Ptr ''struct event_filter''),
     Field ''mod'' (Ptr ''void''),
     Field ''data'' (Ptr ''void''),
     Field ''flags'' (Base CInt),
     Field ''perf_refcount'' (Base CInt),
     Field ''perf_events'' (Ptr ''struct hlist_head''),
     Field ''prog_array'' (Ptr ''struct bpf_prog_array''),
     Field ''perf_perm'' FnPtr]"

lemma struct_trace_event_call_layout [ctype_layout]:
  "sizeof struct_trace_event_call = 144" "alignof struct_trace_event_call = 8" "wf_ctype struct_trace_event_call"
  by (simp_all add: struct_trace_event_call_def ctype_defs ctype_layout layout_eval)

definition enum_perf_sw_ids :: ctype where
  "enum_perf_sw_ids = Enum ''perf_sw_ids'' [
     (''PERF_COUNT_SW_CPU_CLOCK'', 0),
     (''PERF_COUNT_SW_TASK_CLOCK'', 1),
     (''PERF_COUNT_SW_PAGE_FAULTS'', 2),
     (''PERF_COUNT_SW_CONTEXT_SWITCHES'', 3),
     (''PERF_COUNT_SW_CPU_MIGRATIONS'', 4),
     (''PERF_COUNT_SW_PAGE_FAULTS_MIN'', 5),
     (''PERF_COUNT_SW_PAGE_FAULTS_MAJ'', 6),
     (''PERF_COUNT_SW_ALIGNMENT_FAULTS'', 7),
     (''PERF_COUNT_SW_EMULATION_FAULTS'', 8),
     (''PERF_COUNT_SW_DUMMY'', 9),
     (''PERF_COUNT_SW_BPF_OUTPUT'', 10),
     (''PERF_COUNT_SW_MAX'', 11)]"

lemma enum_perf_sw_ids_layout [ctype_layout]:
  "sizeof enum_perf_sw_ids = 4" "alignof enum_perf_sw_ids = 4" "wf_ctype enum_perf_sw_ids"
  by (simp_all add: enum_perf_sw_ids_def ctype_defs ctype_layout layout_eval)

definition enum_perf_branch_sample_type_shift :: ctype where
  "enum_perf_branch_sample_type_shift = Enum ''perf_branch_sample_type_shift'' [
     (''PERF_SAMPLE_BRANCH_USER_SHIFT'', 0),
     (''PERF_SAMPLE_BRANCH_KERNEL_SHIFT'', 1),
     (''PERF_SAMPLE_BRANCH_HV_SHIFT'', 2),
     (''PERF_SAMPLE_BRANCH_ANY_SHIFT'', 3),
     (''PERF_SAMPLE_BRANCH_ANY_CALL_SHIFT'', 4),
     (''PERF_SAMPLE_BRANCH_ANY_RETURN_SHIFT'', 5),
     (''PERF_SAMPLE_BRANCH_IND_CALL_SHIFT'', 6),
     (''PERF_SAMPLE_BRANCH_ABORT_TX_SHIFT'', 7),
     (''PERF_SAMPLE_BRANCH_IN_TX_SHIFT'', 8),
     (''PERF_SAMPLE_BRANCH_NO_TX_SHIFT'', 9),
     (''PERF_SAMPLE_BRANCH_COND_SHIFT'', 10),
     (''PERF_SAMPLE_BRANCH_CALL_STACK_SHIFT'', 11),
     (''PERF_SAMPLE_BRANCH_IND_JUMP_SHIFT'', 12),
     (''PERF_SAMPLE_BRANCH_CALL_SHIFT'', 13),
     (''PERF_SAMPLE_BRANCH_NO_FLAGS_SHIFT'', 14),
     (''PERF_SAMPLE_BRANCH_NO_CYCLES_SHIFT'', 15),
     (''PERF_SAMPLE_BRANCH_TYPE_SAVE_SHIFT'', 16),
     (''PERF_SAMPLE_BRANCH_HW_INDEX_SHIFT'', 17),
     (''PERF_SAMPLE_BRANCH_MAX_SHIFT'', 18)]"

lemma enum_perf_branch_sample_type_shift_layout [ctype_layout]:
  "sizeof enum_perf_branch_sample_type_shift = 4" "alignof enum_perf_branch_sample_type_shift = 4" "wf_ctype enum_perf_branch_sample_type_shift"
  by (simp_all add: enum_perf_branch_sample_type_shift_def ctype_defs ctype_layout layout_eval)

definition enum_perf_type_id :: ctype where
  "enum_perf_type_id = Enum ''perf_type_id'' [
     (''PERF_TYPE_HARDWARE'', 0),
     (''PERF_TYPE_SOFTWARE'', 1),
     (''PERF_TYPE_TRACEPOINT'', 2),
     (''PERF_TYPE_HW_CACHE'', 3),
     (''PERF_TYPE_RAW'', 4),
     (''PERF_TYPE_BREAKPOINT'', 5),
     (''PERF_TYPE_MAX'', 6)]"

lemma enum_perf_type_id_layout [ctype_layout]:
  "sizeof enum_perf_type_id = 4" "alignof enum_perf_type_id = 4" "wf_ctype enum_perf_type_id"
  by (simp_all add: enum_perf_type_id_def ctype_defs ctype_layout layout_eval)

definition enum_perf_hw_id :: ctype where
  "enum_perf_hw_id = Enum ''perf_hw_id'' [
     (''PERF_COUNT_HW_CPU_CYCLES'', 0),
     (''PERF_COUNT_HW_INSTRUCTIONS'', 1),
     (''PERF_COUNT_HW_CACHE_REFERENCES'', 2),
     (''PERF_COUNT_HW_CACHE_MISSES'', 3),
     (''PERF_COUNT_HW_BRANCH_INSTRUCTIONS'', 4),
     (''PERF_COUNT_HW_BRANCH_MISSES'', 5),
     (''PERF_COUNT_HW_BUS_CYCLES'', 6),
     (''PERF_COUNT_HW_STALLED_CYCLES_FRONTEND'', 7),
     (''PERF_COUNT_HW_STALLED_CYCLES_BACKEND'', 8),
     (''PERF_COUNT_HW_REF_CPU_CYCLES'', 9),
     (''PERF_COUNT_HW_MAX'', 10)]"

lemma enum_perf_hw_id_layout [ctype_layout]:
  "sizeof enum_perf_hw_id = 4" "alignof enum_perf_hw_id = 4" "wf_ctype enum_perf_hw_id"
  by (simp_all add: enum_perf_hw_id_def ctype_defs ctype_layout layout_eval)

definition enum_perf_hw_cache_id :: ctype where
  "enum_perf_hw_cache_id = Enum ''perf_hw_cache_id'' [
     (''PERF_COUNT_HW_CACHE_L1D'', 0),
     (''PERF_COUNT_HW_CACHE_L1I'', 1),
     (''PERF_COUNT_HW_CACHE_LL'', 2),
     (''PERF_COUNT_HW_CACHE_DTLB'', 3),
     (''PERF_COUNT_HW_CACHE_ITLB'', 4),
     (''PERF_COUNT_HW_CACHE_BPU'', 5),
     (''PERF_COUNT_HW_CACHE_NODE'', 6),
     (''PERF_COUNT_HW_CACHE_MAX'', 7)]"

lemma enum_perf_hw_cache_id_layout [ctype_layout]:
  "sizeof enum_perf_hw_cache_id = 4" "alignof enum_perf_hw_cache_id = 4" "wf_ctype enum_perf_hw_cache_id"
  by (simp_all add: enum_perf_hw_cache_id_def ctype_defs ctype_layout layout_eval)

definition enum_perf_hw_cache_op_id :: ctype where
  "enum_perf_hw_cache_op_id = Enum ''perf_hw_cache_op_id'' [
     (''PERF_COUNT_HW_CACHE_OP_READ'', 0),
     (''PERF_COUNT_HW_CACHE_OP_WRITE'', 1),
     (''PERF_COUNT_HW_CACHE_OP_PREFETCH'', 2),
     (''PERF_COUNT_HW_CACHE_OP_MAX'', 3)]"

lemma enum_perf_hw_cache_op_id_layout [ctype_layout]:
  "sizeof enum_perf_hw_cache_op_id = 4" "alignof enum_perf_hw_cache_op_id = 4" "wf_ctype enum_perf_hw_cache_op_id"
  by (simp_all add: enum_perf_hw_cache_op_id_def ctype_defs ctype_layout layout_eval)

definition enum_perf_hw_cache_op_result_id :: ctype where
  "enum_perf_hw_cache_op_result_id = Enum ''perf_hw_cache_op_result_id'' [
     (''PERF_COUNT_HW_CACHE_RESULT_ACCESS'', 0),
     (''PERF_COUNT_HW_CACHE_RESULT_MISS'', 1),
     (''PERF_COUNT_HW_CACHE_RESULT_MAX'', 2)]"

lemma enum_perf_hw_cache_op_result_id_layout [ctype_layout]:
  "sizeof enum_perf_hw_cache_op_result_id = 4" "alignof enum_perf_hw_cache_op_result_id = 4" "wf_ctype enum_perf_hw_cache_op_result_id"
  by (simp_all add: enum_perf_hw_cache_op_result_id_def ctype_defs ctype_layout layout_eval)

definition enum_perf_event_sample_format :: ctype where
  "enum_perf_event_sample_format = Enum ''perf_event_sample_format'' [
     (''PERF_SAMPLE_IP'', 1),
     (''PERF_SAMPLE_TID'', 2),
     (''PERF_SAMPLE_TIME'', 4),
     (''PERF_SAMPLE_ADDR'', 8),
     (''PERF_SAMPLE_READ'', 16),
     (''PERF_SAMPLE_CALLCHAIN'', 32),
     (''PERF_SAMPLE_ID'', 64),
     (''PERF_SAMPLE_CPU'', 128),
     (''PERF_SAMPLE_PERIOD'', 256),
     (''PERF_SAMPLE_STREAM_ID'', 512),
     (''PERF_SAMPLE_RAW'', 1024),
     (''PERF_SAMPLE_BRANCH_STACK'', 2048),
     (''PERF_SAMPLE_REGS_USER'', 4096),
     (''PERF_SAMPLE_STACK_USER'', 8192),
     (''PERF_SAMPLE_WEIGHT'', 16384),
     (''PERF_SAMPLE_DATA_SRC'', 32768),
     (''PERF_SAMPLE_IDENTIFIER'', 65536),
     (''PERF_SAMPLE_TRANSACTION'', 131072),
     (''PERF_SAMPLE_REGS_INTR'', 262144),
     (''PERF_SAMPLE_PHYS_ADDR'', 524288),
     (''PERF_SAMPLE_AUX'', 1048576),
     (''PERF_SAMPLE_CGROUP'', 2097152),
     (''PERF_SAMPLE_MAX'', 4194304),
     (''__PERF_SAMPLE_CALLCHAIN_EARLY'', 0)]"

lemma enum_perf_event_sample_format_layout [ctype_layout]:
  "sizeof enum_perf_event_sample_format = 4" "alignof enum_perf_event_sample_format = 4" "wf_ctype enum_perf_event_sample_format"
  by (simp_all add: enum_perf_event_sample_format_def ctype_defs ctype_layout layout_eval)

definition enum_perf_branch_sample_type :: ctype where
  "enum_perf_branch_sample_type = Enum ''perf_branch_sample_type'' [
     (''PERF_SAMPLE_BRANCH_USER'', 1),
     (''PERF_SAMPLE_BRANCH_KERNEL'', 2),
     (''PERF_SAMPLE_BRANCH_HV'', 4),
     (''PERF_SAMPLE_BRANCH_ANY'', 8),
     (''PERF_SAMPLE_BRANCH_ANY_CALL'', 16),
     (''PERF_SAMPLE_BRANCH_ANY_RETURN'', 32),
     (''PERF_SAMPLE_BRANCH_IND_CALL'', 64),
     (''PERF_SAMPLE_BRANCH_ABORT_TX'', 128),
     (''PERF_SAMPLE_BRANCH_IN_TX'', 256),
     (''PERF_SAMPLE_BRANCH_NO_TX'', 512),
     (''PERF_SAMPLE_BRANCH_COND'', 1024),
     (''PERF_SAMPLE_BRANCH_CALL_STACK'', 2048),
     (''PERF_SAMPLE_BRANCH_IND_JUMP'', 4096),
     (''PERF_SAMPLE_BRANCH_CALL'', 8192),
     (''PERF_SAMPLE_BRANCH_NO_FLAGS'', 16384),
     (''PERF_SAMPLE_BRANCH_NO_CYCLES'', 32768),
     (''PERF_SAMPLE_BRANCH_TYPE_SAVE'', 65536),
     (''PERF_SAMPLE_BRANCH_HW_INDEX'', 131072),
     (''PERF_SAMPLE_BRANCH_MAX'', 262144)]"

lemma enum_perf_branch_sample_type_layout [ctype_layout]:
  "sizeof enum_perf_branch_sample_type = 4" "alignof enum_perf_branch_sample_type = 4" "wf_ctype enum_perf_branch_sample_type"
  by (simp_all add: enum_perf_branch_sample_type_def ctype_defs ctype_layout layout_eval)

definition enum_perf_event_read_format :: ctype where
  "enum_perf_event_read_format = Enum ''perf_event_read_format'' [
     (''PERF_FORMAT_TOTAL_TIME_ENABLED'', 1),
     (''PERF_FORMAT_TOTAL_TIME_RUNNING'', 2),
     (''PERF_FORMAT_ID'', 4),
     (''PERF_FORMAT_GROUP'', 8),
     (''PERF_FORMAT_MAX'', 16)]"

lemma enum_perf_event_read_format_layout [ctype_layout]:
  "sizeof enum_perf_event_read_format = 4" "alignof enum_perf_event_read_format = 4" "wf_ctype enum_perf_event_read_format"
  by (simp_all add: enum_perf_event_read_format_def ctype_defs ctype_layout layout_eval)

definition enum_perf_event_ioc_flags :: ctype where
  "enum_perf_event_ioc_flags = Enum ''perf_event_ioc_flags'' [
     (''PERF_IOC_FLAG_GROUP'', 1)]"

lemma enum_perf_event_ioc_flags_layout [ctype_layout]:
  "sizeof enum_perf_event_ioc_flags = 4" "alignof enum_perf_event_ioc_flags = 4" "wf_ctype enum_perf_event_ioc_flags"
  by (simp_all add: enum_perf_event_ioc_flags_def ctype_defs ctype_layout layout_eval)

definition enum_perf_event_type :: ctype where
  "enum_perf_event_type = Enum ''perf_event_type'' [
     (''PERF_RECORD_MMAP'', 1),
     (''PERF_RECORD_LOST'', 2),
     (''PERF_RECORD_COMM'', 3),
     (''PERF_RECORD_EXIT'', 4),
     (''PERF_RECORD_THROTTLE'', 5),
     (''PERF_RECORD_UNTHROTTLE'', 6),
     (''PERF_RECORD_FORK'', 7),
     (''PERF_RECORD_READ'', 8),
     (''PERF_RECORD_SAMPLE'', 9),
     (''PERF_RECORD_MMAP2'', 10),
     (''PERF_RECORD_AUX'', 11),
     (''PERF_RECORD_ITRACE_START'', 12),
     (''PERF_RECORD_LOST_SAMPLES'', 13),
     (''PERF_RECORD_SWITCH'', 14),
     (''PERF_RECORD_SWITCH_CPU_WIDE'', 15),
     (''PERF_RECORD_NAMESPACES'', 16),
     (''PERF_RECORD_KSYMBOL'', 17),
     (''PERF_RECORD_BPF_EVENT'', 18),
     (''PERF_RECORD_CGROUP'', 19),
     (''PERF_RECORD_MAX'', 20)]"

lemma enum_perf_event_type_layout [ctype_layout]:
  "sizeof enum_perf_event_type = 4" "alignof enum_perf_event_type = 4" "wf_ctype enum_perf_event_type"
  by (simp_all add: enum_perf_event_type_def ctype_defs ctype_layout layout_eval)

definition enum_perf_callchain_context :: ctype where
  "enum_perf_callchain_context = Enum ''perf_callchain_context'' [
     (''PERF_CONTEXT_HV'', 4294967264),
     (''PERF_CONTEXT_KERNEL'', 4294967168),
     (''PERF_CONTEXT_USER'', 4294966784),
     (''PERF_CONTEXT_GUEST'', 4294965248),
     (''PERF_CONTEXT_GUEST_KERNEL'', 4294965120),
     (''PERF_CONTEXT_GUEST_USER'', 4294964736),
     (''PERF_CONTEXT_MAX'', 4294963201)]"

lemma enum_perf_callchain_context_layout [ctype_layout]:
  "sizeof enum_perf_callchain_context = 4" "alignof enum_perf_callchain_context = 4" "wf_ctype enum_perf_callchain_context"
  by (simp_all add: enum_perf_callchain_context_def ctype_defs ctype_layout layout_eval)

definition enum_perf_record_ksymbol_type :: ctype where
  "enum_perf_record_ksymbol_type = Enum ''perf_record_ksymbol_type'' [
     (''PERF_RECORD_KSYMBOL_TYPE_UNKNOWN'', 0),
     (''PERF_RECORD_KSYMBOL_TYPE_BPF'', 1),
     (''PERF_RECORD_KSYMBOL_TYPE_MAX'', 2)]"

lemma enum_perf_record_ksymbol_type_layout [ctype_layout]:
  "sizeof enum_perf_record_ksymbol_type = 4" "alignof enum_perf_record_ksymbol_type = 4" "wf_ctype enum_perf_record_ksymbol_type"
  by (simp_all add: enum_perf_record_ksymbol_type_def ctype_defs ctype_layout layout_eval)

definition enum_perf_bpf_event_type :: ctype where
  "enum_perf_bpf_event_type = Enum ''perf_bpf_event_type'' [
     (''PERF_BPF_EVENT_UNKNOWN'', 0),
     (''PERF_BPF_EVENT_PROG_LOAD'', 1),
     (''PERF_BPF_EVENT_PROG_UNLOAD'', 2),
     (''PERF_BPF_EVENT_MAX'', 3)]"

lemma enum_perf_bpf_event_type_layout [ctype_layout]:
  "sizeof enum_perf_bpf_event_type = 4" "alignof enum_perf_bpf_event_type = 4" "wf_ctype enum_perf_bpf_event_type"
  by (simp_all add: enum_perf_bpf_event_type_def ctype_defs ctype_layout layout_eval)

definition enum_perf_sample_regs_abi :: ctype where
  "enum_perf_sample_regs_abi = Enum ''perf_sample_regs_abi'' [
     (''PERF_SAMPLE_REGS_ABI_NONE'', 0),
     (''PERF_SAMPLE_REGS_ABI_32'', 1),
     (''PERF_SAMPLE_REGS_ABI_64'', 2)]"

lemma enum_perf_sample_regs_abi_layout [ctype_layout]:
  "sizeof enum_perf_sample_regs_abi = 4" "alignof enum_perf_sample_regs_abi = 4" "wf_ctype enum_perf_sample_regs_abi"
  by (simp_all add: enum_perf_sample_regs_abi_def ctype_defs ctype_layout layout_eval)

definition enum_perf_event_task_context :: ctype where
  "enum_perf_event_task_context = Enum ''perf_event_task_context'' [
     (''perf_invalid_context'', 4294967295),
     (''perf_hw_context'', 0),
     (''perf_sw_context'', 1),
     (''perf_nr_task_contexts'', 2)]"

lemma enum_perf_event_task_context_layout [ctype_layout]:
  "sizeof enum_perf_event_task_context = 4" "alignof enum_perf_event_task_context = 4" "wf_ctype enum_perf_event_task_context"
  by (simp_all add: enum_perf_event_task_context_def ctype_defs ctype_layout layout_eval)

end
