(* ===== verification/Vmlinux_Bpf.thy ===== *)
theory Vmlinux_Bpf
  imports Vmlinux_Perf
begin

text \<open>
  The BPF subsystem of \<^verbatim>\<open>src/src/bpf/vmlinux.h\<close> as the profiling program meets it: maps, the ring buffer,
  the context of a perf-event program, instructions, helper numbers and the system call's attributes.
\<close>

definition enum_of_BPF_ANY :: ctype where
  "enum_of_BPF_ANY = Enum '''' [
     (''BPF_ANY'', 0),
     (''BPF_NOEXIST'', 1),
     (''BPF_EXIST'', 2),
     (''BPF_F_LOCK'', 4)]"

lemma enum_of_BPF_ANY_layout [ctype_layout]:
  "sizeof enum_of_BPF_ANY = 4" "alignof enum_of_BPF_ANY = 4" "wf_ctype enum_of_BPF_ANY"
  by (simp_all add: enum_of_BPF_ANY_def ctype_defs ctype_layout layout_eval)

definition enum_of_BPF_RB_NO_WAKEUP :: ctype where
  "enum_of_BPF_RB_NO_WAKEUP = Enum '''' [
     (''BPF_RB_NO_WAKEUP'', 1),
     (''BPF_RB_FORCE_WAKEUP'', 2)]"

lemma enum_of_BPF_RB_NO_WAKEUP_layout [ctype_layout]:
  "sizeof enum_of_BPF_RB_NO_WAKEUP = 4" "alignof enum_of_BPF_RB_NO_WAKEUP = 4" "wf_ctype enum_of_BPF_RB_NO_WAKEUP"
  by (simp_all add: enum_of_BPF_RB_NO_WAKEUP_def ctype_defs ctype_layout layout_eval)

definition enum_of_BPF_RINGBUF_BUSY_BIT :: ctype where
  "enum_of_BPF_RINGBUF_BUSY_BIT = Enum '''' [
     (''BPF_RINGBUF_BUSY_BIT'', 2147483648),
     (''BPF_RINGBUF_DISCARD_BIT'', 1073741824),
     (''BPF_RINGBUF_HDR_SZ'', 8)]"

lemma enum_of_BPF_RINGBUF_BUSY_BIT_layout [ctype_layout]:
  "sizeof enum_of_BPF_RINGBUF_BUSY_BIT = 4" "alignof enum_of_BPF_RINGBUF_BUSY_BIT = 4" "wf_ctype enum_of_BPF_RINGBUF_BUSY_BIT"
  by (simp_all add: enum_of_BPF_RINGBUF_BUSY_BIT_def ctype_defs ctype_layout layout_eval)

definition enum_of_BPF_F_SKIP_FIELD_MASK :: ctype where
  "enum_of_BPF_F_SKIP_FIELD_MASK = Enum '''' [
     (''BPF_F_SKIP_FIELD_MASK'', 255),
     (''BPF_F_USER_STACK'', 256),
     (''BPF_F_FAST_STACK_CMP'', 512),
     (''BPF_F_REUSE_STACKID'', 1024),
     (''BPF_F_USER_BUILD_ID'', 2048)]"

lemma enum_of_BPF_F_SKIP_FIELD_MASK_layout [ctype_layout]:
  "sizeof enum_of_BPF_F_SKIP_FIELD_MASK = 4" "alignof enum_of_BPF_F_SKIP_FIELD_MASK = 4" "wf_ctype enum_of_BPF_F_SKIP_FIELD_MASK"
  by (simp_all add: enum_of_BPF_F_SKIP_FIELD_MASK_def ctype_defs ctype_layout layout_eval)

definition bpf_ringbuf_page0_pad :: "cmember list" where
  "bpf_ringbuf_page0_pad = replicate 495 (Pad (Base CLong) 64)"

definition bpf_ringbuf_page1_pad :: "cmember list" where
  "bpf_ringbuf_page1_pad = replicate 511 (Pad (Base CLong) 64)"

definition bpf_ringbuf_page2_pad :: "cmember list" where
  "bpf_ringbuf_page2_pad = replicate 511 (Pad (Base CLong) 64)"

definition struct_bpf_ringbuf :: ctype where
  "struct_bpf_ringbuf = Struct ''bpf_ringbuf'' False (
    [
     Field ''waitq'' typedef_wait_queue_head_t,
     Field ''work'' struct_irq_work,
     Field ''mask'' typedef_u64,
     Field ''pages'' (Ptr ''struct page *''),
     Field ''nr_pages'' (Base CInt),
     Pad (Base CLong) 32,
     Pad (Base CLong) 64,
     Pad (Base CLong) 64,
     Pad (Base CLong) 64,
     Pad (Base CLong) 64,
     Pad (Base CLong) 64,
     Pad (Base CLong) 64,
     Pad (Base CLong) 64,
     Field ''spinlock'' typedef_spinlock_t,
     Pad (Base CLong) 32]
     @ bpf_ringbuf_page0_pad @ [
     Field ''consumer_pos'' (Base CULong)]
     @ bpf_ringbuf_page1_pad @ [
     Field ''producer_pos'' (Base CULong)]
     @ bpf_ringbuf_page2_pad @ [
     Field ''data'' (Array 0 (Base CChar))])"

lemma struct_bpf_ringbuf_layout [ctype_layout]:
  "sizeof struct_bpf_ringbuf = 12288" "alignof struct_bpf_ringbuf = 8" "wf_ctype struct_bpf_ringbuf"
  by (simp_all add: struct_bpf_ringbuf_def bpf_ringbuf_page0_pad_def bpf_ringbuf_page1_pad_def
      bpf_ringbuf_page2_pad_def padding_simps ctype_defs ctype_layout layout_eval)

definition enum_bpf_map_type :: ctype where
  "enum_bpf_map_type = Enum ''bpf_map_type'' [
     (''BPF_MAP_TYPE_UNSPEC'', 0),
     (''BPF_MAP_TYPE_HASH'', 1),
     (''BPF_MAP_TYPE_ARRAY'', 2),
     (''BPF_MAP_TYPE_PROG_ARRAY'', 3),
     (''BPF_MAP_TYPE_PERF_EVENT_ARRAY'', 4),
     (''BPF_MAP_TYPE_PERCPU_HASH'', 5),
     (''BPF_MAP_TYPE_PERCPU_ARRAY'', 6),
     (''BPF_MAP_TYPE_STACK_TRACE'', 7),
     (''BPF_MAP_TYPE_CGROUP_ARRAY'', 8),
     (''BPF_MAP_TYPE_LRU_HASH'', 9),
     (''BPF_MAP_TYPE_LRU_PERCPU_HASH'', 10),
     (''BPF_MAP_TYPE_LPM_TRIE'', 11),
     (''BPF_MAP_TYPE_ARRAY_OF_MAPS'', 12),
     (''BPF_MAP_TYPE_HASH_OF_MAPS'', 13),
     (''BPF_MAP_TYPE_DEVMAP'', 14),
     (''BPF_MAP_TYPE_SOCKMAP'', 15),
     (''BPF_MAP_TYPE_CPUMAP'', 16),
     (''BPF_MAP_TYPE_XSKMAP'', 17),
     (''BPF_MAP_TYPE_SOCKHASH'', 18),
     (''BPF_MAP_TYPE_CGROUP_STORAGE'', 19),
     (''BPF_MAP_TYPE_REUSEPORT_SOCKARRAY'', 20),
     (''BPF_MAP_TYPE_PERCPU_CGROUP_STORAGE'', 21),
     (''BPF_MAP_TYPE_QUEUE'', 22),
     (''BPF_MAP_TYPE_STACK'', 23),
     (''BPF_MAP_TYPE_SK_STORAGE'', 24),
     (''BPF_MAP_TYPE_DEVMAP_HASH'', 25),
     (''BPF_MAP_TYPE_STRUCT_OPS'', 26),
     (''BPF_MAP_TYPE_RINGBUF'', 27)]"

lemma enum_bpf_map_type_layout [ctype_layout]:
  "sizeof enum_bpf_map_type = 4" "alignof enum_bpf_map_type = 4" "wf_ctype enum_bpf_map_type"
  by (simp_all add: enum_bpf_map_type_def ctype_defs ctype_layout layout_eval)

definition struct_bpf_map_memory :: ctype where
  "struct_bpf_map_memory = Struct ''bpf_map_memory'' False [
     Field ''pages'' typedef_u32,
     Field ''user'' (Ptr ''struct user_struct'')]"

lemma struct_bpf_map_memory_layout [ctype_layout]:
  "sizeof struct_bpf_map_memory = 16" "alignof struct_bpf_map_memory = 8" "wf_ctype struct_bpf_map_memory"
  by (simp_all add: struct_bpf_map_memory_def ctype_defs ctype_layout layout_eval)

definition struct_bpf_map :: ctype where
  "struct_bpf_map = Struct ''bpf_map'' False [
     Field ''ops'' (Ptr ''struct bpf_map_ops''),
     Field ''inner_map_meta'' (Ptr ''struct bpf_map''),
     Field ''security'' (Ptr ''void''),
     Field ''map_type'' enum_bpf_map_type,
     Field ''key_size'' typedef_u32,
     Field ''value_size'' typedef_u32,
     Field ''max_entries'' typedef_u32,
     Field ''map_flags'' typedef_u32,
     Field ''spin_lock_off'' (Base CInt),
     Field ''id'' typedef_u32,
     Field ''numa_node'' (Base CInt),
     Field ''btf_key_type_id'' typedef_u32,
     Field ''btf_value_type_id'' typedef_u32,
     Field ''btf'' (Ptr ''struct btf''),
     Field ''memory'' struct_bpf_map_memory,
     Field ''name'' (Array 16 (Base CChar)),
     Field ''btf_vmlinux_value_type_id'' typedef_u32,
     Field ''bypass_spec_v1'' typedef_bool,
     Field ''frozen'' typedef_bool,
     Pad (Base CLong) 16,
     Pad (Base CLong) 64,
     Pad (Base CLong) 64,
     Field ''refcnt'' typedef_atomic64_t,
     Field ''usercnt'' typedef_atomic64_t,
     Field ''work'' struct_work_struct,
     Field ''freeze_mutex'' struct_mutex,
     Field ''writecnt'' typedef_u64,
     Pad (Base CLong) 64,
     Pad (Base CLong) 64,
     Pad (Base CLong) 64,
     Pad (Base CLong) 64,
     Pad (Base CLong) 64]"

lemma struct_bpf_map_layout [ctype_layout]:
  "sizeof struct_bpf_map = 256" "alignof struct_bpf_map = 8" "wf_ctype struct_bpf_map"
  by (simp_all add: struct_bpf_map_def ctype_defs ctype_layout layout_eval)

definition struct_bpf_ringbuf_map :: ctype where
  "struct_bpf_ringbuf_map = Struct ''bpf_ringbuf_map'' False [
     Field ''map'' struct_bpf_map,
     Field ''memory'' struct_bpf_map_memory,
     Field ''rb'' (Ptr ''struct bpf_ringbuf''),
     Pad (Base CLong) 64,
     Pad (Base CLong) 64,
     Pad (Base CLong) 64,
     Pad (Base CLong) 64,
     Pad (Base CLong) 64]"

lemma struct_bpf_ringbuf_map_layout [ctype_layout]:
  "sizeof struct_bpf_ringbuf_map = 320" "alignof struct_bpf_ringbuf_map = 8" "wf_ctype struct_bpf_ringbuf_map"
  by (simp_all add: struct_bpf_ringbuf_map_def ctype_defs ctype_layout layout_eval)

definition struct_bpf_ringbuf_hdr :: ctype where
  "struct_bpf_ringbuf_hdr = Struct ''bpf_ringbuf_hdr'' False [
     Field ''len'' typedef_u32,
     Field ''pg_off'' typedef_u32]"

lemma struct_bpf_ringbuf_hdr_layout [ctype_layout]:
  "sizeof struct_bpf_ringbuf_hdr = 8" "alignof struct_bpf_ringbuf_hdr = 4" "wf_ctype struct_bpf_ringbuf_hdr"
  by (simp_all add: struct_bpf_ringbuf_hdr_def ctype_defs ctype_layout layout_eval)

definition struct_bpf_perf_event_data_kern :: ctype where
  "struct_bpf_perf_event_data_kern = Struct ''bpf_perf_event_data_kern'' False [
     Field ''regs'' (Ptr ''bpf_user_pt_regs_t''),
     Field ''data'' (Ptr ''struct perf_sample_data''),
     Field ''event'' (Ptr ''struct perf_event'')]"

lemma struct_bpf_perf_event_data_kern_layout [ctype_layout]:
  "sizeof struct_bpf_perf_event_data_kern = 24" "alignof struct_bpf_perf_event_data_kern = 8" "wf_ctype struct_bpf_perf_event_data_kern"
  by (simp_all add: struct_bpf_perf_event_data_kern_def ctype_defs ctype_layout layout_eval)

definition typedef_bpf_user_pt_regs_t :: ctype where
  [ctype_defs]: "typedef_bpf_user_pt_regs_t = struct_pt_regs"

definition struct_bpf_perf_event_data :: ctype where
  "struct_bpf_perf_event_data = Struct ''bpf_perf_event_data'' False [
     Field ''regs'' typedef_bpf_user_pt_regs_t,
     Field ''sample_period'' typedef___u64,
     Field ''addr'' typedef___u64]"

lemma struct_bpf_perf_event_data_layout [ctype_layout]:
  "sizeof struct_bpf_perf_event_data = 184" "alignof struct_bpf_perf_event_data = 8" "wf_ctype struct_bpf_perf_event_data"
  by (simp_all add: struct_bpf_perf_event_data_def ctype_defs ctype_layout layout_eval)

definition struct_bpf_insn :: ctype where
  "struct_bpf_insn = Struct ''bpf_insn'' False [
     Field ''code'' typedef___u8,
     Bits ''dst_reg'' typedef___u8 4,
     Bits ''src_reg'' typedef___u8 4,
     Field ''off'' typedef___s16,
     Field ''imm'' typedef___s32]"

lemma struct_bpf_insn_layout [ctype_layout]:
  "sizeof struct_bpf_insn = 8" "alignof struct_bpf_insn = 4" "wf_ctype struct_bpf_insn"
  by (simp_all add: struct_bpf_insn_def ctype_defs ctype_layout layout_eval)

definition struct_bpf_map_ops :: ctype where
  "struct_bpf_map_ops = Struct ''bpf_map_ops'' False [
     Field ''map_alloc_check'' FnPtr,
     Field ''map_alloc'' FnPtr,
     Field ''map_release'' FnPtr,
     Field ''map_free'' FnPtr,
     Field ''map_get_next_key'' FnPtr,
     Field ''map_release_uref'' FnPtr,
     Field ''map_lookup_elem_sys_only'' FnPtr,
     Field ''map_lookup_batch'' FnPtr,
     Field ''map_lookup_and_delete_batch'' FnPtr,
     Field ''map_update_batch'' FnPtr,
     Field ''map_delete_batch'' FnPtr,
     Field ''map_lookup_elem'' FnPtr,
     Field ''map_update_elem'' FnPtr,
     Field ''map_delete_elem'' FnPtr,
     Field ''map_push_elem'' FnPtr,
     Field ''map_pop_elem'' FnPtr,
     Field ''map_peek_elem'' FnPtr,
     Field ''map_fd_get_ptr'' FnPtr,
     Field ''map_fd_put_ptr'' FnPtr,
     Field ''map_gen_lookup'' FnPtr,
     Field ''map_fd_sys_lookup_elem'' FnPtr,
     Field ''map_seq_show_elem'' FnPtr,
     Field ''map_check_btf'' FnPtr,
     Field ''map_poke_track'' FnPtr,
     Field ''map_poke_untrack'' FnPtr,
     Field ''map_poke_run'' FnPtr,
     Field ''map_direct_value_addr'' FnPtr,
     Field ''map_direct_value_meta'' FnPtr,
     Field ''map_mmap'' FnPtr,
     Field ''map_poll'' FnPtr]"

lemma struct_bpf_map_ops_layout [ctype_layout]:
  "sizeof struct_bpf_map_ops = 240" "alignof struct_bpf_map_ops = 8" "wf_ctype struct_bpf_map_ops"
  by (simp_all add: struct_bpf_map_ops_def ctype_defs ctype_layout layout_eval)

definition enum_bpf_prog_type :: ctype where
  "enum_bpf_prog_type = Enum ''bpf_prog_type'' [
     (''BPF_PROG_TYPE_UNSPEC'', 0),
     (''BPF_PROG_TYPE_SOCKET_FILTER'', 1),
     (''BPF_PROG_TYPE_KPROBE'', 2),
     (''BPF_PROG_TYPE_SCHED_CLS'', 3),
     (''BPF_PROG_TYPE_SCHED_ACT'', 4),
     (''BPF_PROG_TYPE_TRACEPOINT'', 5),
     (''BPF_PROG_TYPE_XDP'', 6),
     (''BPF_PROG_TYPE_PERF_EVENT'', 7),
     (''BPF_PROG_TYPE_CGROUP_SKB'', 8),
     (''BPF_PROG_TYPE_CGROUP_SOCK'', 9),
     (''BPF_PROG_TYPE_LWT_IN'', 10),
     (''BPF_PROG_TYPE_LWT_OUT'', 11),
     (''BPF_PROG_TYPE_LWT_XMIT'', 12),
     (''BPF_PROG_TYPE_SOCK_OPS'', 13),
     (''BPF_PROG_TYPE_SK_SKB'', 14),
     (''BPF_PROG_TYPE_CGROUP_DEVICE'', 15),
     (''BPF_PROG_TYPE_SK_MSG'', 16),
     (''BPF_PROG_TYPE_RAW_TRACEPOINT'', 17),
     (''BPF_PROG_TYPE_CGROUP_SOCK_ADDR'', 18),
     (''BPF_PROG_TYPE_LWT_SEG6LOCAL'', 19),
     (''BPF_PROG_TYPE_LIRC_MODE2'', 20),
     (''BPF_PROG_TYPE_SK_REUSEPORT'', 21),
     (''BPF_PROG_TYPE_FLOW_DISSECTOR'', 22),
     (''BPF_PROG_TYPE_CGROUP_SYSCTL'', 23),
     (''BPF_PROG_TYPE_RAW_TRACEPOINT_WRITABLE'', 24),
     (''BPF_PROG_TYPE_CGROUP_SOCKOPT'', 25),
     (''BPF_PROG_TYPE_TRACING'', 26),
     (''BPF_PROG_TYPE_STRUCT_OPS'', 27),
     (''BPF_PROG_TYPE_EXT'', 28),
     (''BPF_PROG_TYPE_LSM'', 29)]"

lemma enum_bpf_prog_type_layout [ctype_layout]:
  "sizeof enum_bpf_prog_type = 4" "alignof enum_bpf_prog_type = 4" "wf_ctype enum_bpf_prog_type"
  by (simp_all add: enum_bpf_prog_type_def ctype_defs ctype_layout layout_eval)

definition enum_bpf_attach_type :: ctype where
  "enum_bpf_attach_type = Enum ''bpf_attach_type'' [
     (''BPF_CGROUP_INET_INGRESS'', 0),
     (''BPF_CGROUP_INET_EGRESS'', 1),
     (''BPF_CGROUP_INET_SOCK_CREATE'', 2),
     (''BPF_CGROUP_SOCK_OPS'', 3),
     (''BPF_SK_SKB_STREAM_PARSER'', 4),
     (''BPF_SK_SKB_STREAM_VERDICT'', 5),
     (''BPF_CGROUP_DEVICE'', 6),
     (''BPF_SK_MSG_VERDICT'', 7),
     (''BPF_CGROUP_INET4_BIND'', 8),
     (''BPF_CGROUP_INET6_BIND'', 9),
     (''BPF_CGROUP_INET4_CONNECT'', 10),
     (''BPF_CGROUP_INET6_CONNECT'', 11),
     (''BPF_CGROUP_INET4_POST_BIND'', 12),
     (''BPF_CGROUP_INET6_POST_BIND'', 13),
     (''BPF_CGROUP_UDP4_SENDMSG'', 14),
     (''BPF_CGROUP_UDP6_SENDMSG'', 15),
     (''BPF_LIRC_MODE2'', 16),
     (''BPF_FLOW_DISSECTOR'', 17),
     (''BPF_CGROUP_SYSCTL'', 18),
     (''BPF_CGROUP_UDP4_RECVMSG'', 19),
     (''BPF_CGROUP_UDP6_RECVMSG'', 20),
     (''BPF_CGROUP_GETSOCKOPT'', 21),
     (''BPF_CGROUP_SETSOCKOPT'', 22),
     (''BPF_TRACE_RAW_TP'', 23),
     (''BPF_TRACE_FENTRY'', 24),
     (''BPF_TRACE_FEXIT'', 25),
     (''BPF_MODIFY_RETURN'', 26),
     (''BPF_LSM_MAC'', 27),
     (''BPF_TRACE_ITER'', 28),
     (''BPF_CGROUP_INET4_GETPEERNAME'', 29),
     (''BPF_CGROUP_INET6_GETPEERNAME'', 30),
     (''BPF_CGROUP_INET4_GETSOCKNAME'', 31),
     (''BPF_CGROUP_INET6_GETSOCKNAME'', 32),
     (''BPF_XDP_DEVMAP'', 33),
     (''__MAX_BPF_ATTACH_TYPE'', 34)]"

lemma enum_bpf_attach_type_layout [ctype_layout]:
  "sizeof enum_bpf_attach_type = 4" "alignof enum_bpf_attach_type = 4" "wf_ctype enum_bpf_attach_type"
  by (simp_all add: enum_bpf_attach_type_def ctype_defs ctype_layout layout_eval)

definition struct_sock_filter :: ctype where
  "struct_sock_filter = Struct ''sock_filter'' False [
     Field ''code'' typedef___u16,
     Field ''jt'' typedef___u8,
     Field ''jf'' typedef___u8,
     Field ''k'' typedef___u32]"

lemma struct_sock_filter_layout [ctype_layout]:
  "sizeof struct_sock_filter = 8" "alignof struct_sock_filter = 4" "wf_ctype struct_sock_filter"
  by (simp_all add: struct_sock_filter_def ctype_defs ctype_layout layout_eval)

definition struct_bpf_prog :: ctype where
  "struct_bpf_prog = Struct ''bpf_prog'' False [
     Field ''pages'' typedef_u16,
     Bits ''jited'' typedef_u16 1,
     Bits ''jit_requested'' typedef_u16 1,
     Bits ''gpl_compatible'' typedef_u16 1,
     Bits ''cb_access'' typedef_u16 1,
     Bits ''dst_needed'' typedef_u16 1,
     Bits ''blinded'' typedef_u16 1,
     Bits ''is_func'' typedef_u16 1,
     Bits ''kprobe_override'' typedef_u16 1,
     Bits ''has_callchain_buf'' typedef_u16 1,
     Bits ''enforce_expected_attach_type'' typedef_u16 1,
     Field ''type'' enum_bpf_prog_type,
     Field ''expected_attach_type'' enum_bpf_attach_type,
     Field ''len'' typedef_u32,
     Field ''jited_len'' typedef_u32,
     Field ''tag'' (Array 8 typedef_u8),
     Field ''aux'' (Ptr ''struct bpf_prog_aux''),
     Field ''orig_prog'' (Ptr ''struct sock_fprog_kern''),
     Field ''bpf_func'' FnPtr,
     Field ''insns'' (Array 0 struct_sock_filter),
     Field ''insnsi'' (Array 0 struct_bpf_insn)]"

lemma struct_bpf_prog_layout [ctype_layout]:
  "sizeof struct_bpf_prog = 56" "alignof struct_bpf_prog = 8" "wf_ctype struct_bpf_prog"
  by (simp_all add: struct_bpf_prog_def ctype_defs ctype_layout layout_eval)

definition struct_bpf_prog_ops :: ctype where
  "struct_bpf_prog_ops = Struct ''bpf_prog_ops'' False [
     Field ''test_run'' FnPtr]"

lemma struct_bpf_prog_ops_layout [ctype_layout]:
  "sizeof struct_bpf_prog_ops = 8" "alignof struct_bpf_prog_ops = 8" "wf_ctype struct_bpf_prog_ops"
  by (simp_all add: struct_bpf_prog_ops_def ctype_defs ctype_layout layout_eval)

definition enum_bpf_return_type :: ctype where
  "enum_bpf_return_type = Enum ''bpf_return_type'' [
     (''RET_INTEGER'', 0),
     (''RET_VOID'', 1),
     (''RET_PTR_TO_MAP_VALUE'', 2),
     (''RET_PTR_TO_MAP_VALUE_OR_NULL'', 3),
     (''RET_PTR_TO_SOCKET_OR_NULL'', 4),
     (''RET_PTR_TO_TCP_SOCK_OR_NULL'', 5),
     (''RET_PTR_TO_SOCK_COMMON_OR_NULL'', 6),
     (''RET_PTR_TO_ALLOC_MEM_OR_NULL'', 7)]"

lemma enum_bpf_return_type_layout [ctype_layout]:
  "sizeof enum_bpf_return_type = 4" "alignof enum_bpf_return_type = 4" "wf_ctype enum_bpf_return_type"
  by (simp_all add: enum_bpf_return_type_def ctype_defs ctype_layout layout_eval)

definition enum_bpf_arg_type :: ctype where
  "enum_bpf_arg_type = Enum ''bpf_arg_type'' [
     (''ARG_DONTCARE'', 0),
     (''ARG_CONST_MAP_PTR'', 1),
     (''ARG_PTR_TO_MAP_KEY'', 2),
     (''ARG_PTR_TO_MAP_VALUE'', 3),
     (''ARG_PTR_TO_UNINIT_MAP_VALUE'', 4),
     (''ARG_PTR_TO_MAP_VALUE_OR_NULL'', 5),
     (''ARG_PTR_TO_MEM'', 6),
     (''ARG_PTR_TO_MEM_OR_NULL'', 7),
     (''ARG_PTR_TO_UNINIT_MEM'', 8),
     (''ARG_CONST_SIZE'', 9),
     (''ARG_CONST_SIZE_OR_ZERO'', 10),
     (''ARG_PTR_TO_CTX'', 11),
     (''ARG_PTR_TO_CTX_OR_NULL'', 12),
     (''ARG_ANYTHING'', 13),
     (''ARG_PTR_TO_SPIN_LOCK'', 14),
     (''ARG_PTR_TO_SOCK_COMMON'', 15),
     (''ARG_PTR_TO_INT'', 16),
     (''ARG_PTR_TO_LONG'', 17),
     (''ARG_PTR_TO_SOCKET'', 18),
     (''ARG_PTR_TO_BTF_ID'', 19),
     (''ARG_PTR_TO_ALLOC_MEM'', 20),
     (''ARG_PTR_TO_ALLOC_MEM_OR_NULL'', 21),
     (''ARG_CONST_ALLOC_SIZE_OR_ZERO'', 22)]"

lemma enum_bpf_arg_type_layout [ctype_layout]:
  "sizeof enum_bpf_arg_type = 4" "alignof enum_bpf_arg_type = 4" "wf_ctype enum_bpf_arg_type"
  by (simp_all add: enum_bpf_arg_type_def ctype_defs ctype_layout layout_eval)

definition struct_bpf_func_proto :: ctype where
  "struct_bpf_func_proto = Struct ''bpf_func_proto'' False [
     Field ''func'' FnPtr,
     Field ''gpl_only'' typedef_bool,
     Field ''pkt_access'' typedef_bool,
     Field ''ret_type'' enum_bpf_return_type,
     Anon (Union '''' False [
         Anon (Struct '''' False [
             Field ''arg1_type'' enum_bpf_arg_type,
             Field ''arg2_type'' enum_bpf_arg_type,
             Field ''arg3_type'' enum_bpf_arg_type,
             Field ''arg4_type'' enum_bpf_arg_type,
             Field ''arg5_type'' enum_bpf_arg_type]),
         Field ''arg_type'' (Array 5 enum_bpf_arg_type)]),
     Field ''btf_id'' (Ptr ''int'')]"

lemma struct_bpf_func_proto_layout [ctype_layout]:
  "sizeof struct_bpf_func_proto = 48" "alignof struct_bpf_func_proto = 8" "wf_ctype struct_bpf_func_proto"
  by (simp_all add: struct_bpf_func_proto_def ctype_defs ctype_layout layout_eval)

definition struct_bpf_prog_offload :: ctype where
  "struct_bpf_prog_offload = Struct ''bpf_prog_offload'' False [
     Field ''prog'' (Ptr ''struct bpf_prog''),
     Field ''netdev'' (Ptr ''struct net_device''),
     Field ''offdev'' (Ptr ''struct bpf_offload_dev''),
     Field ''dev_priv'' (Ptr ''void''),
     Field ''offloads'' struct_list_head,
     Field ''dev_state'' typedef_bool,
     Field ''opt_failed'' typedef_bool,
     Field ''jited_image'' (Ptr ''void''),
     Field ''jited_len'' typedef_u32]"

lemma struct_bpf_prog_offload_layout [ctype_layout]:
  "sizeof struct_bpf_prog_offload = 72" "alignof struct_bpf_prog_offload = 8" "wf_ctype struct_bpf_prog_offload"
  by (simp_all add: struct_bpf_prog_offload_def ctype_defs ctype_layout layout_eval)

definition union_bpf_attr :: ctype where
  "union_bpf_attr = Union ''bpf_attr'' False [
     Anon (Struct '''' False [
         Field ''map_type'' typedef___u32,
         Field ''key_size'' typedef___u32,
         Field ''value_size'' typedef___u32,
         Field ''max_entries'' typedef___u32,
         Field ''map_flags'' typedef___u32,
         Field ''inner_map_fd'' typedef___u32,
         Field ''numa_node'' typedef___u32,
         Field ''map_name'' (Array 16 (Base CChar)),
         Field ''map_ifindex'' typedef___u32,
         Field ''btf_fd'' typedef___u32,
         Field ''btf_key_type_id'' typedef___u32,
         Field ''btf_value_type_id'' typedef___u32,
         Field ''btf_vmlinux_value_type_id'' typedef___u32]),
     Anon (Struct '''' False [
         Field ''map_fd'' typedef___u32,
         Field ''key'' typedef___u64,
         Anon (Union '''' False [
             Field ''value'' typedef___u64,
             Field ''next_key'' typedef___u64]),
         Field ''flags'' typedef___u64]),
     Field ''batch'' (Struct '''' False [
         Field ''in_batch'' typedef___u64,
         Field ''out_batch'' typedef___u64,
         Field ''keys'' typedef___u64,
         Field ''values'' typedef___u64,
         Field ''count'' typedef___u32,
         Field ''map_fd'' typedef___u32,
         Field ''elem_flags'' typedef___u64,
         Field ''flags'' typedef___u64]),
     Anon (Struct '''' False [
         Field ''prog_type'' typedef___u32,
         Field ''insn_cnt'' typedef___u32,
         Field ''insns'' typedef___u64,
         Field ''license'' typedef___u64,
         Field ''log_level'' typedef___u32,
         Field ''log_size'' typedef___u32,
         Field ''log_buf'' typedef___u64,
         Field ''kern_version'' typedef___u32,
         Field ''prog_flags'' typedef___u32,
         Field ''prog_name'' (Array 16 (Base CChar)),
         Field ''prog_ifindex'' typedef___u32,
         Field ''expected_attach_type'' typedef___u32,
         Field ''prog_btf_fd'' typedef___u32,
         Field ''func_info_rec_size'' typedef___u32,
         Field ''func_info'' typedef___u64,
         Field ''func_info_cnt'' typedef___u32,
         Field ''line_info_rec_size'' typedef___u32,
         Field ''line_info'' typedef___u64,
         Field ''line_info_cnt'' typedef___u32,
         Field ''attach_btf_id'' typedef___u32,
         Field ''attach_prog_fd'' typedef___u32]),
     Anon (Struct '''' False [
         Field ''pathname'' typedef___u64,
         Field ''bpf_fd'' typedef___u32,
         Field ''file_flags'' typedef___u32]),
     Anon (Struct '''' False [
         Field ''target_fd'' typedef___u32,
         Field ''attach_bpf_fd'' typedef___u32,
         Field ''attach_type'' typedef___u32,
         Field ''attach_flags'' typedef___u32,
         Field ''replace_bpf_fd'' typedef___u32]),
     Field ''test'' (Struct '''' False [
         Field ''prog_fd'' typedef___u32,
         Field ''retval'' typedef___u32,
         Field ''data_size_in'' typedef___u32,
         Field ''data_size_out'' typedef___u32,
         Field ''data_in'' typedef___u64,
         Field ''data_out'' typedef___u64,
         Field ''repeat'' typedef___u32,
         Field ''duration'' typedef___u32,
         Field ''ctx_size_in'' typedef___u32,
         Field ''ctx_size_out'' typedef___u32,
         Field ''ctx_in'' typedef___u64,
         Field ''ctx_out'' typedef___u64]),
     Anon (Struct '''' False [
         Anon (Union '''' False [
             Field ''start_id'' typedef___u32,
             Field ''prog_id'' typedef___u32,
             Field ''map_id'' typedef___u32,
             Field ''btf_id'' typedef___u32,
             Field ''link_id'' typedef___u32]),
         Field ''next_id'' typedef___u32,
         Field ''open_flags'' typedef___u32]),
     Field ''info'' (Struct '''' False [
         Field ''bpf_fd'' typedef___u32,
         Field ''info_len'' typedef___u32,
         Field ''info'' typedef___u64]),
     Field ''query'' (Struct '''' False [
         Field ''target_fd'' typedef___u32,
         Field ''attach_type'' typedef___u32,
         Field ''query_flags'' typedef___u32,
         Field ''attach_flags'' typedef___u32,
         Field ''prog_ids'' typedef___u64,
         Field ''prog_cnt'' typedef___u32]),
     Field ''raw_tracepoint'' (Struct '''' False [
         Field ''name'' typedef___u64,
         Field ''prog_fd'' typedef___u32]),
     Anon (Struct '''' False [
         Field ''btf'' typedef___u64,
         Field ''btf_log_buf'' typedef___u64,
         Field ''btf_size'' typedef___u32,
         Field ''btf_log_size'' typedef___u32,
         Field ''btf_log_level'' typedef___u32]),
     Field ''task_fd_query'' (Struct '''' False [
         Field ''pid'' typedef___u32,
         Field ''fd'' typedef___u32,
         Field ''flags'' typedef___u32,
         Field ''buf_len'' typedef___u32,
         Field ''buf'' typedef___u64,
         Field ''prog_id'' typedef___u32,
         Field ''fd_type'' typedef___u32,
         Field ''probe_offset'' typedef___u64,
         Field ''probe_addr'' typedef___u64]),
     Field ''link_create'' (Struct '''' False [
         Field ''prog_fd'' typedef___u32,
         Field ''target_fd'' typedef___u32,
         Field ''attach_type'' typedef___u32,
         Field ''flags'' typedef___u32]),
     Field ''link_update'' (Struct '''' False [
         Field ''link_fd'' typedef___u32,
         Field ''new_prog_fd'' typedef___u32,
         Field ''flags'' typedef___u32,
         Field ''old_prog_fd'' typedef___u32]),
     Field ''enable_stats'' (Struct '''' False [
         Field ''type'' typedef___u32]),
     Field ''iter_create'' (Struct '''' False [
         Field ''link_fd'' typedef___u32,
         Field ''flags'' typedef___u32])]"

lemma union_bpf_attr_layout [ctype_layout]:
  "sizeof union_bpf_attr = 120" "alignof union_bpf_attr = 8" "wf_ctype union_bpf_attr"
  by (simp_all add: union_bpf_attr_def ctype_defs ctype_layout layout_eval)

definition enum_bpf_func_id :: ctype where
  "enum_bpf_func_id = Enum ''bpf_func_id'' [
     (''BPF_FUNC_unspec'', 0),
     (''BPF_FUNC_map_lookup_elem'', 1),
     (''BPF_FUNC_map_update_elem'', 2),
     (''BPF_FUNC_map_delete_elem'', 3),
     (''BPF_FUNC_probe_read'', 4),
     (''BPF_FUNC_ktime_get_ns'', 5),
     (''BPF_FUNC_trace_printk'', 6),
     (''BPF_FUNC_get_prandom_u32'', 7),
     (''BPF_FUNC_get_smp_processor_id'', 8),
     (''BPF_FUNC_skb_store_bytes'', 9),
     (''BPF_FUNC_l3_csum_replace'', 10),
     (''BPF_FUNC_l4_csum_replace'', 11),
     (''BPF_FUNC_tail_call'', 12),
     (''BPF_FUNC_clone_redirect'', 13),
     (''BPF_FUNC_get_current_pid_tgid'', 14),
     (''BPF_FUNC_get_current_uid_gid'', 15),
     (''BPF_FUNC_get_current_comm'', 16),
     (''BPF_FUNC_get_cgroup_classid'', 17),
     (''BPF_FUNC_skb_vlan_push'', 18),
     (''BPF_FUNC_skb_vlan_pop'', 19),
     (''BPF_FUNC_skb_get_tunnel_key'', 20),
     (''BPF_FUNC_skb_set_tunnel_key'', 21),
     (''BPF_FUNC_perf_event_read'', 22),
     (''BPF_FUNC_redirect'', 23),
     (''BPF_FUNC_get_route_realm'', 24),
     (''BPF_FUNC_perf_event_output'', 25),
     (''BPF_FUNC_skb_load_bytes'', 26),
     (''BPF_FUNC_get_stackid'', 27),
     (''BPF_FUNC_csum_diff'', 28),
     (''BPF_FUNC_skb_get_tunnel_opt'', 29),
     (''BPF_FUNC_skb_set_tunnel_opt'', 30),
     (''BPF_FUNC_skb_change_proto'', 31),
     (''BPF_FUNC_skb_change_type'', 32),
     (''BPF_FUNC_skb_under_cgroup'', 33),
     (''BPF_FUNC_get_hash_recalc'', 34),
     (''BPF_FUNC_get_current_task'', 35),
     (''BPF_FUNC_probe_write_user'', 36),
     (''BPF_FUNC_current_task_under_cgroup'', 37),
     (''BPF_FUNC_skb_change_tail'', 38),
     (''BPF_FUNC_skb_pull_data'', 39),
     (''BPF_FUNC_csum_update'', 40),
     (''BPF_FUNC_set_hash_invalid'', 41),
     (''BPF_FUNC_get_numa_node_id'', 42),
     (''BPF_FUNC_skb_change_head'', 43),
     (''BPF_FUNC_xdp_adjust_head'', 44),
     (''BPF_FUNC_probe_read_str'', 45),
     (''BPF_FUNC_get_socket_cookie'', 46),
     (''BPF_FUNC_get_socket_uid'', 47),
     (''BPF_FUNC_set_hash'', 48),
     (''BPF_FUNC_setsockopt'', 49),
     (''BPF_FUNC_skb_adjust_room'', 50),
     (''BPF_FUNC_redirect_map'', 51),
     (''BPF_FUNC_sk_redirect_map'', 52),
     (''BPF_FUNC_sock_map_update'', 53),
     (''BPF_FUNC_xdp_adjust_meta'', 54),
     (''BPF_FUNC_perf_event_read_value'', 55),
     (''BPF_FUNC_perf_prog_read_value'', 56),
     (''BPF_FUNC_getsockopt'', 57),
     (''BPF_FUNC_override_return'', 58),
     (''BPF_FUNC_sock_ops_cb_flags_set'', 59),
     (''BPF_FUNC_msg_redirect_map'', 60),
     (''BPF_FUNC_msg_apply_bytes'', 61),
     (''BPF_FUNC_msg_cork_bytes'', 62),
     (''BPF_FUNC_msg_pull_data'', 63),
     (''BPF_FUNC_bind'', 64),
     (''BPF_FUNC_xdp_adjust_tail'', 65),
     (''BPF_FUNC_skb_get_xfrm_state'', 66),
     (''BPF_FUNC_get_stack'', 67),
     (''BPF_FUNC_skb_load_bytes_relative'', 68),
     (''BPF_FUNC_fib_lookup'', 69),
     (''BPF_FUNC_sock_hash_update'', 70),
     (''BPF_FUNC_msg_redirect_hash'', 71),
     (''BPF_FUNC_sk_redirect_hash'', 72),
     (''BPF_FUNC_lwt_push_encap'', 73),
     (''BPF_FUNC_lwt_seg6_store_bytes'', 74),
     (''BPF_FUNC_lwt_seg6_adjust_srh'', 75),
     (''BPF_FUNC_lwt_seg6_action'', 76),
     (''BPF_FUNC_rc_repeat'', 77),
     (''BPF_FUNC_rc_keydown'', 78),
     (''BPF_FUNC_skb_cgroup_id'', 79),
     (''BPF_FUNC_get_current_cgroup_id'', 80),
     (''BPF_FUNC_get_local_storage'', 81),
     (''BPF_FUNC_sk_select_reuseport'', 82),
     (''BPF_FUNC_skb_ancestor_cgroup_id'', 83),
     (''BPF_FUNC_sk_lookup_tcp'', 84),
     (''BPF_FUNC_sk_lookup_udp'', 85),
     (''BPF_FUNC_sk_release'', 86),
     (''BPF_FUNC_map_push_elem'', 87),
     (''BPF_FUNC_map_pop_elem'', 88),
     (''BPF_FUNC_map_peek_elem'', 89),
     (''BPF_FUNC_msg_push_data'', 90),
     (''BPF_FUNC_msg_pop_data'', 91),
     (''BPF_FUNC_rc_pointer_rel'', 92),
     (''BPF_FUNC_spin_lock'', 93),
     (''BPF_FUNC_spin_unlock'', 94),
     (''BPF_FUNC_sk_fullsock'', 95),
     (''BPF_FUNC_tcp_sock'', 96),
     (''BPF_FUNC_skb_ecn_set_ce'', 97),
     (''BPF_FUNC_get_listener_sock'', 98),
     (''BPF_FUNC_skc_lookup_tcp'', 99),
     (''BPF_FUNC_tcp_check_syncookie'', 100),
     (''BPF_FUNC_sysctl_get_name'', 101),
     (''BPF_FUNC_sysctl_get_current_value'', 102),
     (''BPF_FUNC_sysctl_get_new_value'', 103),
     (''BPF_FUNC_sysctl_set_new_value'', 104),
     (''BPF_FUNC_strtol'', 105),
     (''BPF_FUNC_strtoul'', 106),
     (''BPF_FUNC_sk_storage_get'', 107),
     (''BPF_FUNC_sk_storage_delete'', 108),
     (''BPF_FUNC_send_signal'', 109),
     (''BPF_FUNC_tcp_gen_syncookie'', 110),
     (''BPF_FUNC_skb_output'', 111),
     (''BPF_FUNC_probe_read_user'', 112),
     (''BPF_FUNC_probe_read_kernel'', 113),
     (''BPF_FUNC_probe_read_user_str'', 114),
     (''BPF_FUNC_probe_read_kernel_str'', 115),
     (''BPF_FUNC_tcp_send_ack'', 116),
     (''BPF_FUNC_send_signal_thread'', 117),
     (''BPF_FUNC_jiffies64'', 118),
     (''BPF_FUNC_read_branch_records'', 119),
     (''BPF_FUNC_get_ns_current_pid_tgid'', 120),
     (''BPF_FUNC_xdp_output'', 121),
     (''BPF_FUNC_get_netns_cookie'', 122),
     (''BPF_FUNC_get_current_ancestor_cgroup_id'', 123),
     (''BPF_FUNC_sk_assign'', 124),
     (''BPF_FUNC_ktime_get_boot_ns'', 125),
     (''BPF_FUNC_seq_printf'', 126),
     (''BPF_FUNC_seq_write'', 127),
     (''BPF_FUNC_sk_cgroup_id'', 128),
     (''BPF_FUNC_sk_ancestor_cgroup_id'', 129),
     (''BPF_FUNC_ringbuf_output'', 130),
     (''BPF_FUNC_ringbuf_reserve'', 131),
     (''BPF_FUNC_ringbuf_submit'', 132),
     (''BPF_FUNC_ringbuf_discard'', 133),
     (''BPF_FUNC_ringbuf_query'', 134),
     (''BPF_FUNC_csum_level'', 135),
     (''__BPF_FUNC_MAX_ID'', 136)]"

lemma enum_bpf_func_id_layout [ctype_layout]:
  "sizeof enum_bpf_func_id = 4" "alignof enum_bpf_func_id = 4" "wf_ctype enum_bpf_func_id"
  by (simp_all add: enum_bpf_func_id_def ctype_defs ctype_layout layout_eval)

definition enum_bpf_access_type :: ctype where
  "enum_bpf_access_type = Enum ''bpf_access_type'' [
     (''BPF_READ'', 1),
     (''BPF_WRITE'', 2)]"

lemma enum_bpf_access_type_layout [ctype_layout]:
  "sizeof enum_bpf_access_type = 4" "alignof enum_bpf_access_type = 4" "wf_ctype enum_bpf_access_type"
  by (simp_all add: enum_bpf_access_type_def ctype_defs ctype_layout layout_eval)

definition enum_bpf_cmd :: ctype where
  "enum_bpf_cmd = Enum ''bpf_cmd'' [
     (''BPF_MAP_CREATE'', 0),
     (''BPF_MAP_LOOKUP_ELEM'', 1),
     (''BPF_MAP_UPDATE_ELEM'', 2),
     (''BPF_MAP_DELETE_ELEM'', 3),
     (''BPF_MAP_GET_NEXT_KEY'', 4),
     (''BPF_PROG_LOAD'', 5),
     (''BPF_OBJ_PIN'', 6),
     (''BPF_OBJ_GET'', 7),
     (''BPF_PROG_ATTACH'', 8),
     (''BPF_PROG_DETACH'', 9),
     (''BPF_PROG_TEST_RUN'', 10),
     (''BPF_PROG_GET_NEXT_ID'', 11),
     (''BPF_MAP_GET_NEXT_ID'', 12),
     (''BPF_PROG_GET_FD_BY_ID'', 13),
     (''BPF_MAP_GET_FD_BY_ID'', 14),
     (''BPF_OBJ_GET_INFO_BY_FD'', 15),
     (''BPF_PROG_QUERY'', 16),
     (''BPF_RAW_TRACEPOINT_OPEN'', 17),
     (''BPF_BTF_LOAD'', 18),
     (''BPF_BTF_GET_FD_BY_ID'', 19),
     (''BPF_TASK_FD_QUERY'', 20),
     (''BPF_MAP_LOOKUP_AND_DELETE_ELEM'', 21),
     (''BPF_MAP_FREEZE'', 22),
     (''BPF_BTF_GET_NEXT_ID'', 23),
     (''BPF_MAP_LOOKUP_BATCH'', 24),
     (''BPF_MAP_LOOKUP_AND_DELETE_BATCH'', 25),
     (''BPF_MAP_UPDATE_BATCH'', 26),
     (''BPF_MAP_DELETE_BATCH'', 27),
     (''BPF_LINK_CREATE'', 28),
     (''BPF_LINK_UPDATE'', 29),
     (''BPF_LINK_GET_FD_BY_ID'', 30),
     (''BPF_LINK_GET_NEXT_ID'', 31),
     (''BPF_ENABLE_STATS'', 32),
     (''BPF_ITER_CREATE'', 33)]"

lemma enum_bpf_cmd_layout [ctype_layout]:
  "sizeof enum_bpf_cmd = 4" "alignof enum_bpf_cmd = 4" "wf_ctype enum_bpf_cmd"
  by (simp_all add: enum_bpf_cmd_def ctype_defs ctype_layout layout_eval)

definition enum_bpf_type :: ctype where
  "enum_bpf_type = Enum ''bpf_type'' [
     (''BPF_TYPE_UNSPEC'', 0),
     (''BPF_TYPE_PROG'', 1),
     (''BPF_TYPE_MAP'', 2),
     (''BPF_TYPE_LINK'', 3)]"

lemma enum_bpf_type_layout [ctype_layout]:
  "sizeof enum_bpf_type = 4" "alignof enum_bpf_type = 4" "wf_ctype enum_bpf_type"
  by (simp_all add: enum_bpf_type_def ctype_defs ctype_layout layout_eval)

end
