(* ===== verification/Vmlinux_Verifier.thy ===== *)
theory Vmlinux_Verifier
  imports Vmlinux_Bpf
begin

text \<open>
  The remaining BPF records of \<^verbatim>\<open>src/src/bpf/vmlinux.h\<close>: programs, links, type information, the verifier's
  state and the map implementations next to the ring buffer.
\<close>

definition enum_bpf_tramp_prog_type :: ctype where
  "enum_bpf_tramp_prog_type = Enum ''bpf_tramp_prog_type'' [
     (''BPF_TRAMP_FENTRY'', 0),
     (''BPF_TRAMP_FEXIT'', 1),
     (''BPF_TRAMP_MODIFY_RETURN'', 2),
     (''BPF_TRAMP_MAX'', 3),
     (''BPF_TRAMP_REPLACE'', 4)]"

lemma enum_bpf_tramp_prog_type_layout [ctype_layout]:
  "sizeof enum_bpf_tramp_prog_type = 4" "alignof enum_bpf_tramp_prog_type = 4" "wf_ctype enum_bpf_tramp_prog_type"
  by (simp_all add: enum_bpf_tramp_prog_type_def ctype_defs ctype_layout layout_eval)

definition struct_latch_tree_node :: ctype where
  "struct_latch_tree_node = Struct ''latch_tree_node'' False [
     Field ''node'' (Array 2 struct_rb_node)]"

lemma struct_latch_tree_node_layout [ctype_layout]:
  "sizeof struct_latch_tree_node = 48" "alignof struct_latch_tree_node = 8" "wf_ctype struct_latch_tree_node"
  by (simp_all add: struct_latch_tree_node_def ctype_defs ctype_layout layout_eval)

definition struct_bpf_ksym :: ctype where
  "struct_bpf_ksym = Struct ''bpf_ksym'' False [
     Field ''start'' (Base CULong),
     Field ''end'' (Base CULong),
     Field ''name'' (Array 128 (Base CChar)),
     Field ''lnode'' struct_list_head,
     Field ''tnode'' struct_latch_tree_node,
     Field ''prog'' typedef_bool]"

lemma struct_bpf_ksym_layout [ctype_layout]:
  "sizeof struct_bpf_ksym = 216" "alignof struct_bpf_ksym = 8" "wf_ctype struct_bpf_ksym"
  by (simp_all add: struct_bpf_ksym_def ctype_defs ctype_layout layout_eval)

definition struct_bpf_prog_aux :: ctype where
  "struct_bpf_prog_aux = Struct ''bpf_prog_aux'' False [
     Field ''refcnt'' typedef_atomic64_t,
     Field ''used_map_cnt'' typedef_u32,
     Field ''max_ctx_offset'' typedef_u32,
     Field ''max_pkt_offset'' typedef_u32,
     Field ''max_tp_access'' typedef_u32,
     Field ''stack_depth'' typedef_u32,
     Field ''id'' typedef_u32,
     Field ''func_cnt'' typedef_u32,
     Field ''func_idx'' typedef_u32,
     Field ''attach_btf_id'' typedef_u32,
     Field ''ctx_arg_info_size'' typedef_u32,
     Field ''ctx_arg_info'' (Ptr ''struct bpf_ctx_arg_aux''),
     Field ''linked_prog'' (Ptr ''struct bpf_prog''),
     Field ''verifier_zext'' typedef_bool,
     Field ''offload_requested'' typedef_bool,
     Field ''attach_btf_trace'' typedef_bool,
     Field ''func_proto_unreliable'' typedef_bool,
     Field ''trampoline_prog_type'' enum_bpf_tramp_prog_type,
     Field ''trampoline'' (Ptr ''struct bpf_trampoline''),
     Field ''tramp_hlist'' struct_hlist_node,
     Field ''attach_func_proto'' (Ptr ''struct btf_type''),
     Field ''attach_func_name'' (Ptr ''char''),
     Field ''func'' (Ptr ''struct bpf_prog *''),
     Field ''jit_data'' (Ptr ''void''),
     Field ''poke_tab'' (Ptr ''struct bpf_jit_poke_descriptor''),
     Field ''size_poke_tab'' typedef_u32,
     Field ''ksym'' struct_bpf_ksym,
     Field ''ops'' (Ptr ''struct bpf_prog_ops''),
     Field ''used_maps'' (Ptr ''struct bpf_map *''),
     Field ''prog'' (Ptr ''struct bpf_prog''),
     Field ''user'' (Ptr ''struct user_struct''),
     Field ''load_time'' typedef_u64,
     Field ''cgroup_storage'' (Array 2 (Ptr ''struct bpf_map'')),
     Field ''name'' (Array 16 (Base CChar)),
     Field ''security'' (Ptr ''void''),
     Field ''offload'' (Ptr ''struct bpf_prog_offload''),
     Field ''btf'' (Ptr ''struct btf''),
     Field ''func_info'' (Ptr ''struct bpf_func_info''),
     Field ''func_info_aux'' (Ptr ''struct bpf_func_info_aux''),
     Field ''linfo'' (Ptr ''struct bpf_line_info''),
     Field ''jited_linfo'' (Ptr ''void *''),
     Field ''func_info_cnt'' typedef_u32,
     Field ''nr_linfo'' typedef_u32,
     Field ''linfo_idx'' typedef_u32,
     Field ''num_exentries'' typedef_u32,
     Field ''extable'' (Ptr ''struct exception_table_entry''),
     Field ''stats'' (Ptr ''struct bpf_prog_stats''),
     Anon (Union '''' False [
         Field ''work'' struct_work_struct,
         Field ''rcu'' struct_callback_head])]"

lemma struct_bpf_prog_aux_layout [ctype_layout]:
  "sizeof struct_bpf_prog_aux = 552" "alignof struct_bpf_prog_aux = 8" "wf_ctype struct_bpf_prog_aux"
  by (simp_all add: struct_bpf_prog_aux_def ctype_defs ctype_layout layout_eval)

definition struct_u64_stats_sync :: ctype where
  "struct_u64_stats_sync = Struct ''u64_stats_sync'' False []"

lemma struct_u64_stats_sync_layout [ctype_layout]:
  "sizeof struct_u64_stats_sync = 0" "alignof struct_u64_stats_sync = 1" "wf_ctype struct_u64_stats_sync"
  by (simp_all add: struct_u64_stats_sync_def ctype_defs ctype_layout layout_eval)

definition struct_bpf_prog_stats :: ctype where
  "struct_bpf_prog_stats = Struct ''bpf_prog_stats'' False [
     Field ''cnt'' typedef_u64,
     Field ''nsecs'' typedef_u64,
     Field ''syncp'' struct_u64_stats_sync]"

lemma struct_bpf_prog_stats_layout [ctype_layout]:
  "sizeof struct_bpf_prog_stats = 16" "alignof struct_bpf_prog_stats = 8" "wf_ctype struct_bpf_prog_stats"
  by (simp_all add: struct_bpf_prog_stats_def ctype_defs ctype_layout layout_eval)

definition struct_bpf_verifier_ops :: ctype where
  "struct_bpf_verifier_ops = Struct ''bpf_verifier_ops'' False [
     Field ''get_func_proto'' FnPtr,
     Field ''is_valid_access'' FnPtr,
     Field ''gen_prologue'' FnPtr,
     Field ''gen_ld_abs'' FnPtr,
     Field ''convert_ctx_access'' FnPtr,
     Field ''btf_struct_access'' FnPtr]"

lemma struct_bpf_verifier_ops_layout [ctype_layout]:
  "sizeof struct_bpf_verifier_ops = 48" "alignof struct_bpf_verifier_ops = 8" "wf_ctype struct_bpf_verifier_ops"
  by (simp_all add: struct_bpf_verifier_ops_def ctype_defs ctype_layout layout_eval)

definition enum_bpf_reg_type :: ctype where
  "enum_bpf_reg_type = Enum ''bpf_reg_type'' [
     (''NOT_INIT'', 0),
     (''SCALAR_VALUE'', 1),
     (''PTR_TO_CTX'', 2),
     (''CONST_PTR_TO_MAP'', 3),
     (''PTR_TO_MAP_VALUE'', 4),
     (''PTR_TO_MAP_VALUE_OR_NULL'', 5),
     (''PTR_TO_STACK'', 6),
     (''PTR_TO_PACKET_META'', 7),
     (''PTR_TO_PACKET'', 8),
     (''PTR_TO_PACKET_END'', 9),
     (''PTR_TO_FLOW_KEYS'', 10),
     (''PTR_TO_SOCKET'', 11),
     (''PTR_TO_SOCKET_OR_NULL'', 12),
     (''PTR_TO_SOCK_COMMON'', 13),
     (''PTR_TO_SOCK_COMMON_OR_NULL'', 14),
     (''PTR_TO_TCP_SOCK'', 15),
     (''PTR_TO_TCP_SOCK_OR_NULL'', 16),
     (''PTR_TO_TP_BUFFER'', 17),
     (''PTR_TO_XDP_SOCK'', 18),
     (''PTR_TO_BTF_ID'', 19),
     (''PTR_TO_BTF_ID_OR_NULL'', 20),
     (''PTR_TO_MEM'', 21),
     (''PTR_TO_MEM_OR_NULL'', 22)]"

lemma enum_bpf_reg_type_layout [ctype_layout]:
  "sizeof enum_bpf_reg_type = 4" "alignof enum_bpf_reg_type = 4" "wf_ctype enum_bpf_reg_type"
  by (simp_all add: enum_bpf_reg_type_def ctype_defs ctype_layout layout_eval)

definition struct_bpf_insn_access_aux :: ctype where
  "struct_bpf_insn_access_aux = Struct ''bpf_insn_access_aux'' False [
     Field ''reg_type'' enum_bpf_reg_type,
     Anon (Union '''' False [
         Field ''ctx_field_size'' (Base CInt),
         Field ''btf_id'' typedef_u32]),
     Field ''log'' (Ptr ''struct bpf_verifier_log'')]"

lemma struct_bpf_insn_access_aux_layout [ctype_layout]:
  "sizeof struct_bpf_insn_access_aux = 16" "alignof struct_bpf_insn_access_aux = 8" "wf_ctype struct_bpf_insn_access_aux"
  by (simp_all add: struct_bpf_insn_access_aux_def ctype_defs ctype_layout layout_eval)

definition struct_bpf_func_info :: ctype where
  "struct_bpf_func_info = Struct ''bpf_func_info'' False [
     Field ''insn_off'' typedef___u32,
     Field ''type_id'' typedef___u32]"

lemma struct_bpf_func_info_layout [ctype_layout]:
  "sizeof struct_bpf_func_info = 8" "alignof struct_bpf_func_info = 4" "wf_ctype struct_bpf_func_info"
  by (simp_all add: struct_bpf_func_info_def ctype_defs ctype_layout layout_eval)

definition struct_bpf_line_info :: ctype where
  "struct_bpf_line_info = Struct ''bpf_line_info'' False [
     Field ''insn_off'' typedef___u32,
     Field ''file_name_off'' typedef___u32,
     Field ''line_off'' typedef___u32,
     Field ''line_col'' typedef___u32]"

lemma struct_bpf_line_info_layout [ctype_layout]:
  "sizeof struct_bpf_line_info = 16" "alignof struct_bpf_line_info = 4" "wf_ctype struct_bpf_line_info"
  by (simp_all add: struct_bpf_line_info_def ctype_defs ctype_layout layout_eval)

definition struct_bpf_func_info_aux :: ctype where
  "struct_bpf_func_info_aux = Struct ''bpf_func_info_aux'' False [
     Field ''linkage'' typedef_u16,
     Field ''unreliable'' typedef_bool]"

lemma struct_bpf_func_info_aux_layout [ctype_layout]:
  "sizeof struct_bpf_func_info_aux = 4" "alignof struct_bpf_func_info_aux = 2" "wf_ctype struct_bpf_func_info_aux"
  by (simp_all add: struct_bpf_func_info_aux_def ctype_defs ctype_layout layout_eval)

definition struct_bpf_ctx_arg_aux :: ctype where
  "struct_bpf_ctx_arg_aux = Struct ''bpf_ctx_arg_aux'' False [
     Field ''offset'' typedef_u32,
     Field ''reg_type'' enum_bpf_reg_type]"

lemma struct_bpf_ctx_arg_aux_layout [ctype_layout]:
  "sizeof struct_bpf_ctx_arg_aux = 8" "alignof struct_bpf_ctx_arg_aux = 4" "wf_ctype struct_bpf_ctx_arg_aux"
  by (simp_all add: struct_bpf_ctx_arg_aux_def ctype_defs ctype_layout layout_eval)

definition struct_btf_func_model :: ctype where
  "struct_btf_func_model = Struct ''btf_func_model'' False [
     Field ''ret_size'' typedef_u8,
     Field ''nr_args'' typedef_u8,
     Field ''arg_size'' (Array 12 typedef_u8)]"

lemma struct_btf_func_model_layout [ctype_layout]:
  "sizeof struct_btf_func_model = 14" "alignof struct_btf_func_model = 1" "wf_ctype struct_btf_func_model"
  by (simp_all add: struct_btf_func_model_def ctype_defs ctype_layout layout_eval)

definition struct_bpf_trampoline :: ctype where
  "struct_bpf_trampoline = Struct ''bpf_trampoline'' False [
     Field ''hlist'' struct_hlist_node,
     Field ''mutex'' struct_mutex,
     Field ''refcnt'' typedef_refcount_t,
     Field ''key'' typedef_u64,
     Field ''func'' (Struct '''' False [
         Field ''model'' struct_btf_func_model,
         Field ''addr'' (Ptr ''void''),
         Field ''ftrace_managed'' typedef_bool]),
     Field ''extension_prog'' (Ptr ''struct bpf_prog''),
     Field ''progs_hlist'' (Array 3 struct_hlist_head),
     Field ''progs_cnt'' (Array 3 (Base CInt)),
     Field ''image'' (Ptr ''void''),
     Field ''selector'' typedef_u64,
     Field ''ksym'' struct_bpf_ksym]"

lemma struct_bpf_trampoline_layout [ctype_layout]:
  "sizeof struct_bpf_trampoline = 376" "alignof struct_bpf_trampoline = 8" "wf_ctype struct_bpf_trampoline"
  by (simp_all add: struct_bpf_trampoline_def ctype_defs ctype_layout layout_eval)

definition struct_bpf_jit_poke_descriptor :: ctype where
  "struct_bpf_jit_poke_descriptor = Struct ''bpf_jit_poke_descriptor'' False [
     Field ''ip'' (Ptr ''void''),
     Anon (Union '''' False [
         Field ''tail_call'' (Struct '''' False [
             Field ''map'' (Ptr ''struct bpf_map''),
             Field ''key'' typedef_u32])]),
     Field ''ip_stable'' typedef_bool,
     Field ''adj_off'' typedef_u8,
     Field ''reason'' typedef_u16]"

lemma struct_bpf_jit_poke_descriptor_layout [ctype_layout]:
  "sizeof struct_bpf_jit_poke_descriptor = 32" "alignof struct_bpf_jit_poke_descriptor = 8" "wf_ctype struct_bpf_jit_poke_descriptor"
  by (simp_all add: struct_bpf_jit_poke_descriptor_def ctype_defs ctype_layout layout_eval)

definition struct_bpf_prog_array_item :: ctype where
  "struct_bpf_prog_array_item = Struct ''bpf_prog_array_item'' False [
     Field ''prog'' (Ptr ''struct bpf_prog''),
     Field ''cgroup_storage'' (Array 2 (Ptr ''struct bpf_cgroup_storage''))]"

lemma struct_bpf_prog_array_item_layout [ctype_layout]:
  "sizeof struct_bpf_prog_array_item = 24" "alignof struct_bpf_prog_array_item = 8" "wf_ctype struct_bpf_prog_array_item"
  by (simp_all add: struct_bpf_prog_array_item_def ctype_defs ctype_layout layout_eval)

definition struct_bpf_prog_array :: ctype where
  "struct_bpf_prog_array = Struct ''bpf_prog_array'' False [
     Field ''rcu'' struct_callback_head,
     Field ''items'' (Array 0 struct_bpf_prog_array_item)]"

lemma struct_bpf_prog_array_layout [ctype_layout]:
  "sizeof struct_bpf_prog_array = 16" "alignof struct_bpf_prog_array = 8" "wf_ctype struct_bpf_prog_array"
  by (simp_all add: struct_bpf_prog_array_def ctype_defs ctype_layout layout_eval)

definition struct_bpf_prog_info :: ctype where
  "struct_bpf_prog_info = Struct ''bpf_prog_info'' False [
     Field ''type'' typedef___u32,
     Field ''id'' typedef___u32,
     Field ''tag'' (Array 8 typedef___u8),
     Field ''jited_prog_len'' typedef___u32,
     Field ''xlated_prog_len'' typedef___u32,
     Field ''jited_prog_insns'' typedef___u64,
     Field ''xlated_prog_insns'' typedef___u64,
     Field ''load_time'' typedef___u64,
     Field ''created_by_uid'' typedef___u32,
     Field ''nr_map_ids'' typedef___u32,
     Field ''map_ids'' typedef___u64,
     Field ''name'' (Array 16 (Base CChar)),
     Field ''ifindex'' typedef___u32,
     Bits ''gpl_compatible'' typedef___u32 1,
     Field ''netns_dev'' typedef___u64,
     Field ''netns_ino'' typedef___u64,
     Field ''nr_jited_ksyms'' typedef___u32,
     Field ''nr_jited_func_lens'' typedef___u32,
     Field ''jited_ksyms'' typedef___u64,
     Field ''jited_func_lens'' typedef___u64,
     Field ''btf_id'' typedef___u32,
     Field ''func_info_rec_size'' typedef___u32,
     Field ''func_info'' typedef___u64,
     Field ''nr_func_info'' typedef___u32,
     Field ''nr_line_info'' typedef___u32,
     Field ''line_info'' typedef___u64,
     Field ''jited_line_info'' typedef___u64,
     Field ''nr_jited_line_info'' typedef___u32,
     Field ''line_info_rec_size'' typedef___u32,
     Field ''jited_line_info_rec_size'' typedef___u32,
     Field ''nr_prog_tags'' typedef___u32,
     Field ''prog_tags'' typedef___u64,
     Field ''run_time_ns'' typedef___u64,
     Field ''run_cnt'' typedef___u64]"

lemma struct_bpf_prog_info_layout [ctype_layout]:
  "sizeof struct_bpf_prog_info = 208" "alignof struct_bpf_prog_info = 8" "wf_ctype struct_bpf_prog_info"
  by (simp_all add: struct_bpf_prog_info_def ctype_defs ctype_layout layout_eval)

definition struct_bpf_map_info :: ctype where
  "struct_bpf_map_info = Struct ''bpf_map_info'' False [
     Field ''type'' typedef___u32,
     Field ''id'' typedef___u32,
     Field ''key_size'' typedef___u32,
     Field ''value_size'' typedef___u32,
     Field ''max_entries'' typedef___u32,
     Field ''map_flags'' typedef___u32,
     Field ''name'' (Array 16 (Base CChar)),
     Field ''ifindex'' typedef___u32,
     Field ''btf_vmlinux_value_type_id'' typedef___u32,
     Field ''netns_dev'' typedef___u64,
     Field ''netns_ino'' typedef___u64,
     Field ''btf_id'' typedef___u32,
     Field ''btf_key_type_id'' typedef___u32,
     Field ''btf_value_type_id'' typedef___u32]"

lemma struct_bpf_map_info_layout [ctype_layout]:
  "sizeof struct_bpf_map_info = 80" "alignof struct_bpf_map_info = 8" "wf_ctype struct_bpf_map_info"
  by (simp_all add: struct_bpf_map_info_def ctype_defs ctype_layout layout_eval)

definition struct_bpf_btf_info :: ctype where
  "struct_bpf_btf_info = Struct ''bpf_btf_info'' False [
     Field ''btf'' typedef___u64,
     Field ''btf_size'' typedef___u32,
     Field ''id'' typedef___u32]"

lemma struct_bpf_btf_info_layout [ctype_layout]:
  "sizeof struct_bpf_btf_info = 16" "alignof struct_bpf_btf_info = 8" "wf_ctype struct_bpf_btf_info"
  by (simp_all add: struct_bpf_btf_info_def ctype_defs ctype_layout layout_eval)

definition enum_bpf_link_type :: ctype where
  "enum_bpf_link_type = Enum ''bpf_link_type'' [
     (''BPF_LINK_TYPE_UNSPEC'', 0),
     (''BPF_LINK_TYPE_RAW_TRACEPOINT'', 1),
     (''BPF_LINK_TYPE_TRACING'', 2),
     (''BPF_LINK_TYPE_CGROUP'', 3),
     (''BPF_LINK_TYPE_ITER'', 4),
     (''BPF_LINK_TYPE_NETNS'', 5),
     (''MAX_BPF_LINK_TYPE'', 6)]"

lemma enum_bpf_link_type_layout [ctype_layout]:
  "sizeof enum_bpf_link_type = 4" "alignof enum_bpf_link_type = 4" "wf_ctype enum_bpf_link_type"
  by (simp_all add: enum_bpf_link_type_def ctype_defs ctype_layout layout_eval)

definition struct_bpf_link :: ctype where
  "struct_bpf_link = Struct ''bpf_link'' False [
     Field ''refcnt'' typedef_atomic64_t,
     Field ''id'' typedef_u32,
     Field ''type'' enum_bpf_link_type,
     Field ''ops'' (Ptr ''struct bpf_link_ops''),
     Field ''prog'' (Ptr ''struct bpf_prog''),
     Field ''work'' struct_work_struct]"

lemma struct_bpf_link_layout [ctype_layout]:
  "sizeof struct_bpf_link = 64" "alignof struct_bpf_link = 8" "wf_ctype struct_bpf_link"
  by (simp_all add: struct_bpf_link_def ctype_defs ctype_layout layout_eval)

definition struct_bpf_link_ops :: ctype where
  "struct_bpf_link_ops = Struct ''bpf_link_ops'' False [
     Field ''release'' FnPtr,
     Field ''dealloc'' FnPtr,
     Field ''update_prog'' FnPtr,
     Field ''show_fdinfo'' FnPtr,
     Field ''fill_link_info'' FnPtr]"

lemma struct_bpf_link_ops_layout [ctype_layout]:
  "sizeof struct_bpf_link_ops = 40" "alignof struct_bpf_link_ops = 8" "wf_ctype struct_bpf_link_ops"
  by (simp_all add: struct_bpf_link_ops_def ctype_defs ctype_layout layout_eval)

definition struct_bpf_link_info :: ctype where
  "struct_bpf_link_info = Struct ''bpf_link_info'' False [
     Field ''type'' typedef___u32,
     Field ''id'' typedef___u32,
     Field ''prog_id'' typedef___u32,
     Anon (Union '''' False [
         Field ''raw_tracepoint'' (Struct '''' False [
             Field ''tp_name'' typedef___u64,
             Field ''tp_name_len'' typedef___u32]),
         Field ''tracing'' (Struct '''' False [
             Field ''attach_type'' typedef___u32]),
         Field ''cgroup'' (Struct '''' False [
             Field ''cgroup_id'' typedef___u64,
             Field ''attach_type'' typedef___u32]),
         Field ''netns'' (Struct '''' False [
             Field ''netns_ino'' typedef___u32,
             Field ''attach_type'' typedef___u32])])]"

lemma struct_bpf_link_info_layout [ctype_layout]:
  "sizeof struct_bpf_link_info = 32" "alignof struct_bpf_link_info = 8" "wf_ctype struct_bpf_link_info"
  by (simp_all add: struct_bpf_link_info_def ctype_defs ctype_layout layout_eval)

definition struct_bpf_link_primer :: ctype where
  "struct_bpf_link_primer = Struct ''bpf_link_primer'' False [
     Field ''link'' (Ptr ''struct bpf_link''),
     Field ''file'' (Ptr ''struct file''),
     Field ''fd'' (Base CInt),
     Field ''id'' typedef_u32]"

lemma struct_bpf_link_primer_layout [ctype_layout]:
  "sizeof struct_bpf_link_primer = 24" "alignof struct_bpf_link_primer = 8" "wf_ctype struct_bpf_link_primer"
  by (simp_all add: struct_bpf_link_primer_def ctype_defs ctype_layout layout_eval)

definition struct_bpf_verifier_log :: ctype where
  "struct_bpf_verifier_log = Struct ''bpf_verifier_log'' False [
     Field ''level'' typedef_u32,
     Field ''kbuf'' (Array 1024 (Base CChar)),
     Field ''ubuf'' (Ptr ''char''),
     Field ''len_used'' typedef_u32,
     Field ''len_total'' typedef_u32]"

lemma struct_bpf_verifier_log_layout [ctype_layout]:
  "sizeof struct_bpf_verifier_log = 1048" "alignof struct_bpf_verifier_log = 8" "wf_ctype struct_bpf_verifier_log"
  by (simp_all add: struct_bpf_verifier_log_def ctype_defs ctype_layout layout_eval)

definition struct_bpf_subprog_info :: ctype where
  "struct_bpf_subprog_info = Struct ''bpf_subprog_info'' False [
     Field ''start'' typedef_u32,
     Field ''linfo_idx'' typedef_u32,
     Field ''stack_depth'' typedef_u16]"

lemma struct_bpf_subprog_info_layout [ctype_layout]:
  "sizeof struct_bpf_subprog_info = 12" "alignof struct_bpf_subprog_info = 4" "wf_ctype struct_bpf_subprog_info"
  by (simp_all add: struct_bpf_subprog_info_def ctype_defs ctype_layout layout_eval)

definition struct_bpf_verifier_env :: ctype where
  "struct_bpf_verifier_env = Struct ''bpf_verifier_env'' False [
     Field ''insn_idx'' typedef_u32,
     Field ''prev_insn_idx'' typedef_u32,
     Field ''prog'' (Ptr ''struct bpf_prog''),
     Field ''ops'' (Ptr ''struct bpf_verifier_ops''),
     Field ''head'' (Ptr ''struct bpf_verifier_stack_elem''),
     Field ''stack_size'' (Base CInt),
     Field ''strict_alignment'' typedef_bool,
     Field ''test_state_freq'' typedef_bool,
     Field ''cur_state'' (Ptr ''struct bpf_verifier_state''),
     Field ''explored_states'' (Ptr ''struct bpf_verifier_state_list *''),
     Field ''free_list'' (Ptr ''struct bpf_verifier_state_list''),
     Field ''used_maps'' (Array 64 (Ptr ''struct bpf_map'')),
     Field ''used_map_cnt'' typedef_u32,
     Field ''id_gen'' typedef_u32,
     Field ''allow_ptr_leaks'' typedef_bool,
     Field ''bpf_capable'' typedef_bool,
     Field ''bypass_spec_v1'' typedef_bool,
     Field ''bypass_spec_v4'' typedef_bool,
     Field ''seen_direct_write'' typedef_bool,
     Field ''insn_aux_data'' (Ptr ''struct bpf_insn_aux_data''),
     Field ''prev_linfo'' (Ptr ''struct bpf_line_info''),
     Field ''log'' struct_bpf_verifier_log,
     Field ''subprog_info'' (Array 257 struct_bpf_subprog_info),
     Field ''cfg'' (Struct '''' False [
         Field ''insn_state'' (Ptr ''int''),
         Field ''insn_stack'' (Ptr ''int''),
         Field ''cur_stack'' (Base CInt)]),
     Field ''pass_cnt'' typedef_u32,
     Field ''subprog_cnt'' typedef_u32,
     Field ''prev_insn_processed'' typedef_u32,
     Field ''insn_processed'' typedef_u32,
     Field ''prev_jmps_processed'' typedef_u32,
     Field ''jmps_processed'' typedef_u32,
     Field ''verification_time'' typedef_u64,
     Field ''max_states_per_insn'' typedef_u32,
     Field ''total_states'' typedef_u32,
     Field ''peak_states'' typedef_u32,
     Field ''longest_mark_read_walk'' typedef_u32]"

lemma struct_bpf_verifier_env_layout [ctype_layout]:
  "sizeof struct_bpf_verifier_env = 4816" "alignof struct_bpf_verifier_env = 8" "wf_ctype struct_bpf_verifier_env"
  by (simp_all add: struct_bpf_verifier_env_def ctype_defs ctype_layout layout_eval)

definition struct_bpf_verifier_state :: ctype where
  "struct_bpf_verifier_state = Struct ''bpf_verifier_state'' False [
     Field ''frame'' (Array 8 (Ptr ''struct bpf_func_state'')),
     Field ''parent'' (Ptr ''struct bpf_verifier_state''),
     Field ''branches'' typedef_u32,
     Field ''insn_idx'' typedef_u32,
     Field ''curframe'' typedef_u32,
     Field ''active_spin_lock'' typedef_u32,
     Field ''speculative'' typedef_bool,
     Field ''first_insn_idx'' typedef_u32,
     Field ''last_insn_idx'' typedef_u32,
     Field ''jmp_history'' (Ptr ''struct bpf_idx_pair''),
     Field ''jmp_history_cnt'' typedef_u32]"

lemma struct_bpf_verifier_state_layout [ctype_layout]:
  "sizeof struct_bpf_verifier_state = 120" "alignof struct_bpf_verifier_state = 8" "wf_ctype struct_bpf_verifier_state"
  by (simp_all add: struct_bpf_verifier_state_def ctype_defs ctype_layout layout_eval)

definition struct_tnum :: ctype where
  "struct_tnum = Struct ''tnum'' False [
     Field ''value'' typedef_u64,
     Field ''mask'' typedef_u64]"

lemma struct_tnum_layout [ctype_layout]:
  "sizeof struct_tnum = 16" "alignof struct_tnum = 8" "wf_ctype struct_tnum"
  by (simp_all add: struct_tnum_def ctype_defs ctype_layout layout_eval)

definition enum_bpf_reg_liveness :: ctype where
  "enum_bpf_reg_liveness = Enum ''bpf_reg_liveness'' [
     (''REG_LIVE_NONE'', 0),
     (''REG_LIVE_READ32'', 1),
     (''REG_LIVE_READ64'', 2),
     (''REG_LIVE_READ'', 3),
     (''REG_LIVE_WRITTEN'', 4),
     (''REG_LIVE_DONE'', 8)]"

lemma enum_bpf_reg_liveness_layout [ctype_layout]:
  "sizeof enum_bpf_reg_liveness = 4" "alignof enum_bpf_reg_liveness = 4" "wf_ctype enum_bpf_reg_liveness"
  by (simp_all add: enum_bpf_reg_liveness_def ctype_defs ctype_layout layout_eval)

definition struct_bpf_reg_state :: ctype where
  "struct_bpf_reg_state = Struct ''bpf_reg_state'' False [
     Field ''type'' enum_bpf_reg_type,
     Anon (Union '''' False [
         Field ''range'' typedef_u16,
         Field ''map_ptr'' (Ptr ''struct bpf_map''),
         Field ''btf_id'' typedef_u32,
         Field ''mem_size'' typedef_u32,
         Field ''raw'' (Base CULong)]),
     Field ''off'' typedef_s32,
     Field ''id'' typedef_u32,
     Field ''ref_obj_id'' typedef_u32,
     Field ''var_off'' struct_tnum,
     Field ''smin_value'' typedef_s64,
     Field ''smax_value'' typedef_s64,
     Field ''umin_value'' typedef_u64,
     Field ''umax_value'' typedef_u64,
     Field ''s32_min_value'' typedef_s32,
     Field ''s32_max_value'' typedef_s32,
     Field ''u32_min_value'' typedef_u32,
     Field ''u32_max_value'' typedef_u32,
     Field ''parent'' (Ptr ''struct bpf_reg_state''),
     Field ''frameno'' typedef_u32,
     Field ''subreg_def'' typedef_s32,
     Field ''live'' enum_bpf_reg_liveness,
     Field ''precise'' typedef_bool]"

lemma struct_bpf_reg_state_layout [ctype_layout]:
  "sizeof struct_bpf_reg_state = 120" "alignof struct_bpf_reg_state = 8" "wf_ctype struct_bpf_reg_state"
  by (simp_all add: struct_bpf_reg_state_def ctype_defs ctype_layout layout_eval)

definition struct_bpf_func_state :: ctype where
  "struct_bpf_func_state = Struct ''bpf_func_state'' False [
     Field ''regs'' (Array 11 struct_bpf_reg_state),
     Field ''callsite'' (Base CInt),
     Field ''frameno'' typedef_u32,
     Field ''subprogno'' typedef_u32,
     Field ''acquired_refs'' (Base CInt),
     Field ''refs'' (Ptr ''struct bpf_reference_state''),
     Field ''allocated_stack'' (Base CInt),
     Field ''stack'' (Ptr ''struct bpf_stack_state'')]"

lemma struct_bpf_func_state_layout [ctype_layout]:
  "sizeof struct_bpf_func_state = 1360" "alignof struct_bpf_func_state = 8" "wf_ctype struct_bpf_func_state"
  by (simp_all add: struct_bpf_func_state_def ctype_defs ctype_layout layout_eval)

definition struct_bpf_insn_aux_data :: ctype where
  "struct_bpf_insn_aux_data = Struct ''bpf_insn_aux_data'' False [
     Anon (Union '''' False [
         Field ''ptr_type'' enum_bpf_reg_type,
         Field ''map_ptr_state'' (Base CULong),
         Field ''call_imm'' typedef_s32,
         Field ''alu_limit'' typedef_u32,
         Anon (Struct '''' False [
             Field ''map_index'' typedef_u32,
             Field ''map_off'' typedef_u32])]),
     Field ''map_key_state'' typedef_u64,
     Field ''ctx_field_size'' (Base CInt),
     Field ''sanitize_stack_off'' (Base CInt),
     Field ''seen'' typedef_u32,
     Field ''zext_dst'' typedef_bool,
     Field ''alu_state'' typedef_u8,
     Field ''orig_idx'' (Base CUInt),
     Field ''prune_point'' typedef_bool]"

lemma struct_bpf_insn_aux_data_layout [ctype_layout]:
  "sizeof struct_bpf_insn_aux_data = 40" "alignof struct_bpf_insn_aux_data = 8" "wf_ctype struct_bpf_insn_aux_data"
  by (simp_all add: struct_bpf_insn_aux_data_def ctype_defs ctype_layout layout_eval)

definition struct_bpf_verifier_stack_elem :: ctype where
  "struct_bpf_verifier_stack_elem = Struct ''bpf_verifier_stack_elem'' False [
     Field ''st'' struct_bpf_verifier_state,
     Field ''insn_idx'' (Base CInt),
     Field ''prev_insn_idx'' (Base CInt),
     Field ''next'' (Ptr ''struct bpf_verifier_stack_elem''),
     Field ''log_pos'' typedef_u32]"

lemma struct_bpf_verifier_stack_elem_layout [ctype_layout]:
  "sizeof struct_bpf_verifier_stack_elem = 144" "alignof struct_bpf_verifier_stack_elem = 8" "wf_ctype struct_bpf_verifier_stack_elem"
  by (simp_all add: struct_bpf_verifier_stack_elem_def ctype_defs ctype_layout layout_eval)

definition struct_bpf_verifier_state_list :: ctype where
  "struct_bpf_verifier_state_list = Struct ''bpf_verifier_state_list'' False [
     Field ''state'' struct_bpf_verifier_state,
     Field ''next'' (Ptr ''struct bpf_verifier_state_list''),
     Field ''miss_cnt'' (Base CInt),
     Field ''hit_cnt'' (Base CInt)]"

lemma struct_bpf_verifier_state_list_layout [ctype_layout]:
  "sizeof struct_bpf_verifier_state_list = 136" "alignof struct_bpf_verifier_state_list = 8" "wf_ctype struct_bpf_verifier_state_list"
  by (simp_all add: struct_bpf_verifier_state_list_def ctype_defs ctype_layout layout_eval)

definition struct_bpf_call_arg_meta :: ctype where
  "struct_bpf_call_arg_meta = Struct ''bpf_call_arg_meta'' False [
     Field ''map_ptr'' (Ptr ''struct bpf_map''),
     Field ''raw_mode'' typedef_bool,
     Field ''pkt_access'' typedef_bool,
     Field ''regno'' (Base CInt),
     Field ''access_size'' (Base CInt),
     Field ''mem_size'' (Base CInt),
     Field ''msize_max_value'' typedef_u64,
     Field ''ref_obj_id'' (Base CInt),
     Field ''func_id'' (Base CInt),
     Field ''btf_id'' typedef_u32]"

lemma struct_bpf_call_arg_meta_layout [ctype_layout]:
  "sizeof struct_bpf_call_arg_meta = 48" "alignof struct_bpf_call_arg_meta = 8" "wf_ctype struct_bpf_call_arg_meta"
  by (simp_all add: struct_bpf_call_arg_meta_def ctype_defs ctype_layout layout_eval)

definition struct_pcpu_freelist :: ctype where
  "struct_pcpu_freelist = Struct ''pcpu_freelist'' False [
     Field ''freelist'' (Ptr ''struct pcpu_freelist_head'')]"

lemma struct_pcpu_freelist_layout [ctype_layout]:
  "sizeof struct_pcpu_freelist = 8" "alignof struct_pcpu_freelist = 8" "wf_ctype struct_pcpu_freelist"
  by (simp_all add: struct_pcpu_freelist_def ctype_defs ctype_layout layout_eval)

definition struct_bpf_stack_map :: ctype where
  "struct_bpf_stack_map = Struct ''bpf_stack_map'' False [
     Field ''map'' struct_bpf_map,
     Field ''elems'' (Ptr ''void''),
     Field ''freelist'' struct_pcpu_freelist,
     Field ''n_buckets'' typedef_u32,
     Field ''buckets'' (Array 0 (Ptr ''struct stack_map_bucket'')),
     Pad (Base CLong) 64,
     Pad (Base CLong) 64,
     Pad (Base CLong) 64,
     Pad (Base CLong) 64,
     Pad (Base CLong) 64]"

lemma struct_bpf_stack_map_layout [ctype_layout]:
  "sizeof struct_bpf_stack_map = 320" "alignof struct_bpf_stack_map = 8" "wf_ctype struct_bpf_stack_map"
  by (simp_all add: struct_bpf_stack_map_def ctype_defs ctype_layout layout_eval)

definition struct_bpf_array :: ctype where
  "struct_bpf_array = Struct ''bpf_array'' False [
     Field ''map'' struct_bpf_map,
     Field ''elem_size'' typedef_u32,
     Field ''index_mask'' typedef_u32,
     Field ''aux'' (Ptr ''struct bpf_array_aux''),
     Anon (Union '''' False [
         Field ''value'' (Array 0 (Base CChar)),
         Field ''ptrs'' (Array 0 (Ptr ''void'')),
         Field ''pptrs'' (Array 0 (Ptr ''void''))]),
     Pad (Base CLong) 64,
     Pad (Base CLong) 64,
     Pad (Base CLong) 64,
     Pad (Base CLong) 64,
     Pad (Base CLong) 64,
     Pad (Base CLong) 64]"

lemma struct_bpf_array_layout [ctype_layout]:
  "sizeof struct_bpf_array = 320" "alignof struct_bpf_array = 8" "wf_ctype struct_bpf_array"
  by (simp_all add: struct_bpf_array_def ctype_defs ctype_layout layout_eval)

definition struct_bpf_event_entry :: ctype where
  "struct_bpf_event_entry = Struct ''bpf_event_entry'' False [
     Field ''event'' (Ptr ''struct perf_event''),
     Field ''perf_file'' (Ptr ''struct file''),
     Field ''map_file'' (Ptr ''struct file''),
     Field ''rcu'' struct_callback_head]"

lemma struct_bpf_event_entry_layout [ctype_layout]:
  "sizeof struct_bpf_event_entry = 40" "alignof struct_bpf_event_entry = 8" "wf_ctype struct_bpf_event_entry"
  by (simp_all add: struct_bpf_event_entry_def ctype_defs ctype_layout layout_eval)

definition struct_bpf_trace_sample_data :: ctype where
  "struct_bpf_trace_sample_data = Struct ''bpf_trace_sample_data'' False [
     Field ''sds'' (Array 3 struct_perf_sample_data)]"

lemma struct_bpf_trace_sample_data_layout [ctype_layout]:
  "sizeof struct_bpf_trace_sample_data = 1152" "alignof struct_bpf_trace_sample_data = 8" "wf_ctype struct_bpf_trace_sample_data"
  by (simp_all add: struct_bpf_trace_sample_data_def ctype_defs ctype_layout layout_eval)

definition struct_bpf_nested_pt_regs :: ctype where
  "struct_bpf_nested_pt_regs = Struct ''bpf_nested_pt_regs'' False [
     Field ''regs'' (Array 3 struct_pt_regs)]"

lemma struct_bpf_nested_pt_regs_layout [ctype_layout]:
  "sizeof struct_bpf_nested_pt_regs = 504" "alignof struct_bpf_nested_pt_regs = 8" "wf_ctype struct_bpf_nested_pt_regs"
  by (simp_all add: struct_bpf_nested_pt_regs_def ctype_defs ctype_layout layout_eval)

definition struct_bpf_raw_tp_regs :: ctype where
  "struct_bpf_raw_tp_regs = Struct ''bpf_raw_tp_regs'' False [
     Field ''regs'' (Array 3 struct_pt_regs)]"

lemma struct_bpf_raw_tp_regs_layout [ctype_layout]:
  "sizeof struct_bpf_raw_tp_regs = 504" "alignof struct_bpf_raw_tp_regs = 8" "wf_ctype struct_bpf_raw_tp_regs"
  by (simp_all add: struct_bpf_raw_tp_regs_def ctype_defs ctype_layout layout_eval)

definition struct_bpf_raw_event_map :: ctype where
  "struct_bpf_raw_event_map = Struct ''bpf_raw_event_map'' False [
     Field ''tp'' (Ptr ''struct tracepoint''),
     Field ''bpf_func'' (Ptr ''void''),
     Field ''num_args'' typedef_u32,
     Field ''writable_size'' typedef_u32,
     Pad (Base CLong) 64]"

lemma struct_bpf_raw_event_map_layout [ctype_layout]:
  "sizeof struct_bpf_raw_event_map = 32" "alignof struct_bpf_raw_event_map = 8" "wf_ctype struct_bpf_raw_event_map"
  by (simp_all add: struct_bpf_raw_event_map_def ctype_defs ctype_layout layout_eval)

definition struct_bpf_perf_event_value :: ctype where
  "struct_bpf_perf_event_value = Struct ''bpf_perf_event_value'' False [
     Field ''counter'' typedef___u64,
     Field ''enabled'' typedef___u64,
     Field ''running'' typedef___u64]"

lemma struct_bpf_perf_event_value_layout [ctype_layout]:
  "sizeof struct_bpf_perf_event_value = 24" "alignof struct_bpf_perf_event_value = 8" "wf_ctype struct_bpf_perf_event_value"
  by (simp_all add: struct_bpf_perf_event_value_def ctype_defs ctype_layout layout_eval)

definition struct_btf_type :: ctype where
  "struct_btf_type = Struct ''btf_type'' False [
     Field ''name_off'' typedef___u32,
     Field ''info'' typedef___u32,
     Anon (Union '''' False [
         Field ''size'' typedef___u32,
         Field ''type'' typedef___u32])]"

lemma struct_btf_type_layout [ctype_layout]:
  "sizeof struct_btf_type = 12" "alignof struct_btf_type = 4" "wf_ctype struct_btf_type"
  by (simp_all add: struct_btf_type_def ctype_defs ctype_layout layout_eval)

definition struct_btf_header :: ctype where
  "struct_btf_header = Struct ''btf_header'' False [
     Field ''magic'' typedef___u16,
     Field ''version'' typedef___u8,
     Field ''flags'' typedef___u8,
     Field ''hdr_len'' typedef___u32,
     Field ''type_off'' typedef___u32,
     Field ''type_len'' typedef___u32,
     Field ''str_off'' typedef___u32,
     Field ''str_len'' typedef___u32]"

lemma struct_btf_header_layout [ctype_layout]:
  "sizeof struct_btf_header = 24" "alignof struct_btf_header = 4" "wf_ctype struct_btf_header"
  by (simp_all add: struct_btf_header_def ctype_defs ctype_layout layout_eval)

definition struct_btf :: ctype where
  "struct_btf = Struct ''btf'' False [
     Field ''data'' (Ptr ''void''),
     Field ''types'' (Ptr ''struct btf_type *''),
     Field ''resolved_ids'' (Ptr ''u32''),
     Field ''resolved_sizes'' (Ptr ''u32''),
     Field ''strings'' (Ptr ''char''),
     Field ''nohdr_data'' (Ptr ''void''),
     Field ''hdr'' struct_btf_header,
     Field ''nr_types'' typedef_u32,
     Field ''types_size'' typedef_u32,
     Field ''data_size'' typedef_u32,
     Field ''refcnt'' typedef_refcount_t,
     Field ''id'' typedef_u32,
     Field ''rcu'' struct_callback_head]"

lemma struct_btf_layout [ctype_layout]:
  "sizeof struct_btf = 112" "alignof struct_btf = 8" "wf_ctype struct_btf"
  by (simp_all add: struct_btf_def ctype_defs ctype_layout layout_eval)

definition struct_ratelimit_state :: ctype where
  "struct_ratelimit_state = Struct ''ratelimit_state'' False [
     Field ''lock'' typedef_raw_spinlock_t,
     Field ''interval'' (Base CInt),
     Field ''burst'' (Base CInt),
     Field ''printed'' (Base CInt),
     Field ''missed'' (Base CInt),
     Field ''begin'' (Base CULong),
     Field ''flags'' (Base CULong)]"

lemma struct_ratelimit_state_layout [ctype_layout]:
  "sizeof struct_ratelimit_state = 40" "alignof struct_ratelimit_state = 8" "wf_ctype struct_ratelimit_state"
  by (simp_all add: struct_ratelimit_state_def ctype_defs ctype_layout layout_eval)

definition struct_user_struct :: ctype where
  "struct_user_struct = Struct ''user_struct'' False [
     Field ''__count'' typedef_refcount_t,
     Field ''processes'' typedef_atomic_t,
     Field ''sigpending'' typedef_atomic_t,
     Field ''epoll_watches'' typedef_atomic_long_t,
     Field ''mq_bytes'' (Base CULong),
     Field ''locked_shm'' (Base CULong),
     Field ''unix_inflight'' (Base CULong),
     Field ''pipe_bufs'' typedef_atomic_long_t,
     Field ''uidhash_node'' struct_hlist_node,
     Field ''uid'' typedef_kuid_t,
     Field ''locked_vm'' typedef_atomic_long_t,
     Field ''ratelimit'' struct_ratelimit_state]"

lemma struct_user_struct_layout [ctype_layout]:
  "sizeof struct_user_struct = 128" "alignof struct_user_struct = 8" "wf_ctype struct_user_struct"
  by (simp_all add: struct_user_struct_def ctype_defs ctype_layout layout_eval)

definition struct_exception_table_entry :: ctype where
  "struct_exception_table_entry = Struct ''exception_table_entry'' False [
     Field ''insn'' (Base CInt),
     Field ''fixup'' (Base CInt),
     Field ''handler'' (Base CInt)]"

lemma struct_exception_table_entry_layout [ctype_layout]:
  "sizeof struct_exception_table_entry = 12" "alignof struct_exception_table_entry = 4" "wf_ctype struct_exception_table_entry"
  by (simp_all add: struct_exception_table_entry_def ctype_defs ctype_layout layout_eval)

definition struct_bpf_lru_list :: ctype where
  "struct_bpf_lru_list = Struct ''bpf_lru_list'' False [
     Field ''lists'' (Array 3 struct_list_head),
     Field ''counts'' (Array 2 (Base CUInt)),
     Field ''next_inactive_rotation'' (Ptr ''struct list_head''),
     Field ''lock'' typedef_raw_spinlock_t,
     Pad (Base CLong) 32,
     Pad (Base CLong) 64,
     Pad (Base CLong) 64,
     Pad (Base CLong) 64,
     Pad (Base CLong) 64,
     Pad (Base CLong) 64,
     Pad (Base CLong) 64,
     Pad (Base CLong) 64]"

lemma struct_bpf_lru_list_layout [ctype_layout]:
  "sizeof struct_bpf_lru_list = 128" "alignof struct_bpf_lru_list = 8" "wf_ctype struct_bpf_lru_list"
  by (simp_all add: struct_bpf_lru_list_def ctype_defs ctype_layout layout_eval)

definition struct_bpf_common_lru :: ctype where
  "struct_bpf_common_lru = Struct ''bpf_common_lru'' False [
     Field ''lru_list'' struct_bpf_lru_list,
     Field ''local_list'' (Ptr ''struct bpf_lru_locallist''),
     Pad (Base CLong) 64,
     Pad (Base CLong) 64,
     Pad (Base CLong) 64,
     Pad (Base CLong) 64,
     Pad (Base CLong) 64,
     Pad (Base CLong) 64,
     Pad (Base CLong) 64]"

lemma struct_bpf_common_lru_layout [ctype_layout]:
  "sizeof struct_bpf_common_lru = 192" "alignof struct_bpf_common_lru = 8" "wf_ctype struct_bpf_common_lru"
  by (simp_all add: struct_bpf_common_lru_def ctype_defs ctype_layout layout_eval)

definition typedef_del_from_htab_func :: ctype where
  [ctype_defs]: "typedef_del_from_htab_func = FnPtr"

definition struct_bpf_lru :: ctype where
  "struct_bpf_lru = Struct ''bpf_lru'' False [
     Anon (Union '''' False [
         Field ''common_lru'' struct_bpf_common_lru,
         Field ''percpu_lru'' (Ptr ''struct bpf_lru_list'')]),
     Field ''del_from_htab'' typedef_del_from_htab_func,
     Field ''del_arg'' (Ptr ''void''),
     Field ''hash_offset'' (Base CUInt),
     Field ''nr_scans'' (Base CUInt),
     Field ''percpu'' typedef_bool,
     Pad (Base CLong) 56,
     Pad (Base CLong) 64,
     Pad (Base CLong) 64,
     Pad (Base CLong) 64,
     Pad (Base CLong) 64]"

lemma struct_bpf_lru_layout [ctype_layout]:
  "sizeof struct_bpf_lru = 256" "alignof struct_bpf_lru = 8" "wf_ctype struct_bpf_lru"
  by (simp_all add: struct_bpf_lru_def ctype_defs ctype_layout layout_eval)

definition struct_bpf_htab :: ctype where
  "struct_bpf_htab = Struct ''bpf_htab'' False [
     Field ''map'' struct_bpf_map,
     Field ''buckets'' (Ptr ''struct bucket''),
     Field ''elems'' (Ptr ''void''),
     Pad (Base CLong) 64,
     Pad (Base CLong) 64,
     Pad (Base CLong) 64,
     Pad (Base CLong) 64,
     Pad (Base CLong) 64,
     Pad (Base CLong) 64,
     Anon (Union '''' False [
         Field ''freelist'' struct_pcpu_freelist,
         Field ''lru'' struct_bpf_lru]),
     Field ''extra_elems'' (Ptr ''struct htab_elem *''),
     Field ''count'' typedef_atomic_t,
     Field ''n_buckets'' typedef_u32,
     Field ''elem_size'' typedef_u32,
     Field ''hashrnd'' typedef_u32,
     Pad (Base CLong) 64,
     Pad (Base CLong) 64,
     Pad (Base CLong) 64,
     Pad (Base CLong) 64,
     Pad (Base CLong) 64]"

lemma struct_bpf_htab_layout [ctype_layout]:
  "sizeof struct_bpf_htab = 640" "alignof struct_bpf_htab = 8" "wf_ctype struct_bpf_htab"
  by (simp_all add: struct_bpf_htab_def ctype_defs ctype_layout layout_eval)

definition struct_bpf_lru_node :: ctype where
  "struct_bpf_lru_node = Struct ''bpf_lru_node'' False [
     Field ''list'' struct_list_head,
     Field ''cpu'' typedef_u16,
     Field ''type'' typedef_u8,
     Field ''ref'' typedef_u8]"

lemma struct_bpf_lru_node_layout [ctype_layout]:
  "sizeof struct_bpf_lru_node = 24" "alignof struct_bpf_lru_node = 8" "wf_ctype struct_bpf_lru_node"
  by (simp_all add: struct_bpf_lru_node_def ctype_defs ctype_layout layout_eval)

definition struct_bpf_stack_build_id :: ctype where
  "struct_bpf_stack_build_id = Struct ''bpf_stack_build_id'' False [
     Field ''status'' typedef___s32,
     Field ''build_id'' (Array 20 (Base CUChar)),
     Anon (Union '''' False [
         Field ''offset'' typedef___u64,
         Field ''ip'' typedef___u64])]"

lemma struct_bpf_stack_build_id_layout [ctype_layout]:
  "sizeof struct_bpf_stack_build_id = 32" "alignof struct_bpf_stack_build_id = 8" "wf_ctype struct_bpf_stack_build_id"
  by (simp_all add: struct_bpf_stack_build_id_def ctype_defs ctype_layout layout_eval)

definition struct_bpf_spin_lock :: ctype where
  "struct_bpf_spin_lock = Struct ''bpf_spin_lock'' False [
     Field ''val'' typedef___u32]"

lemma struct_bpf_spin_lock_layout [ctype_layout]:
  "sizeof struct_bpf_spin_lock = 4" "alignof struct_bpf_spin_lock = 4" "wf_ctype struct_bpf_spin_lock"
  by (simp_all add: struct_bpf_spin_lock_def ctype_defs ctype_layout layout_eval)

definition struct_bpf_struct_ops :: ctype where
  "struct_bpf_struct_ops = Struct ''bpf_struct_ops'' False [
     Field ''verifier_ops'' (Ptr ''struct bpf_verifier_ops''),
     Field ''init'' FnPtr,
     Field ''check_member'' FnPtr,
     Field ''init_member'' FnPtr,
     Field ''reg'' FnPtr,
     Field ''unreg'' FnPtr,
     Field ''type'' (Ptr ''struct btf_type''),
     Field ''value_type'' (Ptr ''struct btf_type''),
     Field ''name'' (Ptr ''char''),
     Field ''func_models'' (Array 64 struct_btf_func_model),
     Field ''type_id'' typedef_u32,
     Field ''value_id'' typedef_u32]"

lemma struct_bpf_struct_ops_layout [ctype_layout]:
  "sizeof struct_bpf_struct_ops = 976" "alignof struct_bpf_struct_ops = 8" "wf_ctype struct_bpf_struct_ops"
  by (simp_all add: struct_bpf_struct_ops_def ctype_defs ctype_layout layout_eval)

definition enum_bpf_stats_type :: ctype where
  "enum_bpf_stats_type = Enum ''bpf_stats_type'' [
     (''BPF_STATS_RUN_TIME'', 0)]"

lemma enum_bpf_stats_type_layout [ctype_layout]:
  "sizeof enum_bpf_stats_type = 4" "alignof enum_bpf_stats_type = 4" "wf_ctype enum_bpf_stats_type"
  by (simp_all add: enum_bpf_stats_type_def ctype_defs ctype_layout layout_eval)

definition enum_bpf_stack_slot_type :: ctype where
  "enum_bpf_stack_slot_type = Enum ''bpf_stack_slot_type'' [
     (''STACK_INVALID'', 0),
     (''STACK_SPILL'', 1),
     (''STACK_MISC'', 2),
     (''STACK_ZERO'', 3)]"

lemma enum_bpf_stack_slot_type_layout [ctype_layout]:
  "sizeof enum_bpf_stack_slot_type = 4" "alignof enum_bpf_stack_slot_type = 4" "wf_ctype enum_bpf_stack_slot_type"
  by (simp_all add: enum_bpf_stack_slot_type_def ctype_defs ctype_layout layout_eval)

definition enum_bpf_stack_build_id_status :: ctype where
  "enum_bpf_stack_build_id_status = Enum ''bpf_stack_build_id_status'' [
     (''BPF_STACK_BUILD_ID_EMPTY'', 0),
     (''BPF_STACK_BUILD_ID_VALID'', 1),
     (''BPF_STACK_BUILD_ID_IP'', 2)]"

lemma enum_bpf_stack_build_id_status_layout [ctype_layout]:
  "sizeof enum_bpf_stack_build_id_status = 4" "alignof enum_bpf_stack_build_id_status = 4" "wf_ctype enum_bpf_stack_build_id_status"
  by (simp_all add: enum_bpf_stack_build_id_status_def ctype_defs ctype_layout layout_eval)

definition enum_bpf_task_fd_type :: ctype where
  "enum_bpf_task_fd_type = Enum ''bpf_task_fd_type'' [
     (''BPF_FD_TYPE_RAW_TRACEPOINT'', 0),
     (''BPF_FD_TYPE_TRACEPOINT'', 1),
     (''BPF_FD_TYPE_KPROBE'', 2),
     (''BPF_FD_TYPE_KRETPROBE'', 3),
     (''BPF_FD_TYPE_UPROBE'', 4),
     (''BPF_FD_TYPE_URETPROBE'', 5)]"

lemma enum_bpf_task_fd_type_layout [ctype_layout]:
  "sizeof enum_bpf_task_fd_type = 4" "alignof enum_bpf_task_fd_type = 4" "wf_ctype enum_bpf_task_fd_type"
  by (simp_all add: enum_bpf_task_fd_type_def ctype_defs ctype_layout layout_eval)

definition enum_bpf_jit_poke_reason :: ctype where
  "enum_bpf_jit_poke_reason = Enum ''bpf_jit_poke_reason'' [
     (''BPF_POKE_REASON_TAIL_CALL'', 0)]"

lemma enum_bpf_jit_poke_reason_layout [ctype_layout]:
  "sizeof enum_bpf_jit_poke_reason = 4" "alignof enum_bpf_jit_poke_reason = 4" "wf_ctype enum_bpf_jit_poke_reason"
  by (simp_all add: enum_bpf_jit_poke_reason_def ctype_defs ctype_layout layout_eval)

definition enum_bpf_cgroup_storage_type :: ctype where
  "enum_bpf_cgroup_storage_type = Enum ''bpf_cgroup_storage_type'' [
     (''BPF_CGROUP_STORAGE_SHARED'', 0),
     (''BPF_CGROUP_STORAGE_PERCPU'', 1),
     (''__BPF_CGROUP_STORAGE_MAX'', 2)]"

lemma enum_bpf_cgroup_storage_type_layout [ctype_layout]:
  "sizeof enum_bpf_cgroup_storage_type = 4" "alignof enum_bpf_cgroup_storage_type = 4" "wf_ctype enum_bpf_cgroup_storage_type"
  by (simp_all add: enum_bpf_cgroup_storage_type_def ctype_defs ctype_layout layout_eval)

definition enum_bpf_text_poke_type :: ctype where
  "enum_bpf_text_poke_type = Enum ''bpf_text_poke_type'' [
     (''BPF_MOD_CALL'', 0),
     (''BPF_MOD_JUMP'', 1)]"

lemma enum_bpf_text_poke_type_layout [ctype_layout]:
  "sizeof enum_bpf_text_poke_type = 4" "alignof enum_bpf_text_poke_type = 4" "wf_ctype enum_bpf_text_poke_type"
  by (simp_all add: enum_bpf_text_poke_type_def ctype_defs ctype_layout layout_eval)

end
