(* ===== verification/Vmlinux_Machine.thy ===== *)
theory Vmlinux_Machine
  imports Vmlinux_Verifier
begin

text \<open>
  The machine below the samples in \<^verbatim>\<open>src/src/bpf/vmlinux.h\<close>: the x86 performance monitoring unit and its
  per-processor state, the run queue whose task is interrupted, the timers behind the clock events, and the state of
  the stack unwinder.
\<close>

definition union_perf_capabilities :: ctype where
  "union_perf_capabilities = Union ''perf_capabilities'' False [
     Anon (Struct '''' False [
         Bits ''lbr_format'' typedef_u64 6,
         Bits ''pebs_trap'' typedef_u64 1,
         Bits ''pebs_arch_reg'' typedef_u64 1,
         Bits ''pebs_format'' typedef_u64 4,
         Bits ''smm_freeze'' typedef_u64 1,
         Bits ''full_width_write'' typedef_u64 1,
         Bits ''pebs_baseline'' typedef_u64 1,
         Bits ''pebs_metrics_available'' typedef_u64 1,
         Bits ''pebs_output_pt_available'' typedef_u64 1]),
     Field ''capabilities'' typedef_u64]"

lemma union_perf_capabilities_layout [ctype_layout]:
  "sizeof union_perf_capabilities = 8" "alignof union_perf_capabilities = 8" "wf_ctype union_perf_capabilities"
  by (simp_all add: union_perf_capabilities_def ctype_defs ctype_layout layout_eval)

definition struct_x86_pmu :: ctype where
  "struct_x86_pmu = Struct ''x86_pmu'' False [
     Field ''name'' (Ptr ''char''),
     Field ''version'' (Base CInt),
     Field ''handle_irq'' FnPtr,
     Field ''disable_all'' FnPtr,
     Field ''enable_all'' FnPtr,
     Field ''enable'' FnPtr,
     Field ''disable'' FnPtr,
     Field ''add'' FnPtr,
     Field ''del'' FnPtr,
     Field ''read'' FnPtr,
     Field ''hw_config'' FnPtr,
     Field ''schedule_events'' FnPtr,
     Field ''eventsel'' (Base CUInt),
     Field ''perfctr'' (Base CUInt),
     Field ''addr_offset'' FnPtr,
     Field ''rdpmc_index'' FnPtr,
     Field ''event_map'' FnPtr,
     Field ''max_events'' (Base CInt),
     Field ''num_counters'' (Base CInt),
     Field ''num_counters_fixed'' (Base CInt),
     Field ''cntval_bits'' (Base CInt),
     Field ''cntval_mask'' typedef_u64,
     Anon (Union '''' False [
         Field ''events_maskl'' (Base CULong),
         Field ''events_mask'' (Array 1 (Base CULong))]),
     Field ''events_mask_len'' (Base CInt),
     Field ''apic'' (Base CInt),
     Field ''max_period'' typedef_u64,
     Field ''get_event_constraints'' FnPtr,
     Field ''put_event_constraints'' FnPtr,
     Field ''start_scheduling'' FnPtr,
     Field ''commit_scheduling'' FnPtr,
     Field ''stop_scheduling'' FnPtr,
     Field ''event_constraints'' (Ptr ''struct event_constraint''),
     Field ''quirks'' (Ptr ''struct x86_pmu_quirk''),
     Field ''perfctr_second_write'' (Base CInt),
     Field ''limit_period'' FnPtr,
     Bits ''late_ack'' (Base CUInt) 1,
     Bits ''enabled_ack'' (Base CUInt) 1,
     Bits ''counter_freezing'' (Base CUInt) 1,
     Field ''attr_rdpmc_broken'' (Base CInt),
     Field ''attr_rdpmc'' (Base CInt),
     Field ''format_attrs'' (Ptr ''struct attribute *''),
     Field ''events_sysfs_show'' FnPtr,
     Field ''attr_update'' (Ptr ''struct attribute_group *''),
     Field ''attr_freeze_on_smi'' (Base CULong),
     Field ''cpu_prepare'' FnPtr,
     Field ''cpu_starting'' FnPtr,
     Field ''cpu_dying'' FnPtr,
     Field ''cpu_dead'' FnPtr,
     Field ''check_microcode'' FnPtr,
     Field ''sched_task'' FnPtr,
     Field ''intel_ctrl'' typedef_u64,
     Field ''intel_cap'' union_perf_capabilities,
     Bits ''bts'' (Base CUInt) 1,
     Bits ''bts_active'' (Base CUInt) 1,
     Bits ''pebs'' (Base CUInt) 1,
     Bits ''pebs_active'' (Base CUInt) 1,
     Bits ''pebs_broken'' (Base CUInt) 1,
     Bits ''pebs_prec_dist'' (Base CUInt) 1,
     Bits ''pebs_no_tlb'' (Base CUInt) 1,
     Bits ''pebs_no_isolation'' (Base CUInt) 1,
     Field ''pebs_record_size'' (Base CInt),
     Field ''pebs_buffer_size'' (Base CInt),
     Field ''max_pebs_events'' (Base CInt),
     Field ''drain_pebs'' FnPtr,
     Field ''pebs_constraints'' (Ptr ''struct event_constraint''),
     Field ''pebs_aliases'' FnPtr,
     Field ''large_pebs_flags'' (Base CULong),
     Field ''rtm_abort_event'' typedef_u64,
     Field ''lbr_tos'' (Base CULong),
     Field ''lbr_from'' (Base CULong),
     Field ''lbr_to'' (Base CULong),
     Field ''lbr_nr'' (Base CInt),
     Field ''lbr_sel_mask'' typedef_u64,
     Field ''lbr_sel_map'' (Ptr ''int''),
     Field ''lbr_double_abort'' typedef_bool,
     Field ''lbr_pt_coexist'' typedef_bool,
     Field ''lbr_exclusive'' (Array 3 typedef_atomic_t),
     Field ''swap_task_ctx'' FnPtr,
     Bits ''amd_nb_constraints'' (Base CUInt) 1,
     Field ''perf_ctr_pair_en'' typedef_u64,
     Field ''extra_regs'' (Ptr ''struct extra_reg''),
     Field ''flags'' (Base CUInt),
     Field ''guest_get_msrs'' FnPtr,
     Field ''check_period'' FnPtr,
     Field ''aux_output_match'' FnPtr]"

lemma struct_x86_pmu_layout [ctype_layout]:
  "sizeof struct_x86_pmu = 544" "alignof struct_x86_pmu = 8" "wf_ctype struct_x86_pmu"
  by (simp_all add: struct_x86_pmu_def ctype_defs ctype_layout layout_eval)

definition struct_perf_guest_switch_msr :: ctype where
  "struct_perf_guest_switch_msr = Struct ''perf_guest_switch_msr'' False [
     Field ''msr'' (Base CUInt),
     Field ''host'' typedef_u64,
     Field ''guest'' typedef_u64]"

lemma struct_perf_guest_switch_msr_layout [ctype_layout]:
  "sizeof struct_perf_guest_switch_msr = 24" "alignof struct_perf_guest_switch_msr = 8" "wf_ctype struct_perf_guest_switch_msr"
  by (simp_all add: struct_perf_guest_switch_msr_def ctype_defs ctype_layout layout_eval)

definition struct_cpu_hw_events :: ctype where
  "struct_cpu_hw_events = Struct ''cpu_hw_events'' False [
     Field ''events'' (Array 64 (Ptr ''struct perf_event'')),
     Field ''active_mask'' (Array 1 (Base CULong)),
     Field ''running'' (Array 1 (Base CULong)),
     Field ''enabled'' (Base CInt),
     Field ''n_events'' (Base CInt),
     Field ''n_added'' (Base CInt),
     Field ''n_txn'' (Base CInt),
     Field ''assign'' (Array 64 (Base CInt)),
     Field ''tags'' (Array 64 typedef_u64),
     Field ''event_list'' (Array 64 (Ptr ''struct perf_event'')),
     Field ''event_constraint'' (Array 64 (Ptr ''struct event_constraint'')),
     Field ''n_excl'' (Base CInt),
     Field ''txn_flags'' (Base CUInt),
     Field ''is_fake'' (Base CInt),
     Field ''ds'' (Ptr ''struct debug_store''),
     Field ''ds_pebs_vaddr'' (Ptr ''void''),
     Field ''ds_bts_vaddr'' (Ptr ''void''),
     Field ''pebs_enabled'' typedef_u64,
     Field ''n_pebs'' (Base CInt),
     Field ''n_large_pebs'' (Base CInt),
     Field ''n_pebs_via_pt'' (Base CInt),
     Field ''pebs_output'' (Base CInt),
     Field ''pebs_data_cfg'' typedef_u64,
     Field ''active_pebs_data_cfg'' typedef_u64,
     Field ''pebs_record_size'' (Base CInt),
     Field ''lbr_users'' (Base CInt),
     Field ''lbr_pebs_users'' (Base CInt),
     Field ''lbr_stack'' struct_perf_branch_stack,
     Field ''lbr_entries'' (Array 32 struct_perf_branch_entry),
     Field ''lbr_sel'' (Ptr ''struct er_account''),
     Field ''br_sel'' typedef_u64,
     Field ''last_task_ctx'' (Ptr ''struct x86_perf_task_context''),
     Field ''last_log_id'' (Base CInt),
     Field ''intel_ctrl_guest_mask'' typedef_u64,
     Field ''intel_ctrl_host_mask'' typedef_u64,
     Field ''guest_switch_msrs'' (Array 64 struct_perf_guest_switch_msr),
     Field ''intel_cp_status'' typedef_u64,
     Field ''shared_regs'' (Ptr ''struct intel_shared_regs''),
     Field ''constraint_list'' (Ptr ''struct event_constraint''),
     Field ''excl_cntrs'' (Ptr ''struct intel_excl_cntrs''),
     Field ''excl_thread_id'' (Base CInt),
     Field ''tfa_shadow'' typedef_u64,
     Field ''amd_nb'' (Ptr ''struct amd_nb''),
     Field ''perf_ctr_virt_mask'' typedef_u64,
     Field ''n_pair'' (Base CInt),
     Field ''kfree_on_online'' (Array 2 (Ptr ''void''))]"

lemma struct_cpu_hw_events_layout [ctype_layout]:
  "sizeof struct_cpu_hw_events = 4888" "alignof struct_cpu_hw_events = 8" "wf_ctype struct_cpu_hw_events"
  by (simp_all add: struct_cpu_hw_events_def ctype_defs ctype_layout layout_eval)

definition struct_event_constraint :: ctype where
  "struct_event_constraint = Struct ''event_constraint'' False [
     Anon (Union '''' False [
         Field ''idxmsk'' (Array 1 (Base CULong)),
         Field ''idxmsk64'' typedef_u64]),
     Field ''code'' typedef_u64,
     Field ''cmask'' typedef_u64,
     Field ''weight'' (Base CInt),
     Field ''overlap'' (Base CInt),
     Field ''flags'' (Base CInt),
     Field ''size'' (Base CUInt)]"

lemma struct_event_constraint_layout [ctype_layout]:
  "sizeof struct_event_constraint = 40" "alignof struct_event_constraint = 8" "wf_ctype struct_event_constraint"
  by (simp_all add: struct_event_constraint_def ctype_defs ctype_layout layout_eval)

definition struct_debug_store :: ctype where
  "struct_debug_store = Struct ''debug_store'' False [
     Field ''bts_buffer_base'' typedef_u64,
     Field ''bts_index'' typedef_u64,
     Field ''bts_absolute_maximum'' typedef_u64,
     Field ''bts_interrupt_threshold'' typedef_u64,
     Field ''pebs_buffer_base'' typedef_u64,
     Field ''pebs_index'' typedef_u64,
     Field ''pebs_absolute_maximum'' typedef_u64,
     Field ''pebs_interrupt_threshold'' typedef_u64,
     Field ''pebs_event_reset'' (Array 12 typedef_u64),
     Pad (Base CLong) 64,
     Pad (Base CLong) 64,
     Pad (Base CLong) 64,
     Pad (Base CLong) 64,
     Pad (Base CLong) 64,
     Pad (Base CLong) 64,
     Pad (Base CLong) 64,
     Pad (Base CLong) 64,
     Pad (Base CLong) 64,
     Pad (Base CLong) 64,
     Pad (Base CLong) 64,
     Pad (Base CLong) 64,
     Pad (Base CLong) 64,
     Pad (Base CLong) 64,
     Pad (Base CLong) 64,
     Pad (Base CLong) 64,
     Pad (Base CLong) 64,
     Pad (Base CLong) 64,
     Pad (Base CLong) 64,
     Pad (Base CLong) 64,
     Pad (Base CLong) 64,
     Pad (Base CLong) 64,
     Pad (Base CLong) 64,
     Pad (Base CLong) 64,
     Pad (Base CLong) 64,
     Pad (Base CLong) 64,
     Pad (Base CLong) 64,
     Pad (Base CLong) 64,
     Pad (Base CLong) 64,
     Pad (Base CLong) 64,
     Pad (Base CLong) 64,
     Pad (Base CLong) 64,
     Pad (Base CLong) 64,
     Pad (Base CLong) 64,
     Pad (Base CLong) 64,
     Pad (Base CLong) 64,
     Pad (Base CLong) 64,
     Pad (Base CLong) 64,
     Pad (Base CLong) 64,
     Pad (Base CLong) 64,
     Pad (Base CLong) 64,
     Pad (Base CLong) 64,
     Pad (Base CLong) 64,
     Pad (Base CLong) 64,
     Pad (Base CLong) 64,
     Pad (Base CLong) 64,
     Pad (Base CLong) 64,
     Pad (Base CLong) 64,
     Pad (Base CLong) 64,
     Pad (Base CLong) 64,
     Pad (Base CLong) 64,
     Pad (Base CLong) 64,
     Pad (Base CLong) 64,
     Pad (Base CLong) 64,
     Pad (Base CLong) 64,
     Pad (Base CLong) 64,
     Pad (Base CLong) 64,
     Pad (Base CLong) 64,
     Pad (Base CLong) 64,
     Pad (Base CLong) 64,
     Pad (Base CLong) 64,
     Pad (Base CLong) 64,
     Pad (Base CLong) 64,
     Pad (Base CLong) 64,
     Pad (Base CLong) 64,
     Pad (Base CLong) 64,
     Pad (Base CLong) 64,
     Pad (Base CLong) 64,
     Pad (Base CLong) 64,
     Pad (Base CLong) 64,
     Pad (Base CLong) 64,
     Pad (Base CLong) 64,
     Pad (Base CLong) 64,
     Pad (Base CLong) 64,
     Pad (Base CLong) 64,
     Pad (Base CLong) 64,
     Pad (Base CLong) 64,
     Pad (Base CLong) 64,
     Pad (Base CLong) 64,
     Pad (Base CLong) 64,
     Pad (Base CLong) 64,
     Pad (Base CLong) 64,
     Pad (Base CLong) 64,
     Pad (Base CLong) 64,
     Pad (Base CLong) 64,
     Pad (Base CLong) 64,
     Pad (Base CLong) 64,
     Pad (Base CLong) 64,
     Pad (Base CLong) 64,
     Pad (Base CLong) 64,
     Pad (Base CLong) 64,
     Pad (Base CLong) 64,
     Pad (Base CLong) 64,
     Pad (Base CLong) 64,
     Pad (Base CLong) 64,
     Pad (Base CLong) 64,
     Pad (Base CLong) 64,
     Pad (Base CLong) 64,
     Pad (Base CLong) 64,
     Pad (Base CLong) 64,
     Pad (Base CLong) 64,
     Pad (Base CLong) 64,
     Pad (Base CLong) 64,
     Pad (Base CLong) 64,
     Pad (Base CLong) 64,
     Pad (Base CLong) 64,
     Pad (Base CLong) 64,
     Pad (Base CLong) 64,
     Pad (Base CLong) 64,
     Pad (Base CLong) 64,
     Pad (Base CLong) 64,
     Pad (Base CLong) 64,
     Pad (Base CLong) 64,
     Pad (Base CLong) 64,
     Pad (Base CLong) 64,
     Pad (Base CLong) 64,
     Pad (Base CLong) 64,
     Pad (Base CLong) 64,
     Pad (Base CLong) 64,
     Pad (Base CLong) 64,
     Pad (Base CLong) 64,
     Pad (Base CLong) 64,
     Pad (Base CLong) 64,
     Pad (Base CLong) 64,
     Pad (Base CLong) 64,
     Pad (Base CLong) 64,
     Pad (Base CLong) 64,
     Pad (Base CLong) 64,
     Pad (Base CLong) 64,
     Pad (Base CLong) 64,
     Pad (Base CLong) 64,
     Pad (Base CLong) 64,
     Pad (Base CLong) 64,
     Pad (Base CLong) 64,
     Pad (Base CLong) 64,
     Pad (Base CLong) 64,
     Pad (Base CLong) 64,
     Pad (Base CLong) 64,
     Pad (Base CLong) 64,
     Pad (Base CLong) 64,
     Pad (Base CLong) 64,
     Pad (Base CLong) 64,
     Pad (Base CLong) 64,
     Pad (Base CLong) 64,
     Pad (Base CLong) 64,
     Pad (Base CLong) 64,
     Pad (Base CLong) 64,
     Pad (Base CLong) 64,
     Pad (Base CLong) 64,
     Pad (Base CLong) 64,
     Pad (Base CLong) 64,
     Pad (Base CLong) 64,
     Pad (Base CLong) 64,
     Pad (Base CLong) 64,
     Pad (Base CLong) 64,
     Pad (Base CLong) 64,
     Pad (Base CLong) 64,
     Pad (Base CLong) 64,
     Pad (Base CLong) 64,
     Pad (Base CLong) 64,
     Pad (Base CLong) 64,
     Pad (Base CLong) 64,
     Pad (Base CLong) 64,
     Pad (Base CLong) 64,
     Pad (Base CLong) 64,
     Pad (Base CLong) 64,
     Pad (Base CLong) 64,
     Pad (Base CLong) 64,
     Pad (Base CLong) 64,
     Pad (Base CLong) 64,
     Pad (Base CLong) 64,
     Pad (Base CLong) 64,
     Pad (Base CLong) 64,
     Pad (Base CLong) 64,
     Pad (Base CLong) 64,
     Pad (Base CLong) 64,
     Pad (Base CLong) 64,
     Pad (Base CLong) 64,
     Pad (Base CLong) 64,
     Pad (Base CLong) 64,
     Pad (Base CLong) 64,
     Pad (Base CLong) 64,
     Pad (Base CLong) 64,
     Pad (Base CLong) 64,
     Pad (Base CLong) 64,
     Pad (Base CLong) 64,
     Pad (Base CLong) 64,
     Pad (Base CLong) 64,
     Pad (Base CLong) 64,
     Pad (Base CLong) 64,
     Pad (Base CLong) 64,
     Pad (Base CLong) 64,
     Pad (Base CLong) 64,
     Pad (Base CLong) 64,
     Pad (Base CLong) 64,
     Pad (Base CLong) 64,
     Pad (Base CLong) 64,
     Pad (Base CLong) 64,
     Pad (Base CLong) 64,
     Pad (Base CLong) 64,
     Pad (Base CLong) 64,
     Pad (Base CLong) 64,
     Pad (Base CLong) 64,
     Pad (Base CLong) 64,
     Pad (Base CLong) 64,
     Pad (Base CLong) 64,
     Pad (Base CLong) 64,
     Pad (Base CLong) 64,
     Pad (Base CLong) 64,
     Pad (Base CLong) 64,
     Pad (Base CLong) 64,
     Pad (Base CLong) 64,
     Pad (Base CLong) 64,
     Pad (Base CLong) 64,
     Pad (Base CLong) 64,
     Pad (Base CLong) 64,
     Pad (Base CLong) 64,
     Pad (Base CLong) 64,
     Pad (Base CLong) 64,
     Pad (Base CLong) 64,
     Pad (Base CLong) 64,
     Pad (Base CLong) 64,
     Pad (Base CLong) 64,
     Pad (Base CLong) 64,
     Pad (Base CLong) 64,
     Pad (Base CLong) 64,
     Pad (Base CLong) 64,
     Pad (Base CLong) 64,
     Pad (Base CLong) 64,
     Pad (Base CLong) 64,
     Pad (Base CLong) 64,
     Pad (Base CLong) 64,
     Pad (Base CLong) 64,
     Pad (Base CLong) 64,
     Pad (Base CLong) 64,
     Pad (Base CLong) 64,
     Pad (Base CLong) 64,
     Pad (Base CLong) 64,
     Pad (Base CLong) 64,
     Pad (Base CLong) 64,
     Pad (Base CLong) 64,
     Pad (Base CLong) 64,
     Pad (Base CLong) 64,
     Pad (Base CLong) 64,
     Pad (Base CLong) 64,
     Pad (Base CLong) 64,
     Pad (Base CLong) 64,
     Pad (Base CLong) 64,
     Pad (Base CLong) 64,
     Pad (Base CLong) 64,
     Pad (Base CLong) 64,
     Pad (Base CLong) 64,
     Pad (Base CLong) 64,
     Pad (Base CLong) 64,
     Pad (Base CLong) 64,
     Pad (Base CLong) 64,
     Pad (Base CLong) 64,
     Pad (Base CLong) 64,
     Pad (Base CLong) 64,
     Pad (Base CLong) 64,
     Pad (Base CLong) 64,
     Pad (Base CLong) 64,
     Pad (Base CLong) 64,
     Pad (Base CLong) 64,
     Pad (Base CLong) 64,
     Pad (Base CLong) 64,
     Pad (Base CLong) 64,
     Pad (Base CLong) 64,
     Pad (Base CLong) 64,
     Pad (Base CLong) 64,
     Pad (Base CLong) 64,
     Pad (Base CLong) 64,
     Pad (Base CLong) 64,
     Pad (Base CLong) 64,
     Pad (Base CLong) 64,
     Pad (Base CLong) 64,
     Pad (Base CLong) 64,
     Pad (Base CLong) 64,
     Pad (Base CLong) 64,
     Pad (Base CLong) 64,
     Pad (Base CLong) 64,
     Pad (Base CLong) 64,
     Pad (Base CLong) 64,
     Pad (Base CLong) 64,
     Pad (Base CLong) 64,
     Pad (Base CLong) 64,
     Pad (Base CLong) 64,
     Pad (Base CLong) 64,
     Pad (Base CLong) 64,
     Pad (Base CLong) 64,
     Pad (Base CLong) 64,
     Pad (Base CLong) 64,
     Pad (Base CLong) 64,
     Pad (Base CLong) 64,
     Pad (Base CLong) 64,
     Pad (Base CLong) 64,
     Pad (Base CLong) 64,
     Pad (Base CLong) 64,
     Pad (Base CLong) 64,
     Pad (Base CLong) 64,
     Pad (Base CLong) 64,
     Pad (Base CLong) 64,
     Pad (Base CLong) 64,
     Pad (Base CLong) 64,
     Pad (Base CLong) 64,
     Pad (Base CLong) 64,
     Pad (Base CLong) 64,
     Pad (Base CLong) 64,
     Pad (Base CLong) 64,
     Pad (Base CLong) 64,
     Pad (Base CLong) 64,
     Pad (Base CLong) 64,
     Pad (Base CLong) 64,
     Pad (Base CLong) 64,
     Pad (Base CLong) 64,
     Pad (Base CLong) 64,
     Pad (Base CLong) 64,
     Pad (Base CLong) 64,
     Pad (Base CLong) 64,
     Pad (Base CLong) 64,
     Pad (Base CLong) 64,
     Pad (Base CLong) 64,
     Pad (Base CLong) 64,
     Pad (Base CLong) 64,
     Pad (Base CLong) 64,
     Pad (Base CLong) 64,
     Pad (Base CLong) 64,
     Pad (Base CLong) 64,
     Pad (Base CLong) 64,
     Pad (Base CLong) 64,
     Pad (Base CLong) 64,
     Pad (Base CLong) 64,
     Pad (Base CLong) 64,
     Pad (Base CLong) 64,
     Pad (Base CLong) 64,
     Pad (Base CLong) 64,
     Pad (Base CLong) 64,
     Pad (Base CLong) 64,
     Pad (Base CLong) 64,
     Pad (Base CLong) 64,
     Pad (Base CLong) 64,
     Pad (Base CLong) 64,
     Pad (Base CLong) 64,
     Pad (Base CLong) 64,
     Pad (Base CLong) 64,
     Pad (Base CLong) 64,
     Pad (Base CLong) 64,
     Pad (Base CLong) 64,
     Pad (Base CLong) 64,
     Pad (Base CLong) 64,
     Pad (Base CLong) 64,
     Pad (Base CLong) 64,
     Pad (Base CLong) 64,
     Pad (Base CLong) 64,
     Pad (Base CLong) 64,
     Pad (Base CLong) 64,
     Pad (Base CLong) 64,
     Pad (Base CLong) 64,
     Pad (Base CLong) 64,
     Pad (Base CLong) 64,
     Pad (Base CLong) 64,
     Pad (Base CLong) 64,
     Pad (Base CLong) 64,
     Pad (Base CLong) 64,
     Pad (Base CLong) 64,
     Pad (Base CLong) 64,
     Pad (Base CLong) 64,
     Pad (Base CLong) 64,
     Pad (Base CLong) 64,
     Pad (Base CLong) 64,
     Pad (Base CLong) 64,
     Pad (Base CLong) 64,
     Pad (Base CLong) 64,
     Pad (Base CLong) 64,
     Pad (Base CLong) 64,
     Pad (Base CLong) 64,
     Pad (Base CLong) 64,
     Pad (Base CLong) 64,
     Pad (Base CLong) 64,
     Pad (Base CLong) 64,
     Pad (Base CLong) 64,
     Pad (Base CLong) 64,
     Pad (Base CLong) 64,
     Pad (Base CLong) 64,
     Pad (Base CLong) 64,
     Pad (Base CLong) 64,
     Pad (Base CLong) 64,
     Pad (Base CLong) 64,
     Pad (Base CLong) 64,
     Pad (Base CLong) 64,
     Pad (Base CLong) 64,
     Pad (Base CLong) 64,
     Pad (Base CLong) 64,
     Pad (Base CLong) 64,
     Pad (Base CLong) 64,
     Pad (Base CLong) 64,
     Pad (Base CLong) 64,
     Pad (Base CLong) 64,
     Pad (Base CLong) 64,
     Pad (Base CLong) 64,
     Pad (Base CLong) 64,
     Pad (Base CLong) 64,
     Pad (Base CLong) 64,
     Pad (Base CLong) 64,
     Pad (Base CLong) 64,
     Pad (Base CLong) 64,
     Pad (Base CLong) 64,
     Pad (Base CLong) 64,
     Pad (Base CLong) 64,
     Pad (Base CLong) 64,
     Pad (Base CLong) 64,
     Pad (Base CLong) 64,
     Pad (Base CLong) 64,
     Pad (Base CLong) 64,
     Pad (Base CLong) 64,
     Pad (Base CLong) 64,
     Pad (Base CLong) 64,
     Pad (Base CLong) 64,
     Pad (Base CLong) 64,
     Pad (Base CLong) 64,
     Pad (Base CLong) 64,
     Pad (Base CLong) 64,
     Pad (Base CLong) 64,
     Pad (Base CLong) 64,
     Pad (Base CLong) 64,
     Pad (Base CLong) 64,
     Pad (Base CLong) 64,
     Pad (Base CLong) 64,
     Pad (Base CLong) 64,
     Pad (Base CLong) 64,
     Pad (Base CLong) 64,
     Pad (Base CLong) 64,
     Pad (Base CLong) 64,
     Pad (Base CLong) 64,
     Pad (Base CLong) 64,
     Pad (Base CLong) 64,
     Pad (Base CLong) 64,
     Pad (Base CLong) 64,
     Pad (Base CLong) 64,
     Pad (Base CLong) 64,
     Pad (Base CLong) 64,
     Pad (Base CLong) 64,
     Pad (Base CLong) 64,
     Pad (Base CLong) 64,
     Pad (Base CLong) 64,
     Pad (Base CLong) 64,
     Pad (Base CLong) 64,
     Pad (Base CLong) 64,
     Pad (Base CLong) 64,
     Pad (Base CLong) 64,
     Pad (Base CLong) 64,
     Pad (Base CLong) 64,
     Pad (Base CLong) 64,
     Pad (Base CLong) 64,
     Pad (Base CLong) 64,
     Pad (Base CLong) 64,
     Pad (Base CLong) 64,
     Pad (Base CLong) 64,
     Pad (Base CLong) 64,
     Pad (Base CLong) 64,
     Pad (Base CLong) 64,
     Pad (Base CLong) 64,
     Pad (Base CLong) 64,
     Pad (Base CLong) 64,
     Pad (Base CLong) 64,
     Pad (Base CLong) 64,
     Pad (Base CLong) 64,
     Pad (Base CLong) 64,
     Pad (Base CLong) 64,
     Pad (Base CLong) 64,
     Pad (Base CLong) 64,
     Pad (Base CLong) 64,
     Pad (Base CLong) 64,
     Pad (Base CLong) 64,
     Pad (Base CLong) 64,
     Pad (Base CLong) 64,
     Pad (Base CLong) 64,
     Pad (Base CLong) 64,
     Pad (Base CLong) 64,
     Pad (Base CLong) 64,
     Pad (Base CLong) 64,
     Pad (Base CLong) 64,
     Pad (Base CLong) 64,
     Pad (Base CLong) 64,
     Pad (Base CLong) 64,
     Pad (Base CLong) 64,
     Pad (Base CLong) 64,
     Pad (Base CLong) 64,
     Pad (Base CLong) 64,
     Pad (Base CLong) 64,
     Pad (Base CLong) 64,
     Pad (Base CLong) 64]"

lemma struct_debug_store_layout [ctype_layout]:
  "sizeof struct_debug_store = 4096" "alignof struct_debug_store = 8" "wf_ctype struct_debug_store"
  by (simp_all add: struct_debug_store_def ctype_defs ctype_layout layout_eval)

definition struct_er_account :: ctype where
  "struct_er_account = Struct ''er_account'' False [
     Field ''lock'' typedef_raw_spinlock_t,
     Field ''config'' typedef_u64,
     Field ''reg'' typedef_u64,
     Field ''ref'' typedef_atomic_t]"

lemma struct_er_account_layout [ctype_layout]:
  "sizeof struct_er_account = 32" "alignof struct_er_account = 8" "wf_ctype struct_er_account"
  by (simp_all add: struct_er_account_def ctype_defs ctype_layout layout_eval)

definition struct_intel_shared_regs :: ctype where
  "struct_intel_shared_regs = Struct ''intel_shared_regs'' False [
     Field ''regs'' (Array 5 struct_er_account),
     Field ''refcnt'' (Base CInt),
     Field ''core_id'' (Base CUInt)]"

lemma struct_intel_shared_regs_layout [ctype_layout]:
  "sizeof struct_intel_shared_regs = 168" "alignof struct_intel_shared_regs = 8" "wf_ctype struct_intel_shared_regs"
  by (simp_all add: struct_intel_shared_regs_def ctype_defs ctype_layout layout_eval)

definition struct_amd_nb :: ctype where
  "struct_amd_nb = Struct ''amd_nb'' False [
     Field ''nb_id'' (Base CInt),
     Field ''refcnt'' (Base CInt),
     Field ''owners'' (Array 64 (Ptr ''struct perf_event'')),
     Field ''event_constraints'' (Array 64 struct_event_constraint)]"

lemma struct_amd_nb_layout [ctype_layout]:
  "sizeof struct_amd_nb = 3080" "alignof struct_amd_nb = 8" "wf_ctype struct_amd_nb"
  by (simp_all add: struct_amd_nb_def ctype_defs ctype_layout layout_eval)

definition struct_extra_reg :: ctype where
  "struct_extra_reg = Struct ''extra_reg'' False [
     Field ''event'' (Base CUInt),
     Field ''msr'' (Base CUInt),
     Field ''config_mask'' typedef_u64,
     Field ''valid_mask'' typedef_u64,
     Field ''idx'' (Base CInt),
     Field ''extra_msr_access'' typedef_bool]"

lemma struct_extra_reg_layout [ctype_layout]:
  "sizeof struct_extra_reg = 32" "alignof struct_extra_reg = 8" "wf_ctype struct_extra_reg"
  by (simp_all add: struct_extra_reg_def ctype_defs ctype_layout layout_eval)

definition typedef_umode_t :: ctype where
  [ctype_defs]: "typedef_umode_t = Base CUShort"

definition struct_attribute :: ctype where
  "struct_attribute = Struct ''attribute'' False [
     Field ''name'' (Ptr ''char''),
     Field ''mode'' typedef_umode_t]"

lemma struct_attribute_layout [ctype_layout]:
  "sizeof struct_attribute = 16" "alignof struct_attribute = 8" "wf_ctype struct_attribute"
  by (simp_all add: struct_attribute_def ctype_defs ctype_layout layout_eval)

definition struct_device_attribute :: ctype where
  "struct_device_attribute = Struct ''device_attribute'' False [
     Field ''attr'' struct_attribute,
     Field ''show'' FnPtr,
     Field ''store'' FnPtr]"

lemma struct_device_attribute_layout [ctype_layout]:
  "sizeof struct_device_attribute = 32" "alignof struct_device_attribute = 8" "wf_ctype struct_device_attribute"
  by (simp_all add: struct_device_attribute_def ctype_defs ctype_layout layout_eval)

definition struct_perf_pmu_events_attr :: ctype where
  "struct_perf_pmu_events_attr = Struct ''perf_pmu_events_attr'' False [
     Field ''attr'' struct_device_attribute,
     Field ''id'' typedef_u64,
     Field ''event_str'' (Ptr ''char'')]"

lemma struct_perf_pmu_events_attr_layout [ctype_layout]:
  "sizeof struct_perf_pmu_events_attr = 48" "alignof struct_perf_pmu_events_attr = 8" "wf_ctype struct_perf_pmu_events_attr"
  by (simp_all add: struct_perf_pmu_events_attr_def ctype_defs ctype_layout layout_eval)

definition struct_x86_perf_task_context :: ctype where
  "struct_x86_perf_task_context = Struct ''x86_perf_task_context'' False [
     Field ''lbr_from'' (Array 32 typedef_u64),
     Field ''lbr_to'' (Array 32 typedef_u64),
     Field ''lbr_info'' (Array 32 typedef_u64),
     Field ''tos'' (Base CInt),
     Field ''valid_lbrs'' (Base CInt),
     Field ''lbr_callstack_users'' (Base CInt),
     Field ''lbr_stack_state'' (Base CInt),
     Field ''log_id'' (Base CInt)]"

lemma struct_x86_perf_task_context_layout [ctype_layout]:
  "sizeof struct_x86_perf_task_context = 792" "alignof struct_x86_perf_task_context = 8" "wf_ctype struct_x86_perf_task_context"
  by (simp_all add: struct_x86_perf_task_context_def ctype_defs ctype_layout layout_eval)

definition enum_stack_type :: ctype where
  "enum_stack_type = Enum ''stack_type'' [
     (''STACK_TYPE_UNKNOWN'', 0),
     (''STACK_TYPE_TASK'', 1),
     (''STACK_TYPE_IRQ'', 2),
     (''STACK_TYPE_SOFTIRQ'', 3),
     (''STACK_TYPE_ENTRY'', 4),
     (''STACK_TYPE_EXCEPTION'', 5),
     (''STACK_TYPE_EXCEPTION_LAST'', 8)]"

lemma enum_stack_type_layout [ctype_layout]:
  "sizeof enum_stack_type = 4" "alignof enum_stack_type = 4" "wf_ctype enum_stack_type"
  by (simp_all add: enum_stack_type_def ctype_defs ctype_layout layout_eval)

definition struct_stack_info :: ctype where
  "struct_stack_info = Struct ''stack_info'' False [
     Field ''type'' enum_stack_type,
     Field ''begin'' (Ptr ''long unsigned int''),
     Field ''end'' (Ptr ''long unsigned int''),
     Field ''next_sp'' (Ptr ''long unsigned int'')]"

lemma struct_stack_info_layout [ctype_layout]:
  "sizeof struct_stack_info = 32" "alignof struct_stack_info = 8" "wf_ctype struct_stack_info"
  by (simp_all add: struct_stack_info_def ctype_defs ctype_layout layout_eval)

definition struct_unwind_state :: ctype where
  "struct_unwind_state = Struct ''unwind_state'' False [
     Field ''stack_info'' struct_stack_info,
     Field ''stack_mask'' (Base CULong),
     Field ''task'' (Ptr ''struct task_struct''),
     Field ''graph_idx'' (Base CInt),
     Field ''error'' typedef_bool,
     Field ''signal'' typedef_bool,
     Field ''full_regs'' typedef_bool,
     Field ''sp'' (Base CULong),
     Field ''bp'' (Base CULong),
     Field ''ip'' (Base CULong),
     Field ''regs'' (Ptr ''struct pt_regs''),
     Field ''prev_regs'' (Ptr ''struct pt_regs'')]"

lemma struct_unwind_state_layout [ctype_layout]:
  "sizeof struct_unwind_state = 96" "alignof struct_unwind_state = 8" "wf_ctype struct_unwind_state"
  by (simp_all add: struct_unwind_state_def ctype_defs ctype_layout layout_eval)

definition struct_orc_entry :: ctype where
  "struct_orc_entry = Struct ''orc_entry'' True [
     Field ''sp_offset'' typedef_s16,
     Field ''bp_offset'' typedef_s16,
     Bits ''sp_reg'' (Base CUInt) 4,
     Bits ''bp_reg'' (Base CUInt) 4,
     Bits ''type'' (Base CUInt) 2,
     Bits ''end'' (Base CUInt) 1]"

lemma struct_orc_entry_layout [ctype_layout]:
  "sizeof struct_orc_entry = 6" "alignof struct_orc_entry = 1" "wf_ctype struct_orc_entry"
  by (simp_all add: struct_orc_entry_def ctype_defs ctype_layout layout_eval)

definition struct_stack_frame :: ctype where
  "struct_stack_frame = Struct ''stack_frame'' False [
     Field ''next_frame'' (Ptr ''struct stack_frame''),
     Field ''return_address'' (Base CULong)]"

lemma struct_stack_frame_layout [ctype_layout]:
  "sizeof struct_stack_frame = 16" "alignof struct_stack_frame = 8" "wf_ctype struct_stack_frame"
  by (simp_all add: struct_stack_frame_def ctype_defs ctype_layout layout_eval)

definition struct_hrtimer_clock_base :: ctype where
  "struct_hrtimer_clock_base = Struct ''hrtimer_clock_base'' False [
     Field ''cpu_base'' (Ptr ''struct hrtimer_cpu_base''),
     Field ''index'' (Base CUInt),
     Field ''clockid'' typedef_clockid_t,
     Field ''seq'' typedef_seqcount_t,
     Field ''running'' (Ptr ''struct hrtimer''),
     Field ''active'' struct_timerqueue_head,
     Field ''get_time'' FnPtr,
     Field ''offset'' typedef_ktime_t]"

lemma struct_hrtimer_clock_base_layout [ctype_layout]:
  "sizeof struct_hrtimer_clock_base = 64" "alignof struct_hrtimer_clock_base = 8" "wf_ctype struct_hrtimer_clock_base"
  by (simp_all add: struct_hrtimer_clock_base_def ctype_defs ctype_layout layout_eval)

definition struct_hrtimer_cpu_base :: ctype where
  "struct_hrtimer_cpu_base = Struct ''hrtimer_cpu_base'' False [
     Field ''lock'' typedef_raw_spinlock_t,
     Field ''cpu'' (Base CUInt),
     Field ''active_bases'' (Base CUInt),
     Field ''clock_was_set_seq'' (Base CUInt),
     Bits ''hres_active'' (Base CUInt) 1,
     Bits ''in_hrtirq'' (Base CUInt) 1,
     Bits ''hang_detected'' (Base CUInt) 1,
     Bits ''softirq_activated'' (Base CUInt) 1,
     Field ''nr_events'' (Base CUInt),
     Field ''nr_retries'' (Base CUShort),
     Field ''nr_hangs'' (Base CUShort),
     Field ''max_hang_time'' (Base CUInt),
     Field ''expires_next'' typedef_ktime_t,
     Field ''next_timer'' (Ptr ''struct hrtimer''),
     Field ''softirq_expires_next'' typedef_ktime_t,
     Field ''softirq_next_timer'' (Ptr ''struct hrtimer''),
     Field ''clock_base'' (Array 8 struct_hrtimer_clock_base)]"

lemma struct_hrtimer_cpu_base_layout [ctype_layout]:
  "sizeof struct_hrtimer_cpu_base = 576" "alignof struct_hrtimer_cpu_base = 8" "wf_ctype struct_hrtimer_cpu_base"
  by (simp_all add: struct_hrtimer_cpu_base_def ctype_defs ctype_layout layout_eval)

definition enum_clock_event_state :: ctype where
  "enum_clock_event_state = Enum ''clock_event_state'' [
     (''CLOCK_EVT_STATE_DETACHED'', 0),
     (''CLOCK_EVT_STATE_SHUTDOWN'', 1),
     (''CLOCK_EVT_STATE_PERIODIC'', 2),
     (''CLOCK_EVT_STATE_ONESHOT'', 3),
     (''CLOCK_EVT_STATE_ONESHOT_STOPPED'', 4)]"

lemma enum_clock_event_state_layout [ctype_layout]:
  "sizeof enum_clock_event_state = 4" "alignof enum_clock_event_state = 4" "wf_ctype enum_clock_event_state"
  by (simp_all add: enum_clock_event_state_def ctype_defs ctype_layout layout_eval)

definition struct_clock_event_device :: ctype where
  "struct_clock_event_device = Struct ''clock_event_device'' False [
     Field ''event_handler'' FnPtr,
     Field ''set_next_event'' FnPtr,
     Field ''set_next_ktime'' FnPtr,
     Field ''next_event'' typedef_ktime_t,
     Field ''max_delta_ns'' typedef_u64,
     Field ''min_delta_ns'' typedef_u64,
     Field ''mult'' typedef_u32,
     Field ''shift'' typedef_u32,
     Field ''state_use_accessors'' enum_clock_event_state,
     Field ''features'' (Base CUInt),
     Field ''retries'' (Base CULong),
     Field ''set_state_periodic'' FnPtr,
     Field ''set_state_oneshot'' FnPtr,
     Field ''set_state_oneshot_stopped'' FnPtr,
     Field ''set_state_shutdown'' FnPtr,
     Field ''tick_resume'' FnPtr,
     Field ''broadcast'' FnPtr,
     Field ''suspend'' FnPtr,
     Field ''resume'' FnPtr,
     Field ''min_delta_ticks'' (Base CULong),
     Field ''max_delta_ticks'' (Base CULong),
     Field ''name'' (Ptr ''char''),
     Field ''rating'' (Base CInt),
     Field ''irq'' (Base CInt),
     Field ''bound_on'' (Base CInt),
     Field ''cpumask'' (Ptr ''struct cpumask''),
     Field ''list'' struct_list_head,
     Field ''owner'' (Ptr ''struct module''),
     Pad (Base CLong) 64,
     Pad (Base CLong) 64,
     Pad (Base CLong) 64,
     Pad (Base CLong) 64,
     Pad (Base CLong) 64,
     Pad (Base CLong) 64]"

lemma struct_clock_event_device_layout [ctype_layout]:
  "sizeof struct_clock_event_device = 256" "alignof struct_clock_event_device = 8" "wf_ctype struct_clock_event_device"
  by (simp_all add: struct_clock_event_device_def ctype_defs ctype_layout layout_eval)

definition typedef_smp_call_func_t :: ctype where
  [ctype_defs]: "typedef_smp_call_func_t = FnPtr"

definition struct___call_single_data :: ctype where
  "struct___call_single_data = Struct ''__call_single_data'' False [
     Anon (Union '''' False [
         Field ''node'' struct___call_single_node,
         Anon (Struct '''' False [
             Field ''llist'' struct_llist_node,
             Field ''flags'' (Base CUInt)])]),
     Field ''func'' typedef_smp_call_func_t,
     Field ''info'' (Ptr ''void'')]"

lemma struct___call_single_data_layout [ctype_layout]:
  "sizeof struct___call_single_data = 32" "alignof struct___call_single_data = 8" "wf_ctype struct___call_single_data"
  by (simp_all add: struct___call_single_data_def ctype_defs ctype_layout layout_eval)

definition typedef_call_single_data_t :: ctype where
  [ctype_defs]: "typedef_call_single_data_t = struct___call_single_data"

definition struct_cfs_rq :: ctype where
  "struct_cfs_rq = Struct ''cfs_rq'' False [
     Field ''load'' struct_load_weight,
     Field ''nr_running'' (Base CUInt),
     Field ''h_nr_running'' (Base CUInt),
     Field ''idle_h_nr_running'' (Base CUInt),
     Field ''exec_clock'' typedef_u64,
     Field ''min_vruntime'' typedef_u64,
     Field ''tasks_timeline'' struct_rb_root_cached,
     Field ''curr'' (Ptr ''struct sched_entity''),
     Field ''next'' (Ptr ''struct sched_entity''),
     Field ''last'' (Ptr ''struct sched_entity''),
     Field ''skip'' (Ptr ''struct sched_entity''),
     Pad (Base CLong) 64,
     Pad (Base CLong) 64,
     Pad (Base CLong) 64,
     Pad (Base CLong) 64,
     Field ''avg'' struct_sched_avg,
     Field ''removed'' (Struct '''' False [
         Field ''lock'' typedef_raw_spinlock_t,
         Field ''nr'' (Base CInt),
         Field ''load_avg'' (Base CULong),
         Field ''util_avg'' (Base CULong),
         Field ''runnable_avg'' (Base CULong),
         Pad (Base CLong) 64,
         Pad (Base CLong) 64,
         Pad (Base CLong) 64,
         Pad (Base CLong) 64]),
     Field ''tg_load_avg_contrib'' (Base CULong),
     Field ''propagate'' (Base CLong),
     Field ''prop_runnable_sum'' (Base CLong),
     Field ''h_load'' (Base CULong),
     Field ''last_h_load_update'' typedef_u64,
     Field ''h_load_next'' (Ptr ''struct sched_entity''),
     Field ''rq'' (Ptr ''struct rq''),
     Field ''on_list'' (Base CInt),
     Field ''leaf_cfs_rq_list'' struct_list_head,
     Field ''tg'' (Ptr ''struct task_group''),
     Pad (Base CLong) 64,
     Pad (Base CLong) 64,
     Pad (Base CLong) 64,
     Pad (Base CLong) 64,
     Pad (Base CLong) 64]"

lemma struct_cfs_rq_layout [ctype_layout]:
  "sizeof struct_cfs_rq = 384" "alignof struct_cfs_rq = 8" "wf_ctype struct_cfs_rq"
  by (simp_all add: struct_cfs_rq_def ctype_defs ctype_layout layout_eval)

definition struct_rt_prio_array :: ctype where
  "struct_rt_prio_array = Struct ''rt_prio_array'' False [
     Field ''bitmap'' (Array 2 (Base CULong)),
     Field ''queue'' (Array 100 struct_list_head)]"

lemma struct_rt_prio_array_layout [ctype_layout]:
  "sizeof struct_rt_prio_array = 1616" "alignof struct_rt_prio_array = 8" "wf_ctype struct_rt_prio_array"
  by (simp_all add: struct_rt_prio_array_def ctype_defs ctype_layout layout_eval)

definition struct_plist_head :: ctype where
  "struct_plist_head = Struct ''plist_head'' False [
     Field ''node_list'' struct_list_head]"

lemma struct_plist_head_layout [ctype_layout]:
  "sizeof struct_plist_head = 16" "alignof struct_plist_head = 8" "wf_ctype struct_plist_head"
  by (simp_all add: struct_plist_head_def ctype_defs ctype_layout layout_eval)

definition struct_rt_rq :: ctype where
  "struct_rt_rq = Struct ''rt_rq'' False [
     Field ''active'' struct_rt_prio_array,
     Field ''rt_nr_running'' (Base CUInt),
     Field ''rr_nr_running'' (Base CUInt),
     Field ''highest_prio'' (Struct '''' False [
         Field ''curr'' (Base CInt),
         Field ''next'' (Base CInt)]),
     Field ''rt_nr_migratory'' (Base CULong),
     Field ''rt_nr_total'' (Base CULong),
     Field ''overloaded'' (Base CInt),
     Field ''pushable_tasks'' struct_plist_head,
     Field ''rt_queued'' (Base CInt),
     Field ''rt_throttled'' (Base CInt),
     Field ''rt_time'' typedef_u64,
     Field ''rt_runtime'' typedef_u64,
     Field ''rt_runtime_lock'' typedef_raw_spinlock_t]"

lemma struct_rt_rq_layout [ctype_layout]:
  "sizeof struct_rt_rq = 1704" "alignof struct_rt_rq = 8" "wf_ctype struct_rt_rq"
  by (simp_all add: struct_rt_rq_def ctype_defs ctype_layout layout_eval)

definition struct_dl_rq :: ctype where
  "struct_dl_rq = Struct ''dl_rq'' False [
     Field ''root'' struct_rb_root_cached,
     Field ''dl_nr_running'' (Base CULong),
     Field ''earliest_dl'' (Struct '''' False [
         Field ''curr'' typedef_u64,
         Field ''next'' typedef_u64]),
     Field ''dl_nr_migratory'' (Base CULong),
     Field ''overloaded'' (Base CInt),
     Field ''pushable_dl_tasks_root'' struct_rb_root_cached,
     Field ''running_bw'' typedef_u64,
     Field ''this_bw'' typedef_u64,
     Field ''extra_bw'' typedef_u64,
     Field ''bw_ratio'' typedef_u64]"

lemma struct_dl_rq_layout [ctype_layout]:
  "sizeof struct_dl_rq = 104" "alignof struct_dl_rq = 8" "wf_ctype struct_dl_rq"
  by (simp_all add: struct_dl_rq_def ctype_defs ctype_layout layout_eval)

definition typedef_cpu_stop_fn_t :: ctype where
  [ctype_defs]: "typedef_cpu_stop_fn_t = FnPtr"

definition struct_cpu_stop_work :: ctype where
  "struct_cpu_stop_work = Struct ''cpu_stop_work'' False [
     Field ''list'' struct_list_head,
     Field ''fn'' typedef_cpu_stop_fn_t,
     Field ''arg'' (Ptr ''void''),
     Field ''done'' (Ptr ''struct cpu_stop_done'')]"

lemma struct_cpu_stop_work_layout [ctype_layout]:
  "sizeof struct_cpu_stop_work = 40" "alignof struct_cpu_stop_work = 8" "wf_ctype struct_cpu_stop_work"
  by (simp_all add: struct_cpu_stop_work_def ctype_defs ctype_layout layout_eval)

definition struct_rq :: ctype where
  "struct_rq = Struct ''rq'' False [
     Field ''lock'' typedef_raw_spinlock_t,
     Field ''nr_running'' (Base CUInt),
     Field ''last_blocked_load_update_tick'' (Base CULong),
     Field ''has_blocked_load'' (Base CUInt),
     Pad (Base CLong) 32,
     Pad (Base CLong) 64,
     Field ''nohz_csd'' typedef_call_single_data_t,
     Field ''nohz_tick_stopped'' (Base CUInt),
     Field ''nohz_flags'' typedef_atomic_t,
     Field ''ttwu_pending'' (Base CUInt),
     Field ''nr_switches'' typedef_u64,
     Pad (Base CLong) 64,
     Pad (Base CLong) 64,
     Pad (Base CLong) 64,
     Pad (Base CLong) 64,
     Pad (Base CLong) 64,
     Field ''cfs'' struct_cfs_rq,
     Field ''rt'' struct_rt_rq,
     Field ''dl'' struct_dl_rq,
     Field ''leaf_cfs_rq_list'' struct_list_head,
     Field ''tmp_alone_branch'' (Ptr ''struct list_head''),
     Field ''nr_uninterruptible'' (Base CULong),
     Field ''curr'' (Ptr ''struct task_struct''),
     Field ''idle'' (Ptr ''struct task_struct''),
     Field ''stop'' (Ptr ''struct task_struct''),
     Field ''next_balance'' (Base CULong),
     Field ''prev_mm'' (Ptr ''struct mm_struct''),
     Field ''clock_update_flags'' (Base CUInt),
     Field ''clock'' typedef_u64,
     Pad (Base CLong) 64,
     Pad (Base CLong) 64,
     Pad (Base CLong) 64,
     Field ''clock_task'' typedef_u64,
     Field ''clock_pelt'' typedef_u64,
     Field ''lost_idle_time'' (Base CULong),
     Field ''nr_iowait'' typedef_atomic_t,
     Field ''membarrier_state'' (Base CInt),
     Field ''rd'' (Ptr ''struct root_domain___2''),
     Field ''sd'' (Ptr ''struct sched_domain''),
     Field ''cpu_capacity'' (Base CULong),
     Field ''cpu_capacity_orig'' (Base CULong),
     Field ''balance_callback'' (Ptr ''struct callback_head''),
     Field ''nohz_idle_balance'' (Base CUChar),
     Field ''idle_balance'' (Base CUChar),
     Field ''misfit_task_load'' (Base CULong),
     Field ''active_balance'' (Base CInt),
     Field ''push_cpu'' (Base CInt),
     Field ''active_balance_work'' struct_cpu_stop_work,
     Field ''cpu'' (Base CInt),
     Field ''online'' (Base CInt),
     Field ''cfs_tasks'' struct_list_head,
     Pad (Base CLong) 64,
     Pad (Base CLong) 64,
     Pad (Base CLong) 64,
     Pad (Base CLong) 64,
     Field ''avg_rt'' struct_sched_avg,
     Field ''avg_dl'' struct_sched_avg,
     Field ''idle_stamp'' typedef_u64,
     Field ''avg_idle'' typedef_u64,
     Field ''max_idle_balance_cost'' typedef_u64,
     Field ''calc_load_update'' (Base CULong),
     Field ''calc_load_active'' (Base CLong),
     Pad (Base CLong) 64,
     Pad (Base CLong) 64,
     Pad (Base CLong) 64,
     Field ''hrtick_csd'' typedef_call_single_data_t,
     Field ''hrtick_timer'' struct_hrtimer,
     Field ''rq_sched_info'' struct_sched_info,
     Field ''rq_cpu_time'' (Base CULLong),
     Field ''yld_count'' (Base CUInt),
     Field ''sched_count'' (Base CUInt),
     Field ''sched_goidle'' (Base CUInt),
     Field ''ttwu_count'' (Base CUInt),
     Field ''ttwu_local'' (Base CUInt),
     Field ''idle_state'' (Ptr ''struct cpuidle_state''),
     Pad (Base CLong) 64,
     Pad (Base CLong) 64,
     Pad (Base CLong) 64]"

lemma struct_rq_layout [ctype_layout]:
  "sizeof struct_rq = 3008" "alignof struct_rq = 8" "wf_ctype struct_rq"
  by (simp_all add: struct_rq_def ctype_defs ctype_layout layout_eval)

definition struct_perf_guest_info_callbacks :: ctype where
  "struct_perf_guest_info_callbacks = Struct ''perf_guest_info_callbacks'' False [
     Field ''is_in_guest'' FnPtr,
     Field ''is_user_mode'' FnPtr,
     Field ''get_guest_ip'' FnPtr,
     Field ''handle_intel_pt_intr'' FnPtr]"

lemma struct_perf_guest_info_callbacks_layout [ctype_layout]:
  "sizeof struct_perf_guest_info_callbacks = 32" "alignof struct_perf_guest_info_callbacks = 8" "wf_ctype struct_perf_guest_info_callbacks"
  by (simp_all add: struct_perf_guest_info_callbacks_def ctype_defs ctype_layout layout_eval)

definition struct_hw_port_info :: ctype where
  "struct_hw_port_info = Struct ''hw_port_info'' False [
     Field ''lower_dev'' (Ptr ''struct net_device''),
     Field ''port_id'' typedef_u32]"

lemma struct_hw_port_info_layout [ctype_layout]:
  "sizeof struct_hw_port_info = 16" "alignof struct_hw_port_info = 8" "wf_ctype struct_hw_port_info"
  by (simp_all add: struct_hw_port_info_def ctype_defs ctype_layout layout_eval)

definition struct_stacktrace_cookie :: ctype where
  "struct_stacktrace_cookie = Struct ''stacktrace_cookie'' False [
     Field ''store'' (Ptr ''long unsigned int''),
     Field ''size'' (Base CUInt),
     Field ''skip'' (Base CUInt),
     Field ''len'' (Base CUInt)]"

lemma struct_stacktrace_cookie_layout [ctype_layout]:
  "sizeof struct_stacktrace_cookie = 24" "alignof struct_stacktrace_cookie = 8" "wf_ctype struct_stacktrace_cookie"
  by (simp_all add: struct_stacktrace_cookie_def ctype_defs ctype_layout layout_eval)

definition struct_callchain_cpus_entries :: ctype where
  "struct_callchain_cpus_entries = Struct ''callchain_cpus_entries'' False [
     Field ''callback_head'' struct_callback_head,
     Field ''cpu_entries'' (Array 0 (Ptr ''struct perf_callchain_entry''))]"

lemma struct_callchain_cpus_entries_layout [ctype_layout]:
  "sizeof struct_callchain_cpus_entries = 16" "alignof struct_callchain_cpus_entries = 8" "wf_ctype struct_callchain_cpus_entries"
  by (simp_all add: struct_callchain_cpus_entries_def ctype_defs ctype_layout layout_eval)

end
