(* ===== verification/Vmlinux_Context.thy ===== *)
theory Vmlinux_Context
  imports Vmlinux_Machine
begin

text \<open>
  The contexts of BPF programs in \<^verbatim>\<open>src/src/bpf/vmlinux.h\<close>: what a program of each type is given,
  among them the perf-event context of the profiler, and the records of the other maps, links and iterators.
\<close>

definition struct___sk_buff :: ctype where
  "struct___sk_buff = Struct ''__sk_buff'' False [
     Field ''len'' typedef___u32,
     Field ''pkt_type'' typedef___u32,
     Field ''mark'' typedef___u32,
     Field ''queue_mapping'' typedef___u32,
     Field ''protocol'' typedef___u32,
     Field ''vlan_present'' typedef___u32,
     Field ''vlan_tci'' typedef___u32,
     Field ''vlan_proto'' typedef___u32,
     Field ''priority'' typedef___u32,
     Field ''ingress_ifindex'' typedef___u32,
     Field ''ifindex'' typedef___u32,
     Field ''tc_index'' typedef___u32,
     Field ''cb'' (Array 5 typedef___u32),
     Field ''hash'' typedef___u32,
     Field ''tc_classid'' typedef___u32,
     Field ''data'' typedef___u32,
     Field ''data_end'' typedef___u32,
     Field ''napi_id'' typedef___u32,
     Field ''family'' typedef___u32,
     Field ''remote_ip4'' typedef___u32,
     Field ''local_ip4'' typedef___u32,
     Field ''remote_ip6'' (Array 4 typedef___u32),
     Field ''local_ip6'' (Array 4 typedef___u32),
     Field ''remote_port'' typedef___u32,
     Field ''local_port'' typedef___u32,
     Field ''data_meta'' typedef___u32,
     Anon (Union '''' False [
         Field ''flow_keys'' (Ptr ''struct bpf_flow_keys'')]),
     Field ''tstamp'' typedef___u64,
     Field ''wire_len'' typedef___u32,
     Field ''gso_segs'' typedef___u32,
     Anon (Union '''' False [
         Field ''sk'' (Ptr ''struct bpf_sock'')]),
     Field ''gso_size'' typedef___u32]"

lemma struct___sk_buff_layout [ctype_layout]:
  "sizeof struct___sk_buff = 184" "alignof struct___sk_buff = 8" "wf_ctype struct___sk_buff"
  by (simp_all add: struct___sk_buff_def ctype_defs ctype_layout layout_eval)

definition struct_bpf_sock :: ctype where
  "struct_bpf_sock = Struct ''bpf_sock'' False [
     Field ''bound_dev_if'' typedef___u32,
     Field ''family'' typedef___u32,
     Field ''type'' typedef___u32,
     Field ''protocol'' typedef___u32,
     Field ''mark'' typedef___u32,
     Field ''priority'' typedef___u32,
     Field ''src_ip4'' typedef___u32,
     Field ''src_ip6'' (Array 4 typedef___u32),
     Field ''src_port'' typedef___u32,
     Field ''dst_port'' typedef___u32,
     Field ''dst_ip4'' typedef___u32,
     Field ''dst_ip6'' (Array 4 typedef___u32),
     Field ''state'' typedef___u32,
     Field ''rx_queue_mapping'' typedef___s32]"

lemma struct_bpf_sock_layout [ctype_layout]:
  "sizeof struct_bpf_sock = 80" "alignof struct_bpf_sock = 4" "wf_ctype struct_bpf_sock"
  by (simp_all add: struct_bpf_sock_def ctype_defs ctype_layout layout_eval)

definition struct_bpf_sock_addr :: ctype where
  "struct_bpf_sock_addr = Struct ''bpf_sock_addr'' False [
     Field ''user_family'' typedef___u32,
     Field ''user_ip4'' typedef___u32,
     Field ''user_ip6'' (Array 4 typedef___u32),
     Field ''user_port'' typedef___u32,
     Field ''family'' typedef___u32,
     Field ''type'' typedef___u32,
     Field ''protocol'' typedef___u32,
     Field ''msg_src_ip4'' typedef___u32,
     Field ''msg_src_ip6'' (Array 4 typedef___u32),
     Anon (Union '''' False [
         Field ''sk'' (Ptr ''struct bpf_sock'')])]"

lemma struct_bpf_sock_addr_layout [ctype_layout]:
  "sizeof struct_bpf_sock_addr = 72" "alignof struct_bpf_sock_addr = 8" "wf_ctype struct_bpf_sock_addr"
  by (simp_all add: struct_bpf_sock_addr_def ctype_defs ctype_layout layout_eval)

definition struct_bpf_sock_ops :: ctype where
  "struct_bpf_sock_ops = Struct ''bpf_sock_ops'' False [
     Field ''op'' typedef___u32,
     Anon (Union '''' False [
         Field ''args'' (Array 4 typedef___u32),
         Field ''reply'' typedef___u32,
         Field ''replylong'' (Array 4 typedef___u32)]),
     Field ''family'' typedef___u32,
     Field ''remote_ip4'' typedef___u32,
     Field ''local_ip4'' typedef___u32,
     Field ''remote_ip6'' (Array 4 typedef___u32),
     Field ''local_ip6'' (Array 4 typedef___u32),
     Field ''remote_port'' typedef___u32,
     Field ''local_port'' typedef___u32,
     Field ''is_fullsock'' typedef___u32,
     Field ''snd_cwnd'' typedef___u32,
     Field ''srtt_us'' typedef___u32,
     Field ''bpf_sock_ops_cb_flags'' typedef___u32,
     Field ''state'' typedef___u32,
     Field ''rtt_min'' typedef___u32,
     Field ''snd_ssthresh'' typedef___u32,
     Field ''rcv_nxt'' typedef___u32,
     Field ''snd_nxt'' typedef___u32,
     Field ''snd_una'' typedef___u32,
     Field ''mss_cache'' typedef___u32,
     Field ''ecn_flags'' typedef___u32,
     Field ''rate_delivered'' typedef___u32,
     Field ''rate_interval_us'' typedef___u32,
     Field ''packets_out'' typedef___u32,
     Field ''retrans_out'' typedef___u32,
     Field ''total_retrans'' typedef___u32,
     Field ''segs_in'' typedef___u32,
     Field ''data_segs_in'' typedef___u32,
     Field ''segs_out'' typedef___u32,
     Field ''data_segs_out'' typedef___u32,
     Field ''lost_out'' typedef___u32,
     Field ''sacked_out'' typedef___u32,
     Field ''sk_txhash'' typedef___u32,
     Field ''bytes_received'' typedef___u64,
     Field ''bytes_acked'' typedef___u64,
     Anon (Union '''' False [
         Field ''sk'' (Ptr ''struct bpf_sock'')])]"

lemma struct_bpf_sock_ops_layout [ctype_layout]:
  "sizeof struct_bpf_sock_ops = 192" "alignof struct_bpf_sock_ops = 8" "wf_ctype struct_bpf_sock_ops"
  by (simp_all add: struct_bpf_sock_ops_def ctype_defs ctype_layout layout_eval)

definition struct_bpf_tcp_sock :: ctype where
  "struct_bpf_tcp_sock = Struct ''bpf_tcp_sock'' False [
     Field ''snd_cwnd'' typedef___u32,
     Field ''srtt_us'' typedef___u32,
     Field ''rtt_min'' typedef___u32,
     Field ''snd_ssthresh'' typedef___u32,
     Field ''rcv_nxt'' typedef___u32,
     Field ''snd_nxt'' typedef___u32,
     Field ''snd_una'' typedef___u32,
     Field ''mss_cache'' typedef___u32,
     Field ''ecn_flags'' typedef___u32,
     Field ''rate_delivered'' typedef___u32,
     Field ''rate_interval_us'' typedef___u32,
     Field ''packets_out'' typedef___u32,
     Field ''retrans_out'' typedef___u32,
     Field ''total_retrans'' typedef___u32,
     Field ''segs_in'' typedef___u32,
     Field ''data_segs_in'' typedef___u32,
     Field ''segs_out'' typedef___u32,
     Field ''data_segs_out'' typedef___u32,
     Field ''lost_out'' typedef___u32,
     Field ''sacked_out'' typedef___u32,
     Field ''bytes_received'' typedef___u64,
     Field ''bytes_acked'' typedef___u64,
     Field ''dsack_dups'' typedef___u32,
     Field ''delivered'' typedef___u32,
     Field ''delivered_ce'' typedef___u32,
     Field ''icsk_retransmits'' typedef___u32]"

lemma struct_bpf_tcp_sock_layout [ctype_layout]:
  "sizeof struct_bpf_tcp_sock = 112" "alignof struct_bpf_tcp_sock = 8" "wf_ctype struct_bpf_tcp_sock"
  by (simp_all add: struct_bpf_tcp_sock_def ctype_defs ctype_layout layout_eval)

definition typedef___be32 :: ctype where
  [ctype_defs]: "typedef___be32 = typedef___u32"

definition typedef___be16 :: ctype where
  [ctype_defs]: "typedef___be16 = typedef___u16"

definition struct_bpf_sock_tuple :: ctype where
  "struct_bpf_sock_tuple = Struct ''bpf_sock_tuple'' False [
     Anon (Union '''' False [
         Field ''ipv4'' (Struct '''' False [
             Field ''saddr'' typedef___be32,
             Field ''daddr'' typedef___be32,
             Field ''sport'' typedef___be16,
             Field ''dport'' typedef___be16]),
         Field ''ipv6'' (Struct '''' False [
             Field ''saddr'' (Array 4 typedef___be32),
             Field ''daddr'' (Array 4 typedef___be32),
             Field ''sport'' typedef___be16,
             Field ''dport'' typedef___be16])])]"

lemma struct_bpf_sock_tuple_layout [ctype_layout]:
  "sizeof struct_bpf_sock_tuple = 36" "alignof struct_bpf_sock_tuple = 4" "wf_ctype struct_bpf_sock_tuple"
  by (simp_all add: struct_bpf_sock_tuple_def ctype_defs ctype_layout layout_eval)

definition struct_xdp_md :: ctype where
  "struct_xdp_md = Struct ''xdp_md'' False [
     Field ''data'' typedef___u32,
     Field ''data_end'' typedef___u32,
     Field ''data_meta'' typedef___u32,
     Field ''ingress_ifindex'' typedef___u32,
     Field ''rx_queue_index'' typedef___u32,
     Field ''egress_ifindex'' typedef___u32]"

lemma struct_xdp_md_layout [ctype_layout]:
  "sizeof struct_xdp_md = 24" "alignof struct_xdp_md = 4" "wf_ctype struct_xdp_md"
  by (simp_all add: struct_xdp_md_def ctype_defs ctype_layout layout_eval)

definition struct_sk_msg_md :: ctype where
  "struct_sk_msg_md = Struct ''sk_msg_md'' False [
     Anon (Union '''' False [
         Field ''data'' (Ptr ''void'')]),
     Anon (Union '''' False [
         Field ''data_end'' (Ptr ''void'')]),
     Field ''family'' typedef___u32,
     Field ''remote_ip4'' typedef___u32,
     Field ''local_ip4'' typedef___u32,
     Field ''remote_ip6'' (Array 4 typedef___u32),
     Field ''local_ip6'' (Array 4 typedef___u32),
     Field ''remote_port'' typedef___u32,
     Field ''local_port'' typedef___u32,
     Field ''size'' typedef___u32,
     Anon (Union '''' False [
         Field ''sk'' (Ptr ''struct bpf_sock'')])]"

lemma struct_sk_msg_md_layout [ctype_layout]:
  "sizeof struct_sk_msg_md = 80" "alignof struct_sk_msg_md = 8" "wf_ctype struct_sk_msg_md"
  by (simp_all add: struct_sk_msg_md_def ctype_defs ctype_layout layout_eval)

definition struct_sk_reuseport_md :: ctype where
  "struct_sk_reuseport_md = Struct ''sk_reuseport_md'' False [
     Anon (Union '''' False [
         Field ''data'' (Ptr ''void'')]),
     Anon (Union '''' False [
         Field ''data_end'' (Ptr ''void'')]),
     Field ''len'' typedef___u32,
     Field ''eth_protocol'' typedef___u32,
     Field ''ip_protocol'' typedef___u32,
     Field ''bind_inany'' typedef___u32,
     Field ''hash'' typedef___u32]"

lemma struct_sk_reuseport_md_layout [ctype_layout]:
  "sizeof struct_sk_reuseport_md = 40" "alignof struct_sk_reuseport_md = 8" "wf_ctype struct_sk_reuseport_md"
  by (simp_all add: struct_sk_reuseport_md_def ctype_defs ctype_layout layout_eval)

definition struct_bpf_sysctl :: ctype where
  "struct_bpf_sysctl = Struct ''bpf_sysctl'' False [
     Field ''write'' typedef___u32,
     Field ''file_pos'' typedef___u32]"

lemma struct_bpf_sysctl_layout [ctype_layout]:
  "sizeof struct_bpf_sysctl = 8" "alignof struct_bpf_sysctl = 4" "wf_ctype struct_bpf_sysctl"
  by (simp_all add: struct_bpf_sysctl_def ctype_defs ctype_layout layout_eval)

definition struct_bpf_sockopt :: ctype where
  "struct_bpf_sockopt = Struct ''bpf_sockopt'' False [
     Anon (Union '''' False [
         Field ''sk'' (Ptr ''struct bpf_sock'')]),
     Anon (Union '''' False [
         Field ''optval'' (Ptr ''void'')]),
     Anon (Union '''' False [
         Field ''optval_end'' (Ptr ''void'')]),
     Field ''level'' typedef___s32,
     Field ''optname'' typedef___s32,
     Field ''optlen'' typedef___s32,
     Field ''retval'' typedef___s32]"

lemma struct_bpf_sockopt_layout [ctype_layout]:
  "sizeof struct_bpf_sockopt = 40" "alignof struct_bpf_sockopt = 8" "wf_ctype struct_bpf_sockopt"
  by (simp_all add: struct_bpf_sockopt_def ctype_defs ctype_layout layout_eval)

definition struct_bpf_cgroup_dev_ctx :: ctype where
  "struct_bpf_cgroup_dev_ctx = Struct ''bpf_cgroup_dev_ctx'' False [
     Field ''access_type'' typedef___u32,
     Field ''major'' typedef___u32,
     Field ''minor'' typedef___u32]"

lemma struct_bpf_cgroup_dev_ctx_layout [ctype_layout]:
  "sizeof struct_bpf_cgroup_dev_ctx = 12" "alignof struct_bpf_cgroup_dev_ctx = 4" "wf_ctype struct_bpf_cgroup_dev_ctx"
  by (simp_all add: struct_bpf_cgroup_dev_ctx_def ctype_defs ctype_layout layout_eval)

definition struct_bpf_pidns_info :: ctype where
  "struct_bpf_pidns_info = Struct ''bpf_pidns_info'' False [
     Field ''pid'' typedef___u32,
     Field ''tgid'' typedef___u32]"

lemma struct_bpf_pidns_info_layout [ctype_layout]:
  "sizeof struct_bpf_pidns_info = 8" "alignof struct_bpf_pidns_info = 4" "wf_ctype struct_bpf_pidns_info"
  by (simp_all add: struct_bpf_pidns_info_def ctype_defs ctype_layout layout_eval)

definition struct_bpf_raw_tracepoint_args :: ctype where
  "struct_bpf_raw_tracepoint_args = Struct ''bpf_raw_tracepoint_args'' False [
     Field ''args'' (Array 0 typedef___u64)]"

lemma struct_bpf_raw_tracepoint_args_layout [ctype_layout]:
  "sizeof struct_bpf_raw_tracepoint_args = 0" "alignof struct_bpf_raw_tracepoint_args = 8" "wf_ctype struct_bpf_raw_tracepoint_args"
  by (simp_all add: struct_bpf_raw_tracepoint_args_def ctype_defs ctype_layout layout_eval)

definition struct_bpf_fib_lookup :: ctype where
  "struct_bpf_fib_lookup = Struct ''bpf_fib_lookup'' False [
     Field ''family'' typedef___u8,
     Field ''l4_protocol'' typedef___u8,
     Field ''sport'' typedef___be16,
     Field ''dport'' typedef___be16,
     Field ''tot_len'' typedef___u16,
     Field ''ifindex'' typedef___u32,
     Anon (Union '''' False [
         Field ''tos'' typedef___u8,
         Field ''flowinfo'' typedef___be32,
         Field ''rt_metric'' typedef___u32]),
     Anon (Union '''' False [
         Field ''ipv4_src'' typedef___be32,
         Field ''ipv6_src'' (Array 4 typedef___u32)]),
     Anon (Union '''' False [
         Field ''ipv4_dst'' typedef___be32,
         Field ''ipv6_dst'' (Array 4 typedef___u32)]),
     Field ''h_vlan_proto'' typedef___be16,
     Field ''h_vlan_TCI'' typedef___be16,
     Field ''smac'' (Array 6 typedef___u8),
     Field ''dmac'' (Array 6 typedef___u8)]"

lemma struct_bpf_fib_lookup_layout [ctype_layout]:
  "sizeof struct_bpf_fib_lookup = 64" "alignof struct_bpf_fib_lookup = 4" "wf_ctype struct_bpf_fib_lookup"
  by (simp_all add: struct_bpf_fib_lookup_def ctype_defs ctype_layout layout_eval)

definition struct_bpf_tunnel_key :: ctype where
  "struct_bpf_tunnel_key = Struct ''bpf_tunnel_key'' False [
     Field ''tunnel_id'' typedef___u32,
     Anon (Union '''' False [
         Field ''remote_ipv4'' typedef___u32,
         Field ''remote_ipv6'' (Array 4 typedef___u32)]),
     Field ''tunnel_tos'' typedef___u8,
     Field ''tunnel_ttl'' typedef___u8,
     Field ''tunnel_ext'' typedef___u16,
     Field ''tunnel_label'' typedef___u32]"

lemma struct_bpf_tunnel_key_layout [ctype_layout]:
  "sizeof struct_bpf_tunnel_key = 28" "alignof struct_bpf_tunnel_key = 4" "wf_ctype struct_bpf_tunnel_key"
  by (simp_all add: struct_bpf_tunnel_key_def ctype_defs ctype_layout layout_eval)

definition struct_bpf_xfrm_state :: ctype where
  "struct_bpf_xfrm_state = Struct ''bpf_xfrm_state'' False [
     Field ''reqid'' typedef___u32,
     Field ''spi'' typedef___u32,
     Field ''family'' typedef___u16,
     Field ''ext'' typedef___u16,
     Anon (Union '''' False [
         Field ''remote_ipv4'' typedef___u32,
         Field ''remote_ipv6'' (Array 4 typedef___u32)])]"

lemma struct_bpf_xfrm_state_layout [ctype_layout]:
  "sizeof struct_bpf_xfrm_state = 28" "alignof struct_bpf_xfrm_state = 4" "wf_ctype struct_bpf_xfrm_state"
  by (simp_all add: struct_bpf_xfrm_state_def ctype_defs ctype_layout layout_eval)

definition struct_bpf_flow_keys :: ctype where
  "struct_bpf_flow_keys = Struct ''bpf_flow_keys'' False [
     Field ''nhoff'' typedef___u16,
     Field ''thoff'' typedef___u16,
     Field ''addr_proto'' typedef___u16,
     Field ''is_frag'' typedef___u8,
     Field ''is_first_frag'' typedef___u8,
     Field ''is_encap'' typedef___u8,
     Field ''ip_proto'' typedef___u8,
     Field ''n_proto'' typedef___be16,
     Field ''sport'' typedef___be16,
     Field ''dport'' typedef___be16,
     Anon (Union '''' False [
         Anon (Struct '''' False [
             Field ''ipv4_src'' typedef___be32,
             Field ''ipv4_dst'' typedef___be32]),
         Anon (Struct '''' False [
             Field ''ipv6_src'' (Array 4 typedef___u32),
             Field ''ipv6_dst'' (Array 4 typedef___u32)])]),
     Field ''flags'' typedef___u32,
     Field ''flow_label'' typedef___be32]"

lemma struct_bpf_flow_keys_layout [ctype_layout]:
  "sizeof struct_bpf_flow_keys = 56" "alignof struct_bpf_flow_keys = 4" "wf_ctype struct_bpf_flow_keys"
  by (simp_all add: struct_bpf_flow_keys_def ctype_defs ctype_layout layout_eval)

definition struct_bpf_cgroup_storage_key :: ctype where
  "struct_bpf_cgroup_storage_key = Struct ''bpf_cgroup_storage_key'' False [
     Field ''cgroup_inode_id'' typedef___u64,
     Field ''attach_type'' typedef___u32]"

lemma struct_bpf_cgroup_storage_key_layout [ctype_layout]:
  "sizeof struct_bpf_cgroup_storage_key = 16" "alignof struct_bpf_cgroup_storage_key = 8" "wf_ctype struct_bpf_cgroup_storage_key"
  by (simp_all add: struct_bpf_cgroup_storage_key_def ctype_defs ctype_layout layout_eval)

definition struct_bpf_cgroup_storage :: ctype where
  "struct_bpf_cgroup_storage = Struct ''bpf_cgroup_storage'' False [
     Anon (Union '''' False [
         Field ''buf'' (Ptr ''struct bpf_storage_buffer''),
         Field ''percpu_buf'' (Ptr ''void'')]),
     Field ''map'' (Ptr ''struct bpf_cgroup_storage_map''),
     Field ''key'' struct_bpf_cgroup_storage_key,
     Field ''list'' struct_list_head,
     Field ''node'' struct_rb_node,
     Field ''rcu'' struct_callback_head]"

lemma struct_bpf_cgroup_storage_layout [ctype_layout]:
  "sizeof struct_bpf_cgroup_storage = 88" "alignof struct_bpf_cgroup_storage = 8" "wf_ctype struct_bpf_cgroup_storage"
  by (simp_all add: struct_bpf_cgroup_storage_def ctype_defs ctype_layout layout_eval)

definition struct_bpf_lpm_trie_key :: ctype where
  "struct_bpf_lpm_trie_key = Struct ''bpf_lpm_trie_key'' False [
     Field ''prefixlen'' typedef___u32,
     Field ''data'' (Array 0 typedef___u8)]"

lemma struct_bpf_lpm_trie_key_layout [ctype_layout]:
  "sizeof struct_bpf_lpm_trie_key = 4" "alignof struct_bpf_lpm_trie_key = 4" "wf_ctype struct_bpf_lpm_trie_key"
  by (simp_all add: struct_bpf_lpm_trie_key_def ctype_defs ctype_layout layout_eval)

definition struct_bpf_storage_buffer :: ctype where
  "struct_bpf_storage_buffer = Struct ''bpf_storage_buffer'' False [
     Field ''rcu'' struct_callback_head,
     Field ''data'' (Array 0 (Base CChar))]"

lemma struct_bpf_storage_buffer_layout [ctype_layout]:
  "sizeof struct_bpf_storage_buffer = 16" "alignof struct_bpf_storage_buffer = 8" "wf_ctype struct_bpf_storage_buffer"
  by (simp_all add: struct_bpf_storage_buffer_def ctype_defs ctype_layout layout_eval)

definition struct_bpf_sk_storage_diag :: ctype where
  "struct_bpf_sk_storage_diag = Struct ''bpf_sk_storage_diag'' False [
     Field ''nr_maps'' typedef_u32,
     Field ''maps'' (Array 0 (Ptr ''struct bpf_map''))]"

lemma struct_bpf_sk_storage_diag_layout [ctype_layout]:
  "sizeof struct_bpf_sk_storage_diag = 8" "alignof struct_bpf_sk_storage_diag = 8" "wf_ctype struct_bpf_sk_storage_diag"
  by (simp_all add: struct_bpf_sk_storage_diag_def ctype_defs ctype_layout layout_eval)

definition struct_bpf_iter_meta :: ctype where
  "struct_bpf_iter_meta = Struct ''bpf_iter_meta'' False [
     Anon (Union '''' False [
         Field ''seq'' (Ptr ''struct seq_file'')]),
     Field ''session_id'' typedef_u64,
     Field ''seq_num'' typedef_u64]"

lemma struct_bpf_iter_meta_layout [ctype_layout]:
  "sizeof struct_bpf_iter_meta = 24" "alignof struct_bpf_iter_meta = 8" "wf_ctype struct_bpf_iter_meta"
  by (simp_all add: struct_bpf_iter_meta_def ctype_defs ctype_layout layout_eval)

definition struct_bpf_iter__task :: ctype where
  "struct_bpf_iter__task = Struct ''bpf_iter__task'' False [
     Anon (Union '''' False [
         Field ''meta'' (Ptr ''struct bpf_iter_meta'')]),
     Anon (Union '''' False [
         Field ''task'' (Ptr ''struct task_struct'')])]"

lemma struct_bpf_iter__task_layout [ctype_layout]:
  "sizeof struct_bpf_iter__task = 16" "alignof struct_bpf_iter__task = 8" "wf_ctype struct_bpf_iter__task"
  by (simp_all add: struct_bpf_iter__task_def ctype_defs ctype_layout layout_eval)

definition struct_bpf_iter__bpf_map :: ctype where
  "struct_bpf_iter__bpf_map = Struct ''bpf_iter__bpf_map'' False [
     Anon (Union '''' False [
         Field ''meta'' (Ptr ''struct bpf_iter_meta'')]),
     Anon (Union '''' False [
         Field ''map'' (Ptr ''struct bpf_map'')])]"

lemma struct_bpf_iter__bpf_map_layout [ctype_layout]:
  "sizeof struct_bpf_iter__bpf_map = 16" "alignof struct_bpf_iter__bpf_map = 8" "wf_ctype struct_bpf_iter__bpf_map"
  by (simp_all add: struct_bpf_iter__bpf_map_def ctype_defs ctype_layout layout_eval)

definition typedef_bpf_iter_init_seq_priv_t :: ctype where
  [ctype_defs]: "typedef_bpf_iter_init_seq_priv_t = FnPtr"

definition typedef_bpf_iter_fini_seq_priv_t :: ctype where
  [ctype_defs]: "typedef_bpf_iter_fini_seq_priv_t = FnPtr"

definition struct_bpf_iter_reg :: ctype where
  "struct_bpf_iter_reg = Struct ''bpf_iter_reg'' False [
     Field ''target'' (Ptr ''char''),
     Field ''seq_ops'' (Ptr ''struct seq_operations''),
     Field ''init_seq_private'' typedef_bpf_iter_init_seq_priv_t,
     Field ''fini_seq_private'' typedef_bpf_iter_fini_seq_priv_t,
     Field ''seq_priv_size'' typedef_u32,
     Field ''ctx_arg_info_size'' typedef_u32,
     Field ''ctx_arg_info'' (Array 2 struct_bpf_ctx_arg_aux)]"

lemma struct_bpf_iter_reg_layout [ctype_layout]:
  "sizeof struct_bpf_iter_reg = 56" "alignof struct_bpf_iter_reg = 8" "wf_ctype struct_bpf_iter_reg"
  by (simp_all add: struct_bpf_iter_reg_def ctype_defs ctype_layout layout_eval)

definition struct_bpf_iter_target_info :: ctype where
  "struct_bpf_iter_target_info = Struct ''bpf_iter_target_info'' False [
     Field ''list'' struct_list_head,
     Field ''reg_info'' (Ptr ''struct bpf_iter_reg''),
     Field ''btf_id'' typedef_u32]"

lemma struct_bpf_iter_target_info_layout [ctype_layout]:
  "sizeof struct_bpf_iter_target_info = 32" "alignof struct_bpf_iter_target_info = 8" "wf_ctype struct_bpf_iter_target_info"
  by (simp_all add: struct_bpf_iter_target_info_def ctype_defs ctype_layout layout_eval)

definition struct_bpf_iter_priv_data :: ctype where
  "struct_bpf_iter_priv_data = Struct ''bpf_iter_priv_data'' False [
     Field ''tinfo'' (Ptr ''struct bpf_iter_target_info''),
     Field ''prog'' (Ptr ''struct bpf_prog''),
     Field ''session_id'' typedef_u64,
     Field ''seq_num'' typedef_u64,
     Field ''done_stop'' typedef_bool,
     Pad (Base CLong) 56,
     Field ''target_private'' (Array 0 typedef_u8)]"

lemma struct_bpf_iter_priv_data_layout [ctype_layout]:
  "sizeof struct_bpf_iter_priv_data = 40" "alignof struct_bpf_iter_priv_data = 8" "wf_ctype struct_bpf_iter_priv_data"
  by (simp_all add: struct_bpf_iter_priv_data_def ctype_defs ctype_layout layout_eval)

definition struct_bpf_iter_link :: ctype where
  "struct_bpf_iter_link = Struct ''bpf_iter_link'' False [
     Field ''link'' struct_bpf_link,
     Field ''tinfo'' (Ptr ''struct bpf_iter_target_info'')]"

lemma struct_bpf_iter_link_layout [ctype_layout]:
  "sizeof struct_bpf_iter_link = 72" "alignof struct_bpf_iter_link = 8" "wf_ctype struct_bpf_iter_link"
  by (simp_all add: struct_bpf_iter_link_def ctype_defs ctype_layout layout_eval)

definition struct_bpf_tracing_link :: ctype where
  "struct_bpf_tracing_link = Struct ''bpf_tracing_link'' False [
     Field ''link'' struct_bpf_link,
     Field ''attach_type'' enum_bpf_attach_type]"

lemma struct_bpf_tracing_link_layout [ctype_layout]:
  "sizeof struct_bpf_tracing_link = 72" "alignof struct_bpf_tracing_link = 8" "wf_ctype struct_bpf_tracing_link"
  by (simp_all add: struct_bpf_tracing_link_def ctype_defs ctype_layout layout_eval)

definition struct_bpf_raw_tp_link :: ctype where
  "struct_bpf_raw_tp_link = Struct ''bpf_raw_tp_link'' False [
     Field ''link'' struct_bpf_link,
     Field ''btp'' (Ptr ''struct bpf_raw_event_map'')]"

lemma struct_bpf_raw_tp_link_layout [ctype_layout]:
  "sizeof struct_bpf_raw_tp_link = 72" "alignof struct_bpf_raw_tp_link = 8" "wf_ctype struct_bpf_raw_tp_link"
  by (simp_all add: struct_bpf_raw_tp_link_def ctype_defs ctype_layout layout_eval)

definition struct_bpf_dispatcher_prog :: ctype where
  "struct_bpf_dispatcher_prog = Struct ''bpf_dispatcher_prog'' False [
     Field ''prog'' (Ptr ''struct bpf_prog''),
     Field ''users'' typedef_refcount_t]"

lemma struct_bpf_dispatcher_prog_layout [ctype_layout]:
  "sizeof struct_bpf_dispatcher_prog = 16" "alignof struct_bpf_dispatcher_prog = 8" "wf_ctype struct_bpf_dispatcher_prog"
  by (simp_all add: struct_bpf_dispatcher_prog_def ctype_defs ctype_layout layout_eval)

definition struct_bpf_dispatcher :: ctype where
  "struct_bpf_dispatcher = Struct ''bpf_dispatcher'' False [
     Field ''mutex'' struct_mutex,
     Field ''func'' (Ptr ''void''),
     Field ''progs'' (Array 48 struct_bpf_dispatcher_prog),
     Field ''num_progs'' (Base CInt),
     Field ''image'' (Ptr ''void''),
     Field ''image_off'' typedef_u32,
     Field ''ksym'' struct_bpf_ksym]"

lemma struct_bpf_dispatcher_layout [ctype_layout]:
  "sizeof struct_bpf_dispatcher = 1048" "alignof struct_bpf_dispatcher = 8" "wf_ctype struct_bpf_dispatcher"
  by (simp_all add: struct_bpf_dispatcher_def ctype_defs ctype_layout layout_eval)

definition struct_bpf_cpu_map_entry :: ctype where
  "struct_bpf_cpu_map_entry = Struct ''bpf_cpu_map_entry'' False [
     Field ''cpu'' typedef_u32,
     Field ''map_id'' (Base CInt),
     Field ''qsize'' typedef_u32,
     Field ''bulkq'' (Ptr ''struct xdp_bulk_queue''),
     Field ''cmap'' (Ptr ''struct bpf_cpu_map''),
     Field ''queue'' (Ptr ''struct ptr_ring''),
     Field ''kthread'' (Ptr ''struct task_struct''),
     Field ''kthread_stop_wq'' struct_work_struct,
     Field ''refcnt'' typedef_atomic_t,
     Field ''rcu'' struct_callback_head]"

lemma struct_bpf_cpu_map_entry_layout [ctype_layout]:
  "sizeof struct_bpf_cpu_map_entry = 104" "alignof struct_bpf_cpu_map_entry = 8" "wf_ctype struct_bpf_cpu_map_entry"
  by (simp_all add: struct_bpf_cpu_map_entry_def ctype_defs ctype_layout layout_eval)

definition struct_bpf_dtab :: ctype where
  "struct_bpf_dtab = Struct ''bpf_dtab'' False [
     Field ''map'' struct_bpf_map,
     Field ''netdev_map'' (Ptr ''struct bpf_dtab_netdev *''),
     Field ''list'' struct_list_head,
     Field ''dev_index_head'' (Ptr ''struct hlist_head''),
     Field ''index_lock'' typedef_spinlock_t,
     Field ''items'' (Base CUInt),
     Field ''n_buckets'' typedef_u32,
     Pad (Base CLong) 32,
     Pad (Base CLong) 64,
     Pad (Base CLong) 64]"

lemma struct_bpf_dtab_layout [ctype_layout]:
  "sizeof struct_bpf_dtab = 320" "alignof struct_bpf_dtab = 8" "wf_ctype struct_bpf_dtab"
  by (simp_all add: struct_bpf_dtab_def ctype_defs ctype_layout layout_eval)

definition struct_bpf_devmap_val :: ctype where
  "struct_bpf_devmap_val = Struct ''bpf_devmap_val'' False [
     Field ''ifindex'' typedef___u32,
     Field ''bpf_prog'' (Union '''' False [
         Field ''fd'' (Base CInt),
         Field ''id'' typedef___u32])]"

lemma struct_bpf_devmap_val_layout [ctype_layout]:
  "sizeof struct_bpf_devmap_val = 8" "alignof struct_bpf_devmap_val = 4" "wf_ctype struct_bpf_devmap_val"
  by (simp_all add: struct_bpf_devmap_val_def ctype_defs ctype_layout layout_eval)

definition struct_bpf_dtab_netdev :: ctype where
  "struct_bpf_dtab_netdev = Struct ''bpf_dtab_netdev'' False [
     Field ''dev'' (Ptr ''struct net_device''),
     Field ''index_hlist'' struct_hlist_node,
     Field ''dtab'' (Ptr ''struct bpf_dtab''),
     Field ''xdp_prog'' (Ptr ''struct bpf_prog''),
     Field ''rcu'' struct_callback_head,
     Field ''idx'' (Base CUInt),
     Field ''val'' struct_bpf_devmap_val]"

lemma struct_bpf_dtab_netdev_layout [ctype_layout]:
  "sizeof struct_bpf_dtab_netdev = 72" "alignof struct_bpf_dtab_netdev = 8" "wf_ctype struct_bpf_dtab_netdev"
  by (simp_all add: struct_bpf_dtab_netdev_def ctype_defs ctype_layout layout_eval)

definition struct_bpf_queue_stack :: ctype where
  "struct_bpf_queue_stack = Struct ''bpf_queue_stack'' False [
     Field ''map'' struct_bpf_map,
     Field ''lock'' typedef_raw_spinlock_t,
     Field ''head'' typedef_u32,
     Field ''tail'' typedef_u32,
     Field ''size'' typedef_u32,
     Field ''elements'' (Array 0 (Base CChar)),
     Pad (Base CLong) 64,
     Pad (Base CLong) 64,
     Pad (Base CLong) 64,
     Pad (Base CLong) 64,
     Pad (Base CLong) 64,
     Pad (Base CLong) 64]"

lemma struct_bpf_queue_stack_layout [ctype_layout]:
  "sizeof struct_bpf_queue_stack = 320" "alignof struct_bpf_queue_stack = 8" "wf_ctype struct_bpf_queue_stack"
  by (simp_all add: struct_bpf_queue_stack_def ctype_defs ctype_layout layout_eval)

definition struct_lpm_trie :: ctype where
  "struct_lpm_trie = Struct ''lpm_trie'' False [
     Field ''map'' struct_bpf_map,
     Field ''root'' (Ptr ''struct lpm_trie_node''),
     Field ''n_entries'' typedef_size_t,
     Field ''max_prefixlen'' typedef_size_t,
     Field ''data_size'' typedef_size_t,
     Field ''lock'' typedef_spinlock_t,
     Pad (Base CLong) 32,
     Pad (Base CLong) 64,
     Pad (Base CLong) 64,
     Pad (Base CLong) 64]"

lemma struct_lpm_trie_layout [ctype_layout]:
  "sizeof struct_lpm_trie = 320" "alignof struct_lpm_trie = 8" "wf_ctype struct_lpm_trie"
  by (simp_all add: struct_lpm_trie_def ctype_defs ctype_layout layout_eval)

definition struct_lpm_trie_node :: ctype where
  "struct_lpm_trie_node = Struct ''lpm_trie_node'' False [
     Field ''rcu'' struct_callback_head,
     Field ''child'' (Array 2 (Ptr ''struct lpm_trie_node'')),
     Field ''prefixlen'' typedef_u32,
     Field ''flags'' typedef_u32,
     Field ''data'' (Array 0 typedef_u8)]"

lemma struct_lpm_trie_node_layout [ctype_layout]:
  "sizeof struct_lpm_trie_node = 40" "alignof struct_lpm_trie_node = 8" "wf_ctype struct_lpm_trie_node"
  by (simp_all add: struct_lpm_trie_node_def ctype_defs ctype_layout layout_eval)

definition struct_bpf_prog_list :: ctype where
  "struct_bpf_prog_list = Struct ''bpf_prog_list'' False [
     Field ''node'' struct_list_head,
     Field ''prog'' (Ptr ''struct bpf_prog''),
     Field ''link'' (Ptr ''struct bpf_cgroup_link''),
     Field ''storage'' (Array 2 (Ptr ''struct bpf_cgroup_storage''))]"

lemma struct_bpf_prog_list_layout [ctype_layout]:
  "sizeof struct_bpf_prog_list = 48" "alignof struct_bpf_prog_list = 8" "wf_ctype struct_bpf_prog_list"
  by (simp_all add: struct_bpf_prog_list_def ctype_defs ctype_layout layout_eval)

definition struct_bpf_offload_dev :: ctype where
  "struct_bpf_offload_dev = Struct ''bpf_offload_dev'' False [
     Field ''ops'' (Ptr ''struct bpf_prog_offload_ops''),
     Field ''netdevs'' struct_list_head,
     Field ''priv'' (Ptr ''void'')]"

lemma struct_bpf_offload_dev_layout [ctype_layout]:
  "sizeof struct_bpf_offload_dev = 32" "alignof struct_bpf_offload_dev = 8" "wf_ctype struct_bpf_offload_dev"
  by (simp_all add: struct_bpf_offload_dev_def ctype_defs ctype_layout layout_eval)

definition struct_rhash_head :: ctype where
  "struct_rhash_head = Struct ''rhash_head'' False [
     Field ''next'' (Ptr ''struct rhash_head'')]"

lemma struct_rhash_head_layout [ctype_layout]:
  "sizeof struct_rhash_head = 8" "alignof struct_rhash_head = 8" "wf_ctype struct_rhash_head"
  by (simp_all add: struct_rhash_head_def ctype_defs ctype_layout layout_eval)

definition struct_bpf_offload_netdev :: ctype where
  "struct_bpf_offload_netdev = Struct ''bpf_offload_netdev'' False [
     Field ''l'' struct_rhash_head,
     Field ''netdev'' (Ptr ''struct net_device''),
     Field ''offdev'' (Ptr ''struct bpf_offload_dev''),
     Field ''progs'' struct_list_head,
     Field ''maps'' struct_list_head,
     Field ''offdev_netdevs'' struct_list_head]"

lemma struct_bpf_offload_netdev_layout [ctype_layout]:
  "sizeof struct_bpf_offload_netdev = 72" "alignof struct_bpf_offload_netdev = 8" "wf_ctype struct_bpf_offload_netdev"
  by (simp_all add: struct_bpf_offload_netdev_def ctype_defs ctype_layout layout_eval)

definition struct_bpf_offloaded_map :: ctype where
  "struct_bpf_offloaded_map = Struct ''bpf_offloaded_map'' False [
     Field ''map'' struct_bpf_map,
     Field ''netdev'' (Ptr ''struct net_device''),
     Field ''dev_ops'' (Ptr ''struct bpf_map_dev_ops''),
     Field ''dev_priv'' (Ptr ''void''),
     Field ''offloads'' struct_list_head,
     Pad (Base CLong) 64,
     Pad (Base CLong) 64,
     Pad (Base CLong) 64]"

lemma struct_bpf_offloaded_map_layout [ctype_layout]:
  "sizeof struct_bpf_offloaded_map = 320" "alignof struct_bpf_offloaded_map = 8" "wf_ctype struct_bpf_offloaded_map"
  by (simp_all add: struct_bpf_offloaded_map_def ctype_defs ctype_layout layout_eval)

definition struct_hlist_nulls_head :: ctype where
  "struct_hlist_nulls_head = Struct ''hlist_nulls_head'' False [
     Field ''first'' (Ptr ''struct hlist_nulls_node'')]"

lemma struct_hlist_nulls_head_layout [ctype_layout]:
  "sizeof struct_hlist_nulls_head = 8" "alignof struct_hlist_nulls_head = 8" "wf_ctype struct_hlist_nulls_head"
  by (simp_all add: struct_hlist_nulls_head_def ctype_defs ctype_layout layout_eval)

definition struct_bucket :: ctype where
  "struct_bucket = Struct ''bucket'' False [
     Field ''head'' struct_hlist_nulls_head,
     Anon (Union '''' False [
         Field ''raw_lock'' typedef_raw_spinlock_t,
         Field ''lock'' typedef_spinlock_t])]"

lemma struct_bucket_layout [ctype_layout]:
  "sizeof struct_bucket = 16" "alignof struct_bucket = 8" "wf_ctype struct_bucket"
  by (simp_all add: struct_bucket_def ctype_defs ctype_layout layout_eval)

definition struct_hlist_nulls_node :: ctype where
  "struct_hlist_nulls_node = Struct ''hlist_nulls_node'' False [
     Field ''next'' (Ptr ''struct hlist_nulls_node''),
     Field ''pprev'' (Ptr ''struct hlist_nulls_node *'')]"

lemma struct_hlist_nulls_node_layout [ctype_layout]:
  "sizeof struct_hlist_nulls_node = 16" "alignof struct_hlist_nulls_node = 8" "wf_ctype struct_hlist_nulls_node"
  by (simp_all add: struct_hlist_nulls_node_def ctype_defs ctype_layout layout_eval)

definition struct_pcpu_freelist_node :: ctype where
  "struct_pcpu_freelist_node = Struct ''pcpu_freelist_node'' False [
     Field ''next'' (Ptr ''struct pcpu_freelist_node'')]"

lemma struct_pcpu_freelist_node_layout [ctype_layout]:
  "sizeof struct_pcpu_freelist_node = 8" "alignof struct_pcpu_freelist_node = 8" "wf_ctype struct_pcpu_freelist_node"
  by (simp_all add: struct_pcpu_freelist_node_def ctype_defs ctype_layout layout_eval)

definition struct_htab_elem :: ctype where
  "struct_htab_elem = Struct ''htab_elem'' False [
     Anon (Union '''' False [
         Field ''hash_node'' struct_hlist_nulls_node,
         Anon (Struct '''' False [
             Field ''padding'' (Ptr ''void''),
             Anon (Union '''' False [
                 Field ''htab'' (Ptr ''struct bpf_htab''),
                 Field ''fnode'' struct_pcpu_freelist_node,
                 Field ''batch_flink'' (Ptr ''struct htab_elem'')])])]),
     Anon (Union '''' False [
         Field ''rcu'' struct_callback_head,
         Field ''lru_node'' struct_bpf_lru_node]),
     Field ''hash'' typedef_u32,
     Pad (Base CInt) 32,
     Field ''key'' (Array 0 (Base CChar))]"

lemma struct_htab_elem_layout [ctype_layout]:
  "sizeof struct_htab_elem = 48" "alignof struct_htab_elem = 8" "wf_ctype struct_htab_elem"
  by (simp_all add: struct_htab_elem_def ctype_defs ctype_layout layout_eval)

definition struct_bpf_seq_printf_buf :: ctype where
  "struct_bpf_seq_printf_buf = Struct ''bpf_seq_printf_buf'' False [
     Field ''buf'' (Array 768 (Base CChar))]"

lemma struct_bpf_seq_printf_buf_layout [ctype_layout]:
  "sizeof struct_bpf_seq_printf_buf = 768" "alignof struct_bpf_seq_printf_buf = 1" "wf_ctype struct_bpf_seq_printf_buf"
  by (simp_all add: struct_bpf_seq_printf_buf_def ctype_defs ctype_layout layout_eval)

definition enum_pid_type :: ctype where
  "enum_pid_type = Enum ''pid_type'' [
     (''PIDTYPE_PID'', 0),
     (''PIDTYPE_TGID'', 1),
     (''PIDTYPE_PGID'', 2),
     (''PIDTYPE_SID'', 3),
     (''PIDTYPE_MAX'', 4)]"

lemma enum_pid_type_layout [ctype_layout]:
  "sizeof enum_pid_type = 4" "alignof enum_pid_type = 4" "wf_ctype enum_pid_type"
  by (simp_all add: enum_pid_type_def ctype_defs ctype_layout layout_eval)

definition struct_send_signal_irq_work :: ctype where
  "struct_send_signal_irq_work = Struct ''send_signal_irq_work'' False [
     Field ''irq_work'' struct_irq_work,
     Field ''task'' (Ptr ''struct task_struct''),
     Field ''sig'' typedef_u32,
     Field ''type'' enum_pid_type]"

lemma struct_send_signal_irq_work_layout [ctype_layout]:
  "sizeof struct_send_signal_irq_work = 40" "alignof struct_send_signal_irq_work = 8" "wf_ctype struct_send_signal_irq_work"
  by (simp_all add: struct_send_signal_irq_work_def ctype_defs ctype_layout layout_eval)

definition typedef___wsum :: ctype where
  [ctype_defs]: "typedef___wsum = typedef___u32"

definition typedef_sk_buff_data_t :: ctype where
  [ctype_defs]: "typedef_sk_buff_data_t = Base CUInt"

definition struct_sk_buff :: ctype where
  "struct_sk_buff = Struct ''sk_buff'' False [
     Anon (Union '''' False [
         Anon (Struct '''' False [
             Field ''next'' (Ptr ''struct sk_buff''),
             Field ''prev'' (Ptr ''struct sk_buff''),
             Anon (Union '''' False [
                 Field ''dev'' (Ptr ''struct net_device''),
                 Field ''dev_scratch'' (Base CULong)])]),
         Field ''rbnode'' struct_rb_node,
         Field ''list'' struct_list_head]),
     Anon (Union '''' False [
         Field ''sk'' (Ptr ''struct sock''),
         Field ''ip_defrag_offset'' (Base CInt)]),
     Anon (Union '''' False [
         Field ''tstamp'' typedef_ktime_t,
         Field ''skb_mstamp_ns'' typedef_u64]),
     Field ''cb'' (Array 48 (Base CChar)),
     Anon (Union '''' False [
         Anon (Struct '''' False [
             Field ''_skb_refdst'' (Base CULong),
             Field ''destructor'' FnPtr]),
         Field ''tcp_tsorted_anchor'' struct_list_head]),
     Field ''_nfct'' (Base CULong),
     Field ''len'' (Base CUInt),
     Field ''data_len'' (Base CUInt),
     Field ''mac_len'' typedef___u16,
     Field ''hdr_len'' typedef___u16,
     Field ''queue_mapping'' typedef___u16,
     Field ''__cloned_offset'' (Array 0 typedef___u8),
     Bits ''cloned'' typedef___u8 1,
     Bits ''nohdr'' typedef___u8 1,
     Bits ''fclone'' typedef___u8 2,
     Bits ''peeked'' typedef___u8 1,
     Bits ''head_frag'' typedef___u8 1,
     Bits ''pfmemalloc'' typedef___u8 1,
     Field ''active_extensions'' typedef___u8,
     Field ''headers_start'' (Array 0 typedef___u32),
     Field ''__pkt_type_offset'' (Array 0 typedef___u8),
     Bits ''pkt_type'' typedef___u8 3,
     Bits ''ignore_df'' typedef___u8 1,
     Bits ''nf_trace'' typedef___u8 1,
     Bits ''ip_summed'' typedef___u8 2,
     Bits ''ooo_okay'' typedef___u8 1,
     Bits ''l4_hash'' typedef___u8 1,
     Bits ''sw_hash'' typedef___u8 1,
     Bits ''wifi_acked_valid'' typedef___u8 1,
     Bits ''wifi_acked'' typedef___u8 1,
     Bits ''no_fcs'' typedef___u8 1,
     Bits ''encapsulation'' typedef___u8 1,
     Bits ''encap_hdr_csum'' typedef___u8 1,
     Bits ''csum_valid'' typedef___u8 1,
     Field ''__pkt_vlan_present_offset'' (Array 0 typedef___u8),
     Bits ''vlan_present'' typedef___u8 1,
     Bits ''csum_complete_sw'' typedef___u8 1,
     Bits ''csum_level'' typedef___u8 2,
     Bits ''csum_not_inet'' typedef___u8 1,
     Bits ''dst_pending_confirm'' typedef___u8 1,
     Bits ''ndisc_nodetype'' typedef___u8 2,
     Bits ''ipvs_property'' typedef___u8 1,
     Bits ''inner_protocol_type'' typedef___u8 1,
     Bits ''remcsum_offload'' typedef___u8 1,
     Bits ''tc_skip_classify'' typedef___u8 1,
     Bits ''tc_at_ingress'' typedef___u8 1,
     Field ''tc_index'' typedef___u16,
     Anon (Union '''' False [
         Field ''csum'' typedef___wsum,
         Anon (Struct '''' False [
             Field ''csum_start'' typedef___u16,
             Field ''csum_offset'' typedef___u16])]),
     Field ''priority'' typedef___u32,
     Field ''skb_iif'' (Base CInt),
     Field ''hash'' typedef___u32,
     Field ''vlan_proto'' typedef___be16,
     Field ''vlan_tci'' typedef___u16,
     Anon (Union '''' False [
         Field ''napi_id'' (Base CUInt),
         Field ''sender_cpu'' (Base CUInt)]),
     Field ''secmark'' typedef___u32,
     Anon (Union '''' False [
         Field ''mark'' typedef___u32,
         Field ''reserved_tailroom'' typedef___u32]),
     Anon (Union '''' False [
         Field ''inner_protocol'' typedef___be16,
         Field ''inner_ipproto'' typedef___u8]),
     Field ''inner_transport_header'' typedef___u16,
     Field ''inner_network_header'' typedef___u16,
     Field ''inner_mac_header'' typedef___u16,
     Field ''protocol'' typedef___be16,
     Field ''transport_header'' typedef___u16,
     Field ''network_header'' typedef___u16,
     Field ''mac_header'' typedef___u16,
     Field ''headers_end'' (Array 0 typedef___u32),
     Field ''tail'' typedef_sk_buff_data_t,
     Field ''end'' typedef_sk_buff_data_t,
     Field ''head'' (Ptr ''unsigned char''),
     Field ''data'' (Ptr ''unsigned char''),
     Field ''truesize'' (Base CUInt),
     Field ''users'' typedef_refcount_t,
     Field ''extensions'' (Ptr ''struct skb_ext'')]"

lemma struct_sk_buff_layout [ctype_layout]:
  "sizeof struct_sk_buff = 224" "alignof struct_sk_buff = 8" "wf_ctype struct_sk_buff"
  by (simp_all add: struct_sk_buff_def ctype_defs ctype_layout layout_eval)

definition struct_xdp_buff :: ctype where
  "struct_xdp_buff = Struct ''xdp_buff'' False [
     Field ''data'' (Ptr ''void''),
     Field ''data_end'' (Ptr ''void''),
     Field ''data_meta'' (Ptr ''void''),
     Field ''data_hard_start'' (Ptr ''void''),
     Field ''rxq'' (Ptr ''struct xdp_rxq_info''),
     Field ''txq'' (Ptr ''struct xdp_txq_info''),
     Field ''frame_sz'' typedef_u32]"

lemma struct_xdp_buff_layout [ctype_layout]:
  "sizeof struct_xdp_buff = 56" "alignof struct_xdp_buff = 8" "wf_ctype struct_xdp_buff"
  by (simp_all add: struct_xdp_buff_def ctype_defs ctype_layout layout_eval)

definition typedef___addrpair :: ctype where
  [ctype_defs]: "typedef___addrpair = typedef___u64"

definition typedef___portpair :: ctype where
  [ctype_defs]: "typedef___portpair = typedef___u32"

definition typedef_possible_net_t :: ctype where
  "typedef_possible_net_t = Struct '''' False [
     Field ''net'' (Ptr ''struct net'')]"

lemma typedef_possible_net_t_layout [ctype_layout]:
  "sizeof typedef_possible_net_t = 8" "alignof typedef_possible_net_t = 8" "wf_ctype typedef_possible_net_t"
  by (simp_all add: typedef_possible_net_t_def ctype_defs ctype_layout layout_eval)

definition struct_in6_addr :: ctype where
  "struct_in6_addr = Struct ''in6_addr'' False [
     Field ''in6_u'' (Union '''' False [
         Field ''u6_addr8'' (Array 16 typedef___u8),
         Field ''u6_addr16'' (Array 8 typedef___be16),
         Field ''u6_addr32'' (Array 4 typedef___be32)])]"

lemma struct_in6_addr_layout [ctype_layout]:
  "sizeof struct_in6_addr = 16" "alignof struct_in6_addr = 4" "wf_ctype struct_in6_addr"
  by (simp_all add: struct_in6_addr_def ctype_defs ctype_layout layout_eval)

definition struct_sock_common :: ctype where
  "struct_sock_common = Struct ''sock_common'' False [
     Anon (Union '''' False [
         Field ''skc_addrpair'' typedef___addrpair,
         Anon (Struct '''' False [
             Field ''skc_daddr'' typedef___be32,
             Field ''skc_rcv_saddr'' typedef___be32])]),
     Anon (Union '''' False [
         Field ''skc_hash'' (Base CUInt),
         Field ''skc_u16hashes'' (Array 2 typedef___u16)]),
     Anon (Union '''' False [
         Field ''skc_portpair'' typedef___portpair,
         Anon (Struct '''' False [
             Field ''skc_dport'' typedef___be16,
             Field ''skc_num'' typedef___u16])]),
     Field ''skc_family'' (Base CUShort),
     Field ''skc_state'' (Base CUChar),
     Bits ''skc_reuse'' (Base CUChar) 4,
     Bits ''skc_reuseport'' (Base CUChar) 1,
     Bits ''skc_ipv6only'' (Base CUChar) 1,
     Bits ''skc_net_refcnt'' (Base CUChar) 1,
     Field ''skc_bound_dev_if'' (Base CInt),
     Anon (Union '''' False [
         Field ''skc_bind_node'' struct_hlist_node,
         Field ''skc_portaddr_node'' struct_hlist_node]),
     Field ''skc_prot'' (Ptr ''struct proto''),
     Field ''skc_net'' typedef_possible_net_t,
     Field ''skc_v6_daddr'' struct_in6_addr,
     Field ''skc_v6_rcv_saddr'' struct_in6_addr,
     Field ''skc_cookie'' typedef_atomic64_t,
     Anon (Union '''' False [
         Field ''skc_flags'' (Base CULong),
         Field ''skc_listener'' (Ptr ''struct sock''),
         Field ''skc_tw_dr'' (Ptr ''struct inet_timewait_death_row'')]),
     Field ''skc_dontcopy_begin'' (Array 0 (Base CInt)),
     Anon (Union '''' False [
         Field ''skc_node'' struct_hlist_node,
         Field ''skc_nulls_node'' struct_hlist_nulls_node]),
     Field ''skc_tx_queue_mapping'' (Base CUShort),
     Field ''skc_rx_queue_mapping'' (Base CUShort),
     Anon (Union '''' False [
         Field ''skc_incoming_cpu'' (Base CInt),
         Field ''skc_rcv_wnd'' typedef_u32,
         Field ''skc_tw_rcv_nxt'' typedef_u32]),
     Field ''skc_refcnt'' typedef_refcount_t,
     Field ''skc_dontcopy_end'' (Array 0 (Base CInt)),
     Anon (Union '''' False [
         Field ''skc_rxhash'' typedef_u32,
         Field ''skc_window_clamp'' typedef_u32,
         Field ''skc_tw_snd_nxt'' typedef_u32])]"

lemma struct_sock_common_layout [ctype_layout]:
  "sizeof struct_sock_common = 136" "alignof struct_sock_common = 8" "wf_ctype struct_sock_common"
  by (simp_all add: struct_sock_common_def ctype_defs ctype_layout layout_eval)

definition typedef_socket_lock_t :: ctype where
  "typedef_socket_lock_t = Struct '''' False [
     Field ''slock'' typedef_spinlock_t,
     Field ''owned'' (Base CInt),
     Field ''wq'' typedef_wait_queue_head_t]"

lemma typedef_socket_lock_t_layout [ctype_layout]:
  "sizeof typedef_socket_lock_t = 32" "alignof typedef_socket_lock_t = 8" "wf_ctype typedef_socket_lock_t"
  by (simp_all add: typedef_socket_lock_t_def ctype_defs ctype_layout layout_eval)

definition struct_sk_buff_head :: ctype where
  "struct_sk_buff_head = Struct ''sk_buff_head'' False [
     Field ''next'' (Ptr ''struct sk_buff''),
     Field ''prev'' (Ptr ''struct sk_buff''),
     Field ''qlen'' typedef___u32,
     Field ''lock'' typedef_spinlock_t]"

lemma struct_sk_buff_head_layout [ctype_layout]:
  "sizeof struct_sk_buff_head = 24" "alignof struct_sk_buff_head = 8" "wf_ctype struct_sk_buff_head"
  by (simp_all add: struct_sk_buff_head_def ctype_defs ctype_layout layout_eval)

definition struct_timer_list :: ctype where
  "struct_timer_list = Struct ''timer_list'' False [
     Field ''entry'' struct_hlist_node,
     Field ''expires'' (Base CULong),
     Field ''function'' FnPtr,
     Field ''flags'' typedef_u32]"

lemma struct_timer_list_layout [ctype_layout]:
  "sizeof struct_timer_list = 40" "alignof struct_timer_list = 8" "wf_ctype struct_timer_list"
  by (simp_all add: struct_timer_list_def ctype_defs ctype_layout layout_eval)

definition typedef_netdev_features_t :: ctype where
  [ctype_defs]: "typedef_netdev_features_t = typedef_u64"

definition struct_sock_cgroup_data :: ctype where
  "struct_sock_cgroup_data = Struct ''sock_cgroup_data'' False [
     Anon (Union '''' False [
         Anon (Struct '''' False [
             Bits ''is_data'' typedef_u8 1,
             Bits ''no_refcnt'' typedef_u8 1,
             Bits ''unused'' typedef_u8 6,
             Field ''padding'' typedef_u8,
             Field ''prioidx'' typedef_u16,
             Field ''classid'' typedef_u32]),
         Field ''val'' typedef_u64])]"

lemma struct_sock_cgroup_data_layout [ctype_layout]:
  "sizeof struct_sock_cgroup_data = 8" "alignof struct_sock_cgroup_data = 8" "wf_ctype struct_sock_cgroup_data"
  by (simp_all add: struct_sock_cgroup_data_def ctype_defs ctype_layout layout_eval)

definition struct_sock :: ctype where
  "struct_sock = Struct ''sock'' False [
     Field ''__sk_common'' struct_sock_common,
     Field ''sk_lock'' typedef_socket_lock_t,
     Field ''sk_drops'' typedef_atomic_t,
     Field ''sk_rcvlowat'' (Base CInt),
     Field ''sk_error_queue'' struct_sk_buff_head,
     Field ''sk_rx_skb_cache'' (Ptr ''struct sk_buff''),
     Field ''sk_receive_queue'' struct_sk_buff_head,
     Field ''sk_backlog'' (Struct '''' False [
         Field ''rmem_alloc'' typedef_atomic_t,
         Field ''len'' (Base CInt),
         Field ''head'' (Ptr ''struct sk_buff''),
         Field ''tail'' (Ptr ''struct sk_buff'')]),
     Field ''sk_forward_alloc'' (Base CInt),
     Field ''sk_ll_usec'' (Base CUInt),
     Field ''sk_napi_id'' (Base CUInt),
     Field ''sk_rcvbuf'' (Base CInt),
     Field ''sk_filter'' (Ptr ''struct sk_filter''),
     Anon (Union '''' False [
         Field ''sk_wq'' (Ptr ''struct socket_wq''),
         Field ''sk_wq_raw'' (Ptr ''struct socket_wq'')]),
     Field ''sk_policy'' (Array 2 (Ptr ''struct xfrm_policy'')),
     Field ''sk_rx_dst'' (Ptr ''struct dst_entry''),
     Field ''sk_dst_cache'' (Ptr ''struct dst_entry''),
     Field ''sk_omem_alloc'' typedef_atomic_t,
     Field ''sk_sndbuf'' (Base CInt),
     Field ''sk_wmem_queued'' (Base CInt),
     Field ''sk_wmem_alloc'' typedef_refcount_t,
     Field ''sk_tsq_flags'' (Base CULong),
     Anon (Union '''' False [
         Field ''sk_send_head'' (Ptr ''struct sk_buff''),
         Field ''tcp_rtx_queue'' struct_rb_root]),
     Field ''sk_tx_skb_cache'' (Ptr ''struct sk_buff''),
     Field ''sk_write_queue'' struct_sk_buff_head,
     Field ''sk_peek_off'' typedef___s32,
     Field ''sk_write_pending'' (Base CInt),
     Field ''sk_dst_pending_confirm'' typedef___u32,
     Field ''sk_pacing_status'' typedef_u32,
     Field ''sk_sndtimeo'' (Base CLong),
     Field ''sk_timer'' struct_timer_list,
     Field ''sk_priority'' typedef___u32,
     Field ''sk_mark'' typedef___u32,
     Field ''sk_pacing_rate'' (Base CULong),
     Field ''sk_max_pacing_rate'' (Base CULong),
     Field ''sk_frag'' struct_page_frag,
     Field ''sk_route_caps'' typedef_netdev_features_t,
     Field ''sk_route_nocaps'' typedef_netdev_features_t,
     Field ''sk_route_forced_caps'' typedef_netdev_features_t,
     Field ''sk_gso_type'' (Base CInt),
     Field ''sk_gso_max_size'' (Base CUInt),
     Field ''sk_allocation'' typedef_gfp_t,
     Field ''sk_txhash'' typedef___u32,
     Bits ''sk_padding'' typedef_u8 1,
     Bits ''sk_kern_sock'' typedef_u8 1,
     Bits ''sk_no_check_tx'' typedef_u8 1,
     Bits ''sk_no_check_rx'' typedef_u8 1,
     Bits ''sk_userlocks'' typedef_u8 4,
     Field ''sk_pacing_shift'' typedef_u8,
     Field ''sk_type'' typedef_u16,
     Field ''sk_protocol'' typedef_u16,
     Field ''sk_gso_max_segs'' typedef_u16,
     Field ''sk_lingertime'' (Base CULong),
     Field ''sk_prot_creator'' (Ptr ''struct proto''),
     Field ''sk_callback_lock'' typedef_rwlock_t,
     Field ''sk_err'' (Base CInt),
     Field ''sk_err_soft'' (Base CInt),
     Field ''sk_ack_backlog'' typedef_u32,
     Field ''sk_max_ack_backlog'' typedef_u32,
     Field ''sk_uid'' typedef_kuid_t,
     Field ''sk_peer_pid'' (Ptr ''struct pid''),
     Field ''sk_peer_cred'' (Ptr ''struct cred''),
     Field ''sk_rcvtimeo'' (Base CLong),
     Field ''sk_stamp'' typedef_ktime_t,
     Field ''sk_tsflags'' typedef_u16,
     Field ''sk_shutdown'' typedef_u8,
     Field ''sk_tskey'' typedef_u32,
     Field ''sk_zckey'' typedef_atomic_t,
     Field ''sk_clockid'' typedef_u8,
     Bits ''sk_txtime_deadline_mode'' typedef_u8 1,
     Bits ''sk_txtime_report_errors'' typedef_u8 1,
     Bits ''sk_txtime_unused'' typedef_u8 6,
     Field ''sk_socket'' (Ptr ''struct socket''),
     Field ''sk_user_data'' (Ptr ''void''),
     Field ''sk_security'' (Ptr ''void''),
     Field ''sk_cgrp_data'' struct_sock_cgroup_data,
     Field ''sk_memcg'' (Ptr ''struct mem_cgroup''),
     Field ''sk_state_change'' FnPtr,
     Field ''sk_data_ready'' FnPtr,
     Field ''sk_write_space'' FnPtr,
     Field ''sk_error_report'' FnPtr,
     Field ''sk_backlog_rcv'' FnPtr,
     Field ''sk_destruct'' FnPtr,
     Field ''sk_reuseport_cb'' (Ptr ''struct sock_reuseport''),
     Field ''sk_bpf_storage'' (Ptr ''struct bpf_sk_storage''),
     Field ''sk_rcu'' struct_callback_head]"

lemma struct_sock_layout [ctype_layout]:
  "sizeof struct_sock = 752" "alignof struct_sock = 8" "wf_ctype struct_sock"
  by (simp_all add: struct_sock_def ctype_defs ctype_layout layout_eval)

definition struct_bpf_sock_addr_kern :: ctype where
  "struct_bpf_sock_addr_kern = Struct ''bpf_sock_addr_kern'' False [
     Field ''sk'' (Ptr ''struct sock''),
     Field ''uaddr'' (Ptr ''struct sockaddr''),
     Field ''tmp_reg'' typedef_u64,
     Field ''t_ctx'' (Ptr ''void'')]"

lemma struct_bpf_sock_addr_kern_layout [ctype_layout]:
  "sizeof struct_bpf_sock_addr_kern = 32" "alignof struct_bpf_sock_addr_kern = 8" "wf_ctype struct_bpf_sock_addr_kern"
  by (simp_all add: struct_bpf_sock_addr_kern_def ctype_defs ctype_layout layout_eval)

definition struct_bpf_sock_ops_kern :: ctype where
  "struct_bpf_sock_ops_kern = Struct ''bpf_sock_ops_kern'' False [
     Field ''sk'' (Ptr ''struct sock''),
     Field ''op'' typedef_u32,
     Anon (Union '''' False [
         Field ''args'' (Array 4 typedef_u32),
         Field ''reply'' typedef_u32,
         Field ''replylong'' (Array 4 typedef_u32)]),
     Field ''is_fullsock'' typedef_u32,
     Field ''temp'' typedef_u64]"

lemma struct_bpf_sock_ops_kern_layout [ctype_layout]:
  "sizeof struct_bpf_sock_ops_kern = 40" "alignof struct_bpf_sock_ops_kern = 8" "wf_ctype struct_bpf_sock_ops_kern"
  by (simp_all add: struct_bpf_sock_ops_kern_def ctype_defs ctype_layout layout_eval)

definition typedef_dma_addr_t :: ctype where
  [ctype_defs]: "typedef_dma_addr_t = typedef_u64"

definition struct_scatterlist :: ctype where
  "struct_scatterlist = Struct ''scatterlist'' False [
     Field ''page_link'' (Base CULong),
     Field ''offset'' (Base CUInt),
     Field ''length'' (Base CUInt),
     Field ''dma_address'' typedef_dma_addr_t,
     Field ''dma_length'' (Base CUInt)]"

lemma struct_scatterlist_layout [ctype_layout]:
  "sizeof struct_scatterlist = 32" "alignof struct_scatterlist = 8" "wf_ctype struct_scatterlist"
  by (simp_all add: struct_scatterlist_def ctype_defs ctype_layout layout_eval)

definition struct_sk_msg_sg :: ctype where
  "struct_sk_msg_sg = Struct ''sk_msg_sg'' False [
     Field ''start'' typedef_u32,
     Field ''curr'' typedef_u32,
     Field ''end'' typedef_u32,
     Field ''size'' typedef_u32,
     Field ''copybreak'' typedef_u32,
     Field ''copy'' (Base CULong),
     Field ''data'' (Array 19 struct_scatterlist)]"

lemma struct_sk_msg_sg_layout [ctype_layout]:
  "sizeof struct_sk_msg_sg = 640" "alignof struct_sk_msg_sg = 8" "wf_ctype struct_sk_msg_sg"
  by (simp_all add: struct_sk_msg_sg_def ctype_defs ctype_layout layout_eval)

definition struct_sk_msg :: ctype where
  "struct_sk_msg = Struct ''sk_msg'' False [
     Field ''sg'' struct_sk_msg_sg,
     Field ''data'' (Ptr ''void''),
     Field ''data_end'' (Ptr ''void''),
     Field ''apply_bytes'' typedef_u32,
     Field ''cork_bytes'' typedef_u32,
     Field ''flags'' typedef_u32,
     Field ''skb'' (Ptr ''struct sk_buff''),
     Field ''sk_redir'' (Ptr ''struct sock''),
     Field ''sk'' (Ptr ''struct sock''),
     Field ''list'' struct_list_head]"

lemma struct_sk_msg_layout [ctype_layout]:
  "sizeof struct_sk_msg = 712" "alignof struct_sk_msg = 8" "wf_ctype struct_sk_msg"
  by (simp_all add: struct_sk_msg_def ctype_defs ctype_layout layout_eval)

definition struct_bpf_flow_dissector :: ctype where
  "struct_bpf_flow_dissector = Struct ''bpf_flow_dissector'' False [
     Field ''flow_keys'' (Ptr ''struct bpf_flow_keys''),
     Field ''skb'' (Ptr ''struct sk_buff''),
     Field ''data'' (Ptr ''void''),
     Field ''data_end'' (Ptr ''void'')]"

lemma struct_bpf_flow_dissector_layout [ctype_layout]:
  "sizeof struct_bpf_flow_dissector = 32" "alignof struct_bpf_flow_dissector = 8" "wf_ctype struct_bpf_flow_dissector"
  by (simp_all add: struct_bpf_flow_dissector_def ctype_defs ctype_layout layout_eval)

definition struct_bpf_sysctl_kern :: ctype where
  "struct_bpf_sysctl_kern = Struct ''bpf_sysctl_kern'' False [
     Field ''head'' (Ptr ''struct ctl_table_header''),
     Field ''table'' (Ptr ''struct ctl_table''),
     Field ''cur_val'' (Ptr ''void''),
     Field ''cur_len'' typedef_size_t,
     Field ''new_val'' (Ptr ''void''),
     Field ''new_len'' typedef_size_t,
     Field ''new_updated'' (Base CInt),
     Field ''write'' (Base CInt),
     Field ''ppos'' (Ptr ''loff_t''),
     Field ''tmp_reg'' typedef_u64]"

lemma struct_bpf_sysctl_kern_layout [ctype_layout]:
  "sizeof struct_bpf_sysctl_kern = 72" "alignof struct_bpf_sysctl_kern = 8" "wf_ctype struct_bpf_sysctl_kern"
  by (simp_all add: struct_bpf_sysctl_kern_def ctype_defs ctype_layout layout_eval)

definition struct_bpf_sockopt_kern :: ctype where
  "struct_bpf_sockopt_kern = Struct ''bpf_sockopt_kern'' False [
     Field ''sk'' (Ptr ''struct sock''),
     Field ''optval'' (Ptr ''u8''),
     Field ''optval_end'' (Ptr ''u8''),
     Field ''level'' typedef_s32,
     Field ''optname'' typedef_s32,
     Field ''optlen'' typedef_s32,
     Field ''retval'' typedef_s32]"

lemma struct_bpf_sockopt_kern_layout [ctype_layout]:
  "sizeof struct_bpf_sockopt_kern = 40" "alignof struct_bpf_sockopt_kern = 8" "wf_ctype struct_bpf_sockopt_kern"
  by (simp_all add: struct_bpf_sockopt_kern_def ctype_defs ctype_layout layout_eval)

definition struct_sk_reuseport_kern :: ctype where
  "struct_sk_reuseport_kern = Struct ''sk_reuseport_kern'' False [
     Field ''skb'' (Ptr ''struct sk_buff''),
     Field ''sk'' (Ptr ''struct sock''),
     Field ''selected_sk'' (Ptr ''struct sock''),
     Field ''data_end'' (Ptr ''void''),
     Field ''hash'' typedef_u32,
     Field ''reuseport_id'' typedef_u32,
     Field ''bind_inany'' typedef_bool]"

lemma struct_sk_reuseport_kern_layout [ctype_layout]:
  "sizeof struct_sk_reuseport_kern = 48" "alignof struct_sk_reuseport_kern = 8" "wf_ctype struct_sk_reuseport_kern"
  by (simp_all add: struct_sk_reuseport_kern_def ctype_defs ctype_layout layout_eval)

definition struct_bpf_ctx_convert :: ctype where
  "struct_bpf_ctx_convert = Struct ''bpf_ctx_convert'' False [
     Field ''BPF_PROG_TYPE_SOCKET_FILTER_prog'' struct___sk_buff,
     Field ''BPF_PROG_TYPE_SOCKET_FILTER_kern'' struct_sk_buff,
     Field ''BPF_PROG_TYPE_SCHED_CLS_prog'' struct___sk_buff,
     Field ''BPF_PROG_TYPE_SCHED_CLS_kern'' struct_sk_buff,
     Field ''BPF_PROG_TYPE_SCHED_ACT_prog'' struct___sk_buff,
     Field ''BPF_PROG_TYPE_SCHED_ACT_kern'' struct_sk_buff,
     Field ''BPF_PROG_TYPE_XDP_prog'' struct_xdp_md,
     Field ''BPF_PROG_TYPE_XDP_kern'' struct_xdp_buff,
     Field ''BPF_PROG_TYPE_CGROUP_SKB_prog'' struct___sk_buff,
     Field ''BPF_PROG_TYPE_CGROUP_SKB_kern'' struct_sk_buff,
     Field ''BPF_PROG_TYPE_CGROUP_SOCK_prog'' struct_bpf_sock,
     Field ''BPF_PROG_TYPE_CGROUP_SOCK_kern'' struct_sock,
     Field ''BPF_PROG_TYPE_CGROUP_SOCK_ADDR_prog'' struct_bpf_sock_addr,
     Field ''BPF_PROG_TYPE_CGROUP_SOCK_ADDR_kern'' struct_bpf_sock_addr_kern,
     Field ''BPF_PROG_TYPE_LWT_IN_prog'' struct___sk_buff,
     Field ''BPF_PROG_TYPE_LWT_IN_kern'' struct_sk_buff,
     Field ''BPF_PROG_TYPE_LWT_OUT_prog'' struct___sk_buff,
     Field ''BPF_PROG_TYPE_LWT_OUT_kern'' struct_sk_buff,
     Field ''BPF_PROG_TYPE_LWT_XMIT_prog'' struct___sk_buff,
     Field ''BPF_PROG_TYPE_LWT_XMIT_kern'' struct_sk_buff,
     Field ''BPF_PROG_TYPE_LWT_SEG6LOCAL_prog'' struct___sk_buff,
     Field ''BPF_PROG_TYPE_LWT_SEG6LOCAL_kern'' struct_sk_buff,
     Field ''BPF_PROG_TYPE_SOCK_OPS_prog'' struct_bpf_sock_ops,
     Field ''BPF_PROG_TYPE_SOCK_OPS_kern'' struct_bpf_sock_ops_kern,
     Field ''BPF_PROG_TYPE_SK_SKB_prog'' struct___sk_buff,
     Field ''BPF_PROG_TYPE_SK_SKB_kern'' struct_sk_buff,
     Field ''BPF_PROG_TYPE_SK_MSG_prog'' struct_sk_msg_md,
     Field ''BPF_PROG_TYPE_SK_MSG_kern'' struct_sk_msg,
     Field ''BPF_PROG_TYPE_FLOW_DISSECTOR_prog'' struct___sk_buff,
     Field ''BPF_PROG_TYPE_FLOW_DISSECTOR_kern'' struct_bpf_flow_dissector,
     Field ''BPF_PROG_TYPE_KPROBE_prog'' typedef_bpf_user_pt_regs_t,
     Field ''BPF_PROG_TYPE_KPROBE_kern'' struct_pt_regs,
     Field ''BPF_PROG_TYPE_TRACEPOINT_prog'' typedef___u64,
     Field ''BPF_PROG_TYPE_TRACEPOINT_kern'' typedef_u64,
     Field ''BPF_PROG_TYPE_PERF_EVENT_prog'' struct_bpf_perf_event_data,
     Field ''BPF_PROG_TYPE_PERF_EVENT_kern'' struct_bpf_perf_event_data_kern,
     Field ''BPF_PROG_TYPE_RAW_TRACEPOINT_prog'' struct_bpf_raw_tracepoint_args,
     Field ''BPF_PROG_TYPE_RAW_TRACEPOINT_kern'' typedef_u64,
     Field ''BPF_PROG_TYPE_RAW_TRACEPOINT_WRITABLE_prog'' struct_bpf_raw_tracepoint_args,
     Field ''BPF_PROG_TYPE_RAW_TRACEPOINT_WRITABLE_kern'' typedef_u64,
     Field ''BPF_PROG_TYPE_TRACING_prog'' (Ptr ''void''),
     Field ''BPF_PROG_TYPE_TRACING_kern'' (Ptr ''void''),
     Field ''BPF_PROG_TYPE_CGROUP_DEVICE_prog'' struct_bpf_cgroup_dev_ctx,
     Field ''BPF_PROG_TYPE_CGROUP_DEVICE_kern'' struct_bpf_cgroup_dev_ctx,
     Field ''BPF_PROG_TYPE_CGROUP_SYSCTL_prog'' struct_bpf_sysctl,
     Field ''BPF_PROG_TYPE_CGROUP_SYSCTL_kern'' struct_bpf_sysctl_kern,
     Field ''BPF_PROG_TYPE_CGROUP_SOCKOPT_prog'' struct_bpf_sockopt,
     Field ''BPF_PROG_TYPE_CGROUP_SOCKOPT_kern'' struct_bpf_sockopt_kern,
     Field ''BPF_PROG_TYPE_SK_REUSEPORT_prog'' struct_sk_reuseport_md,
     Field ''BPF_PROG_TYPE_SK_REUSEPORT_kern'' struct_sk_reuseport_kern,
     Field ''BPF_PROG_TYPE_STRUCT_OPS_prog'' (Ptr ''void''),
     Field ''BPF_PROG_TYPE_STRUCT_OPS_kern'' (Ptr ''void''),
     Field ''BPF_PROG_TYPE_EXT_prog'' (Ptr ''void''),
     Field ''BPF_PROG_TYPE_EXT_kern'' (Ptr ''void'')]"

lemma struct_bpf_ctx_convert_layout [ctype_layout]:
  "sizeof struct_bpf_ctx_convert = 6824" "alignof struct_bpf_ctx_convert = 8" "wf_ctype struct_bpf_ctx_convert"
  by (simp_all add: struct_bpf_ctx_convert_def ctype_defs ctype_layout layout_eval)

definition struct_bpf_binary_header :: ctype where
  "struct_bpf_binary_header = Struct ''bpf_binary_header'' False [
     Field ''pages'' typedef_u32,
     Pad (Base CInt) 32,
     Field ''image'' (Array 0 typedef_u8)]"

lemma struct_bpf_binary_header_layout [ctype_layout]:
  "sizeof struct_bpf_binary_header = 8" "alignof struct_bpf_binary_header = 4" "wf_ctype struct_bpf_binary_header"
  by (simp_all add: struct_bpf_binary_header_def ctype_defs ctype_layout layout_eval)

end
