(* ===== verification/Vmlinux.thy ===== *)
theory Vmlinux
  imports Vmlinux_Context
begin

text \<open>
  The kernel records of \<^verbatim>\<open>src/src/bpf/vmlinux.h\<close> together: every record declared in the
  theories before this one, and the facts about their layout that the profiler rests on.
\<close>

definition kernel_records :: "ctype list" where
  "kernel_records = [
     struct_thread_info, typedef_atomic_t, struct_refcount_struct, struct_llist_node,
     struct___call_single_node, struct_load_weight, struct_rb_node, struct_list_head,
     struct_sched_statistics, struct_util_est, struct_sched_avg, struct_sched_entity,
     struct_sched_rt_entity, struct_timerqueue_node, struct_hrtimer, struct_sched_dl_entity,
     struct_cpumask, struct_sched_info, struct_plist_node, struct_vmacache, struct_task_rss_stat,
     struct_restart_block, struct_hlist_node, struct_qspinlock, struct_raw_spinlock,
     struct_prev_cputime, struct_rb_root, struct_rb_root_cached, struct_timerqueue_head,
     struct_posix_cputimer_base, struct_posix_cputimers, struct_sysv_sem, struct_sysv_shm,
     typedef_sigset_t, struct_sigpending, typedef_kuid_t, struct_seccomp, struct_spinlock,
     struct_wake_q_node, struct_task_io_accounting, typedef_nodemask_t, struct_seqcount,
     typedef_atomic64_t, struct_optimistic_spin_queue, struct_mutex,
     struct_arch_tlbflush_unmap_batch, struct_tlbflush_unmap_batch, struct_callback_head,
     struct_page_frag, struct_desc_struct, typedef_mm_segment_t, struct_fregs_state,
     struct_fxregs_state, struct_swregs_state, struct_xstate_header, struct_xregs_state,
     union_fpregs_state, struct_fpu, struct_thread_struct, struct_task_struct,
     struct_rw_semaphore, struct_mm_rss_stat, typedef_mm_context_t, struct_uprobes_state,
     struct_work_struct, struct_mm_struct, typedef_kgid_t, struct_kernel_cap_struct, struct_cred,
     struct_wait_queue_head, struct_hlist_head, struct_cpu_itimer, struct_task_cputime_atomic,
     struct_thread_group_cputimer, typedef_seqlock_t, struct_rlimit, struct_pacct_struct,
     struct_signal_struct, struct_sigaction, struct_k_sigaction, struct_sighand_struct,
     struct_path, struct_fs_struct, struct_fdtable, struct_files_struct, struct_nsproxy,
     struct_upid, struct_pid, struct_css_set, struct_sched_class, struct_percpu_ref,
     struct_rcu_work, struct_cgroup_subsys_state, struct_cfs_bandwidth, struct_task_group,
     struct_keyring_index_key, union_key_payload, struct_assoc_array, struct_key,
     struct_vm_struct, struct_xarray, struct_io_context, struct_rt_mutex, union_futex_key,
     struct_futex_pi_state, struct_pipe_inode_info, struct_rseq, struct_arch_uprobe_task,
     struct_uprobe_task, struct_robust_list, struct_robust_list_head, struct_compat_robust_list,
     struct_compat_robust_list_head, struct_mempolicy, struct_task_delay_info,
     struct_rt_mutex_waiter, struct_bio_list, struct_blk_plug, struct_swait_queue_head,
     struct_completion, struct_pgprot, struct_vm_userfaultfd_ctx, struct_vm_area_struct,
     union_sigval, union___sifields, struct_kernel_siginfo, typedef_local_t, typedef_local64_t,
     struct_perf_event_attr, struct_hw_perf_event_extra, struct_arch_hw_breakpoint,
     struct_hw_perf_event, struct_irq_work, struct_perf_addr_filters_head, struct_perf_event,
     struct_pmu, struct_perf_event_groups, struct_perf_event_context, struct_perf_cpu_context,
     struct_perf_buffer, struct_perf_output_handle, union_perf_mem_data_src, struct_perf_regs,
     struct_pt_regs, struct_perf_sample_data, struct_perf_event_mmap_page,
     struct_perf_event_header, struct_perf_callchain_entry, struct_perf_callchain_entry_ctx,
     struct_perf_raw_frag, struct_perf_raw_record, struct_perf_branch_entry,
     struct_perf_branch_stack, struct_perf_event_query_bpf, struct_perf_addr_filter,
     struct_perf_read_data, struct_perf_read_event, struct_perf_task_event,
     struct_perf_comm_event, struct_perf_mmap_event, struct_perf_switch_event,
     struct_perf_ksymbol_event, struct_perf_bpf_event, struct_perf_ns_link_info,
     struct_perf_namespaces_event, struct_qrwlock, typedef_rwlock_t, struct_fasync_struct,
     struct_kref, struct_idr, struct_ns_common, struct_pid_namespace, struct_trace_event,
     struct_trace_event_call, struct_bpf_ringbuf, struct_bpf_map_memory, struct_bpf_map,
     struct_bpf_ringbuf_map, struct_bpf_ringbuf_hdr, struct_bpf_perf_event_data_kern,
     struct_bpf_perf_event_data, struct_bpf_insn, struct_bpf_map_ops, struct_sock_filter,
     struct_bpf_prog, struct_latch_tree_node, struct_bpf_ksym, struct_bpf_prog_aux,
     struct_bpf_prog_ops, struct_u64_stats_sync, struct_bpf_prog_stats, struct_bpf_verifier_ops,
     struct_bpf_func_proto, struct_bpf_insn_access_aux, struct_bpf_func_info,
     struct_bpf_line_info, struct_bpf_func_info_aux, struct_bpf_ctx_arg_aux,
     struct_btf_func_model, struct_bpf_trampoline, struct_bpf_jit_poke_descriptor,
     struct_bpf_prog_offload, struct_bpf_prog_array_item, struct_bpf_prog_array,
     struct_bpf_prog_info, struct_bpf_map_info, struct_bpf_btf_info, struct_bpf_link,
     struct_bpf_link_ops, struct_bpf_link_info, struct_bpf_link_primer, struct_bpf_verifier_log,
     struct_bpf_subprog_info, struct_bpf_verifier_env, struct_bpf_verifier_state, struct_tnum,
     struct_bpf_reg_state, struct_bpf_func_state, struct_bpf_insn_aux_data,
     struct_bpf_verifier_stack_elem, struct_bpf_verifier_state_list, struct_bpf_call_arg_meta,
     struct_pcpu_freelist, struct_bpf_stack_map, struct_bpf_array, struct_bpf_event_entry,
     struct_bpf_trace_sample_data, struct_bpf_nested_pt_regs, struct_bpf_raw_tp_regs,
     struct_bpf_raw_event_map, struct_bpf_perf_event_value, struct_btf_type, struct_btf_header,
     struct_btf, struct_ratelimit_state, struct_user_struct, struct_exception_table_entry,
     struct_bpf_lru_list, struct_bpf_common_lru, struct_bpf_lru, struct_bpf_htab,
     struct_bpf_lru_node, struct_bpf_stack_build_id, struct_bpf_spin_lock, struct_bpf_struct_ops,
     union_bpf_attr,
     union_perf_capabilities, struct_x86_pmu, struct_perf_guest_switch_msr, struct_cpu_hw_events,
     struct_event_constraint, struct_debug_store, struct_er_account, struct_intel_shared_regs,
     struct_amd_nb, struct_extra_reg, struct_attribute, struct_device_attribute,
     struct_perf_pmu_events_attr, struct_x86_perf_task_context, struct_stack_info, struct_unwind_state,
     struct_orc_entry, struct_stack_frame, struct_hrtimer_clock_base, struct_hrtimer_cpu_base,
     struct_clock_event_device, struct___call_single_data, struct_cfs_rq, struct_rt_prio_array,
     struct_plist_head, struct_rt_rq, struct_dl_rq, struct_cpu_stop_work, struct_rq,
     struct_perf_guest_info_callbacks, struct_hw_port_info, struct_stacktrace_cookie,
     struct_callchain_cpus_entries, struct___sk_buff, struct_bpf_sock, struct_bpf_sock_addr,
     struct_bpf_sock_ops, struct_bpf_tcp_sock, struct_bpf_sock_tuple, struct_xdp_md, struct_sk_msg_md,
     struct_sk_reuseport_md, struct_bpf_sysctl, struct_bpf_sockopt, struct_bpf_cgroup_dev_ctx,
     struct_bpf_pidns_info, struct_bpf_raw_tracepoint_args, struct_bpf_fib_lookup,
     struct_bpf_tunnel_key, struct_bpf_xfrm_state, struct_bpf_flow_keys, struct_bpf_cgroup_storage_key,
     struct_bpf_cgroup_storage, struct_bpf_lpm_trie_key, struct_bpf_storage_buffer,
     struct_bpf_sk_storage_diag, struct_bpf_iter_meta, struct_bpf_iter__task, struct_bpf_iter__bpf_map,
     struct_bpf_iter_reg, struct_bpf_iter_target_info, struct_bpf_iter_priv_data, struct_bpf_iter_link,
     struct_bpf_tracing_link, struct_bpf_raw_tp_link, struct_bpf_dispatcher_prog,
     struct_bpf_dispatcher, struct_bpf_cpu_map_entry, struct_bpf_dtab, struct_bpf_devmap_val,
     struct_bpf_dtab_netdev, struct_bpf_queue_stack, struct_lpm_trie, struct_lpm_trie_node,
     struct_bpf_prog_list, struct_bpf_offload_dev, struct_rhash_head, struct_bpf_offload_netdev,
     struct_bpf_offloaded_map, struct_hlist_nulls_head, struct_bucket, struct_hlist_nulls_node,
     struct_pcpu_freelist_node, struct_htab_elem, struct_bpf_seq_printf_buf,
     struct_send_signal_irq_work, struct_sk_buff, struct_xdp_buff, typedef_possible_net_t,
     struct_in6_addr, struct_sock_common, typedef_socket_lock_t, struct_sk_buff_head,
     struct_timer_list, struct_sock_cgroup_data, struct_sock, struct_bpf_sock_addr_kern,
     struct_bpf_sock_ops_kern, struct_scatterlist, struct_sk_msg_sg, struct_sk_msg,
     struct_bpf_flow_dissector, struct_bpf_sysctl_kern, struct_bpf_sockopt_kern,
     struct_sk_reuseport_kern, struct_bpf_ctx_convert, struct_bpf_binary_header]"

lemma kernel_records_all_wf: "list_all wf_ctype kernel_records"
  unfolding kernel_records_def by (simp only: list.pred_inject ctype_layout simp_thms)

lemma kernel_records_wf: "t \<in> set kernel_records \<Longrightarrow> wf_ctype t"
  using kernel_records_all_wf by (simp add: list_all_iff)

section \<open>Layout of every record\<close>




section \<open>The records behind the profiler\<close>

text \<open>
  The kernel pairs the context that a program of each type sees with the record it is made from.  For a
  perf-event program, which the profiler is, these are the registers with the sample, whose
  addresses the verifier turns into those of the kernel's record.
\<close>

lemma perf_event_contexts:
  "map_option fst (field_at struct_bpf_ctx_convert ''BPF_PROG_TYPE_PERF_EVENT_prog'') = Some struct_bpf_perf_event_data
    \<and> map_option fst (field_at struct_bpf_ctx_convert ''BPF_PROG_TYPE_PERF_EVENT_kern'') = Some struct_bpf_perf_event_data_kern"
  by (simp add: struct_bpf_ctx_convert_def ctype_defs ctype_layout layout_eval)

text \<open>
  The ring buffer's control record spans exactly three pages: the consumer's position opens the
  second page, the producer's position the third, and the data area starts on the page after them,
  so that the kernel can map the two positions with different permissions.
\<close>

theorem bpf_ringbuf_pages:
  "offset_bytes struct_bpf_ringbuf ''consumer_pos'' = Some 4096
    \<and> offset_bytes struct_bpf_ringbuf ''producer_pos'' = Some (2 * 4096)
    \<and> offset_bytes struct_bpf_ringbuf ''data'' = Some (3 * 4096)
    \<and> sizeof struct_bpf_ringbuf = 3 * 4096"
  by (simp add: offset_bytes_def struct_bpf_ringbuf_def bpf_ringbuf_page0_pad_def
      bpf_ringbuf_page1_pad_def bpf_ringbuf_page2_pad_def padding_simps
      ctype_defs ctype_layout layout_eval)

text \<open>
  The command name of a task is an array of 16 characters inside the task record; the
  thread id and the thread group id, whose pair the program reads, are the two halves of one
  aligned 64-bit word of it.
\<close>

theorem task_struct_fields:
  "field_at struct_task_struct ''comm'' = Some (Array 16 (Base CChar), 8 * 1608, 8 * 16)
    \<and> field_at struct_task_struct ''pid'' = Some (Base CInt, 8 * 1168, 32)
    \<and> field_at struct_task_struct ''tgid'' = Some (Base CInt, 8 * 1172, 32)"
  by (simp add: struct_task_struct_def ctype_defs ctype_layout layout_eval)

text \<open>
  The saved registers of the interrupted task, which open the context of a perf-event program,
  are 21 consecutive 64-bit words with the instruction pointer and the stack pointer at the places
  the calling convention fixes, and the sample period follows them in the user's view of the context.
\<close>

theorem perf_event_context_layout:
  "sizeof struct_pt_regs = 21 * 8
    \<and> offset_bytes struct_pt_regs ''ip'' = Some (16 * 8)
    \<and> offset_bytes struct_pt_regs ''sp'' = Some (19 * 8)
    \<and> offset_bytes struct_bpf_perf_event_data ''sample_period'' = Some (sizeof struct_pt_regs)"
  by (simp add: offset_bytes_def struct_pt_regs_def struct_bpf_perf_event_data_def ctype_defs ctype_layout layout_eval)

end
