(* ===== verification/Bytes.thy ===== *)
theory Bytes
  imports Prelude
begin

text \<open>
  Byte strings: the little-endian encoding of machine words that C and Rust use in memory on the
  target, the big-endian one that the client feeds to its hash function, arrays of words, and
  stores into and loads from a byte buffer.
\<close>

section \<open>Words as bytes\<close>

definition le_bytes :: "nat \<Rightarrow> 'a::len word \<Rightarrow> u8 list" where
  "le_bytes n w = map (\<lambda>i. ucast (drop_bit (8 * i) w)) [0..<n]"

definition be_bytes :: "nat \<Rightarrow> 'a::len word \<Rightarrow> u8 list" where
  "be_bytes n w = rev (le_bytes n w)"

fun of_le :: "u8 list \<Rightarrow> 'a::len word" where
  "of_le [] = 0"
| "of_le (b # bs) = or (ucast b) (push_bit 8 (of_le bs))"

lemma length_le_bytes [simp]: "length (le_bytes n w) = n"
  by (simp add: le_bytes_def)

lemma length_be_bytes [simp]: "length (be_bytes n w) = n"
  by (simp add: be_bytes_def)

lemma le_bytes_Suc: "le_bytes (Suc n) w = ucast w # le_bytes n (drop_bit 8 w)"
  unfolding le_bytes_def upt_conv_Cons [OF zero_less_Suc] map_Suc_upt [symmetric]
  by (simp add: o_def drop_bit_drop_bit add.commute)

lemma of_le_le_bytes: "of_le (le_bytes n w) = take_bit (8 * n) w"
proof (induction n arbitrary: w)
  case 0
  then show ?case by (simp add: le_bytes_def)
next
  case (Suc n)
  show ?case
    unfolding le_bytes_Suc of_le.simps Suc
    by (rule bit_word_eqI) (auto simp: bit_simps)
qed

lemma of_le_roundtrip:
  fixes w :: "'a::len word"
  shows "LENGTH('a) \<le> 8 * n \<Longrightarrow> of_le (le_bytes n w) = w"
  by (simp add: of_le_le_bytes take_bit_word_eq_self)

lemma le_bytes_ucast:
  fixes w :: "'a::len word"
  assumes "8 * n \<le> LENGTH('b::len)"
  shows "le_bytes n (ucast w :: 'b word) = le_bytes n w"
  unfolding le_bytes_def
  by (rule map_cong [OF refl], rule bit_word_eqI) (use assms in \<open>auto simp: bit_simps\<close>)

lemma be_bytes_inject:
  fixes v w :: "'a::len word"
  assumes "LENGTH('a) \<le> 8 * n" "be_bytes n v = be_bytes n w"
  shows "v = w"
proof -
  have "le_bytes n v = le_bytes n w" using assms(2) by (simp add: be_bytes_def)
  then show ?thesis using of_le_roundtrip [OF assms(1)] by metis
qed

section \<open>Arrays of words\<close>

definition le_array :: "nat \<Rightarrow> 'a::len word list \<Rightarrow> u8 list" where
  "le_array n ws = concat (map (le_bytes n) ws)"

fun of_le_array :: "nat \<Rightarrow> nat \<Rightarrow> u8 list \<Rightarrow> 'a::len word list" where
  "of_le_array n 0 bs = []"
| "of_le_array n (Suc k) bs = of_le (take n bs) # of_le_array n k (drop n bs)"

lemma length_le_array [simp]: "length (le_array n ws) = length ws * n"
  by (induction ws) (simp_all add: le_array_def)

lemma length_of_le_array [simp]: "length (of_le_array n k bs) = k"
  by (induction k arbitrary: bs) simp_all

lemma of_le_array_roundtrip:
  fixes ws :: "'a::len word list"
  assumes "LENGTH('a) \<le> 8 * n"
  shows "of_le_array n (length ws) (le_array n ws) = ws"
  using assms by (induction ws) (simp_all add: le_array_def of_le_roundtrip)

section \<open>Stores and loads\<close>

definition put :: "nat \<Rightarrow> 'b list \<Rightarrow> 'b list \<Rightarrow> 'b list" where
  "put off bs mem = take off mem @ bs @ drop (off + length bs) mem"

definition slice :: "nat \<Rightarrow> nat \<Rightarrow> 'b list \<Rightarrow> 'b list" where
  "slice off n mem = take n (drop off mem)"

lemma length_put [simp]: "off + length bs \<le> length mem \<Longrightarrow> length (put off bs mem) = length mem"
  by (simp add: put_def)

lemma length_slice [simp]: "off + n \<le> length mem \<Longrightarrow> length (slice off n mem) = n"
  by (simp add: slice_def)

lemma nth_put:
  "off + length bs \<le> length mem \<Longrightarrow> i < length mem \<Longrightarrow>
     put off bs mem ! i = (if off \<le> i \<and> i < off + length bs then bs ! (i - off) else mem ! i)"
  by (auto simp: put_def nth_append min_def)

lemma slice_put:
  "off + length bs \<le> length mem \<Longrightarrow> n = length bs \<Longrightarrow> slice off n (put off bs mem) = bs"
  by (simp add: slice_def put_def)

lemma slice_put_other:
  assumes "off + length bs \<le> length mem" "off' + n \<le> length mem"
    and "off' + n \<le> off \<or> off + length bs \<le> off'"
  shows "slice off' n (put off bs mem) = slice off' n mem"
proof (rule nth_equalityI)
  fix i assume "i < length (slice off' n (put off bs mem))"
  then have "i < n" using assms by simp
  then show "slice off' n (put off bs mem) ! i = slice off' n mem ! i"
    using assms by (auto simp: slice_def nth_put)
qed (use assms in simp)

lemma put_commute:
  assumes "a + length xs \<le> b" "b + length ys \<le> length mem"
  shows "put b ys (put a xs mem) = put a xs (put b ys mem)"
  by (rule nth_equalityI) (use assms in \<open>auto simp: nth_put\<close>)

lemmas buffer_simps = slice_put slice_put_other

end
