(* ===== verification/Bpftune.thy ===== *)
theory Bpftune
  imports Vmlinux Bytes
begin

text \<open>
  The profiling program: the event record of \<^verbatim>\<open>src/src/bpf/bpftune.h\<close>, the BPF program
  \<^verbatim>\<open>profile\<close> of \<^verbatim>\<open>src/src/bpf/bpftune.bpf.c\<close> over the kernel's helper functions, and the
  reader's side of the record, the structure of \<^verbatim>\<open>src/src/bpf/bpftune.skel.rs\<close> that the client fills
  from the bytes of the ring buffer.

  The event is modelled twice: as the bytes the program writes at the offsets the ABI gives the
  members, and as the record \<open>stacktrace_event\<close> of values.  The helpers are not part of the
  sources and are the fields of a record of parameters; \<open>helper_contract\<close> says what the program relies
  on: a reservation has the requested size, and a helper that fills a buffer keeps its length.
\<close>

section \<open>The event record\<close>

definition TASK_COMM_LEN :: nat where
  "TASK_COMM_LEN = 16"

definition MAX_STACK_DEPTH :: nat where
  "MAX_STACK_DEPTH = 128"

definition stack_trace_t :: ctype where
  "stack_trace_t = Array MAX_STACK_DEPTH typedef___u64"

definition struct_stacktrace_event :: ctype where
  "struct_stacktrace_event = Struct ''stacktrace_event'' False [
     Field ''pid'' typedef___u32,
     Field ''cpu_id'' typedef___u32,
     Field ''comm'' (Array TASK_COMM_LEN (Base CChar)),
     Field ''kstack_sz'' typedef___s32,
     Field ''ustack_sz'' typedef___s32,
     Field ''kstack'' stack_trace_t,
     Field ''ustack'' stack_trace_t]"

text \<open>The same record as the generated Rust skeleton declares it, with \<^verbatim>\<open>repr(C)\<close>.\<close>

definition skel_stacktrace_event :: ctype where
  "skel_stacktrace_event = Struct ''stacktrace_event'' False [
     Field ''pid'' (Base CUInt),
     Field ''cpu_id'' (Base CUInt),
     Field ''comm'' (Array 16 (Base CSChar)),
     Field ''kstack_sz'' (Base CInt),
     Field ''ustack_sz'' (Base CInt),
     Field ''kstack'' (Array 128 (Base CULLong)),
     Field ''ustack'' (Array 128 (Base CULLong))]"

record stacktrace_event =
  pid :: u32
  cpu_id :: u32
  comm :: "u8 list"
  kstack_sz :: i32
  ustack_sz :: i32
  kstack :: "u64 list"
  ustack :: "u64 list"

definition wf_event :: "stacktrace_event \<Rightarrow> bool" where
  "wf_event e \<longleftrightarrow> length (comm e) = TASK_COMM_LEN
     \<and> length (kstack e) = MAX_STACK_DEPTH \<and> length (ustack e) = MAX_STACK_DEPTH"

definition default_event :: stacktrace_event where
  "default_event = \<lparr>pid = 0, cpu_id = 0, comm = replicate 16 0, kstack_sz = 0, ustack_sz = 0,
     kstack = replicate 128 0, ustack = replicate 128 0\<rparr>"

text \<open>The byte offset of a member of a record; every use below names a member that exists.\<close>

definition off_of :: "ctype \<Rightarrow> string \<Rightarrow> nat" where
  "off_of t f = (case offset_bytes t f of Some n \<Rightarrow> n | None \<Rightarrow> sizeof t)"

section \<open>Reading an event from bytes\<close>

datatype plain_error = TooShort

text \<open>The record whose C representation starts a list of bytes.\<close>

definition event_of_bytes :: "u8 list \<Rightarrow> stacktrace_event" where
  "event_of_bytes data =
     (let t = skel_stacktrace_event in
      \<lparr>pid = of_le (slice (off_of t ''pid'') 4 data),
       cpu_id = of_le (slice (off_of t ''cpu_id'') 4 data),
       comm = slice (off_of t ''comm'') 16 data,
       kstack_sz = of_le (slice (off_of t ''kstack_sz'') 4 data),
       ustack_sz = of_le (slice (off_of t ''ustack_sz'') 4 data),
       kstack = of_le_array 8 128 (slice (off_of t ''kstack'') (128 * 8) data),
       ustack = of_le_array 8 128 (slice (off_of t ''ustack'') (128 * 8) data)\<rparr>)"

text \<open>
  \<^verbatim>\<open>plain::copy_from_bytes\<close> is not part of the sources.  It is a parameter of the client;
  its documented behaviour is to copy as many bytes as the record has and to fail on a shorter
  buffer.
\<close>

type_synonym copy_from_bytes = "u8 list \<Rightarrow> plain_error + stacktrace_event"

definition plain_contract :: "copy_from_bytes \<Rightarrow> bool" where
  "plain_contract copy \<longleftrightarrow>
     (\<forall>data. copy data = (if length data < sizeof skel_stacktrace_event then Inl TooShort
                          else Inr (event_of_bytes data)))"

definition plain_copy :: copy_from_bytes where
  "plain_copy data = (if length data < sizeof skel_stacktrace_event then Inl TooShort
                      else Inr (event_of_bytes data))"

lemma plain_copy_contract: "plain_contract plain_copy"
  by (simp add: plain_contract_def plain_copy_def)

section \<open>The program\<close>

record ('c, 'r) bpf_helpers =
  bpf_get_current_pid_tgid :: u64
  bpf_get_smp_processor_id :: u32
  bpf_ringbuf_reserve :: "'r \<Rightarrow> nat \<Rightarrow> u64 \<Rightarrow> u8 list option \<times> 'r"
  bpf_get_current_comm :: "u8 list \<Rightarrow> nat \<Rightarrow> i64 \<times> u8 list"
  bpf_get_stack :: "'c \<Rightarrow> u8 list \<Rightarrow> nat \<Rightarrow> u64 \<Rightarrow> i64 \<times> u8 list"
  bpf_ringbuf_submit :: "u8 list \<Rightarrow> u64 \<Rightarrow> 'r \<Rightarrow> 'r"

definition helper_contract :: "('c, 'r) bpf_helpers \<Rightarrow> bool" where
  "helper_contract h \<longleftrightarrow>
     (\<forall>rb n fl mem rb'. bpf_ringbuf_reserve h rb n fl = (Some mem, rb') \<longrightarrow> length mem = n)
     \<and> (\<forall>buf. length (snd (bpf_get_current_comm h buf (length buf))) = length buf)
     \<and> (\<forall>ctx buf fl. length (snd (bpf_get_stack h ctx buf (length buf) fl)) = length buf)"

fun enum_const :: "ctype \<Rightarrow> string \<Rightarrow> int option" where
  "enum_const (Enum n es) c = map_of es c"
| "enum_const t c = None"

definition BPF_F_USER_STACK :: u64 where
  "BPF_F_USER_STACK =
     (case enum_const enum_of_BPF_F_SKIP_FIELD_MASK ''BPF_F_USER_STACK'' of
        Some v \<Rightarrow> of_int v | None \<Rightarrow> 0)"

text \<open>
  A store to a member, and a helper call that is handed a member as its buffer together with the
  member's size.
\<close>

definition set_member :: "string \<Rightarrow> u8 list \<Rightarrow> u8 list \<Rightarrow> u8 list" where
  "set_member f bs event = put (off_of struct_stacktrace_event f) bs event"

definition get_member :: "string \<Rightarrow> nat \<Rightarrow> u8 list \<Rightarrow> u8 list" where
  "get_member f n event = slice (off_of struct_stacktrace_event f) n event"

definition fill_comm :: "('c, 'r) bpf_helpers \<Rightarrow> u8 list \<Rightarrow> u8 list" where
  "fill_comm h event =
     (case bpf_get_current_comm h (get_member ''comm'' TASK_COMM_LEN event) TASK_COMM_LEN of
        (ret, buf) \<Rightarrow>
          (let event = set_member ''comm'' buf event
           in if ret \<noteq> 0 then set_member ''comm'' [0] event else event))"

definition fill_stack ::
  "('c, 'r) bpf_helpers \<Rightarrow> 'c \<Rightarrow> string \<Rightarrow> string \<Rightarrow> u64 \<Rightarrow> u8 list \<Rightarrow> u8 list" where
  "fill_stack h ctx stack sz flags event =
     (let n = sizeof stack_trace_t in
      case bpf_get_stack h ctx (get_member stack n event) n flags of
        (ret, buf) \<Rightarrow> set_member sz (le_bytes 4 (ucast ret :: i32)) (set_member stack buf event))"

definition profile :: "('c, 'r) bpf_helpers \<Rightarrow> 'c \<Rightarrow> 'r \<Rightarrow> i32 \<times> 'r" where
  "profile h ctx events =
     (let pid = (ucast (drop_bit 32 (bpf_get_current_pid_tgid h)) :: i32);
          cpu_id = bpf_get_smp_processor_id h
      in case bpf_ringbuf_reserve h events (sizeof struct_stacktrace_event) 0 of
           (None, events) \<Rightarrow> (1, events)
         | (Some event, events) \<Rightarrow>
             (let event = set_member ''pid'' (le_bytes 4 pid) event;
                  event = set_member ''cpu_id'' (le_bytes 4 cpu_id) event;
                  event = fill_comm h event;
                  event = fill_stack h ctx ''kstack'' ''kstack_sz'' 0 event;
                  event = fill_stack h ctx ''ustack'' ''ustack_sz'' BPF_F_USER_STACK event
              in (0, bpf_ringbuf_submit h event 0 events)))"

section \<open>Offsets\<close>

lemmas event_defs = struct_stacktrace_event_def skel_stacktrace_event_def stack_trace_t_def
  TASK_COMM_LEN_def MAX_STACK_DEPTH_def

lemma event_offsets [simp]:
  "off_of struct_stacktrace_event ''pid'' = 0"
  "off_of struct_stacktrace_event ''cpu_id'' = 4"
  "off_of struct_stacktrace_event ''comm'' = 8"
  "off_of struct_stacktrace_event ''kstack_sz'' = 24"
  "off_of struct_stacktrace_event ''ustack_sz'' = 28"
  "off_of struct_stacktrace_event ''kstack'' = 32"
  "off_of struct_stacktrace_event ''ustack'' = 1056"
  by (simp_all add: off_of_def offset_bytes_def event_defs ctype_defs layout_eval)

lemma skel_offsets [simp]:
  "off_of skel_stacktrace_event ''pid'' = 0"
  "off_of skel_stacktrace_event ''cpu_id'' = 4"
  "off_of skel_stacktrace_event ''comm'' = 8"
  "off_of skel_stacktrace_event ''kstack_sz'' = 24"
  "off_of skel_stacktrace_event ''ustack_sz'' = 28"
  "off_of skel_stacktrace_event ''kstack'' = 32"
  "off_of skel_stacktrace_event ''ustack'' = 1056"
  by (simp_all add: off_of_def offset_bytes_def event_defs layout_eval)

lemma event_sizes [simp]:
  "sizeof struct_stacktrace_event = 2080"
  "sizeof skel_stacktrace_event = 2080"
  "sizeof stack_trace_t = 1024"
  by (simp_all add: event_defs ctype_defs layout_eval)

fun member_name :: "cmember \<Rightarrow> string" where
  "member_name (Field n t) = n"
| "member_name (Bits n t w) = n"
| "member_name m = []"


section \<open>What the program puts into the ring buffer\<close>

text \<open>The bytes of an event, member after member.\<close>

definition event_bytes :: "stacktrace_event \<Rightarrow> u8 list" where
  "event_bytes e = le_bytes 4 (pid e) @ le_bytes 4 (cpu_id e) @ comm e
     @ le_bytes 4 (kstack_sz e) @ le_bytes 4 (ustack_sz e)
     @ le_array 8 (kstack e) @ le_array 8 (ustack e)"

lemma event_bytes_read:
  assumes "wf_event e"
  shows "event_of_bytes (event_bytes e @ rest) = e"
proof -
  have len: "length (comm e) = 16" "length (kstack e) = 128" "length (ustack e) = 128"
    using assms by (simp_all add: wf_event_def event_defs)
  have arr: "of_le_array 8 128 (le_array 8 (kstack e)) = kstack e"
    "of_le_array 8 128 (le_array 8 (ustack e)) = ustack e"
    using of_le_array_roundtrip [of 8 "kstack e"] of_le_array_roundtrip [of 8 "ustack e"] len
    by simp_all
  show ?thesis
    by (simp add: event_of_bytes_def event_bytes_def slice_def len of_le_roundtrip arr)
qed

lemma event_bytes_length: "wf_event e \<Longrightarrow> length (event_bytes e) = 2080"
  by (simp add: wf_event_def event_bytes_def TASK_COMM_LEN_def MAX_STACK_DEPTH_def)

lemma plain_copy_ok:
  assumes "plain_contract copy" "2080 \<le> length bs"
  shows "copy bs = Inr (event_of_bytes bs)"
  using assms by (simp add: plain_contract_def)



text \<open>The values a sample carries, from what the helpers return over the reserved bytes.\<close>

definition sampled_comm :: "('c, 'r) bpf_helpers \<Rightarrow> u8 list \<Rightarrow> u8 list" where
  "sampled_comm h mem =
     (case bpf_get_current_comm h (slice 8 16 mem) 16 of
        (ret, buf) \<Rightarrow> if ret \<noteq> 0 then 0 # tl buf else buf)"

definition sampled_event :: "('c, 'r) bpf_helpers \<Rightarrow> 'c \<Rightarrow> u8 list \<Rightarrow> stacktrace_event" where
  "sampled_event h ctx mem =
     (let k = bpf_get_stack h ctx (slice 32 1024 mem) 1024 0;
          u = bpf_get_stack h ctx (slice 1056 1024 mem) 1024 256
      in \<lparr>pid = ucast (drop_bit 32 (bpf_get_current_pid_tgid h)),
          cpu_id = bpf_get_smp_processor_id h,
          comm = sampled_comm h mem,
          kstack_sz = ucast (fst k), ustack_sz = ucast (fst u),
          kstack = of_le_array 8 128 (snd k), ustack = of_le_array 8 128 (snd u)\<rparr>)"

lemma BPF_F_USER_STACK_value [simp]: "BPF_F_USER_STACK = 256"
  by (simp add: BPF_F_USER_STACK_def enum_of_BPF_F_SKIP_FIELD_MASK_def)

text \<open>Each filling step keeps the length of the event and every byte outside its own members.\<close>

lemma put_front: "bs \<noteq> [] \<Longrightarrow> off + length bs \<le> length e \<Longrightarrow> put off [x] (put off bs e) = put off (x # tl bs) e"
  by (cases bs) (simp_all add: put_def)

lemma fill_comm_put:
  assumes "helper_contract h" "length e = 2080"
  shows "fill_comm h e = put 8 (sampled_comm h e) e" "length (sampled_comm h e) = 16"
proof -
  obtain ret buf where c: "bpf_get_current_comm h (slice 8 16 e) 16 = (ret, buf)"
    by (cases "bpf_get_current_comm h (slice 8 16 e) 16")
  have "length (snd (bpf_get_current_comm h (slice 8 16 e) (length (slice 8 16 e))))
      = length (slice 8 16 e)"
    using assms(1) unfolding helper_contract_def by blast
  then have len: "length buf = 16" using c assms(2) by simp
  then have "put 8 [0] (put 8 buf e) = put 8 (0 # tl buf) e"
    using assms(2) by (intro put_front) auto
  then show "fill_comm h e = put 8 (sampled_comm h e) e" "length (sampled_comm h e) = 16"
    using c len by (simp_all add: fill_comm_def sampled_comm_def set_member_def get_member_def
        TASK_COMM_LEN_def)
qed

lemma fill_stack_put:
  assumes "helper_contract h" "length e = 2080" "off_of struct_stacktrace_event stack + 1024 \<le> 2080"
    and "k = bpf_get_stack h ctx (slice (off_of struct_stacktrace_event stack) 1024 e) 1024 fl"
  shows "fill_stack h ctx stack sz fl e
      = put (off_of struct_stacktrace_event sz) (le_bytes 4 (ucast (fst k) :: i32))
          (put (off_of struct_stacktrace_event stack) (snd k) e)"
    and "length (snd k) = 1024"
proof -
  let ?s = "slice (off_of struct_stacktrace_event stack) 1024 e"
  have "length (snd (bpf_get_stack h ctx ?s (length ?s) fl)) = length ?s"
    using assms(1) unfolding helper_contract_def by blast
  then show "length (snd k) = 1024" using assms(2-4) by simp
  show "fill_stack h ctx stack sz fl e
      = put (off_of struct_stacktrace_event sz) (le_bytes 4 (ucast (fst k) :: i32))
          (put (off_of struct_stacktrace_event stack) (snd k) e)"
    by (simp add: fill_stack_def set_member_def get_member_def assms(4) split: prod.split)
qed

lemma profile_submits:
  assumes "helper_contract h"
    and "bpf_ringbuf_reserve h events 2080 0 = (Some mem, events')"
  shows "\<exists>bs. profile h ctx events = (0, bpf_ringbuf_submit h bs 0 events')
    \<and> length bs = 2080 \<and> event_of_bytes bs = sampled_event h ctx mem"
proof -
  have len: "length mem = 2080" using assms unfolding helper_contract_def by blast
  define e1 where "e1 = put 4 (le_bytes 4 (bpf_get_smp_processor_id h))
    (put 0 (le_bytes 4 (ucast (drop_bit 32 (bpf_get_current_pid_tgid h)) :: i32)) mem)"
  define e2 where "e2 = fill_comm h e1"
  define e3 where "e3 = fill_stack h ctx ''kstack'' ''kstack_sz'' 0 e2"
  define e4 where "e4 = fill_stack h ctx ''ustack'' ''ustack_sz'' 256 e3"
  let ?k = "bpf_get_stack h ctx (slice 32 1024 mem) 1024 0"
  let ?u = "bpf_get_stack h ctx (slice 1056 1024 mem) 1024 256"
  have run: "profile h ctx events = (0, bpf_ringbuf_submit h e4 0 events')"
    using assms(2) by (simp add: profile_def set_member_def e4_def e3_def e2_def e1_def)
  have "length e1 = 2080" "slice 8 16 e1 = slice 8 16 mem"
    using len by (simp_all add: e1_def buffer_simps)
  then have comm: "sampled_comm h e1 = sampled_comm h mem"
    by (simp add: sampled_comm_def)
  have e2: "e2 = put 8 (sampled_comm h mem) e1" and lc: "length (sampled_comm h mem) = 16"
    using fill_comm_put [OF assms(1) \<open>length e1 = 2080\<close>] comm by (simp_all add: e2_def)
  have "length e2 = 2080" "slice 32 1024 e2 = slice 32 1024 mem"
    using len lc by (simp_all add: e2 e1_def buffer_simps)
  then have e3: "e3 = put 24 (le_bytes 4 (ucast (fst ?k) :: i32)) (put 32 (snd ?k) e2)"
    and lk: "length (snd ?k) = 1024"
    using fill_stack_put(1) [OF assms(1) \<open>length e2 = 2080\<close>, of "''kstack''" ?k]
      fill_stack_put(2) [OF assms(1) \<open>length e2 = 2080\<close>, of "''kstack''" ?k ctx 0]
    by (simp_all add: e3_def)
  have "length e3 = 2080" "slice 1056 1024 e3 = slice 1056 1024 mem"
    using len lc lk by (simp_all add: e3 e2 e1_def buffer_simps)
  then have e4: "e4 = put 28 (le_bytes 4 (ucast (fst ?u) :: i32)) (put 1056 (snd ?u) e3)"
    and lu: "length (snd ?u) = 1024"
    using fill_stack_put(1) [OF assms(1) \<open>length e3 = 2080\<close>, of "''ustack''" ?u]
      fill_stack_put(2) [OF assms(1) \<open>length e3 = 2080\<close>, of "''ustack''" ?u ctx 256]
    by (simp_all add: e4_def)
  have "length e4 = 2080" and "event_of_bytes e4 = sampled_event h ctx mem"
    using len lc lk lu
    by (simp_all add: e4 e3 e2 e1_def event_of_bytes_def sampled_event_def buffer_simps
        of_le_roundtrip Let_def)
  with run show ?thesis by blast
qed

text \<open>
  C16. When the reservation succeeds, the program returns 0 and submits exactly one record of 2080
  bytes, and the client reads from it the event whose process id is the upper half of the helper's
  pair, whose command name is the helper's or starts with a zero byte when the helper fails, and
  whose stacks and stack sizes are those of the two calls, kernel first.
\<close>

theorem profile_submits_sample:
  assumes "helper_contract h"
    and "bpf_ringbuf_reserve h events 2080 0 = (Some mem, events')"
  shows "\<exists>bs. profile h ctx events = (0, bpf_ringbuf_submit h bs 0 events')
    \<and> length bs = 2080 \<and> event_of_bytes bs = sampled_event h ctx mem"
  using assms by (rule profile_submits)

text \<open>
  A concrete machine for the witnesses: process 1234 on processor 2, helpers that always succeed
  and fill their buffer with a fixed byte, and a ring buffer that is the list of what was submitted.
\<close>

definition demo_helpers :: "nat \<Rightarrow> (unit, u8 list list) bpf_helpers" where
  "demo_helpers room =
     \<lparr>bpf_get_current_pid_tgid = push_bit 32 1234, bpf_get_smp_processor_id = 2,
      bpf_ringbuf_reserve = (\<lambda>rb n fl. (if length rb < room then Some (replicate n 0) else None, rb)),
      bpf_get_current_comm = (\<lambda>buf n. (0, replicate n 97)),
      bpf_get_stack = (\<lambda>ctx buf n fl. (8, replicate n 1)),
      bpf_ringbuf_submit = (\<lambda>bs fl rb. rb @ [bs])\<rparr>"

lemma demo_helpers_contract: "helper_contract (demo_helpers room)"
  by (auto simp: helper_contract_def demo_helpers_def split: if_splits)

theorem profile_submits_sample_witness:
  "\<exists>bs. profile (demo_helpers 1) () [] = (0, [bs])
    \<and> length bs = 2080
    \<and> event_of_bytes bs = sampled_event (demo_helpers 1) () (replicate 2080 0)
    \<and> pid (sampled_event (demo_helpers 1) () (replicate 2080 0)) = 1234"
proof -
  have r: "bpf_ringbuf_reserve (demo_helpers 1) [] 2080 0 = (Some (replicate 2080 0), [])"
    by (simp add: demo_helpers_def)
  have "pid (sampled_event (demo_helpers 1) () (replicate 2080 0)) = 1234"
    by (simp add: sampled_event_def demo_helpers_def Let_def)
  moreover have "bpf_ringbuf_submit (demo_helpers 1) bs 0 [] = [bs]" for bs
    by (simp add: demo_helpers_def)
  ultimately show ?thesis
    using profile_submits_sample [OF demo_helpers_contract r, of "()"] by simp
qed

text \<open>
  When the ring buffer has no room, the program returns 1 and submits nothing: the buffer is
  the one the failed reservation left.
\<close>

theorem profile_ring_full:
  assumes "bpf_ringbuf_reserve h events 2080 0 = (None, events')"
  shows "profile h ctx events = (1, events')"
  using assms by (simp add: profile_def)

theorem profile_ring_full_witness: "profile (demo_helpers 0) () [] = (1, [])"
  by (rule profile_ring_full) (simp add: demo_helpers_def)

end
