(* ===== verification/Bpf_Code.thy ===== *)
theory Bpf_Code
  imports Bpftune
begin

text \<open>
  The compiled profiling program.  \<^verbatim>\<open>src/src/bpf/bpftune.skel.rs\<close> embeds the ELF object that the
  client loads into the kernel; its section \<^verbatim>\<open>perf_event\<close> holds the 45 eBPF instructions of
  \<^verbatim>\<open>profile\<close>.  This theory decodes those bytes, runs them on a small eBPF machine with checked
  memory accesses, and shows that they do what the C source says.

  The machine has the eleven registers, the program's stack frame in slots of eight bytes, and at
  most one reserved record.  Pointers are abstract values, so no instruction can read or write
  outside the record or the frame, use a register the calling convention has clobbered, or touch the
  record after it was submitted: such a step is stuck and the run has no result.
\<close>

section \<open>The bytes of the object file\<close>

definition perf_event_section :: "u8 list" where
  "perf_event_section = [
     123, 26, 248, 255, 0, 0, 0, 0,  133, 0, 0, 0, 14, 0, 0, 0,
     191, 9, 0, 0, 0, 0, 0, 0,  133, 0, 0, 0, 8, 0, 0, 0,
     191, 6, 0, 0, 0, 0, 0, 0,  24, 1, 0, 0, 0, 0, 0, 0,
     0, 0, 0, 0, 0, 0, 0, 0,  183, 2, 0, 0, 32, 8, 0, 0,
     183, 3, 0, 0, 0, 0, 0, 0,  133, 0, 0, 0, 131, 0, 0, 0,
     191, 7, 0, 0, 0, 0, 0, 0,  183, 8, 0, 0, 1, 0, 0, 0,
     21, 7, 30, 0, 0, 0, 0, 0,  99, 103, 4, 0, 0, 0, 0, 0,
     119, 9, 0, 0, 32, 0, 0, 0,  99, 151, 0, 0, 0, 0, 0, 0,
     191, 118, 0, 0, 0, 0, 0, 0,  7, 6, 0, 0, 8, 0, 0, 0,
     191, 97, 0, 0, 0, 0, 0, 0,  183, 2, 0, 0, 16, 0, 0, 0,
     133, 0, 0, 0, 16, 0, 0, 0,  21, 0, 2, 0, 0, 0, 0, 0,
     183, 1, 0, 0, 0, 0, 0, 0,  115, 22, 0, 0, 0, 0, 0, 0,
     191, 114, 0, 0, 0, 0, 0, 0,  7, 2, 0, 0, 32, 0, 0, 0,
     183, 8, 0, 0, 0, 0, 0, 0,  121, 166, 248, 255, 0, 0, 0, 0,
     191, 97, 0, 0, 0, 0, 0, 0,  183, 3, 0, 0, 0, 4, 0, 0,
     183, 4, 0, 0, 0, 0, 0, 0,  133, 0, 0, 0, 67, 0, 0, 0,
     99, 7, 24, 0, 0, 0, 0, 0,  191, 114, 0, 0, 0, 0, 0, 0,
     7, 2, 0, 0, 32, 4, 0, 0,  191, 97, 0, 0, 0, 0, 0, 0,
     183, 3, 0, 0, 0, 4, 0, 0,  183, 4, 0, 0, 0, 1, 0, 0,
     133, 0, 0, 0, 67, 0, 0, 0,  99, 7, 28, 0, 0, 0, 0, 0,
     191, 113, 0, 0, 0, 0, 0, 0,  183, 2, 0, 0, 0, 0, 0, 0,
     133, 0, 0, 0, 132, 0, 0, 0,  191, 128, 0, 0, 0, 0, 0, 0,
     149, 0, 0, 0, 0, 0, 0, 0]"

text \<open>
  The relocations of that section: one entry, at byte 40, of type 1 (a 64-bit immediate) against
  symbol 6 of the symbol table, which is \<^verbatim>\<open>events\<close>.
\<close>

definition relperf_event_section :: "u8 list" where
  "relperf_event_section = [40, 0, 0, 0, 0, 0, 0, 0,  1, 0, 0, 0, 6, 0, 0, 0]"

definition events_symbol :: nat where
  "events_symbol = 6"

section \<open>Decoding\<close>

datatype reg = R nat

datatype insn =
    MovReg reg reg
  | MovImm reg i32
  | AddImm reg i32
  | RshImm reg i32
  | JeqImm reg i32 nat
  | LoadDW reg reg int
  | StoreDW reg int reg
  | StoreW reg int reg
  | StoreB reg int reg
  | LoadSymbol reg nat
  | Call nat
  | Exit

text \<open>
  One instruction of eight bytes, in the layout of \<^verbatim>\<open>struct bpf_insn\<close>.  The second slot of a 64-bit
  immediate load and every operation the program does not use decode to nothing.
\<close>

definition insn_field :: "string \<Rightarrow> nat \<Rightarrow> u8 list \<Rightarrow> u8 list" where
  "insn_field f n bs = slice (off_of struct_bpf_insn f) n bs"

definition decode :: "nat option \<Rightarrow> u8 list \<Rightarrow> insn option" where
  "decode symbol bs =
     (let code = unat (of_le (insn_field ''code'' 1 bs) :: u8);
          regs = (of_le (insn_field ''code'' 2 bs) :: 16 word);
          dst = R (unat (take_bit 4 (drop_bit 8 regs)));
          src = R (unat (drop_bit 12 regs));
          off = sint (of_le (insn_field ''off'' 2 bs) :: 16 word);
          imm = (of_le (insn_field ''imm'' 4 bs) :: i32)
      in if code = 0xbf then Some (MovReg dst src)
         else if code = 0xb7 then Some (MovImm dst imm)
         else if code = 0x07 then Some (AddImm dst imm)
         else if code = 0x77 then Some (RshImm dst imm)
         else if code = 0x15 \<and> 0 \<le> off then Some (JeqImm dst imm (nat off))
         else if code = 0x79 then Some (LoadDW dst src off)
         else if code = 0x7b then Some (StoreDW dst off src)
         else if code = 0x63 then Some (StoreW dst off src)
         else if code = 0x73 then Some (StoreB dst off src)
         else if code = 0x18 then map_option (LoadSymbol dst) symbol
         else if code = 0x85 then Some (Call (unat imm))
         else if code = 0x95 then Some Exit
         else None)"

text \<open>The symbol a relocation puts into the instruction at a slot.\<close>

definition symbol_at :: "u8 list \<Rightarrow> nat \<Rightarrow> nat option" where
  "symbol_at rel slot =
     (if unat (of_le (slice 0 8 rel) :: u64) = sizeof struct_bpf_insn * slot
      then Some (unat (of_le (slice 12 4 rel) :: u32)) else None)"

fun decode_all :: "nat \<Rightarrow> u8 list \<Rightarrow> insn option list" where
  "decode_all slot (b0 # b1 # b2 # b3 # b4 # b5 # b6 # b7 # bs) =
     decode (symbol_at relperf_event_section slot) [b0, b1, b2, b3, b4, b5, b6, b7]
       # decode_all (slot + 1) bs"
| "decode_all slot bs = []"

definition program :: "insn option list" where
  "program = decode_all 0 perf_event_section"

lemma insn_offsets [simp]:
  "off_of struct_bpf_insn ''code'' = 0"
  "off_of struct_bpf_insn ''off'' = 2"
  "off_of struct_bpf_insn ''imm'' = 4"
  by (simp_all add: off_of_def offset_bytes_def struct_bpf_insn_def ctype_defs layout_eval)

lemma symbol_at_program: "symbol_at relperf_event_section slot = (if slot = 5 then Some 6 else None)"
  by (auto simp: symbol_at_def relperf_event_section_def slice_def struct_bpf_insn_layout)

text \<open>The disassembly of the section.\<close>

lemma program_listing:
  "program = map Some [
     StoreDW (R 10) (-8) (R 1), Call 14, MovReg (R 9) (R 0), Call 8, MovReg (R 6) (R 0),
     LoadSymbol (R 1) 6] @ None # map Some [
     MovImm (R 2) 2080, MovImm (R 3) 0, Call 131, MovReg (R 7) (R 0),
     MovImm (R 8) 1, JeqImm (R 7) 0 30,
     StoreW (R 7) 4 (R 6), RshImm (R 9) 32, StoreW (R 7) 0 (R 9),
     MovReg (R 6) (R 7), AddImm (R 6) 8, MovReg (R 1) (R 6), MovImm (R 2) 16, Call 16,
     JeqImm (R 0) 0 2, MovImm (R 1) 0, StoreB (R 6) 0 (R 1),
     MovReg (R 2) (R 7), AddImm (R 2) 32, MovImm (R 8) 0, LoadDW (R 6) (R 10) (-8),
     MovReg (R 1) (R 6), MovImm (R 3) 1024, MovImm (R 4) 0, Call 67, StoreW (R 7) 24 (R 0),
     MovReg (R 2) (R 7), AddImm (R 2) 1056, MovReg (R 1) (R 6), MovImm (R 3) 1024,
     MovImm (R 4) 256, Call 67, StoreW (R 7) 28 (R 0),
     MovReg (R 1) (R 7), MovImm (R 2) 0, Call 132, MovReg (R 0) (R 8), Exit]"
  unfolding program_def perf_event_section_def
  by (simp add: symbol_at_program decode_def insn_field_def slice_def)

section \<open>The machine\<close>

datatype reg_val =
    Scalar u64
  | CtxPtr
  | EventPtr nat
  | FramePtr int
  | MapPtr nat
  | Junk

record 'r machine =
  pc :: nat
  regs :: "reg_val list"
  frame :: "int \<rightharpoonup> reg_val"
  reserved :: "u8 list option"
  ringbuf :: 'r

fun get_reg :: "reg \<Rightarrow> 'r machine \<Rightarrow> reg_val" where
  "get_reg (R n) m = (if n < length (regs m) then regs m ! n else Junk)"

fun set_reg :: "reg \<Rightarrow> reg_val \<Rightarrow> 'r machine \<Rightarrow> 'r machine" where
  "set_reg (R n) v m = m\<lparr>regs := (regs m)[n := v], pc := pc m + 1\<rparr>"

text \<open>Immediates are sign extended to the width of a register.\<close>

definition imm64 :: "i32 \<Rightarrow> u64" where
  "imm64 i = scast i"

text \<open>An aligned slot of the stack frame, which has 512 bytes below the frame pointer.\<close>

definition frame_slot :: "reg_val \<Rightarrow> int \<Rightarrow> int option" where
  "frame_slot v off = (case v of
       FramePtr a \<Rightarrow> if - 512 \<le> a + off \<and> a + off \<le> - 8 \<and> (a + off) mod 8 = 0
                     then Some (a + off) else None
     | _ \<Rightarrow> None)"

text \<open>A store of bytes through a pointer into the reserved record.\<close>

definition store_event :: "reg_val \<Rightarrow> int \<Rightarrow> u8 list \<Rightarrow> 'r machine \<Rightarrow> 'r machine option" where
  "store_event v off bs m = (case (v, reserved m) of
       (EventPtr a, Some mem) \<Rightarrow>
         if 0 \<le> int a + off \<and> nat (int a + off) + length bs \<le> length mem
         then Some (m\<lparr>reserved := Some (put (nat (int a + off)) bs mem), pc := pc m + 1\<rparr>)
         else None
     | _ \<Rightarrow> None)"

text \<open>The bytes a helper may fill: a pointer into the record and a size that stays inside it.\<close>

definition buffer :: "reg_val \<Rightarrow> u64 \<Rightarrow> 'r machine \<Rightarrow> (nat \<times> u8 list \<times> u8 list) option" where
  "buffer v n m = (case (v, reserved m) of
       (EventPtr a, Some mem) \<Rightarrow>
         if a + unat n \<le> length mem then Some (a, slice a (unat n) mem, mem) else None
     | _ \<Rightarrow> None)"

definition helper_id :: "string \<Rightarrow> nat option" where
  "helper_id f = map_option nat (enum_const enum_bpf_func_id (''BPF_FUNC_'' @ f))"

text \<open>
  A helper call takes its arguments from registers 1 to 5 and gives the value of register 0; the
  arguments must have the types the kernel declares for them.
\<close>

definition call_helper ::
  "('c, 'r) bpf_helpers \<Rightarrow> 'c \<Rightarrow> nat \<Rightarrow> 'r machine \<Rightarrow> (reg_val \<times> 'r machine) option" where
  "call_helper h ctx f m =
     (let r1 = get_reg (R 1) m; r2 = get_reg (R 2) m; r3 = get_reg (R 3) m; r4 = get_reg (R 4) m
      in if helper_id ''get_current_pid_tgid'' = Some f then
           Some (Scalar (bpf_get_current_pid_tgid h), m)
         else if helper_id ''get_smp_processor_id'' = Some f then
           Some (Scalar (ucast (bpf_get_smp_processor_id h)), m)
         else if helper_id ''ringbuf_reserve'' = Some f then
           (case (r1, r2, r3, reserved m) of
              (MapPtr s, Scalar n, Scalar flags, None) \<Rightarrow>
                if s = events_symbol
                then (case bpf_ringbuf_reserve h (ringbuf m) (unat n) flags of
                        (None, rb) \<Rightarrow> Some (Scalar 0, m\<lparr>ringbuf := rb\<rparr>)
                      | (Some mem, rb) \<Rightarrow>
                          Some (EventPtr 0, m\<lparr>ringbuf := rb, reserved := Some mem\<rparr>))
                else None
            | _ \<Rightarrow> None)
         else if helper_id ''get_current_comm'' = Some f then
           (case r2 of
              Scalar n \<Rightarrow>
                (case buffer r1 n m of
                   Some (a, buf, mem) \<Rightarrow>
                     (case bpf_get_current_comm h buf (unat n) of
                        (ret, buf) \<Rightarrow> Some (Scalar ret, m\<lparr>reserved := Some (put a buf mem)\<rparr>))
                 | None \<Rightarrow> None)
            | _ \<Rightarrow> None)
         else if helper_id ''get_stack'' = Some f then
           (case (r1, r3, r4) of
              (CtxPtr, Scalar n, Scalar flags) \<Rightarrow>
                (case buffer r2 n m of
                   Some (a, buf, mem) \<Rightarrow>
                     (case bpf_get_stack h ctx buf (unat n) flags of
                        (ret, buf) \<Rightarrow> Some (Scalar ret, m\<lparr>reserved := Some (put a buf mem)\<rparr>))
                 | None \<Rightarrow> None)
            | _ \<Rightarrow> None)
         else if helper_id ''ringbuf_submit'' = Some f then
           (case (r1, r2, reserved m) of
              (EventPtr a, Scalar flags, Some mem) \<Rightarrow>
                if a = 0
                then Some (Junk, m\<lparr>reserved := None,
                                   ringbuf := bpf_ringbuf_submit h mem flags (ringbuf m)\<rparr>)
                else None
            | _ \<Rightarrow> None)
         else None)"

text \<open>After a call the argument registers hold nothing the program may read.\<close>

definition clobber :: "reg_val \<Rightarrow> 'r machine \<Rightarrow> 'r machine" where
  "clobber ret m = m\<lparr>regs := ret # replicate 5 Junk @ drop 6 (regs m), pc := pc m + 1\<rparr>"

text \<open>
  One step gives the next machine, or the returned value with the ring buffer.  The program may not
  return while it still holds a reservation.
\<close>

type_synonym 'r outcome = "'r machine + u64 \<times> 'r"

fun step :: "('c, 'r) bpf_helpers \<Rightarrow> 'c \<Rightarrow> insn \<Rightarrow> 'r machine \<Rightarrow> 'r outcome option" where
  "step h ctx (MovReg d s) m =
     (if get_reg s m = Junk then None else Some (Inl (set_reg d (get_reg s m) m)))"
| "step h ctx (MovImm d i) m = Some (Inl (set_reg d (Scalar (imm64 i)) m))"
| "step h ctx (AddImm d i) m = (case get_reg d m of
     Scalar w \<Rightarrow> Some (Inl (set_reg d (Scalar (w + imm64 i)) m))
   | EventPtr a \<Rightarrow> if 0 \<le> sint i then Some (Inl (set_reg d (EventPtr (a + unat i)) m)) else None
   | FramePtr a \<Rightarrow> Some (Inl (set_reg d (FramePtr (a + sint i)) m))
   | _ \<Rightarrow> None)"
| "step h ctx (RshImm d i) m = (case get_reg d m of
     Scalar w \<Rightarrow> if unat i < 64 then Some (Inl (set_reg d (Scalar (drop_bit (unat i) w)) m))
                 else None
   | _ \<Rightarrow> None)"
| "step h ctx (JeqImm d i off) m = (case get_reg d m of
     Scalar w \<Rightarrow> Some (Inl (m\<lparr>pc := if w = imm64 i then pc m + 1 + off else pc m + 1\<rparr>))
   | EventPtr a \<Rightarrow> if i = 0 then Some (Inl (m\<lparr>pc := pc m + 1\<rparr>)) else None
   | _ \<Rightarrow> None)"
| "step h ctx (LoadDW d s off) m = (case frame_slot (get_reg s m) off of
     Some a \<Rightarrow> map_option (\<lambda>v. Inl (set_reg d v m)) (frame m a)
   | None \<Rightarrow> None)"
| "step h ctx (StoreDW d off s) m = (case frame_slot (get_reg d m) off of
     Some a \<Rightarrow> if get_reg s m = Junk then None
               else Some (Inl (m\<lparr>frame := (frame m)(a \<mapsto> get_reg s m), pc := pc m + 1\<rparr>))
   | None \<Rightarrow> None)"
| "step h ctx (StoreW d off s) m = (case get_reg s m of
     Scalar w \<Rightarrow> map_option Inl (store_event (get_reg d m) off (le_bytes 4 w) m)
   | _ \<Rightarrow> None)"
| "step h ctx (StoreB d off s) m = (case get_reg s m of
     Scalar w \<Rightarrow> map_option Inl (store_event (get_reg d m) off (le_bytes 1 w) m)
   | _ \<Rightarrow> None)"
| "step h ctx (LoadSymbol d s) m = Some (Inl ((set_reg d (MapPtr s) m)\<lparr>pc := pc m + 2\<rparr>))"
| "step h ctx (Call f) m = (case call_helper h ctx f m of
     Some (ret, m) \<Rightarrow> Some (Inl (clobber ret m))
   | None \<Rightarrow> None)"
| "step h ctx Exit m = (case (get_reg (R 0) m, reserved m) of
     (Scalar w, None) \<Rightarrow> Some (Inr (w, ringbuf m))
   | _ \<Rightarrow> None)"

definition fetch :: "nat \<Rightarrow> insn option" where
  "fetch n = (if n < length program then program ! n else None)"

fun exec :: "('c, 'r) bpf_helpers \<Rightarrow> 'c \<Rightarrow> nat \<Rightarrow> 'r machine \<Rightarrow> (u64 \<times> 'r) option" where
  "exec h ctx 0 m = None"
| "exec h ctx (Suc n) m = (case fetch (pc m) of
     None \<Rightarrow> None
   | Some i \<Rightarrow> (case step h ctx i m of
       None \<Rightarrow> None
     | Some (Inl m) \<Rightarrow> exec h ctx n m
     | Some (Inr res) \<Rightarrow> Some res))"

text \<open>The kernel enters the program with the context in register 1 and the frame in register 10.\<close>

definition entry :: "'r \<Rightarrow> 'r machine" where
  "entry rb = \<lparr>pc = 0, regs = Junk # CtxPtr # replicate 8 Junk @ [FramePtr 0],
     frame = (\<lambda>_. None), reserved = None, ringbuf = rb\<rparr>"

definition run_program :: "('c, 'r) bpf_helpers \<Rightarrow> 'c \<Rightarrow> 'r \<Rightarrow> (i32 \<times> 'r) option" where
  "run_program h ctx rb = map_option (\<lambda>(w, rb). (ucast w, rb)) (exec h ctx 45 (entry rb))"

section \<open>Running it\<close>

lemma length_program: "length program = 45"
  by (simp add: program_listing)

lemma fetch_simps:
  "fetch 0 = Some (StoreDW (R 10) (-8) (R 1))"
  "fetch 1 = Some (Call 14)"
  "fetch 2 = Some (MovReg (R 9) (R 0))"
  "fetch 3 = Some (Call 8)"
  "fetch 4 = Some (MovReg (R 6) (R 0))"
  "fetch 5 = Some (LoadSymbol (R 1) 6)"
  "fetch 7 = Some (MovImm (R 2) 2080)"
  "fetch 8 = Some (MovImm (R 3) 0)"
  "fetch 9 = Some (Call 131)"
  "fetch 10 = Some (MovReg (R 7) (R 0))"
  "fetch 11 = Some (MovImm (R 8) 1)"
  "fetch 12 = Some (JeqImm (R 7) 0 30)"
  "fetch 13 = Some (StoreW (R 7) 4 (R 6))"
  "fetch 14 = Some (RshImm (R 9) 32)"
  "fetch 15 = Some (StoreW (R 7) 0 (R 9))"
  "fetch 16 = Some (MovReg (R 6) (R 7))"
  "fetch 17 = Some (AddImm (R 6) 8)"
  "fetch 18 = Some (MovReg (R 1) (R 6))"
  "fetch 19 = Some (MovImm (R 2) 16)"
  "fetch 20 = Some (Call 16)"
  "fetch 21 = Some (JeqImm (R 0) 0 2)"
  "fetch 22 = Some (MovImm (R 1) 0)"
  "fetch 23 = Some (StoreB (R 6) 0 (R 1))"
  "fetch 24 = Some (MovReg (R 2) (R 7))"
  "fetch 25 = Some (AddImm (R 2) 32)"
  "fetch 26 = Some (MovImm (R 8) 0)"
  "fetch 27 = Some (LoadDW (R 6) (R 10) (-8))"
  "fetch 28 = Some (MovReg (R 1) (R 6))"
  "fetch 29 = Some (MovImm (R 3) 1024)"
  "fetch 30 = Some (MovImm (R 4) 0)"
  "fetch 31 = Some (Call 67)"
  "fetch 32 = Some (StoreW (R 7) 24 (R 0))"
  "fetch 33 = Some (MovReg (R 2) (R 7))"
  "fetch 34 = Some (AddImm (R 2) 1056)"
  "fetch 35 = Some (MovReg (R 1) (R 6))"
  "fetch 36 = Some (MovImm (R 3) 1024)"
  "fetch 37 = Some (MovImm (R 4) 256)"
  "fetch 38 = Some (Call 67)"
  "fetch 39 = Some (StoreW (R 7) 28 (R 0))"
  "fetch 40 = Some (MovReg (R 1) (R 7))"
  "fetch 41 = Some (MovImm (R 2) 0)"
  "fetch 42 = Some (Call 132)"
  "fetch 43 = Some (MovReg (R 0) (R 8))"
  "fetch 44 = Some (Exit)"
  by (simp_all add: fetch_def length_program) (simp_all add: program_listing)

lemma helper_ids:
  "helper_id ''get_current_pid_tgid'' = Some 14"
  "helper_id ''get_smp_processor_id'' = Some 8"
  "helper_id ''ringbuf_reserve'' = Some 131"
  "helper_id ''get_current_comm'' = Some 16"
  "helper_id ''get_stack'' = Some 67"
  "helper_id ''ringbuf_submit'' = Some 132"
  by (simp_all add: helper_id_def enum_bpf_func_id_def)

text \<open>Unfolding one step when the fuel is a sum with a numeral.\<close>

lemma exec_numeral:
  "exec h ctx (n + numeral k) m = (case fetch (pc m) of
     None \<Rightarrow> None
   | Some i \<Rightarrow> (case step h ctx i m of
       None \<Rightarrow> None
     | Some (Inl m) \<Rightarrow> exec h ctx (n + pred_numeral k) m
     | Some (Inr res) \<Rightarrow> Some res))"
  by (simp add: numeral_eq_Suc)

lemma fetch_Suc: "fetch (Suc 0) = Some (Call 14)"
  using fetch_simps(2) by simp

lemma replicate_simps: "replicate 5 x = [x, x, x, x, x]" "replicate 8 x = [x, x, x, x, x, x, x, x]"
  by (simp_all add: eval_nat_numeral)

lemmas machine_simps = numeral_2_eq_2 [symmetric] replicate_simps fetch_simps fetch_Suc
  exec_numeral call_helper_def helper_ids imm64_def frame_slot_def clobber_def events_symbol_def store_event_def buffer_def

text \<open>
  The program in parts.  Up to the test of the reservation, in both outcomes; the stores of the ids
  and the command name; the zero byte when that failed; the kernel stack; the user stack, the
  submission and the return.
\<close>

lemma prologue:
  assumes "bpf_ringbuf_reserve h rb 2080 0 = (Some mem, rb')"
  shows
  "exec h ctx (n + 11) (entry rb) =
      exec h ctx n \<lparr>pc = 12,
          regs = [EventPtr 0, Junk, Junk, Junk, Junk, Junk,
            Scalar (ucast (bpf_get_smp_processor_id h)), EventPtr 0, Scalar 1,
            Scalar (bpf_get_current_pid_tgid h), FramePtr 0],
          frame = [-8 \<mapsto> CtxPtr], reserved = Some mem, ringbuf = rb'\<rparr>"
  using assms by (simp add: entry_def machine_simps)

lemma prologue_full:
  assumes "bpf_ringbuf_reserve h rb 2080 0 = (None, rb')"
  shows
  "exec h ctx (n + 14) (entry rb) = Some (1, rb')"
  using assms by (simp add: entry_def machine_simps)

lemma run_comm:
  assumes "length mem = 2080" "bpf_get_current_comm h (slice 8 16 e) 16 = (ret, buf)"
    and "e = put 0 (le_bytes 4 (drop_bit 32 w)) (put 4 (le_bytes 4 v) mem)" "length buf = 16"
  shows "exec h ctx (n + 9) \<lparr>pc = 12,
      regs = [EventPtr 0, Junk, Junk, Junk, Junk, Junk, Scalar v, EventPtr 0, Scalar 1,
        Scalar w, FramePtr 0],
      frame = fr, reserved = Some mem, ringbuf = rb\<rparr>
    = exec h ctx n \<lparr>pc = 21,
      regs = [Scalar ret, Junk, Junk, Junk, Junk, Junk, EventPtr 8, EventPtr 0, Scalar 1,
        Scalar (drop_bit 32 w), FramePtr 0],
      frame = fr, reserved = Some (put 8 buf e), ringbuf = rb\<rparr>"
  using assms by (simp add: machine_simps)

lemma run_comm_failed:
  assumes "length e = 2080"
  shows "exec h ctx (n + 3) \<lparr>pc = 21,
      regs = [Scalar ret, r1, r2, r3, r4, r5, EventPtr 8, r7, r8, r9, r10],
      frame = fr, reserved = Some e, ringbuf = rb\<rparr>
    = exec h ctx (if ret = 0 then n + 2 else n) \<lparr>pc = 24,
      regs = [Scalar ret, if ret = 0 then r1 else Scalar 0, r2, r3, r4, r5, EventPtr 8, r7, r8, r9, r10],
      frame = fr, reserved = Some (if ret = 0 then e else put 8 [0] e), ringbuf = rb\<rparr>"
  using assms by (simp add: machine_simps le_bytes_def)

lemma run_kstack:
  assumes "length e = 2080" "bpf_get_stack h ctx (slice 32 1024 e) 1024 0 = (ret, buf)"
    and "length buf = 1024"
  shows "exec h ctx (n + 9) \<lparr>pc = 24,
      regs = [r0, r1, r2, r3, r4, r5, r6, EventPtr 0, r8, r9, FramePtr 0],
      frame = [-8 \<mapsto> CtxPtr], reserved = Some e, ringbuf = rb\<rparr>
    = exec h ctx n \<lparr>pc = 33,
      regs = [Scalar ret, Junk, Junk, Junk, Junk, Junk, CtxPtr, EventPtr 0, Scalar 0, r9, FramePtr 0],
      frame = [-8 \<mapsto> CtxPtr], reserved = Some (put 24 (le_bytes 4 ret) (put 32 buf e)), ringbuf = rb\<rparr>"
  using assms by (simp add: machine_simps)

lemma run_ustack:
  assumes "length e = 2080" "bpf_get_stack h ctx (slice 1056 1024 e) 1024 256 = (ret, buf)"
    and "length buf = 1024"
  shows "exec h ctx (n + 12) \<lparr>pc = 33,
      regs = [r0, r1, r2, r3, r4, r5, CtxPtr, EventPtr 0, Scalar 0, r9, FramePtr 0],
      frame = fr, reserved = Some e, ringbuf = rb\<rparr>
    = Some (0, bpf_ringbuf_submit h (put 28 (le_bytes 4 ret) (put 1056 buf e)) 0 rb)"
  using assms by (simp add: machine_simps)

lemma helper_lengths:
  assumes "helper_contract h"
  shows "bpf_ringbuf_reserve h rb 2080 0 = (Some mem, rb') \<Longrightarrow> length mem = 2080"
    and "length b = 16 \<Longrightarrow> bpf_get_current_comm h b 16 = (ret, b') \<Longrightarrow> length b' = 16"
    and "length b = 1024 \<Longrightarrow> bpf_get_stack h ctx b 1024 fl = (ret, b') \<Longrightarrow> length b' = 1024"
  using assms unfolding helper_contract_def by (metis snd_conv)+

text \<open>The four parts one after the other, on a successful reservation.\<close>

lemma run_reserved:
  assumes h: "helper_contract h" and r: "bpf_ringbuf_reserve h rb 2080 0 = (Some mem, rb')"
  shows "exec h ctx 45 (entry rb) = Some (0, snd (profile h ctx rb)) \<and> fst (profile h ctx rb) = 0"
proof -
  define w where "w = bpf_get_current_pid_tgid h"
  define v :: u64 where "v = ucast (bpf_get_smp_processor_id h)"
  define e1 where "e1 = put 0 (le_bytes 4 (drop_bit 32 w)) (put 4 (le_bytes 4 v) mem)"
  obtain ret buf where c: "bpf_get_current_comm h (slice 8 16 e1) 16 = (ret, buf)"
    by (cases "bpf_get_current_comm h (slice 8 16 e1) 16")
  define e2 where "e2 = (if ret = 0 then put 8 buf e1 else put 8 [0] (put 8 buf e1))"
  obtain kret kbuf where k: "bpf_get_stack h ctx (slice 32 1024 e2) 1024 0 = (kret, kbuf)"
    by (cases "bpf_get_stack h ctx (slice 32 1024 e2) 1024 0")
  define e3 where "e3 = put 24 (le_bytes 4 kret) (put 32 kbuf e2)"
  obtain uret ubuf where u: "bpf_get_stack h ctx (slice 1056 1024 e3) 1024 256 = (uret, ubuf)"
    by (cases "bpf_get_stack h ctx (slice 1056 1024 e3) 1024 256")
  note lens = helper_lengths [OF h]
  have mem: "length mem = 2080" by (rule lens(1) [OF r])
  have e1: "length e1 = 2080" by (simp add: e1_def mem)
  have buf: "length buf = 16" using lens(2) [OF _ c] e1 by simp
  have e2: "length (put 8 buf e1) = 2080" "length e2 = 2080" by (simp_all add: e2_def e1 buf)
  have kbuf: "length kbuf = 1024" using lens(3) [OF _ k] e2 by simp
  have e3: "length e3 = 2080" by (simp add: e3_def e2 kbuf)
  have ubuf: "length ubuf = 1024" using lens(3) [OF _ u] e3 by simp
  define n :: nat where "n = (if ret = 0 then 3 else 1)"
  have n: "(if ret = 0 then 22 + 2 else 22) = n + 12 + 9" by (simp add: n_def)
  note s1 = prologue [OF r, of ctx 34, simplified, folded v_def w_def]
  note s2 = run_comm [OF mem c e1_def buf, of ctx 25, simplified]
  note s3 = run_comm_failed [OF e2(1), of h ctx 22 ret, unfolded n, folded e2_def, simplified]
  have "exec h ctx 45 (entry rb)
      = Some (0, bpf_ringbuf_submit h (put 28 (le_bytes 4 uret) (put 1056 ubuf e3)) 0 rb')"
    by (simp add: s1 s2 s3 run_kstack [OF e2(2) k kbuf, of "n + 12", simplified] 
       run_ustack [OF e3 u ubuf, unfolded e3_def] e3_def)
  moreover have "profile h ctx rb
      = (0, bpf_ringbuf_submit h (put 28 (le_bytes 4 uret) (put 1056 ubuf e3)) 0 rb')"
  proof -
    have e1': "put 4 (le_bytes 4 (bpf_get_smp_processor_id h))
        (put 0 (le_bytes 4 (drop_bit 32 w)) mem) = e1"
      by (simp add: e1_def v_def le_bytes_ucast put_commute mem)
    have e2': "fill_comm h e1 = e2"
      using c by (simp add: fill_comm_def e2_def set_member_def get_member_def TASK_COMM_LEN_def)
    show ?thesis
      using r k u by (simp add: profile_def set_member_def get_member_def fill_stack_def le_bytes_ucast
          e1' [unfolded w_def] e2' e3_def)
  qed
  ultimately show ?thesis by simp
qed

text \<open>
  C15. The compiled program does what the C source says: on every context, ring buffer and results
  of the helpers, the 45 instructions embedded in the skeleton run to their exit without a stuck step,
  that is, without an access outside the reserved record or the stack frame, a read of a clobbered
  register or a leaked reservation, and they return the value and leave the ring buffer of
  \<^verbatim>\<open>profile\<close>.
\<close>

theorem bytecode_implements_source:
  assumes "helper_contract h"
  shows "run_program h ctx events = Some (profile h ctx events)"
proof (cases "bpf_ringbuf_reserve h events 2080 0")
  case (Pair res events')
  show ?thesis
  proof (cases res)
    case None
    then show ?thesis
      using Pair prologue_full [of h events events' ctx 31]
      by (simp add: run_program_def profile_def)
  next
    case (Some mem)
    then show ?thesis
      using Pair run_reserved [OF assms, of events mem events' ctx]
      by (simp add: run_program_def prod_eq_iff)
  qed
qed

theorem bytecode_implements_source_witness:
  "run_program (demo_helpers 1) () [] = Some (profile (demo_helpers 1) () [])
   \<and> fst (profile (demo_helpers 1) () []) = 0"
  by (simp add: bytecode_implements_source [OF demo_helpers_contract])
     (simp add: profile_def demo_helpers_def)

end
