(* ===== verification/Skeleton.thy ===== *)
theory Skeleton
  imports Bpf_Code
begin

text \<open>
  The code of the generated skeleton, \<^verbatim>\<open>src/src/bpf/bpftune.skel.rs\<close>: how the embedded object is opened,
  loaded and attached, and how its maps and programs are reached.  libbpf is a parameter; what the
  skeleton unwraps, a map or a program that is missing, is a value \<open>None\<close>.
\<close>

section \<open>The configuration\<close>

record skel_config =
  skel_name :: string
  skel_maps :: "(string \<times> bool) list"
  skel_progs :: "string list"
  skel_data :: "u8 list"

text \<open>The flag of a map says that its memory is mapped into the process.\<close>

definition skel_builder_config :: "u8 list \<Rightarrow> skel_config" where
  "skel_builder_config DATA =
     \<lparr>skel_name = ''bpftune_bpf'', skel_maps = [(''events'', False), (''bpftune_.bss'', True)],
      skel_progs = [''profile''], skel_data = DATA\<rparr>"

datatype lib_error = System i32 | OtherError string

record ('opts, 'o, 'm, 'p, 'l) libbpf =
  build_config :: "skel_config \<Rightarrow> lib_error + skel_config"
  open_skeleton :: "skel_config \<Rightarrow> 'opts \<Rightarrow> i32"
  open_object :: "skel_config \<Rightarrow> lib_error + 'o"
  load_skeleton :: "'o \<Rightarrow> i32"
  load_object :: "'o \<Rightarrow> lib_error + 'o"
  attach_skeleton :: "'o \<Rightarrow> i32"
  prog_link_ptr :: "skel_config \<Rightarrow> 'o \<Rightarrow> nat \<Rightarrow> lib_error + 'l option"
  object_map :: "'o \<Rightarrow> string \<Rightarrow> 'm option"
  object_prog :: "'o \<Rightarrow> string \<Rightarrow> 'p option"
  map_mmap_ptr :: "skel_config \<Rightarrow> 'o \<Rightarrow> nat \<Rightarrow> u8 list option"

section \<open>Open, load, attach\<close>

record 'o open_skel =
  open_obj :: 'o
  open_config :: skel_config

record ('o, 'l) loaded_skel =
  obj :: 'o
  loaded_config :: skel_config
  link_profile :: "'l option"

definition build_skel_config :: "('opts, 'o, 'm, 'p, 'l) libbpf \<Rightarrow> u8 list \<Rightarrow> lib_error + skel_config" where
  "build_skel_config lib DATA = build_config lib (skel_builder_config DATA)"

definition open_opts ::
  "('opts, 'o, 'm, 'p, 'l) libbpf \<Rightarrow> u8 list \<Rightarrow> 'opts \<Rightarrow> lib_error + 'o open_skel" where
  "open_opts lib DATA opts =
     (case build_skel_config lib DATA of
        Inl e \<Rightarrow> Inl e
      | Inr cfg \<Rightarrow>
          (let ret = open_skeleton lib cfg opts in
           if ret \<noteq> 0 then Inl (System (- ret))
           else (case open_object lib cfg of
                   Inl e \<Rightarrow> Inl e
                 | Inr ob \<Rightarrow> Inr \<lparr>open_obj = ob, open_config = cfg\<rparr>)))"

text \<open>\<^verbatim>\<open>open\<close> does the same with the options of its object builder.\<close>

definition skel_open_builder ::
  "('opts, 'o, 'm, 'p, 'l) libbpf \<Rightarrow> u8 list \<Rightarrow> 'opts \<Rightarrow> lib_error + 'o open_skel" where
  "skel_open_builder lib DATA builder_opts = open_opts lib DATA builder_opts"

definition load :: "('opts, 'o, 'm, 'p, 'l) libbpf \<Rightarrow> 'o open_skel \<Rightarrow> lib_error + ('o, 'l) loaded_skel" where
  "load lib s =
     (let ret = load_skeleton lib (open_obj s) in
      if ret \<noteq> 0 then Inl (System (- ret))
      else (case load_object lib (open_obj s) of
              Inl e \<Rightarrow> Inl e
            | Inr ob \<Rightarrow> Inr \<lparr>obj = ob, loaded_config = open_config s, link_profile = None\<rparr>))"

text \<open>A failed \<^verbatim>\<open>attach\<close> leaves the links as they were.\<close>

definition attach ::
  "('opts, 'o, 'm, 'p, 'l) libbpf \<Rightarrow> ('o, 'l) loaded_skel \<Rightarrow> (lib_error + unit) \<times> ('o, 'l) loaded_skel" where
  "attach lib s =
     (let ret = attach_skeleton lib (obj s) in
      if ret \<noteq> 0 then (Inl (System (- ret)), s)
      else (case prog_link_ptr lib (loaded_config s) (obj s) 0 of
              Inl e \<Rightarrow> (Inl e, s)
            | Inr link \<Rightarrow> (Inr (), s\<lparr>link_profile := link\<rparr>)))"

section \<open>Maps and programs\<close>

definition map_events :: "('opts, 'o, 'm, 'p, 'l) libbpf \<Rightarrow> 'o \<Rightarrow> 'm option" where
  "map_events lib ob = object_map lib ob ''events''"

definition map_bss :: "('opts, 'o, 'm, 'p, 'l) libbpf \<Rightarrow> 'o \<Rightarrow> 'm option" where
  "map_bss lib ob = object_map lib ob ''bpftune_.bss''"

definition prog_profile :: "('opts, 'o, 'm, 'p, 'l) libbpf \<Rightarrow> 'o \<Rightarrow> 'p option" where
  "prog_profile lib ob = object_prog lib ob ''profile''"

text \<open>The section of zeros as the record that the skeleton declares for it.\<close>

definition bss_event :: "('opts, 'o, 'm, 'p, 'l) libbpf \<Rightarrow> skel_config \<Rightarrow> 'o \<Rightarrow> stacktrace_event option" where
  "bss_event lib cfg ob = map_option event_of_bytes (map_mmap_ptr lib cfg ob 1)"

section \<open>What libbpf promises\<close>

text \<open>
  Opening fails unless every map and program of the configuration is in the object, and a map of the
  configuration is then mapped at its position when its flag says so; loading keeps all of them.  The
  pointer to a link is an error only for a position outside the configuration.
\<close>

definition libbpf_contract :: "('opts, 'o, 'm, 'p, 'l) libbpf \<Rightarrow> bool" where
  "libbpf_contract lib \<longleftrightarrow>
     (\<forall>cfg cfg'. build_config lib cfg = Inr cfg' \<longrightarrow> cfg' = cfg)
     \<and> (\<forall>cfg opts ob. open_skeleton lib cfg opts = 0 \<and> open_object lib cfg = Inr ob \<longrightarrow>
          (\<forall>m \<in> fst ` set (skel_maps cfg). object_map lib ob m \<noteq> None)
          \<and> (\<forall>p \<in> set (skel_progs cfg). object_prog lib ob p \<noteq> None)
          \<and> (\<forall>i < length (skel_maps cfg). snd (skel_maps cfg ! i) \<longrightarrow> map_mmap_ptr lib cfg ob i \<noteq> None))
     \<and> (\<forall>ob ob'. load_skeleton lib ob = 0 \<and> load_object lib ob = Inr ob' \<longrightarrow>
          (\<forall>m. object_map lib ob m \<noteq> None \<longrightarrow> object_map lib ob' m \<noteq> None)
          \<and> (\<forall>p. object_prog lib ob p \<noteq> None \<longrightarrow> object_prog lib ob' p \<noteq> None)
          \<and> (\<forall>cfg i. map_mmap_ptr lib cfg ob i \<noteq> None \<longrightarrow> map_mmap_ptr lib cfg ob' i \<noteq> None))
     \<and> (\<forall>cfg ob i. i < length (skel_progs cfg) \<longrightarrow> (\<exists>link. prog_link_ptr lib cfg ob i = Inr link))"

lemma contract_config: "libbpf_contract lib \<Longrightarrow> build_config lib cfg = Inr cfg' \<Longrightarrow> cfg' = cfg"
  by (drule libbpf_contract_def [THEN iffD1, THEN conjunct1]) simp

lemma contract_open:
  assumes "libbpf_contract lib" "open_skeleton lib cfg opts = 0" "open_object lib cfg = Inr ob"
  shows "(\<forall>m \<in> fst ` set (skel_maps cfg). object_map lib ob m \<noteq> None)
    \<and> (\<forall>p \<in> set (skel_progs cfg). object_prog lib ob p \<noteq> None)
    \<and> (\<forall>i < length (skel_maps cfg). snd (skel_maps cfg ! i) \<longrightarrow> map_mmap_ptr lib cfg ob i \<noteq> None)"
  using assms(1) [unfolded libbpf_contract_def, THEN conjunct2, THEN conjunct1, rule_format, of cfg opts ob] assms(2,3)
  by simp

lemma contract_load:
  assumes "libbpf_contract lib" "load_skeleton lib ob = 0" "load_object lib ob = Inr ob'"
  shows "object_map lib ob m \<noteq> None \<Longrightarrow> object_map lib ob' m \<noteq> None"
    and "object_prog lib ob p \<noteq> None \<Longrightarrow> object_prog lib ob' p \<noteq> None"
    and "map_mmap_ptr lib cfg ob i \<noteq> None \<Longrightarrow> map_mmap_ptr lib cfg ob' i \<noteq> None"
  using assms(1) [unfolded libbpf_contract_def, THEN conjunct2, THEN conjunct2, THEN conjunct1, THEN spec, THEN spec, of ob ob'] assms(2,3)
  by simp_all

lemma contract_links:
  "libbpf_contract lib \<Longrightarrow> i < length (skel_progs cfg) \<Longrightarrow> \<exists>link. prog_link_ptr lib cfg ob i = Inr link"
  by (drule libbpf_contract_def [THEN iffD1, THEN conjunct2, THEN conjunct2, THEN conjunct2]) blast

lemma open_opts_InrD:
  assumes "libbpf_contract lib" "open_opts lib DATA opts = Inr s"
  shows "open_config s = skel_builder_config DATA \<and> object_map lib (open_obj s) ''events'' \<noteq> None
    \<and> object_map lib (open_obj s) ''bpftune_.bss'' \<noteq> None \<and> object_prog lib (open_obj s) ''profile'' \<noteq> None
    \<and> map_mmap_ptr lib (open_config s) (open_obj s) 1 \<noteq> None"
proof -
  let ?cfg = "skel_builder_config DATA"
  from assms(2) obtain cfg where b: "build_config lib ?cfg = Inr cfg"
    and o: "open_skeleton lib cfg opts = 0" "open_object lib cfg = Inr (open_obj s)" and c: "open_config s = cfg"
    by (auto simp: open_opts_def build_skel_config_def Let_def split: sum.splits if_splits)
  have cfg: "cfg = ?cfg" by (rule contract_config [OF assms(1) b])
  have maps: "\<forall>m \<in> fst ` set (skel_maps cfg). object_map lib (open_obj s) m \<noteq> None"
    and progs: "\<forall>p \<in> set (skel_progs cfg). object_prog lib (open_obj s) p \<noteq> None"
    and mmap: "\<forall>i < length (skel_maps cfg). snd (skel_maps cfg ! i) \<longrightarrow> map_mmap_ptr lib cfg (open_obj s) i \<noteq> None"
    using contract_open [OF assms(1) o] by blast+
  show ?thesis using maps progs mmap [rule_format, of 1] by (simp add: cfg c skel_builder_config_def)
qed

section \<open>Properties\<close>

text \<open>
  C32. The names and positions that the accessors use are those of the configuration: after the skeleton has been
  opened, and again after it has been loaded, no accessor unwraps a missing map, program or mapping.
  Attaching fails only when libbpf's call does, with its error number, and then leaves the links empty;
  otherwise the link is that of the program \<^verbatim>\<open>profile\<close>.
\<close>

theorem skeleton_accessors:
  assumes "libbpf_contract lib" "open_opts lib DATA opts = Inr s"
  shows "map_events lib (open_obj s) \<noteq> None \<and> map_bss lib (open_obj s) \<noteq> None \<and> prog_profile lib (open_obj s) \<noteq> None
    \<and> bss_event lib (open_config s) (open_obj s) \<noteq> None
    \<and> (case load lib s of
         Inl err \<Rightarrow> load_skeleton lib (open_obj s) \<noteq> 0 \<longrightarrow> err = System (- load_skeleton lib (open_obj s))
       | Inr l \<Rightarrow> map_events lib (obj l) \<noteq> None \<and> map_bss lib (obj l) \<noteq> None \<and> prog_profile lib (obj l) \<noteq> None
           \<and> bss_event lib (loaded_config l) (obj l) \<noteq> None \<and> link_profile l = None
           \<and> (if attach_skeleton lib (obj l) \<noteq> 0
              then attach lib l = (Inl (System (- attach_skeleton lib (obj l))), l)
              else \<exists>link. prog_link_ptr lib (loaded_config l) (obj l) 0 = Inr link
                     \<and> attach lib l = (Inr (), l\<lparr>link_profile := link\<rparr>)))"
proof -
  note opened = open_opts_InrD [OF assms]
  have "map_events lib (obj l) \<noteq> None \<and> map_bss lib (obj l) \<noteq> None \<and> prog_profile lib (obj l) \<noteq> None
      \<and> bss_event lib (loaded_config l) (obj l) \<noteq> None \<and> link_profile l = None" if "load lib s = Inr l" for l
  proof -
    from that have l: "load_skeleton lib (open_obj s) = 0" "load_object lib (open_obj s) = Inr (obj l)"
      "loaded_config l = open_config s" "link_profile l = None"
      by (auto simp: load_def Let_def split: sum.splits if_splits)
    note keeps = contract_load [OF assms(1) l(1,2)]
    have "map_mmap_ptr lib (open_config s) (obj l) 1 \<noteq> None" using opened by (intro keeps(3)) blast
    then show ?thesis
      using opened keeps(1) [of "''events''"] keeps(1) [of "''bpftune_.bss''"] keeps(2) [of "''profile''"] l(3,4)
      unfolding map_events_def map_bss_def prog_profile_def bss_event_def option.map_disc_iff by (metis (no_types))
  qed
  moreover have "if attach_skeleton lib (obj l) \<noteq> 0
      then attach lib l = (Inl (System (- attach_skeleton lib (obj l))), l)
      else \<exists>link. prog_link_ptr lib (loaded_config l) (obj l) 0 = Inr link
             \<and> attach lib l = (Inr (), l\<lparr>link_profile := link\<rparr>)" if "load lib s = Inr l" for l
  proof -
    have "loaded_config l = open_config s"
      using that by (auto simp: load_def Let_def split: sum.splits if_splits)
    then obtain link where "prog_link_ptr lib (loaded_config l) (obj l) 0 = Inr link"
      using contract_links [OF assms(1), of 0 "loaded_config l" "obj l"] opened by (auto simp: skel_builder_config_def)
    then show ?thesis by (simp add: attach_def Let_def)
  qed
  moreover have "err = System (- load_skeleton lib (open_obj s))"
    if "load lib s = Inl err" "load_skeleton lib (open_obj s) \<noteq> 0" for err
    using that by (simp add: load_def Let_def)
  ultimately show ?thesis
    using opened [THEN conjunct2]
    unfolding map_events_def map_bss_def prog_profile_def bss_event_def option.map_disc_iff
    by (cases "load lib s") simp_all
qed

text \<open>A library that keeps the configuration as its object, and maps a section of zeros.\<close>

definition plain_lib :: "(unit, skel_config, string, string, nat) libbpf" where
  "plain_lib =
     \<lparr>build_config = Inr, open_skeleton = \<lambda>cfg opts. 0, open_object = Inr, load_skeleton = \<lambda>ob. 0,
      load_object = Inr, attach_skeleton = \<lambda>ob. 0,
      prog_link_ptr = \<lambda>cfg ob i. if i < length (skel_progs cfg) then Inr (Some i) else Inl (OtherError ''index''),
      object_map = \<lambda>ob m. if m \<in> fst ` set (skel_maps ob) then Some m else None,
      object_prog = \<lambda>ob p. if p \<in> set (skel_progs ob) then Some p else None,
      map_mmap_ptr = \<lambda>cfg ob i. if i < length (skel_maps cfg) \<and> snd (skel_maps cfg ! i)
        then Some (replicate 2080 0) else None\<rparr>"

theorem skeleton_accessors_witness:
  "map_bss plain_lib (skel_builder_config [127]) \<noteq> None
   \<and> (\<exists>l. load plain_lib \<lparr>open_obj = skel_builder_config [127], open_config = skel_builder_config [127]\<rparr> = Inr l
        \<and> prog_profile plain_lib (obj l) \<noteq> None \<and> bss_event plain_lib (loaded_config l) (obj l) \<noteq> None)"
proof -
  let ?s = "\<lparr>open_obj = skel_builder_config [127], open_config = skel_builder_config [127]\<rparr>"
  have "libbpf_contract plain_lib" by (auto simp: libbpf_contract_def plain_lib_def)
  moreover have "open_opts plain_lib [127] () = Inr ?s"
    by (simp add: open_opts_def build_skel_config_def plain_lib_def)
  ultimately have "map_bss plain_lib (open_obj ?s) \<noteq> None \<and> (case load plain_lib ?s of Inl err \<Rightarrow> True
      | Inr l \<Rightarrow> prog_profile plain_lib (obj l) \<noteq> None \<and> bss_event plain_lib (loaded_config l) (obj l) \<noteq> None)"
    using skeleton_accessors [of plain_lib "[127]" "()" ?s] by (auto split: sum.splits)
  moreover obtain l where "load plain_lib ?s = Inr l" by (simp add: load_def plain_lib_def)
  ultimately show ?thesis by simp
qed

end
