(* ===== verification/Ring_Buffer.thy ===== *)
theory Ring_Buffer
  imports Bpftune
begin

text \<open>
  The map \<^verbatim>\<open>events\<close> of \<^verbatim>\<open>src/src/bpf/bpftune.bpf.c\<close> and how many samples it holds.  The ring buffer itself
  is the kernel's; what it does with a reservation is a contract over a function that gives the number of
  bytes the consumer has not read yet.
\<close>

section \<open>The map\<close>

record map_declaration =
  map_type :: int
  max_entries :: nat

definition events_map :: map_declaration where
  "events_map =
     \<lparr>map_type = (case enum_const enum_bpf_map_type ''BPF_MAP_TYPE_RINGBUF'' of Some v \<Rightarrow> v | None \<Rightarrow> 0),
      max_entries = 256 * 1024\<rparr>"

text \<open>The kernel accepts a ring buffer whose size is a power of two and a multiple of the page size.\<close>

definition ring_size_ok :: "nat \<Rightarrow> bool" where
  "ring_size_ok n \<longleftrightarrow> (\<exists>k \<le> n. n = 2 ^ k) \<and> n mod 4096 = 0"

lemma events_map_ok:
  "map_type events_map = 27" "max_entries events_map = 262144" "ring_size_ok (max_entries events_map)"
proof -
  have "(262144 :: nat) = 2 ^ 18" by simp
  then show "ring_size_ok (max_entries events_map)"
    unfolding ring_size_ok_def events_map_def by (intro conjI exI [of _ 18]) simp_all
qed (simp_all add: events_map_def enum_bpf_map_type_def)

section \<open>Reservations\<close>

text \<open>A record takes its header and its data, rounded up to eight bytes.\<close>

definition record_length :: "nat \<Rightarrow> nat" where
  "record_length n =
     align_up 8 (n + nat (case enum_const enum_of_BPF_RINGBUF_BUSY_BIT ''BPF_RINGBUF_HDR_SZ'' of Some v \<Rightarrow> v | None \<Rightarrow> 0))"

lemma record_length_event: "record_length (sizeof struct_stacktrace_event) = 2088"
  by (simp add: record_length_def enum_of_BPF_RINGBUF_BUSY_BIT_def align_up_def)

text \<open>
  A reservation that succeeds leaves a byte free and adds its record to what is unread; one that fails, for
  lack of room or because the buffer is locked, and a submission change nothing of it.
\<close>

definition ring_contract :: "map_declaration \<Rightarrow> ('c, 'r) bpf_helpers \<Rightarrow> ('r \<Rightarrow> nat) \<Rightarrow> bool" where
  "ring_contract m h unread \<longleftrightarrow>
     (\<forall>rb n fl mem rb'. bpf_ringbuf_reserve h rb n fl = (Some mem, rb') \<longrightarrow>
        unread rb + record_length n < max_entries m \<and> unread rb' = unread rb + record_length n)
     \<and> (\<forall>rb n fl rb'. bpf_ringbuf_reserve h rb n fl = (None, rb') \<longrightarrow> unread rb' = unread rb)
     \<and> (\<forall>ev fl rb. unread (bpf_ringbuf_submit h ev fl rb) = unread rb)"

text \<open>The program runs once per sample; meanwhile the client reads nothing.\<close>

fun profile_samples :: "('c, 'r) bpf_helpers \<Rightarrow> 'c list \<Rightarrow> 'r \<Rightarrow> i32 list \<times> 'r" where
  "profile_samples h [] rb = ([], rb)"
| "profile_samples h (ctx # ctxs) rb =
     (case profile h ctx rb of (ret, rb) \<Rightarrow>
        (case profile_samples h ctxs rb of (rets, rb) \<Rightarrow> (ret # rets, rb)))"

lemma profile_unread:
  assumes "ring_contract m h unread" "profile h ctx rb = (ret, rb')"
  shows "(ret = 0 \<and> unread rb + 2088 < max_entries m \<and> unread rb' = unread rb + 2088) \<or> (ret = 1 \<and> unread rb' = unread rb)"
proof -
  have len: "record_length 2080 = 2088" using record_length_event by simp
  obtain mem rb1 where r: "bpf_ringbuf_reserve h rb 2080 0 = (mem, rb1)" by fastforce
  show ?thesis
  proof (cases mem)
    case None
    then have "unread rb1 = unread rb" using assms(1) r unfolding ring_contract_def by blast
    then show ?thesis using assms(2) r None by (simp add: profile_def)
  next
    case (Some bs)
    then have "unread rb + 2088 < max_entries m" "unread rb1 = unread rb + 2088"
      using assms(1) r unfolding ring_contract_def len [symmetric] by blast+
    moreover have "unread (bpf_ringbuf_submit h ev fl rb1) = unread rb1" for ev fl
      using assms(1) by (simp add: ring_contract_def)
    ultimately show ?thesis using assms(2) r Some by (auto simp: profile_def Let_def)
  qed
qed

lemma profile_samples_unread:
  assumes "ring_contract m h unread" "profile_samples h ctxs rb = (rets, rb')"
  shows "length rets = length ctxs \<and> unread rb' = unread rb + 2088 * length (filter (\<lambda>r. r = 0) rets)
    \<and> (unread rb < max_entries m \<longrightarrow> unread rb' < max_entries m)"
  using assms(2)
proof (induction ctxs arbitrary: rb rets)
  case (Cons ctx ctxs)
  from Cons.prems obtain ret rb1 rets' where 1: "profile h ctx rb = (ret, rb1)"
    and 2: "profile_samples h ctxs rb1 = (rets', rb')" and r: "rets = ret # rets'"
    by (auto split: prod.splits)
  show ?case using Cons.IH [OF 2] profile_unread [OF assms(1) 1] r by auto
qed simp

section \<open>The samples between two polls\<close>

text \<open>
  C20. Between two reads of the client the ring buffer takes 125 samples at most, however often the program
  runs: of a run of samples on an empty buffer all but 125 return 1, and their stacks are lost.  The client
  sleeps for five seconds after each poll.
\<close>

theorem samples_between_polls:
  assumes "ring_contract events_map h unread" "unread rb = 0" "profile_samples h ctxs rb = (rets, rb')"
  shows "length (filter (\<lambda>r. r = 0) rets) \<le> 125
    \<and> length (filter (\<lambda>r. r = 1) rets) = length ctxs - length (filter (\<lambda>r. r = 0) rets)"
proof -
  have "max_entries events_map = 262144" by (rule events_map_ok)
  then have u: "2088 * length (filter (\<lambda>r. r = 0) rets) < 262144" "length rets = length ctxs"
    using profile_samples_unread [OF assms(1,3)] assms(2) by auto
  have "\<forall>r \<in> set rets. r = 0 \<or> r = 1"
    using assms(3)
  proof (induction ctxs arbitrary: rb rets)
    case (Cons ctx ctxs)
    then show ?case using profile_unread [OF assms(1)] by (fastforce split: prod.splits)
  qed simp
  then have "length (filter (\<lambda>r. r = 0) rets) + length (filter (\<lambda>r. r = 1) rets) = length rets"
    by (induction rets) auto
  with u show ?thesis by linarith
qed

text \<open>A ring buffer that counts its unread bytes and refuses a reservation only for lack of room.\<close>

definition counting_helpers :: "(unit, nat) bpf_helpers" where
  "counting_helpers =
     \<lparr>bpf_get_current_pid_tgid = push_bit 32 1234, bpf_get_smp_processor_id = 2,
      bpf_ringbuf_reserve = (\<lambda>rb n fl.
        if rb + record_length n < max_entries events_map then (Some (replicate n 0), rb + record_length n) else (None, rb)),
      bpf_get_current_comm = (\<lambda>buf n. (0, replicate n 97)),
      bpf_get_stack = (\<lambda>ctx buf n fl. (8, replicate n 1)),
      bpf_ringbuf_submit = (\<lambda>bs fl rb. rb)\<rparr>"

lemma counting_contract: "ring_contract events_map counting_helpers id"
  by (auto simp: ring_contract_def counting_helpers_def split: if_splits)

lemma counting_profile:
  "profile counting_helpers ctx rb = (if rb + 2088 < 262144 then (0, rb + 2088) else (1, rb))"
  using record_length_event
  by (simp add: profile_def counting_helpers_def events_map_ok(2))

lemma counting_run:
  "k \<le> 125 \<Longrightarrow> length (filter (\<lambda>r. r = 0) (fst (profile_samples counting_helpers (replicate n ()) (2088 * k)))) = min n (125 - k)"
proof (induction n arbitrary: k)
  case (Suc n)
  show ?case
  proof (cases "k = 125")
    case True
    then show ?thesis using Suc.IH [of 125] by (simp add: counting_profile split_beta)
  next
    case False
    then have "2088 * k + 2088 = 2088 * Suc k" "2088 * k + 2088 < 262144" using Suc.prems by simp_all
    then have "profile counting_helpers () (2088 * k) = (0, 2088 * Suc k)" by (simp only: counting_profile if_True)
    then show ?thesis using Suc.IH [of "Suc k"] Suc.prems False
      by (simp add: split_beta del: mult_Suc_right)
  qed
qed simp

theorem samples_between_polls_witness:
  "\<exists>rets rb'. profile_samples counting_helpers (replicate 130 ()) 0 = (rets, rb')
    \<and> length (filter (\<lambda>r. r = 0) rets) = 125 \<and> length (filter (\<lambda>r. r = 1) rets) = 5"
proof -
  obtain rets rb' where run: "profile_samples counting_helpers (replicate 130 ()) 0 = (rets, rb')"
    by fastforce
  have "length (filter (\<lambda>r. r = 0) (fst (profile_samples counting_helpers (replicate 130 ()) 0))) = 125"
    using counting_run [of 0 130] by simp
  with samples_between_polls [OF counting_contract _ run] run show ?thesis by simp
qed

end
