(* ===== verification/Defs.thy ===== *)
theory Defs
  imports Bpftune
begin

text \<open>
  The data shared by the client and the server, from \<^verbatim>\<open>src/src/defs.rs\<close>, and the parts of Rust's
  standard library that handle it: strings as the list of their UTF-8 bytes, and the
  \<^verbatim>\<open>HashMap\<close> entry interface on association lists with distinct keys, whose order stands for the
  unspecified iteration order.  A signed 64-bit id is a 64-bit word.
\<close>

section \<open>Records\<close>

datatype EventType = Cycles | Clock

fun event_to_string :: "EventType \<Rightarrow> string" where
  "event_to_string Cycles = ''Cycles''"
| "event_to_string Clock = ''Clock''"

record Args =
  arg_pid :: u32
  total_samples :: u32
  event_type :: EventType
  sample_freq :: u64
  binary :: "string option"
  version :: "string option"
  url :: string

record StackInfo =
  event :: stacktrace_event
  args :: Args

record Executable =
  exe_id :: i64
  exe_event :: string
  build_id :: "string option"
  basename :: string
  updated_at :: "int option"
  created_at :: "int option"
  exe_sample_count :: i64
  raw_data_size :: i64
  processed_data_size :: i64

record StackNode =
  node_id :: i64
  parent_id :: "i64 option"
  stack_node_data_id :: i64
  executable_id :: i64
  sample_count :: i64

record StackNodeData =
  data_id :: i64
  symbol :: string
  data_file :: "string option"
  line_number :: "i32 option"

record StoData =
  stack_nodes :: "StackNode list"
  stack_node_datas :: "StackNodeData list"
  profiled_binaries :: "Executable list"

section \<open>Strings\<close>

definition as_bytes :: "string \<Rightarrow> u8 list" where
  "as_bytes s = map of_char s"

lemma as_bytes_append [simp]: "as_bytes (s @ t) = as_bytes s @ as_bytes t"
  by (simp add: as_bytes_def)

text \<open>The UTF-8 encodings of the characters that \<^verbatim>\<open>str::trim\<close> removes, the Unicode white space.\<close>

definition white_space :: "string list" where
  "white_space =
     map (\<lambda>bs. map char_of (bs :: nat list))
       ([[9], [10], [11], [12], [13], [32], [194, 133], [194, 160], [225, 154, 128]]
        @ map (\<lambda>k. [226, 128, 128 + k]) [0..<11]
        @ [[226, 128, 168], [226, 128, 169], [226, 128, 175], [226, 129, 159], [227, 128, 128]])"

fun strip_prefix :: "'a list \<Rightarrow> 'a list \<Rightarrow> 'a list option" where
  "strip_prefix [] s = Some s"
| "strip_prefix (p # ps) [] = None"
| "strip_prefix (p # ps) (c # s) = (if p = c then strip_prefix ps s else None)"

fun strip_any :: "'a list list \<Rightarrow> 'a list \<Rightarrow> 'a list option" where
  "strip_any [] s = None"
| "strip_any (w # ws) s =
     (case strip_prefix w s of Some t \<Rightarrow> if w = [] then None else Some t | None \<Rightarrow> strip_any ws s)"

lemma strip_prefix_Some: "strip_prefix p s = Some t \<longleftrightarrow> s = p @ t"
  by (induction p s rule: strip_prefix.induct) auto

lemma strip_any_Some: "strip_any ws s = Some t \<Longrightarrow> \<exists>w. w \<in> set ws \<and> w \<noteq> [] \<and> s = w @ t"
  by (induction ws) (auto simp: strip_prefix_Some split: option.splits if_splits)

lemma strip_any_length: "strip_any ws s = Some t \<Longrightarrow> length t < length s"
  by (auto dest!: strip_any_Some)

function trim_left :: "'a list list \<Rightarrow> 'a list \<Rightarrow> 'a list" where
  "trim_left ws s = (case strip_any ws s of Some t \<Rightarrow> trim_left ws t | None \<Rightarrow> s)"
  by pat_completeness auto
termination
  by (relation "measure (\<lambda>(ws, s). length s)") (auto dest: strip_any_length)

declare trim_left.simps [simp del]

definition trim :: "string \<Rightarrow> string" where
  "trim s = rev (trim_left (map rev white_space) (rev (trim_left white_space s)))"

lemma trim_left_fixed: "strip_any ws (trim_left ws s) = None"
  by (induction ws s rule: trim_left.induct) (subst trim_left.simps, simp split: option.split)

section \<open>Hash maps\<close>

type_synonym ('k, 'v) hash_map = "('k \<times> 'v) list"

text \<open>
  \<^verbatim>\<open>entry(k).and_modify(f).or_insert(d)\<close>; with the identity for \<open>f\<close> it is
  \<^verbatim>\<open>entry(k).or_insert(d)\<close>, and \<open>modify\<close> is \<^verbatim>\<open>entry(k).and_modify(f)\<close> alone.
\<close>

fun upsert :: "('v \<Rightarrow> 'v) \<Rightarrow> 'v \<Rightarrow> 'k \<Rightarrow> ('k, 'v) hash_map \<Rightarrow> ('k, 'v) hash_map" where
  "upsert f d k [] = [(k, d)]"
| "upsert f d k ((k', v) # m) = (if k' = k then (k', f v) # m else (k', v) # upsert f d k m)"

definition modify :: "('v \<Rightarrow> 'v) \<Rightarrow> 'k \<Rightarrow> ('k, 'v) hash_map \<Rightarrow> ('k, 'v) hash_map" where
  "modify f k m = map (\<lambda>(k', v). (k', if k' = k then f v else v)) m"

definition vals :: "('k, 'v) hash_map \<Rightarrow> 'v list" where
  "vals m = map snd m"

definition wf_map :: "('k, 'v) hash_map \<Rightarrow> bool" where
  "wf_map m \<longleftrightarrow> distinct (map fst m)"

lemma map_of_upsert:
  "map_of (upsert f d k m) =
     (map_of m)(k \<mapsto> (case map_of m k of None \<Rightarrow> d | Some v \<Rightarrow> f v))"
  by (induction f d k m rule: upsert.induct) (auto simp: fun_eq_iff)

lemma map_of_modify: "map_of (modify f k m) k' = (if k' = k then map_option f else id) (map_of m k')"
  by (induction m) (auto simp: modify_def)

lemma keys_upsert: "fst ` set (upsert f d k m) = insert k (fst ` set m)"
  by (induction f d k m rule: upsert.induct) auto

lemma keys_modify [simp]: "map fst (modify f k m) = map fst m"
  by (simp add: modify_def split_def)

lemma wf_map_upsert: "wf_map m \<Longrightarrow> wf_map (upsert f d k m)"
  unfolding wf_map_def by (induction f d k m rule: upsert.induct) (auto simp: keys_upsert)

lemma wf_map_empty [simp]: "wf_map []"
  by (simp add: wf_map_def)

lemma wf_map_modify [simp]: "wf_map (modify f k m) = wf_map m"
  by (simp add: wf_map_def)

lemma upsert_new: "k \<notin> fst ` set m \<Longrightarrow> upsert f d k m = m @ [(k, d)]"
  by (induction f d k m rule: upsert.induct) auto

lemma set_vals: "wf_map m \<Longrightarrow> v \<in> set (vals m) \<longleftrightarrow> (\<exists>k. map_of m k = Some v)"
  by (force simp: vals_def wf_map_def)

lemmas hash_map_simps = map_of_upsert map_of_modify wf_map_upsert

end
