(* ===== verification/Server_Db.thy ===== *)
theory Server_Db
  imports Defs
begin

text \<open>
  The server's database: the three tables of \<^verbatim>\<open>src/migrations\<close> with their keys, unique index and
  deferred foreign keys, and the three statements by which \<^verbatim>\<open>data_ingest\<close> of
  \<^verbatim>\<open>src/src/bin/server.rs\<close> stores a posted batch, each in a transaction of its own.  A table is
  a map from primary keys to rows; its order stands for the unspecified order of a query's result.
  The generated search column is left out, and so are the storage limits of the database server.
\<close>

section \<open>Tables\<close>

datatype db_error =
    SyntaxError | TooManyBinds | InvalidText | SecondUpdate | OutOfRange | ForeignKeyViolation

record db =
  stack_node_data_table :: "(i64, StackNodeData) hash_map"
  executable_table :: "(i64, Executable) hash_map"
  stack_node_table :: "(i64, StackNode) hash_map"

definition empty_db :: db where
  "empty_db = \<lparr>stack_node_data_table = [], executable_table = [], stack_node_table = []\<rparr>"

text \<open>The unique index on symbol, file and line number; nulls are distinct from each other.\<close>

definition same_content :: "StackNodeData \<Rightarrow> StackNodeData \<Rightarrow> bool" where
  "same_content x y \<longleftrightarrow> symbol x = symbol y \<and> data_file x \<noteq> None \<and> data_file x = data_file y
     \<and> line_number x \<noteq> None \<and> line_number x = line_number y"

text \<open>What is checked when a transaction commits.\<close>

definition foreign_keys :: "db \<Rightarrow> bool" where
  "foreign_keys d \<longleftrightarrow>
     (\<forall>n \<in> set (vals (stack_node_table d)).
        (case parent_id n of None \<Rightarrow> True | Some p \<Rightarrow> p \<in> fst ` set (stack_node_table d))
        \<and> stack_node_data_id n \<in> fst ` set (stack_node_data_table d)
        \<and> executable_id n \<in> fst ` set (executable_table d))"

section \<open>Values\<close>

definition BIND_LIMIT :: nat where
  "BIND_LIMIT = 65535"

text \<open>A statement needs a row, and its bound values are counted in 16 bits.\<close>

definition check_values :: "nat \<Rightarrow> 'r list \<Rightarrow> db_error option" where
  "check_values binds rows =
     (if rows = [] then Some SyntaxError
      else if BIND_LIMIT < binds * length rows then Some TooManyBinds else None)"

text \<open>A text value holds no zero byte.\<close>

definition text_ok :: "string \<Rightarrow> bool" where
  "text_ok s \<longleftrightarrow> CHR 0x00 \<notin> set s"

definition opt_text_ok :: "string option \<Rightarrow> bool" where
  "opt_text_ok s = (case s of None \<Rightarrow> True | Some s \<Rightarrow> text_ok s)"

text \<open>Addition of \<^verbatim>\<open>bigint\<close> values raises an error instead of wrapping.\<close>

definition add_bigint :: "i64 \<Rightarrow> i64 \<Rightarrow> db_error + i64" where
  "add_bigint x y =
     (if - (2 ^ 63) \<le> sint x + sint y \<and> sint x + sint y < 2 ^ 63 then Inr (x + y) else Inl OutOfRange)"

section \<open>Statements\<close>

fun upsert_rows ::
  "('r \<Rightarrow> i64) \<Rightarrow> ('r \<Rightarrow> 'r \<Rightarrow> db_error + 'r) \<Rightarrow> 'r list \<Rightarrow> (i64, 'r) hash_map \<Rightarrow>
     db_error + (i64, 'r) hash_map" where
  "upsert_rows key merge [] t = Inr t"
| "upsert_rows key merge (r # rs) t =
     (case map_of t (key r) of
        None \<Rightarrow> upsert_rows key merge rs (t @ [(key r, r)])
      | Some old \<Rightarrow>
          (case merge old r of
             Inl e \<Rightarrow> Inl e
           | Inr new \<Rightarrow> upsert_rows key merge rs (modify (\<lambda>_. new) (key r) t)))"

text \<open>\<^verbatim>\<open>ON CONFLICT DO NOTHING\<close> skips a row whose id or whose content is already stored.\<close>

fun insert_datas :: "StackNodeData list \<Rightarrow> (i64, StackNodeData) hash_map \<Rightarrow> (i64, StackNodeData) hash_map"
where
  "insert_datas [] t = t"
| "insert_datas (r # rs) t =
     (if data_id r \<in> fst ` set t \<or> (\<exists>x \<in> set (vals t). same_content x r) then insert_datas rs t
      else insert_datas rs (t @ [(data_id r, r)]))"

definition merge_executable :: "Executable \<Rightarrow> Executable \<Rightarrow> db_error + Executable" where
  "merge_executable old new =
     (case add_bigint (exe_sample_count old) (exe_sample_count new) of
        Inl e \<Rightarrow> Inl e
      | Inr sc \<Rightarrow>
          (case add_bigint (raw_data_size old) (raw_data_size new) of
             Inl e \<Rightarrow> Inl e
           | Inr raw \<Rightarrow>
               (case add_bigint (processed_data_size old) (processed_data_size new) of
                  Inl e \<Rightarrow> Inl e
                | Inr proc \<Rightarrow>
                    Inr (old\<lparr>exe_sample_count := sc, updated_at := updated_at new,
                             raw_data_size := raw, processed_data_size := proc\<rparr>))))"

definition merge_node :: "StackNode \<Rightarrow> StackNode \<Rightarrow> db_error + StackNode" where
  "merge_node old new =
     (case add_bigint (sample_count old) (sample_count new) of
        Inl e \<Rightarrow> Inl e
      | Inr sc \<Rightarrow> Inr (old\<lparr>sample_count := sc\<rparr>))"

section \<open>Transactions\<close>

definition data_tx :: "StackNodeData list \<Rightarrow> db \<Rightarrow> db_error + db" where
  "data_tx snd_vec d =
     (let rows = take (BIND_LIMIT div 4) snd_vec in
      case check_values 4 rows of
        Some e \<Rightarrow> Inl e
      | None \<Rightarrow>
          if \<exists>r \<in> set rows. \<not> text_ok (symbol r) \<or> \<not> opt_text_ok (data_file r) then Inl InvalidText
          else Inr (d\<lparr>stack_node_data_table := insert_datas rows (stack_node_data_table d)\<rparr>))"

text \<open>
  The server's clock is read for each row, and the transaction's own start is the default of
  \<^verbatim>\<open>created_at\<close>.
\<close>

definition exe_row :: "int \<Rightarrow> int \<Rightarrow> Executable \<Rightarrow> Executable" where
  "exe_row now tx_start pb = pb\<lparr>updated_at := Some now, created_at := Some tx_start\<rparr>"

definition exe_tx :: "(nat \<Rightarrow> int) \<Rightarrow> int \<Rightarrow> Executable list \<Rightarrow> db \<Rightarrow> db_error + db" where
  "exe_tx clock tx_start pb_vec d =
     (let rows = take (BIND_LIMIT div 4) pb_vec;
          rows = map (\<lambda>(i, pb). exe_row (clock i) tx_start pb) (zip [0..<length rows] rows) in
      case check_values 8 rows of
        Some e \<Rightarrow> Inl e
      | None \<Rightarrow>
          if \<exists>r \<in> set rows. \<not> text_ok (exe_event r) \<or> \<not> opt_text_ok (build_id r) \<or> \<not> text_ok (basename r)
          then Inl InvalidText
          else if \<not> distinct (map exe_id rows) then Inl SecondUpdate
          else
            (case upsert_rows exe_id merge_executable rows (executable_table d) of
               Inl e \<Rightarrow> Inl e
             | Inr t \<Rightarrow> Inr (d\<lparr>executable_table := t\<rparr>)))"

definition node_tx :: "StackNode list \<Rightarrow> db \<Rightarrow> db_error + db" where
  "node_tx sn_vec d =
     (let rows = take (BIND_LIMIT div 4) sn_vec in
      case check_values 4 rows of
        Some e \<Rightarrow> Inl e
      | None \<Rightarrow>
          if \<not> distinct (map node_id rows) then Inl SecondUpdate
          else
            (case upsert_rows node_id merge_node rows (stack_node_table d) of
               Inl e \<Rightarrow> Inl e
             | Inr t \<Rightarrow>
                 (let d = d\<lparr>stack_node_table := t\<rparr>
                  in if foreign_keys d then Inr d else Inl ForeignKeyViolation)))"

text \<open>
  The handler: an error of a transaction panics the handler, and what earlier transactions committed
  stays.
\<close>

definition data_ingest :: "(nat \<Rightarrow> int) \<Rightarrow> int \<Rightarrow> StoData \<Rightarrow> db \<Rightarrow> db_error option \<times> db" where
  "data_ingest clock tx_start data d =
     (case data_tx (stack_node_datas data) d of
        Inl e \<Rightarrow> (Some e, d)
      | Inr d \<Rightarrow>
          (case exe_tx clock tx_start (profiled_binaries data) d of
             Inl e \<Rightarrow> (Some e, d)
           | Inr d \<Rightarrow>
               (case node_tx (stack_nodes data) d of
                  Inl e \<Rightarrow> (Some e, d)
                | Inr d \<Rightarrow> (None, d))))"

section \<open>Tables whose rows are merged\<close>

text \<open>
  What the two upserts share: merging keeps the key, some property of the row, and adds up a counter.
\<close>

definition keyed :: "('r \<Rightarrow> i64) \<Rightarrow> (i64, 'r) hash_map \<Rightarrow> bool" where
  "keyed key t \<longleftrightarrow> wf_map t \<and> (\<forall>(k, r) \<in> set t. key r = k)"

definition stored_count :: "('r \<Rightarrow> i64) \<Rightarrow> (i64, 'r) hash_map \<Rightarrow> i64 \<Rightarrow> int" where
  "stored_count count t i = (case map_of t i of None \<Rightarrow> 0 | Some r \<Rightarrow> sint (count r))"

definition posted_count :: "('r \<Rightarrow> i64) \<Rightarrow> ('r \<Rightarrow> i64) \<Rightarrow> 'r list \<Rightarrow> i64 \<Rightarrow> int" where
  "posted_count key count rows i = sum_list (map (\<lambda>r. sint (count r)) (filter (\<lambda>r. key r = i) rows))"

lemma keyed_Nil [simp]: "keyed key []"
  by (simp add: keyed_def)

lemma keyed_snoc: "keyed key t \<Longrightarrow> map_of t (key r) = None \<Longrightarrow> keyed key (t @ [(key r, r)])"
  by (auto simp: keyed_def wf_map_def map_of_eq_None_iff)

lemma keyed_modify: "keyed key t \<Longrightarrow> key r = k \<Longrightarrow> keyed key (modify (\<lambda>_. r) k t)"
  by (auto simp: keyed_def) (auto simp: modify_def)

lemma keyed_row: "keyed key t \<Longrightarrow> map_of t k = Some r \<Longrightarrow> key r = k"
  by (auto simp: keyed_def dest: map_of_SomeD)

lemma keys_of_modify: "fst ` set (modify f k t) = fst ` set t"
  by (metis keys_modify list.set_map)

locale counted_table =
  fixes key :: "'r \<Rightarrow> i64"
    and merge :: "'r \<Rightarrow> 'r \<Rightarrow> db_error + 'r"
    and count :: "'r \<Rightarrow> i64"
    and same :: "'r \<Rightarrow> 'x"
  assumes merge_key: "merge old r = Inr new \<Longrightarrow> key new = key old"
    and merge_count: "merge old r = Inr new \<Longrightarrow> sint (count new) = sint (count old) + sint (count r)"
    and merge_same: "merge old r = Inr new \<Longrightarrow> same new = same old"
begin

lemma upsert_keyed:
  "upsert_rows key merge rs t = Inr t' \<Longrightarrow> keyed key t \<Longrightarrow> keyed key t'"
proof (induction rs arbitrary: t)
  case (Cons r rs)
  then show ?case
    by (auto simp: keyed_snoc keyed_modify keyed_row merge_key split: option.splits sum.splits)
qed simp

lemma upsert_keys:
  "upsert_rows key merge rs t = Inr t' \<Longrightarrow> fst ` set t' = fst ` set t \<union> key ` set rs"
proof (induction rs arbitrary: t)
  case (Cons r rs)
  show ?case
  proof (cases "map_of t (key r)")
    case None
    then show ?thesis using Cons by auto
  next
    case (Some old)
    then have "key r \<in> fst ` set t" by (force dest: map_of_SomeD)
    then show ?thesis using Cons Some by (auto simp: keys_of_modify insert_absorb split: sum.splits)
  qed
qed simp

lemma upsert_counts:
  "upsert_rows key merge rs t = Inr t' \<Longrightarrow>
     stored_count count t' i = stored_count count t i + posted_count key count rs i"
proof (induction rs arbitrary: t)
  case (Cons r rs)
  show ?case
  proof (cases "map_of t (key r)")
    case None
    then show ?thesis
      using Cons by (auto simp: stored_count_def posted_count_def map_add_def split: option.splits if_splits)
  next
    case (Some old)
    with Cons.prems obtain new where new: "merge old r = Inr new"
      "upsert_rows key merge rs (modify (\<lambda>_. new) (key r) t) = Inr t'"
      by (auto split: sum.splits)
    show ?thesis
      using Cons.IH [OF new(2)] merge_count [OF new(1)] Some
      by (auto simp: stored_count_def posted_count_def map_of_modify)
  qed
qed (simp add: posted_count_def)

text \<open>Every row of the result agrees in the unmerged columns with a row that was stored or posted.\<close>

lemma upsert_same:
  "upsert_rows key merge rs t = Inr t' \<Longrightarrow> same ` set (vals t') \<subseteq> same ` set (vals t) \<union> same ` set rs"
proof (induction rs arbitrary: t)
  case (Cons r rs)
  show ?case
  proof (cases "map_of t (key r)")
    case None
    then have "upsert_rows key merge rs (t @ [(key r, r)]) = Inr t'" using Cons.prems by simp
    from Cons.IH [OF this] show ?thesis by (simp add: vals_def)
  next
    case (Some old)
    with Cons.prems obtain new where new: "merge old r = Inr new"
      "upsert_rows key merge rs (modify (\<lambda>_. new) (key r) t) = Inr t'"
      by (auto split: sum.splits)
    have "same ` set (vals (modify (\<lambda>_. new) (key r) t)) \<subseteq> same ` set (vals t)"
      using merge_same [OF new(1)] map_of_SomeD [OF Some]
      by (auto simp: vals_def modify_def image_image image_iff) (metis snd_conv)+
    with Cons.IH [OF new(2)] have "same ` set (vals t') \<subseteq> same ` set (vals t) \<union> same ` set rs"
      by blast
    then show ?thesis unfolding list.set image_insert by blast
  qed
qed simp

end

lemma add_bigint_sint: "add_bigint x y = Inr z \<Longrightarrow> sint z = sint x + sint y"
  by (auto simp: add_bigint_def sint_word_add signed_take_bit_int_eq_self split: if_splits)

interpretation executable_samples: counted_table exe_id merge_executable exe_sample_count
  "\<lambda>x. (exe_event x, build_id x, basename x, created_at x)"
  by unfold_locales (auto simp: merge_executable_def add_bigint_sint split: sum.splits)

interpretation executable_raw: counted_table exe_id merge_executable raw_data_size
  "\<lambda>x. (exe_event x, build_id x, basename x, created_at x)"
  by unfold_locales (auto simp: merge_executable_def add_bigint_sint split: sum.splits)

interpretation executable_processed: counted_table exe_id merge_executable processed_data_size
  "\<lambda>x. (exe_event x, build_id x, basename x, created_at x)"
  by unfold_locales (auto simp: merge_executable_def add_bigint_sint split: sum.splits)

interpretation node_samples: counted_table node_id merge_node sample_count
  "\<lambda>n. (parent_id n, stack_node_data_id n, executable_id n)"
  by unfold_locales (auto simp: merge_node_def add_bigint_sint split: sum.splits)

end
