(* ===== verification/Cache.thy ===== *)
theory Cache
  imports Defs
begin

text \<open>
  The client's memoisation caches.  \<^verbatim>\<open>moka::sync::Cache\<close> is not part of the sources; what
  the client relies on is its documented contract, the locale \<open>memo_cache\<close>: a lookup returns
  nothing or the value of the latest insertion under that key, and the cache may discard entries
  whenever it likes.  A cache that \<^verbatim>\<open>src/src/bin/cli.rs\<close> builds with a weigher and a capacity is
  its builder and the list of its entries; which entries survive an insertion is a parameter, the
  function \<open>keep\<close> of the builder and the entries, so that every theorem holds for every
  replacement policy.
\<close>

section \<open>The contract\<close>

locale memo_cache =
  fixes get :: "'c \<Rightarrow> 'k \<Rightarrow> 'v option"
    and insert :: "'c \<Rightarrow> 'k \<Rightarrow> 'v \<Rightarrow> 'c"
    and discard :: "('k \<Rightarrow> bool) \<Rightarrow> 'c \<Rightarrow> 'c"
    and invar :: "'c \<Rightarrow> bool"
  assumes get_insert:
    "invar c \<Longrightarrow> get (insert c k v) k' = Some u \<Longrightarrow> (if k' = k then u = v else get c k' = Some u)"
    and get_discard: "invar c \<Longrightarrow> get (discard P c) k' = Some u \<Longrightarrow> get c k' = Some u"
    and invar_insert: "invar c \<Longrightarrow> invar (insert c k v)"
    and invar_discard: "invar c \<Longrightarrow> invar (discard P c)"
begin

text \<open>A cache is coherent with a function when everything it returns is a value of the function.\<close>

definition coherent :: "('k \<Rightarrow> 'v) \<Rightarrow> 'c \<Rightarrow> bool" where
  "coherent f c \<longleftrightarrow> invar c \<and> (\<forall>k v. get c k = Some v \<longrightarrow> v = f k)"

lemma coherent_insert: "coherent f c \<Longrightarrow> coherent f (insert c k (f k))"
  unfolding coherent_def by (metis get_insert invar_insert)

lemma coherent_discard: "coherent f c \<Longrightarrow> coherent f (discard P c)"
  unfolding coherent_def by (metis get_discard invar_discard)

lemma coherent_get: "coherent f c \<Longrightarrow> get c k = Some v \<Longrightarrow> v = f k"
  by (simp add: coherent_def)

end

section \<open>A cache with an arbitrary replacement policy\<close>

type_synonym ('k, 'v) cache = "('k \<times> 'v) list"

record ('k, 'v) cache_builder =
  weigher :: "'k \<Rightarrow> 'v \<Rightarrow> u32"
  max_capacity :: u64

type_synonym ('k, 'v) policy = "('k, 'v) cache_builder \<Rightarrow> ('k, 'v) cache \<Rightarrow> 'k \<Rightarrow> bool"

definition cache_get :: "('k, 'v) cache \<Rightarrow> 'k \<Rightarrow> 'v option" where
  "cache_get c k = map_of c k"

definition cache_discard :: "('k \<Rightarrow> bool) \<Rightarrow> ('k, 'v) cache \<Rightarrow> ('k, 'v) cache" where
  "cache_discard P c = filter (\<lambda>(k, v). \<not> P k) c"

definition cache_insert ::
  "('k, 'v) policy \<Rightarrow> ('k, 'v) cache_builder \<Rightarrow> ('k, 'v) cache \<Rightarrow> 'k \<Rightarrow> 'v \<Rightarrow> ('k, 'v) cache" where
  "cache_insert keep b c k v =
     (let c = (k, v) # cache_discard (\<lambda>k'. k' = k) c in cache_discard (\<lambda>k. \<not> keep b c k) c)"

text \<open>Every such cache fulfils the contract, whatever its weigher, capacity and policy.\<close>

definition cache_invar :: "('k, 'v) cache \<Rightarrow> bool" where
  "cache_invar c \<longleftrightarrow> distinct (map fst c)"

lemma cache_get_discard: "cache_get (cache_discard P c) k = (if P k then None else cache_get c k)"
  by (induction c) (auto simp: cache_get_def cache_discard_def)

lemma cache_invar_discard: "cache_invar c \<Longrightarrow> cache_invar (cache_discard P c)"
  unfolding cache_invar_def cache_discard_def by (rule distinct_map_filter)

lemma cache_invar_insert: "cache_invar c \<Longrightarrow> cache_invar (cache_insert keep b c k v)"
  unfolding cache_insert_def Let_def
  by (intro cache_invar_discard) (auto simp: cache_invar_def cache_discard_def distinct_map_filter)

lemma cache_get_Cons: "cache_get ((k, v) # c) k' = (if k' = k then Some v else cache_get c k')"
  by (simp add: cache_get_def)

lemma cache_get_insert:
  "cache_get (cache_insert keep b c k v) k' = Some u \<Longrightarrow>
     (if k' = k then u = v else cache_get c k' = Some u)"
  by (simp add: cache_insert_def Let_def cache_get_discard cache_get_Cons split: if_splits)

lemma cache_get_discard_Some: "cache_get (cache_discard P c) k = Some u \<Longrightarrow> cache_get c k = Some u"
  by (simp add: cache_get_discard split: if_splits)

interpretation any_policy: memo_cache cache_get "cache_insert keep b" cache_discard cache_invar
  for keep :: "('k, 'v) policy" and b
  by unfold_locales
     (erule cache_get_insert cache_get_discard_Some cache_invar_insert cache_invar_discard)+

lemma coherent_empty [simp]: "any_policy.coherent f []"
  by (simp add: any_policy.coherent_def cache_invar_def cache_get_def)

end
