(* ===== verification/Client_Ids.thy ===== *)
theory Client_Ids
  imports Cache
begin

text \<open>
  Identifiers and memoisation of the client, \<^verbatim>\<open>src/src/bin/cli.rs\<close>: the four caches and the
  functions that demangle a symbol and compute the ids of names, stack nodes and frame data.

  Code outside the sources is in the record \<open>client_env\<close>: the demangler, the keyed hash as a
  function of the key and of the list of appended byte slices, the length of an optional string, the
  memory footprints of the \<^verbatim>\<open>deepsize\<close> derivation, and one replacement policy per cache.  Overflow wraps, as
  in the release profile the repository builds.
\<close>

section \<open>Configuration and state\<close>

record SymbolizedResult =
  frame_symbol :: string
  path :: string
  line_no :: u64

record client_env =
  try_demangle :: "string \<Rightarrow> string"
  hash64 :: "u64 list \<Rightarrow> u8 list list \<Rightarrow> u64"
  opt_len :: "string option \<Rightarrow> nat"
  stack_deep_size :: "SymbolizedResult list \<Rightarrow> u64"
  sto_deep_size :: "StoData \<Rightarrow> u64"
  sym_keep :: "(string, string) policy"
  data_keep :: "(StackNodeData, i64) policy"
  node_keep :: "(StackNode, i64) policy"
  misc_keep :: "(string, i64) policy"

record caches =
  SYM_CACHE :: "(string, string) cache"
  DATA_ID_CACHE :: "(StackNodeData, i64) cache"
  NODE_ID_CACHE :: "(StackNode, i64) cache"
  MISC_ID_CACHE :: "(string, i64) cache"

definition empty_caches :: caches where
  "empty_caches = \<lparr>SYM_CACHE = [], DATA_ID_CACHE = [], NODE_ID_CACHE = [], MISC_ID_CACHE = []\<rparr>"

definition HASHER_SEED :: "u64 list" where
  "HASHER_SEED = [1, 2, 3, 4]"

definition len_u32 :: "nat \<Rightarrow> u32" where
  "len_u32 n = (if n < 2 ^ 32 then of_nat n else - 1)"

text \<open>The four builders; a cache without a weigher counts its entries.\<close>

definition sym_builder :: "(string, string) cache_builder" where
  "sym_builder = \<lparr>weigher = (\<lambda>key value. len_u32 (length key)), max_capacity = 32 * 1024 * 1024\<rparr>"

definition data_builder :: "client_env \<Rightarrow> (StackNodeData, i64) cache_builder" where
  "data_builder env =
     \<lparr>weigher = (\<lambda>key value. len_u32 (length (symbol key)) + len_u32 (opt_len env (data_file key))),
      max_capacity = 32 * 1024 * 1024\<rparr>"

definition node_builder :: "(StackNode, i64) cache_builder" where
  "node_builder = \<lparr>weigher = (\<lambda>key value. 1), max_capacity = 8 * 1024 * 1024\<rparr>"

definition misc_builder :: "(string, i64) cache_builder" where
  "misc_builder = \<lparr>weigher = (\<lambda>key value. len_u32 (length key)), max_capacity = 2 * 1024 * 1024\<rparr>"

definition sym_insert ::
  "client_env \<Rightarrow> (string, string) cache \<Rightarrow> string \<Rightarrow> string \<Rightarrow> (string, string) cache" where
  "sym_insert env = cache_insert (sym_keep env) sym_builder"

definition data_insert ::
  "client_env \<Rightarrow> (StackNodeData, i64) cache \<Rightarrow> StackNodeData \<Rightarrow> i64 \<Rightarrow> (StackNodeData, i64) cache" where
  "data_insert env = cache_insert (data_keep env) (data_builder env)"

definition node_insert ::
  "client_env \<Rightarrow> (StackNode, i64) cache \<Rightarrow> StackNode \<Rightarrow> i64 \<Rightarrow> (StackNode, i64) cache" where
  "node_insert env = cache_insert (node_keep env) node_builder"

definition misc_insert ::
  "client_env \<Rightarrow> (string, i64) cache \<Rightarrow> string \<Rightarrow> i64 \<Rightarrow> (string, i64) cache" where
  "misc_insert env = cache_insert (misc_keep env) misc_builder"

interpretation sym: memo_cache cache_get "sym_insert env" cache_discard cache_invar for env
  unfolding sym_insert_def by unfold_locales

interpretation data: memo_cache cache_get "data_insert env" cache_discard cache_invar for env
  unfolding data_insert_def by unfold_locales

interpretation node: memo_cache cache_get "node_insert env" cache_discard cache_invar for env
  unfolding node_insert_def by unfold_locales

interpretation misc: memo_cache cache_get "misc_insert env" cache_discard cache_invar for env
  unfolding misc_insert_def by unfold_locales

section \<open>Operations\<close>

text \<open>\<^verbatim>\<open>i64::abs\<close>, which wraps on the least value.\<close>

definition abs_i64 :: "i64 \<Rightarrow> i64" where
  "abs_i64 x = (if sint x < 0 then - x else x)"

fun cached_demangle :: "client_env \<Rightarrow> string \<Rightarrow> caches \<Rightarrow> string \<times> caches" where
  "cached_demangle env mangled c =
     (case cache_get (SYM_CACHE c) mangled of
        Some hit \<Rightarrow> (hit, c)
      | None \<Rightarrow>
          (let demangled = try_demangle env mangled
           in (demangled, c\<lparr>SYM_CACHE := sym_insert env (SYM_CACHE c) mangled demangled\<rparr>)))"

fun misc_id :: "client_env \<Rightarrow> string \<Rightarrow> caches \<Rightarrow> i64 \<times> caches" where
  "misc_id env data c =
     (case cache_get (MISC_ID_CACHE c) data of
        Some x \<Rightarrow> (x, c)
      | None \<Rightarrow>
          (let id_neg = hash64 env HASHER_SEED [as_bytes data];
               id = abs_i64 id_neg
           in (id, c\<lparr>MISC_ID_CACHE := misc_insert env (MISC_ID_CACHE c) data id\<rparr>)))"

fun id_stack_node :: "client_env \<Rightarrow> StackNode \<Rightarrow> caches \<Rightarrow> StackNode \<times> caches" where
  "id_stack_node env data c =
     (case cache_get (NODE_ID_CACHE c) data of
        Some hit \<Rightarrow> (data\<lparr>node_id := hit\<rparr>, c)
      | None \<Rightarrow>
          (let slices =
                 (case parent_id data of Some p \<Rightarrow> [be_bytes 8 p] | None \<Rightarrow> [])
                 @ [be_bytes 8 (stack_node_data_id data)]
                 @ [be_bytes 8 (executable_id data)];
               id_neg = hash64 env HASHER_SEED slices;
               id = abs_i64 id_neg
           in (data\<lparr>node_id := id\<rparr>,
               c\<lparr>NODE_ID_CACHE := node_insert env (NODE_ID_CACHE c) data id\<rparr>)))"

fun id_data :: "client_env \<Rightarrow> StackNodeData \<Rightarrow> caches \<Rightarrow> StackNodeData \<times> caches" where
  "id_data env data c =
     (case cache_get (DATA_ID_CACHE c) data of
        Some hit \<Rightarrow> (data\<lparr>data_id := hit\<rparr>, c)
      | None \<Rightarrow>
          (let slices =
                 [as_bytes (symbol data)]
                 @ (case data_file data of Some f \<Rightarrow> [as_bytes f] | None \<Rightarrow> [])
                 @ (case line_number data of Some l \<Rightarrow> [be_bytes 4 l] | None \<Rightarrow> []);
               id_neg = hash64 env HASHER_SEED slices;
               id = abs_i64 id_neg
           in (data\<lparr>data_id := id\<rparr>,
               c\<lparr>DATA_ID_CACHE := data_insert env (DATA_ID_CACHE c) data id\<rparr>)))"

declare cached_demangle.simps [simp del] misc_id.simps [simp del]
  id_stack_node.simps [simp del] id_data.simps [simp del]

section \<open>What the operations compute\<close>

text \<open>The bytes each id is a hash of, and the ids without caches.\<close>

definition node_slices :: "i64 option \<Rightarrow> i64 \<Rightarrow> i64 \<Rightarrow> u8 list list" where
  "node_slices p d e =
     (case p of Some p \<Rightarrow> [be_bytes 8 p] | None \<Rightarrow> []) @ [be_bytes 8 d, be_bytes 8 e]"

definition data_slices :: "string \<Rightarrow> string option \<Rightarrow> i32 option \<Rightarrow> u8 list list" where
  "data_slices s f l =
     [as_bytes s] @ (case f of Some f \<Rightarrow> [as_bytes f] | None \<Rightarrow> [])
       @ (case l of Some l \<Rightarrow> [be_bytes 4 l] | None \<Rightarrow> [])"

definition id_of_slices :: "client_env \<Rightarrow> u8 list list \<Rightarrow> i64" where
  "id_of_slices env slices = abs_i64 (hash64 env HASHER_SEED slices)"

definition id_of_name :: "client_env \<Rightarrow> string \<Rightarrow> i64" where
  "id_of_name env s = id_of_slices env [as_bytes s]"

definition id_of_node :: "client_env \<Rightarrow> StackNode \<Rightarrow> i64" where
  "id_of_node env n =
     id_of_slices env (node_slices (parent_id n) (stack_node_data_id n) (executable_id n))"

definition id_of_data :: "client_env \<Rightarrow> StackNodeData \<Rightarrow> i64" where
  "id_of_data env d = id_of_slices env (data_slices (symbol d) (data_file d) (line_number d))"

definition caches_ok :: "client_env \<Rightarrow> caches \<Rightarrow> bool" where
  "caches_ok env c \<longleftrightarrow>
     sym.coherent (try_demangle env) (SYM_CACHE c)
     \<and> data.coherent (id_of_data env) (DATA_ID_CACHE c)
     \<and> node.coherent (id_of_node env) (NODE_ID_CACHE c)
     \<and> misc.coherent (id_of_name env) (MISC_ID_CACHE c)"

lemma caches_ok_empty [simp]: "caches_ok env empty_caches"
  by (simp add: caches_ok_def empty_caches_def)

text \<open>A memoised operation returns the value of the function it memoises and keeps the caches coherent.\<close>

lemma cached_demangle_ok [cache_simps]:
  assumes "caches_ok env c"
  shows "fst (cached_demangle env s c) = try_demangle env s"
    and "caches_ok env (snd (cached_demangle env s c))"
  using assms
  by (auto simp: caches_ok_def cached_demangle.simps Let_def dest: sym.coherent_get
      intro: sym.coherent_insert split: option.split)

lemma misc_id_ok [cache_simps]:
  assumes "caches_ok env c"
  shows "fst (misc_id env s c) = id_of_name env s"
    and "caches_ok env (snd (misc_id env s c))"
  using assms misc.coherent_insert [of "id_of_name env" "MISC_ID_CACHE c" env s]
  by (auto simp: caches_ok_def misc_id.simps Let_def id_of_name_def id_of_slices_def
      dest: misc.coherent_get split: option.split)

lemma id_stack_node_ok [cache_simps]:
  assumes "caches_ok env c"
  shows "fst (id_stack_node env n c) = n\<lparr>node_id := id_of_node env n\<rparr>"
    and "caches_ok env (snd (id_stack_node env n c))"
  using assms node.coherent_insert [of "id_of_node env" "NODE_ID_CACHE c" env n]
  by (auto simp: caches_ok_def id_stack_node.simps Let_def id_of_node_def id_of_slices_def
      node_slices_def dest: node.coherent_get split: option.split)

lemma id_data_ok [cache_simps]:
  assumes "caches_ok env c"
  shows "fst (id_data env d c) = d\<lparr>data_id := id_of_data env d\<rparr>"
    and "caches_ok env (snd (id_data env d c))"
  using assms data.coherent_insert [of "id_of_data env" "DATA_ID_CACHE c" env d]
  by (auto simp: caches_ok_def id_data.simps Let_def id_of_data_def id_of_slices_def
      data_slices_def dest: data.coherent_get split: option.split)

section \<open>Every interleaving of the client's threads\<close>

text \<open>
  The caches are shared by all threads.  A state is reachable when it comes from the empty caches
  by any sequence of calls, whoever makes them, between which entries may disappear: a cache is free
  to discard what it holds at any time, for instance on the strength of its access statistics.
\<close>

definition discard_some ::
  "(string \<Rightarrow> bool) \<Rightarrow> (StackNodeData \<Rightarrow> bool) \<Rightarrow> (StackNode \<Rightarrow> bool) \<Rightarrow> (string \<Rightarrow> bool) \<Rightarrow> caches \<Rightarrow> caches"
where
  "discard_some P Q R S c =
     \<lparr>SYM_CACHE = cache_discard P (SYM_CACHE c), DATA_ID_CACHE = cache_discard Q (DATA_ID_CACHE c),
      NODE_ID_CACHE = cache_discard R (NODE_ID_CACHE c), MISC_ID_CACHE = cache_discard S (MISC_ID_CACHE c)\<rparr>"

inductive reachable_caches :: "client_env \<Rightarrow> caches \<Rightarrow> bool" for env where
  start: "reachable_caches env empty_caches"
| demangle: "reachable_caches env c \<Longrightarrow> reachable_caches env (snd (cached_demangle env s c))"
| misc: "reachable_caches env c \<Longrightarrow> reachable_caches env (snd (misc_id env s c))"
| stack_node: "reachable_caches env c \<Longrightarrow> reachable_caches env (snd (id_stack_node env n c))"
| node_data: "reachable_caches env c \<Longrightarrow> reachable_caches env (snd (id_data env d c))"
| eviction: "reachable_caches env c \<Longrightarrow> reachable_caches env (discard_some P Q R S c)"

lemma caches_ok_discard [cache_simps]: "caches_ok env c \<Longrightarrow> caches_ok env (discard_some P Q R S c)"
  by (simp add: caches_ok_def discard_some_def sym.coherent_discard data.coherent_discard
      node.coherent_discard misc.coherent_discard)

lemma reachable_caches_ok: "reachable_caches env c \<Longrightarrow> caches_ok env c"
  by (induction rule: reachable_caches.induct) (simp_all add: cache_simps)

text \<open>
  C21. Whatever calls have been made before and whatever the caches have evicted, demangling and
  the three id functions return what they would return without a cache.
\<close>

theorem memoisation_transparent:
  assumes "reachable_caches env c"
  shows "fst (cached_demangle env s c) = try_demangle env s
    \<and> fst (misc_id env s c) = abs_i64 (hash64 env HASHER_SEED [as_bytes s])
    \<and> fst (id_stack_node env n c) = n\<lparr>node_id := id_of_node env n\<rparr>
    \<and> fst (id_data env d c) = d\<lparr>data_id := id_of_data env d\<rparr>"
  using reachable_caches_ok [OF assms]
  by (simp add: cache_simps id_of_name_def id_of_slices_def)

text \<open>Inputs for the witnesses: a toy hash that sums its bytes, and caches that keep at most two entries.\<close>

definition demo_env :: client_env where
  "demo_env = \<lparr>try_demangle = (\<lambda>s. ''f'' @ s), hash64 = (\<lambda>key bs. sum_list (map ucast (concat bs))),
     opt_len = (\<lambda>s. case s of None \<Rightarrow> 0 | Some s \<Rightarrow> length s),
     stack_deep_size = (\<lambda>st. of_nat (length st)), sto_deep_size = (\<lambda>d. 100),
     sym_keep = (\<lambda>b c k. k \<in> set (map fst (take 2 c))), data_keep = (\<lambda>b c k. k \<in> set (map fst (take 2 c))),
     node_keep = (\<lambda>b c k. k \<in> set (map fst (take 2 c))), misc_keep = (\<lambda>b c k. k \<in> set (map fst (take 2 c)))\<rparr>"

theorem memoisation_transparent_witness:
  "fst (misc_id demo_env ''ab'' (snd (misc_id demo_env ''ab'' empty_caches))) = 195"
proof -
  have "reachable_caches demo_env (snd (misc_id demo_env ''ab'' empty_caches))"
    by (intro reachable_caches.intros)
  from memoisation_transparent [OF this]
  have "fst (misc_id demo_env ''ab'' (snd (misc_id demo_env ''ab'' empty_caches)))
      = abs_i64 (hash64 demo_env HASHER_SEED [as_bytes ''ab''])" by blast
  then show ?thesis
    by (simp add: demo_env_def as_bytes_def abs_i64_def of_char_of)
qed

section \<open>The ids\<close>

lemma sint_minus_i64: "sint (- x :: i64) = (if sint x = - (2 ^ 63) then - (2 ^ 63) else - sint x)"
proof -
  have range: "- (2 ^ 63) \<le> sint x" "sint x < 2 ^ 63"
    using sint_range_size [of x] by (simp_all add: word_size)
  have eq: "sint (- x) = signed_take_bit 63 (- sint x)"
    by (simp add: sint_word_minus)
  show ?thesis
  proof (cases "sint x = - (2 ^ 63)")
    case True
    then show ?thesis using eq by (simp add: signed_take_bit_eq_take_bit_shift take_bit_eq_mod)
  next
    case False
    then have "- (2 ^ 63) \<le> - sint x" "- sint x < 2 ^ 63" using range by simp_all
    then show ?thesis using eq False by (simp add: signed_take_bit_int_eq_self)
  qed
qed


lemma node_slices_length:
  "length (concat (node_slices p d e)) = (case p of Some q \<Rightarrow> 24 | None \<Rightarrow> 16)"
  by (simp add: node_slices_def split: option.split)

text \<open>
  The hashed bytes of a stack node determine its parent, its frame data and its executable: the
  three ids have fixed width and the length tells whether there is a parent.
\<close>

theorem node_slices_injective:
  assumes "concat (node_slices p d e) = concat (node_slices p' d' e')"
  shows "p = p' \<and> d = d' \<and> e = e'"
proof -
  have "length (concat (node_slices p d e)) = length (concat (node_slices p' d' e'))"
    using assms by simp
  then have "p = None \<longleftrightarrow> p' = None"
    by (simp add: node_slices_length split: option.splits)
  then show ?thesis
    using assms by (auto simp: node_slices_def split: option.splits dest: be_bytes_inject [rotated])
qed

theorem node_slices_injective_witness:
  "concat (node_slices (Some 1) 2 3) = concat (node_slices (Some (0 + 1)) (1 + 1) 3)
    \<and> (Some 1 = Some ((0 :: i64) + 1) \<and> (2 :: i64) = 1 + 1 \<and> (3 :: i64) = 3)"
  using node_slices_injective [of "Some 1" 2 3 "Some (0 + 1)" "1 + 1" 3] by simp

text \<open>
  C29. The hashed bytes of frame data do not determine it: the symbol and the file are appended
  without a separator, so with any hash that, as a streaming hash does, depends only on the bytes
  appended, a symbol that ends in a file name and the split pair get the same id.
\<close>

theorem data_id_ambiguous:
  assumes "\<forall>slices. hash64 env HASHER_SEED slices = hash64 env HASHER_SEED [concat slices]"
  shows "id_of_data env \<lparr>data_id = i, symbol = s @ f, data_file = None, line_number = l\<rparr>
    = id_of_data env \<lparr>data_id = j, symbol = s, data_file = Some f, line_number = l\<rparr>"
proof -
  let ?k = "data_slices (s @ f) None l" and ?k' = "data_slices s (Some f) l"
  have "concat ?k = concat ?k'" by (simp add: data_slices_def)
  then have "hash64 env HASHER_SEED ?k = hash64 env HASHER_SEED ?k'"
    using assms by metis
  then show ?thesis by (simp add: id_of_data_def id_of_slices_def)
qed

theorem data_id_ambiguous_witness:
  "id_of_data demo_env \<lparr>data_id = 0, symbol = ''main'' @ ''a.c'', data_file = None, line_number = None\<rparr>
    = id_of_data demo_env \<lparr>data_id = 0, symbol = ''main'', data_file = Some ''a.c'', line_number = None\<rparr>"
  by (rule data_id_ambiguous) (simp add: demo_env_def)

end
