(* ===== verification/Client_Sink.thy ===== *)
theory Client_Sink
  imports Client_Ids
begin

text \<open>
  \<^verbatim>\<open>process_and_sink_data\<close> of \<^verbatim>\<open>src/src/bin/cli.rs\<close>: a batch of symbolized samples becomes the nodes of a
  prefix tree of stacks, the frame data they refer to and one executable row, which are posted to
  the server.  A sample is the list of its addresses, innermost first, each symbolized to the list
  of frames that are inlined there; the tree grows from the outermost address.
\<close>

section \<open>The three maps\<close>

record sink =
  stack_node_map :: "(i64, StackNode) hash_map"
  stack_node_data_map :: "(i64, StackNodeData) hash_map"
  executable_map :: "(i64, Executable) hash_map"
  sink_caches :: caches

definition bump_node :: "StackNode \<Rightarrow> StackNode" where
  "bump_node e = e\<lparr>sample_count := sample_count e + 1\<rparr>"

definition frame_data :: "client_env \<Rightarrow> SymbolizedResult \<Rightarrow> caches \<Rightarrow> StackNodeData \<times> caches" where
  "frame_data env frame c =
     (case cached_demangle env (frame_symbol frame) c of
        (name, c) \<Rightarrow>
          id_data env
            \<lparr>data_id = 0, symbol = name,
             data_file = (if trim (path frame) = [] then None else Some (trim (path frame))),
             line_number = (if 0 < line_no frame then Some (ucast (line_no frame)) else None)\<rparr> c)"

definition sink_frame ::
  "client_env \<Rightarrow> Executable \<Rightarrow> SymbolizedResult \<Rightarrow> sink \<times> i64 option \<Rightarrow> sink \<times> i64 option" where
  "sink_frame env executable frame = (\<lambda>(s, parent).
     case frame_data env frame (sink_caches s) of
       (data, c) \<Rightarrow>
         (case id_stack_node env
            \<lparr>node_id = 0, parent_id = parent, stack_node_data_id = data_id data,
             executable_id = exe_id executable, sample_count = 1\<rparr> c of
            (stack_node, c) \<Rightarrow>
              (s\<lparr>stack_node_data_map :=
                   upsert id data (data_id data) (stack_node_data_map s),
                 stack_node_map :=
                   upsert bump_node stack_node (node_id stack_node) (stack_node_map s),
                 sink_caches := c\<rparr>,
               Some (node_id stack_node))))"

definition count_stack :: "client_env \<Rightarrow> Executable \<Rightarrow> SymbolizedResult list \<Rightarrow> sink \<Rightarrow> sink" where
  "count_stack env executable stack s =
     s\<lparr>executable_map :=
       modify (\<lambda>e. e\<lparr>raw_data_size := raw_data_size e + stack_deep_size env stack\<rparr>) (exe_id executable)
         (modify (\<lambda>e. e\<lparr>exe_sample_count := exe_sample_count e + 1\<rparr>) (exe_id executable)
           (upsert id executable (exe_id executable) (executable_map s)))\<rparr>"

definition sink_stack ::
  "client_env \<Rightarrow> Executable \<Rightarrow> SymbolizedResult list \<Rightarrow> sink \<times> i64 option \<Rightarrow> sink \<times> i64 option" where
  "sink_stack env executable stack = (\<lambda>(s, parent).
     fold (sink_frame env executable) stack (count_stack env executable stack s, parent))"

definition sink_sample ::
  "client_env \<Rightarrow> Executable \<Rightarrow> SymbolizedResult list list \<Rightarrow> sink \<Rightarrow> sink" where
  "sink_sample env executable symlist s =
     fst (fold (sink_stack env executable) (rev symlist) (s, None))"

section \<open>The whole function\<close>

datatype client_error = UnwrapNone

datatype post_result = PostOk | PostBadStatus | PostFailed

record upload =
  upload_url :: string
  upload_data :: StoData
  upload_log :: "string list"

definition batch_executable :: "Args \<Rightarrow> string \<Rightarrow> i64 \<Rightarrow> Executable" where
  "batch_executable a name bin_id =
     \<lparr>exe_id = bin_id, exe_event = event_to_string (event_type a), build_id = version a, basename = name,
      updated_at = None, created_at = None, exe_sample_count = 0, raw_data_size = 0,
      processed_data_size = 0\<rparr>"

definition process_and_sink_data ::
  "client_env \<Rightarrow> (string \<Rightarrow> StoData \<Rightarrow> post_result) \<Rightarrow> SymbolizedResult list list list \<Rightarrow> Args \<Rightarrow>
     caches \<Rightarrow> client_error + upload \<times> caches" where
  "process_and_sink_data env post symlists a c =
     (case binary a of
        None \<Rightarrow> Inl UnwrapNone
      | Some name \<Rightarrow>
          (case misc_id env (case version a of Some x \<Rightarrow> name @ x | None \<Rightarrow> name) c of
             (bin_id, c) \<Rightarrow>
               (let executable = batch_executable a name bin_id;
                    s = fold (sink_sample env executable) symlists
                          \<lparr>stack_node_map = [], stack_node_data_map = [], executable_map = [],
                           sink_caches = c\<rparr>;
                    data_out = \<lparr>stack_nodes = vals (stack_node_map s),
                                stack_node_datas = vals (stack_node_data_map s),
                                profiled_binaries = vals (executable_map s)\<rparr>;
                    executables =
                      modify (\<lambda>e. e\<lparr>processed_data_size :=
                                       processed_data_size e + sto_deep_size env data_out\<rparr>)
                        (exe_id executable) (executable_map s);
                    data_out = data_out\<lparr>profiled_binaries := vals executables\<rparr>
                in Inr (\<lparr>upload_url = url a, upload_data = data_out,
                         upload_log = (case post (url a) data_out of
                                         PostOk \<Rightarrow> [] | _ \<Rightarrow> [''failed to post data''])\<rparr>,
                        sink_caches s))))"

section \<open>The batch without caches\<close>

text \<open>
  What a frame contributes once the caches are known to be transparent: its data with its id, and,
  under a parent, its node.  A path is the list of frames from the outermost address inwards.
\<close>

definition data_of :: "client_env \<Rightarrow> SymbolizedResult \<Rightarrow> StackNodeData" where
  "data_of env frame =
     (let d = \<lparr>data_id = 0, symbol = try_demangle env (frame_symbol frame),
               data_file = (if trim (path frame) = [] then None else Some (trim (path frame))),
               line_number = (if 0 < line_no frame then Some (ucast (line_no frame)) else None)\<rparr>
      in d\<lparr>data_id := id_of_data env d\<rparr>)"

definition child_id :: "client_env \<Rightarrow> i64 \<Rightarrow> i64 option \<Rightarrow> i64 \<Rightarrow> i64" where
  "child_id env e parent d = id_of_slices env (node_slices parent d e)"

definition node_of :: "client_env \<Rightarrow> i64 \<Rightarrow> i64 option \<Rightarrow> i64 \<Rightarrow> StackNode" where
  "node_of env e parent d =
     \<lparr>node_id = child_id env e parent d, parent_id = parent, stack_node_data_id = d,
      executable_id = e, sample_count = 1\<rparr>"

fun path_nodes :: "client_env \<Rightarrow> i64 \<Rightarrow> i64 option \<Rightarrow> i64 list \<Rightarrow> StackNode list" where
  "path_nodes env e parent [] = []"
| "path_nodes env e parent (d # ds) =
     node_of env e parent d # path_nodes env e (Some (child_id env e parent d)) ds"

definition sample_path :: "SymbolizedResult list list \<Rightarrow> SymbolizedResult list" where
  "sample_path symlist = concat (rev symlist)"

definition frame_ids :: "client_env \<Rightarrow> SymbolizedResult list \<Rightarrow> i64 list" where
  "frame_ids env frs = map (\<lambda>fr. data_id (data_of env fr)) frs"

lemma frame_ids_simps [simp]:
  "frame_ids env [] = []"
  "frame_ids env (fr # frs) = data_id (data_of env fr) # frame_ids env frs"
  "frame_ids env (frs @ frs') = frame_ids env frs @ frame_ids env frs'"
  by (simp_all add: frame_ids_def)

definition sample_nodes :: "client_env \<Rightarrow> i64 \<Rightarrow> SymbolizedResult list list \<Rightarrow> StackNode list" where
  "sample_nodes env e symlist =
     path_nodes env e None (frame_ids env (sample_path symlist))"

definition add_nodes :: "StackNode list \<Rightarrow> (i64, StackNode) hash_map \<Rightarrow> (i64, StackNode) hash_map" where
  "add_nodes ns m = fold (\<lambda>n. upsert bump_node n (node_id n)) ns m"

definition add_datas ::
  "StackNodeData list \<Rightarrow> (i64, StackNodeData) hash_map \<Rightarrow> (i64, StackNodeData) hash_map" where
  "add_datas ds m = fold (\<lambda>d. upsert id d (data_id d)) ds m"

lemma frame_data_ok:
  assumes "caches_ok env c"
  shows "fst (frame_data env fr c) = data_of env fr" "caches_ok env (snd (frame_data env fr c))"
proof -
  obtain s c' where d: "cached_demangle env (frame_symbol fr) c = (s, c')" by fastforce
  then have "s = try_demangle env (frame_symbol fr)" "caches_ok env c'"
    using cached_demangle_ok [OF assms, of "frame_symbol fr"] by simp_all
  then show "fst (frame_data env fr c) = data_of env fr" "caches_ok env (snd (frame_data env fr c))"
    using d by (simp_all add: frame_data_def data_of_def cache_simps Let_def)
qed

text \<open>One frame, then one address, then one sample: the maps grow by the path's nodes and data.\<close>

lemma sink_frame_ok:
  assumes "caches_ok env (sink_caches s)"
  shows "\<exists>c'. sink_frame env exe fr (s, p) =
      (s\<lparr>stack_node_data_map := add_datas [data_of env fr] (stack_node_data_map s),
         stack_node_map := add_nodes [node_of env (exe_id exe) p (data_id (data_of env fr))] (stack_node_map s),
         sink_caches := c'\<rparr>,
       Some (child_id env (exe_id exe) p (data_id (data_of env fr)))) \<and> caches_ok env c'"
proof -
  obtain d c1 where d: "frame_data env fr (sink_caches s) = (d, c1)" by fastforce
  then have d': "d = data_of env fr" and c1: "caches_ok env c1"
    using frame_data_ok [OF assms, of fr] by simp_all
  define n where "n = \<lparr>node_id = 0, parent_id = p, stack_node_data_id = data_id d,
    executable_id = exe_id exe, sample_count = 1\<rparr>"
  obtain n' c2 where n': "id_stack_node env n c1 = (n', c2)" by fastforce
  have "n' = node_of env (exe_id exe) p (data_id d)" and "caches_ok env c2"
    using id_stack_node_ok [OF c1, of n] n'
    by (simp_all add: n_def node_of_def child_id_def id_of_node_def)
  then show ?thesis
    using d n' by (intro exI [of _ c2])
      (simp add: sink_frame_def n_def d' add_datas_def add_nodes_def node_of_def)
qed

text \<open>The nodes of a path and the parent they leave.\<close>

fun path_end :: "client_env \<Rightarrow> i64 \<Rightarrow> i64 option \<Rightarrow> i64 list \<Rightarrow> i64 option" where
  "path_end env e parent [] = parent"
| "path_end env e parent (d # ds) = path_end env e (Some (child_id env e parent d)) ds"

lemma path_nodes_append:
  "path_nodes env e p (ds @ ds') = path_nodes env e p ds @ path_nodes env e (path_end env e p ds) ds'"
  by (induction ds arbitrary: p) simp_all

lemma path_end_append: "path_end env e p (ds @ ds') = path_end env e (path_end env e p ds) ds'"
  by (induction ds arbitrary: p) simp_all

lemma add_nodes_append: "add_nodes (ns @ ns') m = add_nodes ns' (add_nodes ns m)"
  by (simp add: add_nodes_def)

lemma add_datas_append: "add_datas (ds @ ds') m = add_datas ds' (add_datas ds m)"
  by (simp add: add_datas_def)

lemma add_nil [simp]: "add_nodes [] m = m" "add_datas [] m' = m'"
  by (simp_all add: add_nodes_def add_datas_def)

lemma sink_frames_ok:
  assumes "caches_ok env (sink_caches s)"
  shows "\<exists>c'. fold (sink_frame env exe) frs (s, p) =
      (s\<lparr>stack_node_data_map := add_datas (map (data_of env) frs) (stack_node_data_map s),
         stack_node_map := add_nodes (path_nodes env (exe_id exe) p (frame_ids env frs)) (stack_node_map s),
         sink_caches := c'\<rparr>,
       path_end env (exe_id exe) p (frame_ids env frs)) \<and> caches_ok env c'"
  using assms
proof (induction frs arbitrary: s p)
  case Nil
  then show ?case by (intro exI [of _ "sink_caches s"]) simp
next
  case (Cons fr frs)
  let ?d = "data_id (data_of env fr)"
  obtain c1 where c1: "sink_frame env exe fr (s, p) =
      (s\<lparr>stack_node_data_map := add_datas [data_of env fr] (stack_node_data_map s),
         stack_node_map := add_nodes [node_of env (exe_id exe) p ?d] (stack_node_map s),
         sink_caches := c1\<rparr>, Some (child_id env (exe_id exe) p ?d))" "caches_ok env c1"
    using sink_frame_ok [OF Cons.prems] by blast
  show ?case
    using Cons.IH [of "fst (sink_frame env exe fr (s, p))" "Some (child_id env (exe_id exe) p ?d)"] c1
    by (simp flip: add_nodes_append add_datas_append)
qed

definition count_exe ::
  "client_env \<Rightarrow> Executable \<Rightarrow> SymbolizedResult list \<Rightarrow> (i64, Executable) hash_map \<Rightarrow> (i64, Executable) hash_map" where
  "count_exe env exe stack m = executable_map (count_stack env exe stack
     \<lparr>stack_node_map = [], stack_node_data_map = [], executable_map = m, sink_caches = empty_caches\<rparr>)"

lemma count_stack_exe:
  "count_stack env exe stack s = s\<lparr>executable_map := count_exe env exe stack (executable_map s)\<rparr>"
  by (simp add: count_stack_def count_exe_def)

lemma sink_stacks_ok:
  assumes "caches_ok env (sink_caches s)"
  shows "\<exists>c'. fold (sink_stack env exe) stacks (s, p) =
      (s\<lparr>executable_map := fold (count_exe env exe) stacks (executable_map s),
         stack_node_data_map := add_datas (map (data_of env) (concat stacks)) (stack_node_data_map s),
         stack_node_map :=
           add_nodes (path_nodes env (exe_id exe) p (frame_ids env (concat stacks))) (stack_node_map s),
         sink_caches := c'\<rparr>,
       path_end env (exe_id exe) p (frame_ids env (concat stacks))) \<and> caches_ok env c'"
  using assms
proof (induction stacks arbitrary: s p)
  case Nil
  then show ?case by (intro exI [of _ "sink_caches s"]) simp
next
  case (Cons stack stacks)
  let ?s = "s\<lparr>executable_map := count_exe env exe stack (executable_map s)\<rparr>"
  let ?p = "path_end env (exe_id exe) p (frame_ids env stack)"
  obtain c1 where c1: "sink_stack env exe stack (s, p) =
      (?s\<lparr>stack_node_data_map := add_datas (map (data_of env) stack) (stack_node_data_map s),
         stack_node_map := add_nodes (path_nodes env (exe_id exe) p (frame_ids env stack)) (stack_node_map s),
         sink_caches := c1\<rparr>, ?p)" "caches_ok env c1"
    using sink_frames_ok [of env ?s exe stack p] Cons.prems
    by (auto simp: sink_stack_def count_stack_exe)
  show ?case
    using Cons.IH [of "fst (sink_stack env exe stack (s, p))" ?p] c1
    by (simp add: path_nodes_append path_end_append add_nodes_append add_datas_append)
qed

lemma sink_samples_ok:
  assumes "caches_ok env (sink_caches s)"
  shows "\<exists>c'. fold (sink_sample env exe) samples s =
      s\<lparr>executable_map := fold (count_exe env exe) (concat (map rev samples)) (executable_map s),
        stack_node_data_map :=
          add_datas (concat (map (map (data_of env) \<circ> sample_path) samples)) (stack_node_data_map s),
        stack_node_map :=
          add_nodes (concat (map (sample_nodes env (exe_id exe)) samples)) (stack_node_map s),
        sink_caches := c'\<rparr> \<and> caches_ok env c'"
  using assms
proof (induction samples arbitrary: s)
  case Nil
  then show ?case by (intro exI [of _ "sink_caches s"]) simp
next
  case (Cons sample samples)
  obtain c1 where c1: "sink_sample env exe sample s =
      s\<lparr>executable_map := fold (count_exe env exe) (rev sample) (executable_map s),
        stack_node_data_map := add_datas (map (data_of env) (sample_path sample)) (stack_node_data_map s),
        stack_node_map := add_nodes (sample_nodes env (exe_id exe) sample) (stack_node_map s),
        sink_caches := c1\<rparr>" "caches_ok env c1"
    using sink_stacks_ok [OF Cons.prems, of exe "rev sample" None]
    by (auto simp: sink_sample_def sample_path_def sample_nodes_def)
  show ?case
    using Cons.IH [of "sink_sample env exe sample s"] c1
    by (simp add: add_nodes_append add_datas_append)
qed

end
