(* ===== verification/Client_Tree.thy ===== *)
theory Client_Tree
  imports Client_Sink "HOL-Library.Sublist"
begin

text \<open>
  What a batch posts: the maps of \<^verbatim>\<open>process_and_sink_data\<close> as functions of the samples, the
  referential integrity that the database relies on, and the tree of stack prefixes with its counts.
\<close>

section \<open>The maps after a batch\<close>

lemma find_append:
  "find P (xs @ ys) = (case find P xs of None \<Rightarrow> find P ys | Some x \<Rightarrow> Some x)"
  by (induction xs) auto

lemma find_SomeD: "find P xs = Some x \<Longrightarrow> x \<in> set xs \<and> P x"
  by (auto simp: find_Some_iff)

lemma find_ex: "x \<in> set xs \<Longrightarrow> P x \<Longrightarrow> \<exists>y. find P xs = Some y"
  by (induction xs) auto

lemma map_of_add_nodes:
  "(\<And>n. n \<in> set ns \<Longrightarrow> sample_count n = 1) \<Longrightarrow>
   map_of (add_nodes ns []) i =
     map_option (\<lambda>n. n\<lparr>sample_count := of_nat (count_list (map node_id ns) i)\<rparr>)
       (find (\<lambda>n. node_id n = i) ns)"
proof (induction ns rule: rev_induct)
  case Nil
  then show ?case by (simp add: add_nodes_def)
next
  case (snoc n ns)
  then have IH: "map_of (add_nodes ns []) i =
     map_option (\<lambda>n. n\<lparr>sample_count := of_nat (count_list (map node_id ns) i)\<rparr>)
       (find (\<lambda>n. node_id n = i) ns)" by simp
  have one: "n\<lparr>sample_count := 1\<rparr> = n" using snoc.prems [of n] by simp
  show ?case
  proof (cases "node_id n = i")
    case True
    have "count_list (map node_id ns) i = 0" if "find (\<lambda>n. node_id n = i) ns = None"
      using that by (auto simp: find_None_iff count_list_0_iff)
    then show ?thesis
      using True IH one
      by (auto simp: add_nodes_append add_nodes_def [of "[n]"] map_of_upsert find_append bump_node_def
          split: option.split)
  next
    case False
    then show ?thesis
      using IH by (auto simp: add_nodes_append add_nodes_def [of "[n]"] map_of_upsert find_append
          split: option.split)
  qed
qed

lemma map_of_add_datas: "map_of (add_datas ds []) i = find (\<lambda>d. data_id d = i) ds"
proof (induction ds rule: rev_induct)
  case Nil
  then show ?case by simp
next
  case (snoc d ds)
  then show ?case
    by (auto simp: add_datas_append add_datas_def [of "[d]"] map_of_upsert find_append split: option.split)
qed

lemma wf_map_add: "wf_map m \<Longrightarrow> wf_map (add_nodes ns m)" "wf_map m' \<Longrightarrow> wf_map (add_datas ds m')"
  unfolding add_nodes_def add_datas_def
  by (induction ns arbitrary: m, simp_all add: wf_map_upsert)
     (induction ds arbitrary: m', simp_all add: wf_map_upsert)

definition counted_exe :: "client_env \<Rightarrow> Executable \<Rightarrow> SymbolizedResult list list \<Rightarrow> Executable" where
  "counted_exe env exe stacks =
     exe\<lparr>exe_sample_count := exe_sample_count exe + of_nat (length stacks),
         raw_data_size := raw_data_size exe + sum_list (map (stack_deep_size env) stacks)\<rparr>"

lemma count_exe_fold:
  "fold (count_exe env exe) stacks [] =
     (if stacks = [] then [] else [(exe_id exe, counted_exe env exe stacks)])"
proof (induction stacks rule: rev_induct)
  case Nil
  then show ?case by simp
next
  case (snoc s ss)
  then show ?case
    by (auto simp: count_exe_def count_stack_def counted_exe_def modify_def algebra_simps)
qed

section \<open>The posted data\<close>

definition batch_id :: "client_env \<Rightarrow> Args \<Rightarrow> string \<Rightarrow> i64" where
  "batch_id env a name =
     id_of_name env (case version a of Some x \<Rightarrow> name @ x | None \<Rightarrow> name)"

definition batch_nodes :: "client_env \<Rightarrow> i64 \<Rightarrow> SymbolizedResult list list list \<Rightarrow> StackNode list" where
  "batch_nodes env e samples = concat (map (sample_nodes env e) samples)"

definition batch_datas :: "client_env \<Rightarrow> SymbolizedResult list list list \<Rightarrow> StackNodeData list" where
  "batch_datas env samples = concat (map (map (data_of env) \<circ> sample_path) samples)"

definition batch_exes :: "client_env \<Rightarrow> Executable \<Rightarrow> SymbolizedResult list list list \<Rightarrow> Executable list" where
  "batch_exes env exe samples =
     (if concat samples = [] then [] else [counted_exe env exe (concat (map rev samples))])"

definition batch_upload ::
  "client_env \<Rightarrow> (string \<Rightarrow> StoData \<Rightarrow> post_result) \<Rightarrow> SymbolizedResult list list list \<Rightarrow> Args \<Rightarrow> string \<Rightarrow> upload"
where
  "batch_upload env post samples a name =
     (let e = batch_id env a name;
          exes = batch_exes env (batch_executable a name e) samples;
          out = \<lparr>stack_nodes = vals (add_nodes (batch_nodes env e samples) []),
                 stack_node_datas = vals (add_datas (batch_datas env samples) []),
                 profiled_binaries = exes\<rparr>;
          out = out\<lparr>profiled_binaries :=
            map (\<lambda>x. x\<lparr>processed_data_size := processed_data_size x + sto_deep_size env out\<rparr>) exes\<rparr>
      in \<lparr>upload_url = url a, upload_data = out,
          upload_log = (case post (url a) out of PostOk \<Rightarrow> [] | _ \<Rightarrow> [''failed to post data''])\<rparr>)"

lemma process_and_sink_data_ok:
  assumes "caches_ok env c" "binary a = Some name"
  shows "\<exists>c'. process_and_sink_data env post samples a c = Inr (batch_upload env post samples a name, c')
    \<and> caches_ok env c'"
proof -
  obtain b c1 where b: "misc_id env (case version a of Some x \<Rightarrow> name @ x | None \<Rightarrow> name) c = (b, c1)"
    by fastforce
  then have b': "b = batch_id env a name" and c1: "caches_ok env c1"
    using misc_id_ok [OF assms(1), of "case version a of Some x \<Rightarrow> name @ x | None \<Rightarrow> name"]
    by (simp_all add: batch_id_def)
  define exe where "exe = batch_executable a name b"
  have e: "exe_id exe = b" by (simp add: exe_def batch_executable_def)
  obtain c2 where s: "fold (sink_sample env exe) samples
      \<lparr>stack_node_map = [], stack_node_data_map = [], executable_map = [], sink_caches = c1\<rparr> =
      \<lparr>stack_node_map = add_nodes (batch_nodes env b samples) [],
       stack_node_data_map = add_datas (batch_datas env samples) [],
       executable_map = fold (count_exe env exe) (concat (map rev samples)) [],
       sink_caches = c2\<rparr>" and c2: "caches_ok env c2"
    using sink_samples_ok [of env "\<lparr>stack_node_map = [], stack_node_data_map = [],
        executable_map = [], sink_caches = c1\<rparr>" exe samples] c1
    by (auto simp: batch_nodes_def batch_datas_def e)
  have "concat (map rev samples) = [] \<longleftrightarrow> concat samples = []" by auto
  then have exes: "vals (fold (count_exe env exe) (concat (map rev samples)) []) = batch_exes env exe samples"
    "vals (modify f b (fold (count_exe env exe) (concat (map rev samples)) []))
       = map f (batch_exes env exe samples)" for f
    by (simp_all add: count_exe_fold batch_exes_def vals_def modify_def e)
  show ?thesis
    using assms(2) b c2
    by (intro exI [of _ c2])
       (simp add: process_and_sink_data_def batch_upload_def Let_def s e exes flip: exe_def b')
qed

section \<open>Nodes of a path\<close>

lemma path_nodes_count: "n \<in> set (path_nodes env e p ds) \<Longrightarrow> sample_count n = 1 \<and> executable_id n = e"
  by (induction ds arbitrary: p) (auto simp: node_of_def)

lemma path_nodes_data: "n \<in> set (path_nodes env e p ds) \<Longrightarrow> stack_node_data_id n \<in> set ds"
  by (induction ds arbitrary: p) (auto simp: node_of_def)

lemma path_nodes_parent:
  "n \<in> set (path_nodes env e p ds) \<Longrightarrow>
     parent_id n = p \<or> (\<exists>n' \<in> set (path_nodes env e p ds). parent_id n = Some (node_id n'))"
proof (induction ds arbitrary: p)
  case (Cons d ds)
  let ?p = "Some (child_id env e p d)"
  from Cons.prems consider "n = node_of env e p d" | "n \<in> set (path_nodes env e ?p ds)" by auto
  then show ?case
  proof cases
    case 1
    then show ?thesis by (simp add: node_of_def)
  next
    case 2
    with Cons.IH [of ?p] show ?thesis by (fastforce simp: node_of_def)
  qed
qed simp

lemma batch_nodes_count: "n \<in> set (batch_nodes env e samples) \<Longrightarrow> sample_count n = 1 \<and> executable_id n = e"
  by (auto simp: batch_nodes_def sample_nodes_def dest: path_nodes_count)

lemma batch_nodes_parent:
  "n \<in> set (batch_nodes env e samples) \<Longrightarrow> parent_id n = Some p \<Longrightarrow>
     \<exists>n' \<in> set (batch_nodes env e samples). p = node_id n'"
  using path_nodes_parent by (fastforce simp: batch_nodes_def sample_nodes_def)

lemma batch_nodes_data:
  "n \<in> set (batch_nodes env e samples) \<Longrightarrow> \<exists>d \<in> set (batch_datas env samples). stack_node_data_id n = data_id d"
  by (auto simp: batch_nodes_def sample_nodes_def batch_datas_def frame_ids_def dest!: path_nodes_data)
     blast

lemma batch_nodes_ne: "n \<in> set (batch_nodes env e samples) \<Longrightarrow> concat samples \<noteq> []"
  by (force simp: batch_nodes_def sample_nodes_def sample_path_def)

section \<open>The posted rows\<close>

lemma add_nodes_rows:
  assumes "\<And>n. n \<in> set ns \<Longrightarrow> sample_count n = 1"
  shows "n \<in> set (vals (add_nodes ns [])) \<longleftrightarrow>
    (\<exists>n0. find (\<lambda>m. node_id m = node_id n) ns = Some n0
       \<and> n = n0\<lparr>sample_count := of_nat (count_list (map node_id ns) (node_id n))\<rparr>)"
proof -
  have wf: "wf_map (add_nodes ns [])" by (simp add: wf_map_add)
  have "map_of (add_nodes ns []) k = Some n \<Longrightarrow> node_id n = k" for k
    using find_SomeD [of "\<lambda>m. node_id m = k" ns] by (auto simp: map_of_add_nodes [OF assms])
  then have "n \<in> set (vals (add_nodes ns [])) \<longleftrightarrow> map_of (add_nodes ns []) (node_id n) = Some n"
    by (auto simp: set_vals [OF wf])
  then show ?thesis by (auto simp: map_of_add_nodes [OF assms])
qed

lemma add_nodes_row:
  assumes "\<And>n. n \<in> set ns \<Longrightarrow> sample_count n = 1" "n \<in> set (vals (add_nodes ns []))"
  shows "\<exists>n0 \<in> set ns. \<exists>c. n = n0\<lparr>sample_count := c\<rparr>"
  using assms(2) add_nodes_rows [OF assms(1), of ns n] by (blast dest: find_SomeD)

lemma add_nodes_ids:
  assumes "\<And>n. n \<in> set ns \<Longrightarrow> sample_count n = 1"
  shows "node_id ` set (vals (add_nodes ns [])) = node_id ` set ns"
proof (intro equalityI subsetI)
  fix i assume "i \<in> node_id ` set (vals (add_nodes ns []))"
  then show "i \<in> node_id ` set ns"
    using add_nodes_rows [OF assms, of ns] by (auto dest!: find_SomeD) (metis image_eqI)
next
  fix i assume "i \<in> node_id ` set ns"
  then obtain m where "m \<in> set ns" "node_id m = i" by auto
  then obtain n0 where n0: "find (\<lambda>m. node_id m = i) ns = Some n0"
    using find_ex [of m ns "\<lambda>m. node_id m = i"] by auto
  let ?n = "n0\<lparr>sample_count := of_nat (count_list (map node_id ns) i)\<rparr>"
  have "node_id ?n = i" using find_SomeD [OF n0] by simp
  moreover from this have "?n \<in> set (vals (add_nodes ns []))"
    using n0 add_nodes_rows [OF assms, of ns ?n] by auto
  ultimately show "i \<in> node_id ` set (vals (add_nodes ns []))" by (metis image_eqI)
qed

lemma add_datas_ids: "data_id ` set (vals (add_datas ds [])) = data_id ` set ds"
proof (intro equalityI subsetI)
  have wf: "wf_map (add_datas ds [])" by (simp add: wf_map_add)
  fix i
  show "i \<in> data_id ` set ds" if "i \<in> data_id ` set (vals (add_datas ds []))"
    using that by (auto simp: set_vals [OF wf] map_of_add_datas dest!: find_SomeD)
  show "i \<in> data_id ` set (vals (add_datas ds []))" if "i \<in> data_id ` set ds"
  proof -
    from that obtain d where "d \<in> set ds" "data_id d = i" by auto
    then obtain d' where d': "find (\<lambda>d. data_id d = i) ds = Some d'"
      using find_ex [of d ds "\<lambda>d. data_id d = i"] by auto
    then have "d' \<in> set (vals (add_datas ds []))"
      by (auto simp: set_vals [OF wf] map_of_add_datas)
    then show ?thesis using find_SomeD [OF d'] by (metis image_eqI)
  qed
qed

text \<open>Every row sits under its own id, so the ids of the rows are the keys of the map.\<close>

lemma vals_keys_upsert:
  "map g (vals m) = map fst m \<Longrightarrow> (\<And>v. g (f v) = g v) \<Longrightarrow> g d = k \<Longrightarrow>
     map g (vals (upsert f d k m)) = map fst (upsert f d k m)"
  by (induction f d k m rule: upsert.induct) (force simp: vals_def)+

lemma add_nodes_keys: "map node_id (vals (add_nodes ns [])) = map fst (add_nodes ns [])"
proof (induction ns rule: rev_induct)
  case (snoc n ns)
  then show ?case
    unfolding add_nodes_append add_nodes_def [of "[n]"] fold.simps o_apply id_apply
    by (rule vals_keys_upsert) (simp_all add: bump_node_def)
qed (simp add: vals_def)

lemma add_datas_keys: "map data_id (vals (add_datas ds [])) = map fst (add_datas ds [])"
proof (induction ds rule: rev_induct)
  case (snoc d ds)
  then show ?case
    unfolding add_datas_append add_datas_def [of "[d]"] fold.simps o_apply id_apply
    by (rule vals_keys_upsert) simp_all
qed (simp add: vals_def)

section \<open>Referential integrity\<close>

definition sto_integrity :: "StoData \<Rightarrow> bool" where
  "sto_integrity d \<longleftrightarrow>
     distinct (map node_id (stack_nodes d)) \<and> distinct (map data_id (stack_node_datas d))
     \<and> distinct (map exe_id (profiled_binaries d))
     \<and> (\<forall>n \<in> set (stack_nodes d).
          stack_node_data_id n \<in> data_id ` set (stack_node_datas d)
          \<and> executable_id n \<in> exe_id ` set (profiled_binaries d)
          \<and> (\<forall>p. parent_id n = Some p \<longrightarrow> p \<in> node_id ` set (stack_nodes d)))"

lemma batch_upload_integrity: "sto_integrity (upload_data (batch_upload env post samples a name))"
proof -
  define e where "e = batch_id env a name"
  define ns where "ns = batch_nodes env e samples"
  have one: "n \<in> set ns \<Longrightarrow> sample_count n = 1" for n
    by (simp add: ns_def batch_nodes_count)
  have wf: "distinct (map fst (add_nodes ns []))" "distinct (map fst (add_datas (batch_datas env samples) []))"
    using wf_map_add [of "[]"] by (simp_all add: wf_map_def)
  have row: "\<exists>n0 \<in> set ns. parent_id n = parent_id n0 \<and> stack_node_data_id n = stack_node_data_id n0
      \<and> executable_id n = executable_id n0" if "n \<in> set (vals (add_nodes ns []))" for n
    using add_nodes_row [OF one that] by auto
  have ne: "concat samples \<noteq> [] \<and> executable_id n0 = e
      \<and> stack_node_data_id n0 \<in> data_id ` set (batch_datas env samples)
      \<and> (\<forall>p. parent_id n0 = Some p \<longrightarrow> p \<in> node_id ` set ns)" if "n0 \<in> set ns" for n0
    using that batch_nodes_ne [of n0 env e samples] batch_nodes_count [of n0 env e samples]
      batch_nodes_data [of n0 env e samples] batch_nodes_parent [of n0 env e samples]
    by (auto simp: ns_def)
  have "stack_node_data_id n \<in> data_id ` set (batch_datas env samples) \<and> executable_id n = e
      \<and> concat samples \<noteq> [] \<and> (\<forall>p. parent_id n = Some p \<longrightarrow> p \<in> node_id ` set ns)"
    if "n \<in> set (vals (add_nodes ns []))" for n
    using row [OF that] ne by (metis)
  moreover have "vals (add_nodes ns []) = []" if "concat samples = []"
    using that ne by (cases ns) (auto simp: vals_def)
  ultimately show ?thesis
    using wf
    by (cases "concat samples = []")
       (simp_all add: sto_integrity_def batch_upload_def Let_def add_nodes_keys add_datas_keys
         add_nodes_ids [OF one] add_datas_ids batch_exes_def counted_exe_def batch_executable_def
         flip: e_def ns_def)
qed

text \<open>
  C14. For a named binary the function always returns and posts data that is closed under its own
  references: the ids of each table are distinct, and the parent, the frame data and the executable of
  every posted node are posted with it.
\<close>

theorem upload_integrity:
  assumes "reachable_caches env c" "binary a = Some name"
  shows "\<exists>up c'. process_and_sink_data env post samples a c = Inr (up, c')
    \<and> upload_url up = url a \<and> sto_integrity (upload_data up)"
  using process_and_sink_data_ok [OF reachable_caches_ok [OF assms(1)] assms(2), of post samples]
    batch_upload_integrity by (auto simp: batch_upload_def Let_def)

definition demo_args :: Args where
  "demo_args = \<lparr>arg_pid = 1, total_samples = 100000, event_type = Cycles, sample_freq = 100000,
     binary = Some ''demo'', version = None, url = ''http://localhost:8000/data/samples''\<rparr>"

definition demo_frame :: "string \<Rightarrow> SymbolizedResult" where
  "demo_frame s = \<lparr>frame_symbol = s, path = '' '', line_no = 22\<rparr>"

theorem upload_integrity_witness:
  "\<exists>up c'. process_and_sink_data demo_env (\<lambda>u d. PostOk)
       [[[demo_frame ''work''], [demo_frame ''main'']]] demo_args empty_caches = Inr (up, c')
     \<and> upload_url up = url demo_args \<and> sto_integrity (upload_data up)"
  by (rule upload_integrity [where name = "''demo''"])
     (auto intro: reachable_caches.start simp: demo_args_def)

section \<open>The prefix tree\<close>

text \<open>A path's nodes are its non-empty prefixes: the node after \<open>k + 1\<close> frames has the id of that prefix.\<close>

lemma path_end_snoc: "path_end env e p (ds @ [d]) = Some (child_id env e (path_end env e p ds) d)"
  by (simp add: path_end_append)

lemma path_nodes_nth:
  "k < length ds \<Longrightarrow>
     path_nodes env e p ds ! k = node_of env e (path_end env e p (take k ds)) (ds ! k)"
  by (induction ds arbitrary: p k) (auto simp: nth_Cons split: nat.split)

lemma length_path_nodes [simp]: "length (path_nodes env e p ds) = length ds"
  by (induction ds arbitrary: p) simp_all

lemma batch_nodes_length: "length (batch_nodes env e samples) = length (concat (concat samples))"
  by (induction samples)
     (simp_all add: batch_nodes_def sample_nodes_def sample_path_def frame_ids_def length_concat
       rev_map [symmetric] sum_list_rev)

lemma path_nodes_nth_id:
  "k < length ds \<Longrightarrow>
     Some (node_id (path_nodes env e p ds ! k)) = path_end env e p (take (Suc k) ds)"
  by (simp add: path_nodes_nth take_Suc_conv_app_nth path_end_snoc node_of_def)

lemma path_end_ne: "ds \<noteq> [] \<Longrightarrow> \<exists>i. path_end env e p ds = Some i"
  by (cases ds rule: rev_cases) (simp_all add: path_end_snoc)

lemma count_list_nth: "count_list xs x = card {k. k < length xs \<and> xs ! k = x}"
  by (simp add: count_list_eq_length_filter length_filter_conv_card eq_commute)

lemma prefix_positions:
  assumes "p \<noteq> []"
  shows "{k. k < length ds \<and> take (Suc k) ds = p} = (if prefix p ds then {length p - 1} else {})"
proof (cases "prefix p ds")
  case True
  then obtain zs where ds: "ds = p @ zs" by (auto simp: prefix_def)
  have "k = length p - 1" if "k < length ds" "take (Suc k) ds = p" for k
    using that(1) unfolding that(2) [symmetric] by simp
  then show ?thesis using True assms ds by (cases p) (auto simp: less_Suc_eq_le)
next
  case False
  then show ?thesis using take_is_prefix [of _ ds] by auto
qed

text \<open>Under distinct prefix ids a prefix occurs once in each path that extends it and in no other.\<close>

lemma path_count:
  assumes inj: "inj_on (path_end env e None) S"
    and S: "\<And>q. prefix q ds \<Longrightarrow> q \<in> S" "p \<in> S" and p: "p \<noteq> []" "path_end env e None p = Some i"
  shows "count_list (map node_id (path_nodes env e None ds)) i = (if prefix p ds then 1 else 0)"
proof -
  let ?ns = "path_nodes env e None ds"
  have iff: "map node_id ?ns ! k = i \<longleftrightarrow> take (Suc k) ds = p" if k: "k < length ds" for k
  proof -
    have "map node_id ?ns ! k = i \<longleftrightarrow> path_end env e None (take (Suc k) ds) = path_end env e None p"
      using path_nodes_nth_id [OF k, of env e None] p(2) k by auto
    also have "\<dots> \<longleftrightarrow> take (Suc k) ds = p"
      using inj S(1) [OF take_is_prefix] S(2) by (auto dest: inj_onD)
    finally show ?thesis .
  qed
  have "{k. k < length ds \<and> map node_id ?ns ! k = i} = {k. k < length ds \<and> take (Suc k) ds = p}"
    using iff by blast
  also have "\<dots> = (if prefix p ds then {length p - 1} else {})"
    using p(1) by (rule prefix_positions)
  finally have "card {k. k < length ds \<and> map node_id ?ns ! k = i} = (if prefix p ds then 1 else 0)"
    by simp
  then show ?thesis by (simp add: count_list_nth)
qed

definition sample_paths :: "client_env \<Rightarrow> SymbolizedResult list list list \<Rightarrow> i64 list list" where
  "sample_paths env samples = map (\<lambda>s. frame_ids env (sample_path s)) samples"

lemma batch_nodes_paths: "batch_nodes env e samples = concat (map (path_nodes env e None) (sample_paths env samples))"
  by (simp add: batch_nodes_def sample_nodes_def [abs_def] sample_paths_def o_def)

lemma batch_count:
  assumes "inj_on (path_end env e None) {p. \<exists>q \<in> set Q. prefix p q}"
    and "set qs \<subseteq> set Q" "\<exists>q \<in> set Q. prefix p q" "p \<noteq> []" "path_end env e None p = Some i"
  shows "count_list (map node_id (concat (map (path_nodes env e None) qs))) i = length (filter (prefix p) qs)"
  using assms(2)
proof (induction qs)
  case (Cons q qs)
  then have "count_list (map node_id (path_nodes env e None q)) i = (if prefix p q then 1 else 0)"
    using assms by (intro path_count [OF assms(1)]) auto
  with Cons show ?case by simp
qed simp

text \<open>A node of the batch is the last frame of a prefix of a sample.\<close>

lemma batch_node_prefix:
  assumes "n \<in> set (concat (map (path_nodes env e None) Q))"
  obtains p q where "q \<in> set Q" "prefix p q" "p \<noteq> []" "Some (node_id n) = path_end env e None p"
    "n = node_of env e (path_end env e None (butlast p)) (last p)"
proof -
  from assms obtain q where q: "q \<in> set Q" "n \<in> set (path_nodes env e None q)" by auto
  then obtain k where k: "k < length q" "n = path_nodes env e None q ! k"
    by (auto simp: in_set_conv_nth)
  show thesis
  proof (rule that [OF q(1)])
    show "prefix (take (Suc k) q) q" by (rule take_is_prefix)
    show "take (Suc k) q \<noteq> []" using k by auto
    show "Some (node_id n) = path_end env e None (take (Suc k) q)"
      using k by (simp add: path_nodes_nth_id)
    show "n = node_of env e (path_end env e None (butlast (take (Suc k) q))) (last (take (Suc k) q))"
      using k by (simp add: path_nodes_nth take_Suc_conv_app_nth)
  qed
qed

lemma batch_prefix_node:
  assumes "q \<in> set Q" "prefix p q" "p \<noteq> []" "path_end env e None p = Some i"
  shows "\<exists>n \<in> set (concat (map (path_nodes env e None) Q)). node_id n = i"
proof -
  let ?k = "length p - 1"
  have k: "?k < length q" "take (Suc ?k) q = p"
    using assms(2,3) by (cases p, auto simp: prefix_def)+
  then have "node_id (path_nodes env e None q ! ?k) = i"
    using path_nodes_nth_id [OF k(1), of env e None] assms(4) by simp
  moreover have "path_nodes env e None q ! ?k \<in> set (path_nodes env e None q)"
    using k(1) by simp
  ultimately show ?thesis using assms(1) by force
qed

lemma batch_prefix_tree:
  assumes e: "e = batch_id env a name" and Q: "Q = sample_paths env samples"
    and rows: "rows = stack_nodes (upload_data (batch_upload env post samples a name))"
    and inj: "inj_on (path_end env e None) {p. \<exists>q \<in> set Q. prefix p q}"
  shows "p \<noteq> [] \<Longrightarrow> \<exists>q \<in> set Q. prefix p q \<Longrightarrow> \<exists>n \<in> set rows. Some (node_id n) = path_end env e None p
      \<and> parent_id n = path_end env e None (butlast p) \<and> stack_node_data_id n = last p
      \<and> executable_id n = e \<and> sample_count n = of_nat (length (filter (prefix p) Q))"
    and "n \<in> set rows \<Longrightarrow> \<exists>p. p \<noteq> [] \<and> (\<exists>q \<in> set Q. prefix p q) \<and> Some (node_id n) = path_end env e None p"
proof -
  define ns where "ns = concat (map (path_nodes env e None) Q)"
  have rows: "rows = vals (add_nodes ns [])"
    by (simp add: rows batch_upload_def Let_def ns_def Q batch_nodes_paths flip: e)
  have one: "n \<in> set ns \<Longrightarrow> sample_count n = 1" for n
    using batch_nodes_count [of n env e samples] by (simp add: ns_def Q batch_nodes_paths)
  show "\<exists>n \<in> set rows. Some (node_id n) = path_end env e None p
      \<and> parent_id n = path_end env e None (butlast p) \<and> stack_node_data_id n = last p
      \<and> executable_id n = e \<and> sample_count n = of_nat (length (filter (prefix p) Q))"
    if p: "p \<noteq> []" "\<exists>q \<in> set Q. prefix p q"
  proof -
    obtain i where i: "path_end env e None p = Some i" using path_end_ne [OF p(1)] by blast
    obtain n0 where n0: "find (\<lambda>n. node_id n = i) ns = Some n0"
      using batch_prefix_node [OF _ _ p(1) i] p(2) find_ex [of _ ns "\<lambda>n. node_id n = i"]
      unfolding ns_def by metis
    then have "n0 \<in> set (concat (map (path_nodes env e None) Q))" "node_id n0 = i"
      using find_SomeD [OF n0] by (simp_all add: ns_def)
    then obtain p' q' where p': "q' \<in> set Q" "prefix p' q'" "Some i = path_end env e None p'"
      "n0 = node_of env e (path_end env e None (butlast p')) (last p')"
      by (elim batch_node_prefix) simp
    with inj i p(2) have "p' = p" by (intro inj_onD [OF inj]) auto
    have "count_list (map node_id ns) i = length (filter (prefix p) Q)"
      unfolding ns_def using inj subset_refl p(2,1) i by (rule batch_count)
    then have "n0\<lparr>sample_count := of_nat (length (filter (prefix p) Q))\<rparr> \<in> set (vals (add_nodes ns []))"
      using add_nodes_rows [OF one, of ns "n0\<lparr>sample_count := of_nat (length (filter (prefix p) Q))\<rparr>"]
        n0 \<open>node_id n0 = i\<close> by auto
    then show ?thesis
      unfolding rows using p' \<open>p' = p\<close> \<open>node_id n0 = i\<close> i by (intro bexI) (auto simp: node_of_def)
  qed
  show "\<exists>p. p \<noteq> [] \<and> (\<exists>q \<in> set Q. prefix p q) \<and> Some (node_id n) = path_end env e None p"
    if "n \<in> set rows"
  proof -
    from add_nodes_row [OF one that [unfolded rows]] obtain n0 where "n0 \<in> set ns" "node_id n = node_id n0" by auto
    then show ?thesis unfolding ns_def by (metis batch_node_prefix)
  qed
qed

text \<open>
  C3. When the hash separates the stack prefixes that occur, the posted nodes are exactly the tree of
  those prefixes: every non-empty prefix of a sampled stack has one node, whose parent is the node
  of the prefix without its last frame, whose data is that frame's, and whose count is the number
  of samples whose stack starts with the prefix.
\<close>

theorem prefix_tree:
  assumes "reachable_caches env c" "binary a = Some name"
    and e: "e = batch_id env a name" and Q: "Q = sample_paths env samples"
    and inj: "inj_on (path_end env e None) {p. \<exists>q \<in> set Q. prefix p q}"
  shows "\<exists>up c'. process_and_sink_data env post samples a c = Inr (up, c')
    \<and> (\<forall>p. p \<noteq> [] \<and> (\<exists>q \<in> set Q. prefix p q) \<longrightarrow>
         (\<exists>n \<in> set (stack_nodes (upload_data up)).
            Some (node_id n) = path_end env e None p
            \<and> parent_id n = path_end env e None (butlast p) \<and> stack_node_data_id n = last p
            \<and> executable_id n = e \<and> sample_count n = of_nat (length (filter (prefix p) Q))))
    \<and> (\<forall>n \<in> set (stack_nodes (upload_data up)).
         \<exists>p. p \<noteq> [] \<and> (\<exists>q \<in> set Q. prefix p q) \<and> Some (node_id n) = path_end env e None p)"
proof -
  obtain c' where c': "process_and_sink_data env post samples a c
      = Inr (batch_upload env post samples a name, c')"
    using process_and_sink_data_ok [OF reachable_caches_ok [OF assms(1)] assms(2)] by blast
  show ?thesis
    unfolding c' using batch_prefix_tree [where post = post, OF e Q refl inj] by auto
qed

text \<open>Two samples, \<^verbatim>\<open>main\<close> calling \<^verbatim>\<open>work\<close> and \<^verbatim>\<open>main\<close> alone: the node of \<^verbatim>\<open>main\<close> is counted twice.\<close>

definition demo_samples :: "SymbolizedResult list list list" where
  "demo_samples = [[[demo_frame ''work''], [demo_frame ''main'']], [[demo_frame ''main'']]]"

lemma demo_paths: "sample_paths demo_env demo_samples = [[545, 575], [545]]"
  by code_simp

lemma demo_ends:
  "path_end demo_env (batch_id demo_env demo_args ''demo'') None [545] = Some 201"
  "path_end demo_env (batch_id demo_env demo_args ''demo'') None [545, 575] = Some 432"
  by code_simp+

lemma demo_inj:
  "inj_on (path_end demo_env (batch_id demo_env demo_args ''demo'') None)
     {p. \<exists>q \<in> set (sample_paths demo_env demo_samples). prefix p q}"
proof -
  have "{p. \<exists>q \<in> set (sample_paths demo_env demo_samples). prefix p q} = {[], [545], [545, 575]}"
    by (auto simp: demo_paths prefix_Cons)
  then show ?thesis by (simp add: demo_ends path_end.simps(1) del: path_end.simps(2))
qed

lemma demo_name: "binary demo_args = Some ''demo''"
  by (simp add: demo_args_def)

theorem prefix_tree_witness:
  "\<exists>up c'. process_and_sink_data demo_env (\<lambda>u d. PostOk) demo_samples demo_args empty_caches = Inr (up, c')
    \<and> (\<exists>n \<in> set (stack_nodes (upload_data up)). node_id n = 201 \<and> parent_id n = None \<and> sample_count n = 2)
    \<and> (\<exists>n \<in> set (stack_nodes (upload_data up)). node_id n = 432 \<and> parent_id n = Some 201 \<and> sample_count n = 1)"
proof -
  let ?e = "batch_id demo_env demo_args ''demo''"
  from prefix_tree [OF reachable_caches.start demo_name refl refl demo_inj, of "\<lambda>u d. PostOk"]
  obtain up c' where up: "process_and_sink_data demo_env (\<lambda>u d. PostOk) demo_samples demo_args empty_caches
      = Inr (up, c')"
    and row: "\<forall>p. p \<noteq> [] \<and> (\<exists>q \<in> set (sample_paths demo_env demo_samples). prefix p q) \<longrightarrow>
         (\<exists>n \<in> set (stack_nodes (upload_data up)).
            Some (node_id n) = path_end demo_env ?e None p
            \<and> parent_id n = path_end demo_env ?e None (butlast p) \<and> stack_node_data_id n = last p
            \<and> executable_id n = ?e
            \<and> sample_count n = of_nat (length (filter (prefix p) (sample_paths demo_env demo_samples))))"
    by (elim exE conjE)
  have "\<exists>n \<in> set (stack_nodes (upload_data up)). node_id n = 201 \<and> parent_id n = None \<and> sample_count n = 2"
    using row [rule_format, of "[545]"]
    by (auto simp: demo_paths demo_ends path_end.simps(1) simp del: path_end.simps(2))
  moreover have "\<exists>n \<in> set (stack_nodes (upload_data up)). node_id n = 432 \<and> parent_id n = Some 201 \<and> sample_count n = 1"
    using row [rule_format, of "[545, 575]"]
    by (auto simp: demo_paths demo_ends path_end.simps(1) simp del: path_end.simps(2))
  ultimately show ?thesis using up by blast
qed

section \<open>Totals\<close>

lemma upsert_total:
  assumes "sample_count n = 1"
  shows "sum_list (map sample_count (vals (upsert bump_node n k m))) = sum_list (map sample_count (vals m)) + 1"
  using assms by (induction m) (auto simp: vals_def bump_node_def)

lemma add_nodes_total:
  assumes "\<And>n. n \<in> set ns \<Longrightarrow> sample_count n = 1"
  shows "sum_list (map sample_count (vals (add_nodes ns []))) = of_nat (length ns)"
  using assms
proof (induction ns rule: rev_induct)
  case (snoc n ns)
  then show ?case
    by (simp add: add_nodes_append add_nodes_def [of "[n]"] upsert_total)
qed (simp add: vals_def)

text \<open>
  C18. Nothing is lost or counted twice whatever the hash does: the counts of the posted nodes add up to the
  number of frames in the batch, and the one posted executable row counts the addresses of the batch
  and their raw size; a batch without addresses posts no row.
\<close>

theorem upload_totals:
  assumes "reachable_caches env c" "binary a = Some name"
  shows "\<exists>up c'. process_and_sink_data env post samples a c = Inr (up, c')
    \<and> sum_list (map sample_count (stack_nodes (upload_data up)))
        = of_nat (length (concat (concat samples)))
    \<and> map (\<lambda>x. (basename x, exe_sample_count x, raw_data_size x)) (profiled_binaries (upload_data up))
        = (if concat samples = [] then []
           else [(name, of_nat (length (concat samples)),
                  sum_list (map (stack_deep_size env) (concat (map rev samples))))])"
proof -
  let ?ns = "batch_nodes env (batch_id env a name) samples"
  have "length ?ns = length (concat (concat samples))"
    by (rule batch_nodes_length)
  moreover have "length (concat (map rev samples)) = length (concat samples)"
    by (induction samples) simp_all
  moreover have "sum_list (map sample_count (vals (add_nodes ?ns []))) = of_nat (length ?ns)"
    by (rule add_nodes_total) (simp add: batch_nodes_count)
  ultimately show ?thesis
    using process_and_sink_data_ok [OF reachable_caches_ok [OF assms(1)] assms(2), of post samples]
    by (auto simp: batch_upload_def Let_def batch_exes_def counted_exe_def batch_executable_def)
qed

theorem upload_totals_witness:
  "\<exists>up c'. process_and_sink_data demo_env (\<lambda>u d. PostOk) demo_samples demo_args empty_caches = Inr (up, c')
    \<and> sum_list (map sample_count (stack_nodes (upload_data up))) = 3"
  using upload_totals [OF reachable_caches.start, of demo_args "''demo''" demo_env "\<lambda>u d. PostOk" demo_samples]
  by (auto simp: demo_args_def demo_samples_def)

end
