(* ===== verification/Server_Ingest.thy ===== *)
theory Server_Ingest
  imports Server_Db Client_Tree
begin

text \<open>
  Ingestion, \<^verbatim>\<open>data_ingest\<close> of \<^verbatim>\<open>src/src/bin/server.rs\<close>: the invariant of the database under every
  interleaving of requests, what a request adds to the stored counts, and that what the client posts
  is accepted.
\<close>

section \<open>The invariant\<close>

definition data_index :: "(i64, StackNodeData) hash_map \<Rightarrow> bool" where
  "data_index t \<longleftrightarrow> (\<forall>(k, x) \<in> set t. \<forall>(k', y) \<in> set t. same_content x y \<longrightarrow> k = k')"

definition db_ok :: "db \<Rightarrow> bool" where
  "db_ok d \<longleftrightarrow>
     keyed data_id (stack_node_data_table d) \<and> data_index (stack_node_data_table d)
     \<and> keyed exe_id (executable_table d) \<and> (\<forall>x \<in> set (vals (executable_table d)). created_at x \<noteq> None)
     \<and> keyed node_id (stack_node_table d) \<and> foreign_keys d"

lemma same_content_sym: "same_content x y \<Longrightarrow> same_content y x"
  unfolding same_content_def by metis

lemma insert_datas_ok:
  "keyed data_id t \<Longrightarrow> data_index t \<Longrightarrow> keyed data_id (insert_datas rs t) \<and> data_index (insert_datas rs t)"
proof (induction rs arbitrary: t)
  case (Cons r rs)
  show ?case
  proof (cases "data_id r \<in> fst ` set t \<or> (\<exists>x \<in> set (vals t). same_content x r)")
    case True
    then show ?thesis using Cons by auto
  next
    case False
    then have "keyed data_id (t @ [(data_id r, r)])"
      using Cons.prems(1) by (intro keyed_snoc) (auto simp: map_of_eq_None_iff)
    moreover have no: "\<not> same_content x r" "\<not> same_content r x" if "(k, x) \<in> set t" for k x
      using False that same_content_sym [of r x] by (force simp: vals_def)+
    have "data_index (t @ [(data_id r, r)])"
      using Cons.prems(2) no unfolding data_index_def
      by (simp add: ball_Un case_prod_unfold) (metis prod.collapse)
    ultimately show ?thesis using Cons.IH False by auto
  qed
qed simp

lemma insert_datas_keys: "fst ` set t \<subseteq> fst ` set (insert_datas rs t)"
proof (induction rs arbitrary: t)
  case (Cons r rs)
  have "fst ` set (t @ [(data_id r, r)]) \<subseteq> fst ` set (insert_datas rs (t @ [(data_id r, r)]))"
    by (rule Cons.IH)
  then show ?case using Cons.IH [of t] by auto
qed simp

lemma foreign_keys_mono:
  assumes "foreign_keys d" "stack_node_table d' = stack_node_table d"
    and "fst ` set (stack_node_data_table d) \<subseteq> fst ` set (stack_node_data_table d')"
    and "fst ` set (executable_table d) \<subseteq> fst ` set (executable_table d')"
  shows "foreign_keys d'"
  using assms(1,3,4) unfolding foreign_keys_def assms(2) by blast

lemma data_tx_ok: "data_tx rows d = Inr d' \<Longrightarrow> db_ok d \<Longrightarrow> db_ok d'"
  using foreign_keys_mono [of d d'] insert_datas_ok insert_datas_keys
  by (auto simp: data_tx_def Let_def db_ok_def split: option.splits if_splits)

lemma exe_tx_ok:
  assumes "exe_tx clock tx rows d = Inr d'" "db_ok d"
  shows "db_ok d'"
proof -
  define rs where "rs = map (\<lambda>(i, pb). exe_row (clock i) tx pb)
    (zip [0..<length (take (BIND_LIMIT div 4) rows)] (take (BIND_LIMIT div 4) rows))"
  from assms(1) obtain t where t: "upsert_rows exe_id merge_executable rs (executable_table d) = Inr t"
    and d': "d' = d\<lparr>executable_table := t\<rparr>"
    by (auto simp: exe_tx_def Let_def rs_def split: option.splits if_splits sum.splits)
  have "created_at x \<noteq> None" if "x \<in> set rs" for x
    using that by (auto simp: rs_def exe_row_def)
  then have "created_at x \<noteq> None" if "x \<in> set (vals t)" for x
    using executable_samples.upsert_same [OF t] assms(2) that by (force simp: db_ok_def)
  moreover have "foreign_keys d'"
    using assms(2) executable_samples.upsert_keys [OF t] foreign_keys_mono [of d d']
    by (simp add: db_ok_def d')
  ultimately show ?thesis
    using assms(2) executable_samples.upsert_keyed [OF t] by (simp add: db_ok_def d')
qed

lemma node_tx_ok: "node_tx rows d = Inr d' \<Longrightarrow> db_ok d \<Longrightarrow> db_ok d'"
  using node_samples.upsert_keyed
  by (auto simp: node_tx_def Let_def db_ok_def split: option.splits if_splits sum.splits)

text \<open>
  Requests run concurrently; each transaction is atomic.  A database is reachable by any sequence of
  committed transactions, of whichever requests and with whatever rows.
\<close>

inductive reachable_db :: "db \<Rightarrow> bool" where
  empty: "reachable_db empty_db"
| data: "reachable_db d \<Longrightarrow> data_tx rows d = Inr d' \<Longrightarrow> reachable_db d'"
| executable: "reachable_db d \<Longrightarrow> exe_tx clock tx erows d = Inr d' \<Longrightarrow> reachable_db d'"
| node: "reachable_db d \<Longrightarrow> node_tx nrows d = Inr d' \<Longrightarrow> reachable_db d'"

lemma db_ok_empty [simp]: "db_ok empty_db"
  by (simp add: db_ok_def empty_db_def data_index_def foreign_keys_def vals_def)

lemma reachable_db_ok: "reachable_db d \<Longrightarrow> db_ok d"
  by (induction rule: reachable_db.induct) (auto dest: data_tx_ok exe_tx_ok node_tx_ok)

lemma data_ingest_reachable: "reachable_db d \<Longrightarrow> reachable_db (snd (data_ingest clock tx data d))"
  by (auto simp: data_ingest_def split: sum.splits)
     (metis reachable_db.data reachable_db.executable reachable_db.node)+

section \<open>What a request stores\<close>

lemma upsert_rows_defined:
  assumes "\<And>r old. r \<in> set rs \<Longrightarrow> map_of t (key r) = Some old \<Longrightarrow> \<exists>new. merge old r = Inr new"
    and "distinct (map key rs)"
  shows "\<exists>t'. upsert_rows key merge rs t = Inr t'"
  using assms
proof (induction rs arbitrary: t)
  case (Cons r rs)
  have later: "map_of t1 (key r') = map_of t (key r')"
    if "r' \<in> set rs" "t1 = t @ [(key r, r)] \<or> t1 = modify (\<lambda>_. new) (key r) t" for r' t1 new
  proof -
    have "key r \<notin> key ` set rs" using Cons.prems(2) by simp
    with that(1) have "key r' \<noteq> key r" by (metis imageI)
    then show ?thesis using that(2) by (auto simp: map_of_modify map_add_def split: option.split)
  qed
  have rest: "\<exists>t'. upsert_rows key merge rs t1 = Inr t'"
    if "t1 = t @ [(key r, r)] \<or> t1 = modify (\<lambda>_. new) (key r) t" for t1 new
    using Cons.IH [of t1] Cons.prems later [OF _ that] by simp
  show ?case
  proof (cases "map_of t (key r)")
    case None
    then show ?thesis using rest by simp
  next
    case (Some old)
    with Cons.prems(1) obtain new where "merge old r = Inr new" by fastforce
    then show ?thesis using Some rest [OF disjI2 [OF refl], of new] by simp
  qed
qed simp

lemma posted_count_exe_row:
  assumes "\<And>n x. count (exe_row n tx x) = count x"
  shows "posted_count exe_id count (map (\<lambda>(i, pb). exe_row (clock i) tx pb) (zip [k..<k + length xs] xs)) j
    = posted_count exe_id count xs j"
proof (induction xs arbitrary: k)
  case (Cons x xs)
  have "[k..<k + length (x # xs)] = k # [Suc k..<Suc k + length xs]"
    by (subst upt_conv_Cons) simp_all
  then show ?case using Cons.IH [of "Suc k"] assms
    by (simp add: posted_count_def exe_row_def del: upt_Suc)
qed (simp add: posted_count_def)

lemma data_tx_tables:
  "data_tx rows d = Inr d' \<Longrightarrow> executable_table d' = executable_table d \<and> stack_node_table d' = stack_node_table d"
  by (auto simp: data_tx_def Let_def split: option.splits if_splits)

lemma exe_tx_tables:
  assumes "exe_tx clock tx rows d = Inr d'"
  shows "stack_node_table d' = stack_node_table d" "stack_node_data_table d' = stack_node_data_table d"
    and "stored_count exe_sample_count (executable_table d') i =
      stored_count exe_sample_count (executable_table d) i + posted_count exe_id exe_sample_count (take 16383 rows) i"
    and "stored_count raw_data_size (executable_table d') i =
      stored_count raw_data_size (executable_table d) i + posted_count exe_id raw_data_size (take 16383 rows) i"
    and "stored_count processed_data_size (executable_table d') i =
      stored_count processed_data_size (executable_table d) i
      + posted_count exe_id processed_data_size (take 16383 rows) i"
proof -
  define rs where "rs = map (\<lambda>(i, pb). exe_row (clock i) tx pb)
    (zip [0..<length (take 16383 rows)] (take 16383 rows))"
  have lim: "BIND_LIMIT div 4 = 16383" by (simp add: BIND_LIMIT_def)
  from assms obtain t where t: "upsert_rows exe_id merge_executable rs (executable_table d) = Inr t"
    and d': "d' = d\<lparr>executable_table := t\<rparr>"
    by (auto simp: exe_tx_def lim Let_def rs_def split: option.splits if_splits sum.splits)
  then show "stack_node_table d' = stack_node_table d" "stack_node_data_table d' = stack_node_data_table d"
    by simp_all
  note count = posted_count_exe_row [where tx = tx and clock = clock and k = 0 and xs = "take 16383 rows" and j = i,
      unfolded add_0, folded rs_def]
  show "stored_count exe_sample_count (executable_table d') i =
      stored_count exe_sample_count (executable_table d) i + posted_count exe_id exe_sample_count (take 16383 rows) i"
    "stored_count raw_data_size (executable_table d') i =
      stored_count raw_data_size (executable_table d) i + posted_count exe_id raw_data_size (take 16383 rows) i"
    "stored_count processed_data_size (executable_table d') i =
      stored_count processed_data_size (executable_table d) i
      + posted_count exe_id processed_data_size (take 16383 rows) i"
    using executable_samples.upsert_counts [OF t, of i] executable_raw.upsert_counts [OF t, of i]
      executable_processed.upsert_counts [OF t, of i]
    by (simp_all add: d' count exe_row_def)
qed

lemma node_tx_tables:
  assumes "node_tx rows d = Inr d'"
  shows "executable_table d' = executable_table d"
    and "stored_count sample_count (stack_node_table d') i =
      stored_count sample_count (stack_node_table d) i + posted_count node_id sample_count (take 16383 rows) i"
  using assms node_samples.upsert_counts [of "take 16383 rows" "stack_node_table d" _ i]
  by (auto simp: node_tx_def Let_def BIND_LIMIT_def split: option.splits if_splits sum.splits)

section \<open>What the client posts\<close>

definition data_ids_from :: "client_env \<Rightarrow> StackNodeData list \<Rightarrow> bool" where
  "data_ids_from env ds \<longleftrightarrow> (\<forall>x \<in> set ds. data_id x = id_of_data env x)"

text \<open>A batch within the limits of the statements and of the stored counters.\<close>

definition sto_fits :: "StoData \<Rightarrow> bool" where
  "sto_fits s \<longleftrightarrow>
     length (stack_nodes s) \<le> 16383 \<and> length (stack_node_datas s) \<le> 16383
     \<and> (\<forall>x \<in> set (stack_node_datas s). text_ok (symbol x) \<and> opt_text_ok (data_file x))
     \<and> (\<forall>x \<in> set (profiled_binaries s).
          text_ok (exe_event x) \<and> opt_text_ok (build_id x) \<and> text_ok (basename x))"

definition counters_fit :: "StoData \<Rightarrow> db \<Rightarrow> bool" where
  "counters_fit s d \<longleftrightarrow>
     (\<forall>n \<in> set (stack_nodes s). \<forall>old. map_of (stack_node_table d) (node_id n) = Some old \<longrightarrow>
        (\<exists>new. merge_node old n = Inr new))
     \<and> (\<forall>x \<in> set (profiled_binaries s). \<forall>old. map_of (executable_table d) (exe_id x) = Some old \<longrightarrow>
        (\<exists>new. merge_executable old x = Inr new))"

lemma same_content_id: "same_content x y \<Longrightarrow> id_of_data env x = id_of_data env y"
  by (auto simp: same_content_def id_of_data_def)

lemma insert_datas_contains:
  assumes "data_ids_from env (vals t)" "data_ids_from env rs" "keyed data_id t"
  shows "data_id ` set rs \<subseteq> fst ` set (insert_datas rs t)"
  using assms
proof (induction rs arbitrary: t)
  case (Cons r rs)
  have r: "data_id r \<in> fst ` set t" if "x \<in> set (vals t)" "same_content x r" for x
  proof -
    have "data_id x = data_id r"
      using Cons.prems(1,2) that same_content_id [OF that(2)] by (simp add: data_ids_from_def)
    then show ?thesis using that(1) Cons.prems(3) by (force simp: vals_def keyed_def)
  qed
  show ?case
  proof (cases "data_id r \<in> fst ` set t")
    case True
    then show ?thesis
      using Cons.IH [of t] Cons.prems insert_datas_keys [of t rs] by (auto simp: data_ids_from_def)
  next
    case False
    then have "map_of t (data_id r) = None" by (auto simp: map_of_eq_None_iff)
    then have "data_id ` set rs \<subseteq> fst ` set (insert_datas rs (t @ [(data_id r, r)]))"
      using Cons.prems by (intro Cons.IH keyed_snoc) (auto simp: data_ids_from_def vals_def)
    moreover have "data_id r \<in> fst ` set (insert_datas rs (t @ [(data_id r, r)]))"
      using insert_datas_keys [of "t @ [(data_id r, r)]" rs] by auto
    moreover have "\<not> (data_id r \<in> fst ` set t \<or> (\<exists>x \<in> set (vals t). same_content x r))"
      using False r by blast
    ultimately show ?thesis by simp
  qed
qed simp

lemma data_of_id: "data_id (data_of env fr) = id_of_data env (data_of env fr)"
  by (simp add: data_of_def Let_def id_of_data_def)

lemma batch_data_ids: "data_ids_from env (stack_node_datas (upload_data (batch_upload env post samples a name)))"
proof -
  have wf: "wf_map (add_datas (batch_datas env samples) [])" by (simp add: wf_map_add)
  have "data_id x = id_of_data env x" if "x \<in> set (vals (add_datas (batch_datas env samples) []))" for x
  proof -
    have "x \<in> set (batch_datas env samples)"
      using that by (auto simp: set_vals [OF wf] map_of_add_datas dest: find_SomeD)
    then show ?thesis by (auto simp: batch_datas_def data_of_id)
  qed
  then show ?thesis by (simp add: data_ids_from_def batch_upload_def Let_def)
qed

text \<open>Any batch with the client's integrity is accepted by a database whose frame data has the client's ids.\<close>

lemma node_tx_accepts:
  assumes "db_ok d" "length rows \<le> 16383" "rows \<noteq> []" "distinct (map node_id rows)"
    and "\<And>n old. n \<in> set rows \<Longrightarrow> map_of (stack_node_table d) (node_id n) = Some old \<Longrightarrow>
          \<exists>new. merge_node old n = Inr new"
    and refs: "\<And>n. n \<in> set rows \<Longrightarrow> stack_node_data_id n \<in> fst ` set (stack_node_data_table d)
          \<and> executable_id n \<in> fst ` set (executable_table d)
          \<and> (\<forall>p. parent_id n = Some p \<longrightarrow> p \<in> node_id ` set rows)"
  shows "\<exists>d'. node_tx rows d = Inr d'"
proof -
  obtain t where t: "upsert_rows node_id merge_node rows (stack_node_table d) = Inr t"
    using upsert_rows_defined [of rows "stack_node_table d" node_id merge_node] assms(4,5) by blast
  have keys: "fst ` set t = fst ` set (stack_node_table d) \<union> node_id ` set rows"
    by (rule node_samples.upsert_keys [OF t])
  have "foreign_keys (d\<lparr>stack_node_table := t\<rparr>)"
    unfolding foreign_keys_def
  proof
    fix n assume "n \<in> set (vals (stack_node_table (d\<lparr>stack_node_table := t\<rparr>)))"
    then obtain m where "m \<in> set (vals (stack_node_table d)) \<or> m \<in> set rows"
      and m: "parent_id n = parent_id m" "stack_node_data_id n = stack_node_data_id m"
        "executable_id n = executable_id m"
      using node_samples.upsert_same [OF t] by fastforce
    then show "(case parent_id n of None \<Rightarrow> True
          | Some p \<Rightarrow> p \<in> fst ` set (stack_node_table (d\<lparr>stack_node_table := t\<rparr>)))
        \<and> stack_node_data_id n \<in> fst ` set (stack_node_data_table (d\<lparr>stack_node_table := t\<rparr>))
        \<and> executable_id n \<in> fst ` set (executable_table (d\<lparr>stack_node_table := t\<rparr>))"
      using assms(1) refs [of m] unfolding db_ok_def foreign_keys_def
      by (auto simp: keys split: option.splits)
  qed
  then show ?thesis
    using assms(2-4) t by (simp add: node_tx_def check_values_def BIND_LIMIT_def)
qed

lemma data_tx_accepts:
  assumes "length rows \<le> 16383" "rows \<noteq> []" "\<forall>x \<in> set rows. text_ok (symbol x) \<and> opt_text_ok (data_file x)"
  shows "data_tx rows d = Inr (d\<lparr>stack_node_data_table := insert_datas rows (stack_node_data_table d)\<rparr>)"
  using assms by (simp add: data_tx_def check_values_def BIND_LIMIT_def)

lemma exe_tx_accepts:
  assumes "\<forall>x \<in> set [pb]. text_ok (exe_event x) \<and> opt_text_ok (build_id x) \<and> text_ok (basename x)"
    and "\<And>old. map_of (executable_table d) (exe_id pb) = Some old \<Longrightarrow> \<exists>new. merge_executable old pb = Inr new"
  shows "\<exists>d'. exe_tx clock tx [pb] d = Inr d' \<and> exe_id pb \<in> fst ` set (executable_table d')"
proof -
  have merge: "\<exists>new'. merge_executable old (exe_row n tx pb) = Inr new'" if "merge_executable old pb = Inr new"
    for old new n
    using that by (auto simp: merge_executable_def exe_row_def split: sum.splits)
  have "\<exists>t. upsert_rows exe_id merge_executable [exe_row (clock 0) tx pb] (executable_table d) = Inr t"
    using assms(2) merge by (intro upsert_rows_defined) (force simp: exe_row_def)+
  then obtain t where t:
    "upsert_rows exe_id merge_executable [exe_row (clock 0) tx pb] (executable_table d) = Inr t" ..
  have "exe_tx clock tx [pb] d = Inr (d\<lparr>executable_table := t\<rparr>)"
    using assms(1) t by (simp add: exe_tx_def check_values_def BIND_LIMIT_def exe_row_def)
  then show ?thesis
    using executable_samples.upsert_keys [OF t] by (simp add: exe_row_def)
qed

lemma insert_datas_from:
  "data_ids_from env (vals t) \<Longrightarrow> data_ids_from env rs \<Longrightarrow> data_ids_from env (vals (insert_datas rs t))"
proof (induction rs arbitrary: t)
  case (Cons r rs)
  then have "data_ids_from env (vals (insert_datas rs t))"
    "data_ids_from env (vals (insert_datas rs (t @ [(data_id r, r)])))"
    by (intro Cons.IH; simp add: data_ids_from_def vals_def ball_Un)+
  then show ?case by simp
qed simp

lemma upload_accepted:
  assumes "db_ok d" "data_ids_from env (vals (stack_node_data_table d))"
    and up: "s = upload_data (batch_upload env post samples a name)"
    and ne: "concat (concat samples) \<noteq> []"
    and fits: "sto_fits s" "counters_fit s d"
  shows "\<exists>d'. data_ingest clock tx s d = (None, d') \<and> data_ids_from env (vals (stack_node_data_table d'))"
proof -
  have int: "sto_integrity s" and ids: "data_ids_from env (stack_node_datas s)"
    by (simp_all add: up batch_upload_integrity batch_data_ids)
  have "length (batch_nodes env (batch_id env a name) samples) \<noteq> 0"
    using ne by (simp add: batch_nodes_length)
  then have "node_id ` set (vals (add_nodes (batch_nodes env (batch_id env a name) samples) [])) \<noteq> {}"
    by (subst add_nodes_ids) (auto simp: batch_nodes_count)
  then have nodes: "stack_nodes s \<noteq> []" by (auto simp: up batch_upload_def Let_def)
  then obtain n where n: "n \<in> set (stack_nodes s)" by (cases "stack_nodes s") auto
  then have datas: "stack_node_datas s \<noteq> []" using int by (force simp: sto_integrity_def)
  have "concat samples \<noteq> []" using ne by (cases "concat samples") simp_all
  then obtain pb where pb: "profiled_binaries s = [pb]"
    unfolding up by (simp add: batch_upload_def Let_def batch_exes_def del: concat_eq_Nil_conv)
  define d1 where "d1 = d\<lparr>stack_node_data_table :=
    insert_datas (stack_node_datas s) (stack_node_data_table d)\<rparr>"
  have d1: "data_tx (stack_node_datas s) d = Inr d1"
    unfolding d1_def using fits(1) datas by (intro data_tx_accepts) (auto simp: sto_fits_def)
  have data: "data_id ` set (stack_node_datas s) \<subseteq> fst ` set (stack_node_data_table d1)"
    using insert_datas_contains [OF assms(2) ids] assms(1) by (simp add: d1_def db_ok_def)
  obtain d2 where d2: "exe_tx clock tx [pb] d1 = Inr d2" and exe: "exe_id pb \<in> fst ` set (executable_table d2)"
    using exe_tx_accepts [of pb d1 clock tx] fits pb
    by (auto simp: sto_fits_def counters_fit_def d1_def)
  have ok: "db_ok d2" using assms(1) data_tx_ok [OF d1] exe_tx_ok [OF d2] by blast
  have tables: "stack_node_table d2 = stack_node_table d" "stack_node_data_table d2 = stack_node_data_table d1"
    using exe_tx_tables(1,2) [OF d2] by (simp_all add: d1_def)
  have "\<exists>d3. node_tx (stack_nodes s) d2 = Inr d3"
  proof (rule node_tx_accepts [OF ok _ nodes])
    show "length (stack_nodes s) \<le> 16383" "distinct (map node_id (stack_nodes s))"
      using fits(1) int by (simp_all add: sto_fits_def sto_integrity_def)
    show "\<exists>new. merge_node old n = Inr new"
      if "n \<in> set (stack_nodes s)" "map_of (stack_node_table d2) (node_id n) = Some old" for n old
      using that fits(2) by (simp add: counters_fit_def tables)
    show "stack_node_data_id n \<in> fst ` set (stack_node_data_table d2)
        \<and> executable_id n \<in> fst ` set (executable_table d2)
        \<and> (\<forall>p. parent_id n = Some p \<longrightarrow> p \<in> node_id ` set (stack_nodes s))"
      if "n \<in> set (stack_nodes s)" for n
    proof -
      have "stack_node_data_id n \<in> data_id ` set (stack_node_datas s)" "executable_id n = exe_id pb"
        "\<forall>p. parent_id n = Some p \<longrightarrow> p \<in> node_id ` set (stack_nodes s)"
        using int that by (simp_all add: sto_integrity_def pb)
      then show ?thesis using subsetD [OF data] exe by (simp add: tables)
    qed
  qed
  then obtain d3 where d3: "node_tx (stack_nodes s) d2 = Inr d3" ..
  have "stack_node_data_table d3 = stack_node_data_table d1"
    using d3 tables by (auto simp: node_tx_def Let_def split: option.splits if_splits sum.splits)
  then have "data_ids_from env (vals (stack_node_data_table d3))"
    using insert_datas_from [OF assms(2) ids] by (simp add: d1_def)
  moreover have "data_ingest clock tx s d = (None, d3)"
    using d1 d2 d3 by (simp add: data_ingest_def pb)
  ultimately show ?thesis by blast
qed

text \<open>A batch of few frames with plain text fits.\<close>

lemma length_upsert: "length (upsert f x k m) \<le> Suc (length m)"
  by (induction f x k m rule: upsert.induct) auto

lemma length_add_nodes: "length (add_nodes ns m) \<le> length ns + length m"
proof (induction ns arbitrary: m)
  case (Cons n ns)
  have "length (add_nodes ns (upsert bump_node n (node_id n) m)) \<le> length ns + Suc (length m)"
    using Cons [of "upsert bump_node n (node_id n) m"] length_upsert [of bump_node n "node_id n" m] by linarith
  then show ?case by (simp add: add_nodes_def)
qed simp

lemma length_add_datas: "length (add_datas ds m) \<le> length ds + length m"
proof (induction ds arbitrary: m)
  case (Cons d ds)
  have "length (add_datas ds (upsert id d (data_id d) m)) \<le> length ds + Suc (length m)"
    using Cons [of "upsert id d (data_id d) m"] length_upsert [of id d "data_id d" m] by linarith
  then show ?case by (simp add: add_datas_def)
qed simp

lemma batch_datas_length: "length (batch_datas env samples) = length (concat (concat samples))"
  by (induction samples) (simp_all add: batch_datas_def sample_path_def length_concat rev_map [symmetric] sum_list_rev)

lemma upload_fits:
  assumes "length (concat (concat samples)) \<le> 16383"
    and plain: "\<And>fr. fr \<in> set (concat (concat samples)) \<Longrightarrow>
      text_ok (symbol (data_of env fr)) \<and> opt_text_ok (data_file (data_of env fr))"
    and "text_ok (event_to_string (event_type a))" "opt_text_ok (version a)" "text_ok name"
  shows "sto_fits (upload_data (batch_upload env post samples a name))"
proof -
  have wf: "wf_map (add_datas (batch_datas env samples) [])" by (simp add: wf_map_add)
  have "text_ok (symbol x) \<and> opt_text_ok (data_file x)"
    if "x \<in> set (vals (add_datas (batch_datas env samples) []))" for x
  proof -
    have "x \<in> set (batch_datas env samples)"
      using that by (auto simp: set_vals [OF wf] map_of_add_datas dest: find_SomeD)
    then show ?thesis using plain by (auto simp: batch_datas_def sample_path_def)
  qed
  moreover have "length (vals (add_nodes (batch_nodes env (batch_id env a name) samples) [])) \<le> 16383"
    "length (vals (add_datas (batch_datas env samples) [])) \<le> 16383"
    using length_add_nodes [of "batch_nodes env (batch_id env a name) samples" "[]"]
      length_add_datas [of "batch_datas env samples" "[]"] assms(1)
    by (simp_all add: vals_def batch_nodes_length batch_datas_length)
  ultimately show ?thesis
    using assms(3-5)
    by (simp add: sto_fits_def batch_upload_def Let_def batch_exes_def counted_exe_def batch_executable_def)
qed

lemma trim_blank: "trim '' '' = []"
  by code_simp

text \<open>A batch of two nodes for the witnesses, and the database after its first ingestion.\<close>

definition demo_sto :: StoData where
  "demo_sto =
     \<lparr>stack_nodes =
        [\<lparr>node_id = 1, parent_id = None, stack_node_data_id = 10, executable_id = 5, sample_count = 2\<rparr>,
         \<lparr>node_id = 2, parent_id = Some 1, stack_node_data_id = 11, executable_id = 5, sample_count = 1\<rparr>],
      stack_node_datas =
        [\<lparr>data_id = 10, symbol = ''main'', data_file = Some ''/src/a.c'', line_number = Some 3\<rparr>,
         \<lparr>data_id = 11, symbol = ''work'', data_file = None, line_number = None\<rparr>],
      profiled_binaries =
        [\<lparr>exe_id = 5, exe_event = ''Cycles'', build_id = None, basename = ''demo'', updated_at = None,
          created_at = None, exe_sample_count = 3, raw_data_size = 7, processed_data_size = 9\<rparr>]\<rparr>"

definition demo_db :: db where
  "demo_db = snd (data_ingest (\<lambda>i. 100) 99 demo_sto empty_db)"

text \<open>Evaluation of the transactions on concrete rows.\<close>

lemmas ingest_eval = data_ingest_def data_tx_def exe_tx_def node_tx_def Let_def check_values_def BIND_LIMIT_def
  text_ok_def opt_text_ok_def exe_row_def foreign_keys_def vals_def same_content_def merge_executable_def
  merge_node_def add_bigint_def modify_def

lemma demo_db_tables:
  "demo_db = \<lparr>stack_node_data_table = [(10, stack_node_datas demo_sto ! 0), (11, stack_node_datas demo_sto ! 1)],
     executable_table = [(5, exe_row 100 99 (profiled_binaries demo_sto ! 0))],
     stack_node_table = [(1, stack_nodes demo_sto ! 0), (2, stack_nodes demo_sto ! 1)]\<rparr>"
  by (simp add: demo_db_def demo_sto_def empty_db_def ingest_eval)

lemma demo_ingest: "data_ingest (\<lambda>i. 100) 99 demo_sto empty_db = (None, demo_db)"
  unfolding demo_db_tables by (simp add: demo_sto_def empty_db_def ingest_eval)

lemma demo_db_reachable: "reachable_db demo_db"
  unfolding demo_db_def by (rule data_ingest_reachable [OF reachable_db.empty])

section \<open>Properties\<close>

text \<open>
  C10. Whatever requests have been served, in any interleaving of their transactions and whether they
  succeeded or panicked half-way, the database keeps its invariant, and so does every further
  request: each row is stored under its own id, no two rows have the same frame data, every stored
  node refers to stored rows, and every executable has a creation time.
\<close>

theorem database_invariant:
  assumes "reachable_db d"
  shows "db_ok d \<and> db_ok (snd (data_ingest clock tx data d))"
  using assms data_ingest_reachable reachable_db_ok by blast

theorem database_invariant_witness:
  "db_ok demo_db \<and> db_ok (snd (data_ingest (\<lambda>i. 100) 99 demo_sto demo_db))"
  by (rule database_invariant [OF demo_db_reachable])

text \<open>
  C13. A request that succeeds adds, for every id, exactly the counts it posts for it, as integers and
  without wrapping, but only of its first 16383 nodes and executables: later rows are dropped.
\<close>

theorem ingest_accumulates:
  assumes "data_ingest clock tx data d = (None, d')"
  shows "stored_count sample_count (stack_node_table d') i = stored_count sample_count (stack_node_table d) i
      + posted_count node_id sample_count (take 16383 (stack_nodes data)) i
    \<and> stored_count exe_sample_count (executable_table d') i
      = stored_count exe_sample_count (executable_table d) i
      + posted_count exe_id exe_sample_count (take 16383 (profiled_binaries data)) i
    \<and> stored_count raw_data_size (executable_table d') i
      = stored_count raw_data_size (executable_table d) i
      + posted_count exe_id raw_data_size (take 16383 (profiled_binaries data)) i
    \<and> stored_count processed_data_size (executable_table d') i
      = stored_count processed_data_size (executable_table d) i
      + posted_count exe_id processed_data_size (take 16383 (profiled_binaries data)) i"
proof -
  from assms obtain d1 d2 where d: "data_tx (stack_node_datas data) d = Inr d1"
    "exe_tx clock tx (profiled_binaries data) d1 = Inr d2" "node_tx (stack_nodes data) d2 = Inr d'"
    by (auto simp: data_ingest_def split: sum.splits)
  show ?thesis
    using data_tx_tables [OF d(1)] exe_tx_tables(1) [OF d(2)] exe_tx_tables(3-5) [OF d(2), of i]
      node_tx_tables(1) [OF d(3)] node_tx_tables(2) [OF d(3), of i] by simp
qed

theorem ingest_accumulates_witness:
  "stored_count sample_count (stack_node_table demo_db) 1 = 2
    \<and> stored_count raw_data_size (executable_table demo_db) 5 = 7"
proof -
  have "stored_count count (stack_node_table empty_db) i = 0" "stored_count count' (executable_table empty_db) i = 0"
    for count count' i by (simp_all add: empty_db_def stored_count_def)
  moreover have "posted_count node_id sample_count (take 16383 (stack_nodes demo_sto)) 1 = 2"
    "posted_count exe_id raw_data_size (take 16383 (profiled_binaries demo_sto)) 5 = 7"
    by (simp_all add: posted_count_def demo_sto_def)
  ultimately show ?thesis
    using ingest_accumulates [OF demo_ingest, of 1] ingest_accumulates [OF demo_ingest, of 5] by simp
qed

text \<open>
  C23. A request is not atomic.  When it fails, no node of it is stored; but when it fails for a broken
  reference, its executables have already been counted, so that repeating it counts them again.
\<close>

theorem ingest_failure:
  assumes "data_ingest clock tx data d = (Some e, d')"
  shows "stack_node_table d' = stack_node_table d
    \<and> (e = ForeignKeyViolation \<longrightarrow> (\<forall>i. stored_count exe_sample_count (executable_table d') i
        = stored_count exe_sample_count (executable_table d) i
        + posted_count exe_id exe_sample_count (take 16383 (profiled_binaries data)) i))"
proof -
  have data: "data_tx rows d0 = Inl e0 \<Longrightarrow> e0 \<noteq> ForeignKeyViolation" for rows d0 e0
    by (auto simp: data_tx_def check_values_def Let_def split: if_splits)
  have bigint: "add_bigint x y = Inl e0 \<Longrightarrow> e0 \<noteq> ForeignKeyViolation" for x y e0
    by (auto simp: add_bigint_def split: if_splits)
  have "merge_executable x y = Inl e0 \<Longrightarrow> e0 \<noteq> ForeignKeyViolation" for x y e0
    by (auto simp: merge_executable_def dest: bigint split: sum.splits)
  then have "upsert_rows exe_id merge_executable rows t = Inl e0 \<Longrightarrow> e0 \<noteq> ForeignKeyViolation" for rows t e0
    by (induction rows arbitrary: t) (auto split: option.splits sum.splits)
  then have exe: "exe_tx clock tx rows d0 = Inl e0 \<Longrightarrow> e0 \<noteq> ForeignKeyViolation" for rows d0 e0
    by (auto simp: exe_tx_def check_values_def Let_def split: if_splits sum.splits)
  show ?thesis
    using assms
    by (auto simp: data_ingest_def exe_tx_tables dest: data exe data_tx_tables split: sum.splits)
qed

theorem ingest_failure_witness:
  "\<exists>d'. data_ingest (\<lambda>i. 100) 99 (demo_sto\<lparr>stack_nodes := [(stack_nodes demo_sto ! 1)\<lparr>node_id := 7, parent_id := Some 6\<rparr>]\<rparr>)
      demo_db = (Some ForeignKeyViolation, d')
    \<and> stack_node_table d' = stack_node_table demo_db
    \<and> stored_count exe_sample_count (executable_table d') 5
      = stored_count exe_sample_count (executable_table demo_db) 5 + 3"
proof -
  let ?bad = "demo_sto\<lparr>stack_nodes := [(stack_nodes demo_sto ! 1)\<lparr>node_id := 7, parent_id := Some 6\<rparr>]\<rparr>"
  have "fst (data_ingest (\<lambda>i. 100) 99 ?bad demo_db) = Some ForeignKeyViolation"
    unfolding demo_db_tables by (simp add: demo_sto_def ingest_eval)
  then obtain d' where d': "data_ingest (\<lambda>i. 100) 99 ?bad demo_db = (Some ForeignKeyViolation, d')"
    by (cases "data_ingest (\<lambda>i. 100) 99 ?bad demo_db") simp
  have "posted_count exe_id exe_sample_count (take 16383 (profiled_binaries ?bad)) 5 = 3"
    by (simp add: posted_count_def demo_sto_def)
  with ingest_failure [OF d'] d' show ?thesis by simp
qed

text \<open>
  The limits of the statements: a request without frame data is rejected, and so is one with more than
  8191 executables, although the handler takes 16383 of them; its frame data stays stored.
\<close>

theorem request_limits:
  shows "stack_node_datas data = [] \<Longrightarrow> data_ingest clock tx data d = (Some SyntaxError, d)"
    and "data_tx (stack_node_datas data) d = Inr d' \<Longrightarrow> 8191 < length (profiled_binaries data) \<Longrightarrow>
      data_ingest clock tx data d = (Some TooManyBinds, d')"
proof -
  show "stack_node_datas data = [] \<Longrightarrow> data_ingest clock tx data d = (Some SyntaxError, d)"
    by (simp add: data_ingest_def data_tx_def check_values_def)
  assume d: "data_tx (stack_node_datas data) d = Inr d'" and l: "8191 < length (profiled_binaries data)"
  then have "65535 < 8 * min (length (profiled_binaries data)) 16383" "profiled_binaries data \<noteq> []"
    by (auto simp: min_def)
  then show "data_ingest clock tx data d = (Some TooManyBinds, d')"
    by (simp add: data_ingest_def d exe_tx_def check_values_def BIND_LIMIT_def Let_def)
qed

text \<open>
  C11. From the client to the database: a batch with at least one frame is accepted whenever it fits the
  statements and the stored counters do not overflow, provided the stored frame data got its ids
  from the same hash; and that proviso holds again afterwards.
\<close>

theorem client_upload_accepted:
  assumes "reachable_db d" "data_ids_from env (vals (stack_node_data_table d))"
    and "reachable_caches env c" "process_and_sink_data env post samples a c = Inr (up, c')"
    and "concat (concat samples) \<noteq> []"
    and "sto_fits (upload_data up)" "counters_fit (upload_data up) d"
  shows "\<exists>d'. data_ingest clock tx (upload_data up) d = (None, d')
    \<and> data_ids_from env (vals (stack_node_data_table d'))"
proof -
  obtain name where name: "binary a = Some name"
    using assms(4) by (cases "binary a") (simp_all add: process_and_sink_data_def)
  then have "up = batch_upload env post samples a name"
    using process_and_sink_data_ok [OF reachable_caches_ok [OF assms(3)] name, of post samples] assms(4)
    by auto
  then show ?thesis
    using upload_accepted [OF reachable_db_ok [OF assms(1)] assms(2) _ assms(5-7)] by blast
qed

lemma demo_batch_fits:
  "sto_fits (upload_data (batch_upload demo_env (\<lambda>u d. PostOk) demo_samples demo_args ''demo''))"
  by (rule upload_fits)
     (auto simp: demo_samples_def demo_frame_def demo_env_def demo_args_def data_of_def Let_def text_ok_def
       opt_text_ok_def trim_blank)

lemma demo_batch_ok:
  "concat (concat demo_samples) \<noteq> []" "data_ids_from demo_env (vals (stack_node_data_table empty_db))"
  by (simp_all add: demo_samples_def data_ids_from_def empty_db_def vals_def)

lemma demo_batch_run:
  obtains c' where "process_and_sink_data demo_env (\<lambda>u d. PostOk) demo_samples demo_args empty_caches
      = Inr (batch_upload demo_env (\<lambda>u d. PostOk) demo_samples demo_args ''demo'', c')"
  using process_and_sink_data_ok [OF caches_ok_empty demo_name] by blast

theorem client_upload_accepted_witness:
  "\<exists>up c' d'. process_and_sink_data demo_env (\<lambda>u d. PostOk) demo_samples demo_args empty_caches = Inr (up, c')
    \<and> data_ingest (\<lambda>i. 100) 99 (upload_data up) empty_db = (None, d')"
proof -
  let ?up = "batch_upload demo_env (\<lambda>u d. PostOk) demo_samples demo_args ''demo''"
  obtain c' where run: "process_and_sink_data demo_env (\<lambda>u d. PostOk) demo_samples demo_args empty_caches
      = Inr (?up, c')"
    by (rule demo_batch_run)
  have "counters_fit (upload_data ?up) empty_db"
    by (simp add: empty_db_def counters_fit_def)
  from client_upload_accepted [OF reachable_db.empty demo_batch_ok(2) reachable_caches.start run
      demo_batch_ok(1) demo_batch_fits this]
  show ?thesis using run by blast
qed

end
