(* ===== verification/Server_Dag.thy ===== *)
theory Server_Dag
  imports Server_Ingest "HOL-Library.Multiset"
begin

text \<open>
  What the server shows, \<^verbatim>\<open>data\<close>, \<^verbatim>\<open>metadata\<close> and \<^verbatim>\<open>index\<close> of \<^verbatim>\<open>src/src/bin/server.rs\<close>: the flame
  graph of an executable, built by recursion from the stored nodes without a parent, the row of one
  executable, and the listing of all of them.  A missing row or map entry, which panics the handler, is
  an error value.  The recursion of \<open>build_dag\<close> carries fuel; the number of nodes is enough from every
  root, whatever the parents of the other nodes are.
\<close>

section \<open>Strings\<close>

text \<open>\<^verbatim>\<open>rsplit_once\<close>, and the decimal form of an \<^verbatim>\<open>i32\<close>.\<close>

fun rsplit_once :: "char \<Rightarrow> string \<Rightarrow> (string \<times> string) option" where
  "rsplit_once c [] = None"
| "rsplit_once c (x # xs) =
     (case rsplit_once c xs of
        Some (a, b) \<Rightarrow> Some (x # a, b)
      | None \<Rightarrow> if x = c then Some ([], xs) else None)"

definition show_i32 :: "i32 \<Rightarrow> string" where
  "show_i32 y = (if sint y < 0 then CHR ''-'' # show_nat (nat (- sint y)) else show_nat (nat (sint y)))"

section \<open>The flame graph\<close>

datatype D3FlamegraphData =
  D3FlamegraphData (d3_name: string) (d3_value: i64) (d3_filename: "string option")
    (d3_line_number: "i32 option") (d3_children: "D3FlamegraphData list option")

datatype panic = UnwrapNoneValue | NoRow | OutOfFuel

definition dag_name :: "StackNodeData \<Rightarrow> panic + string" where
  "dag_name cur_sd =
     (case data_file cur_sd of
        Some x \<Rightarrow>
          if CHR ''/'' \<in> set x then
            (case rsplit_once (CHR ''/'') x of
               None \<Rightarrow> Inl UnwrapNoneValue
             | Some (_, base_filename) \<Rightarrow>
                 (case line_number cur_sd of
                    Some y \<Rightarrow> Inr (symbol cur_sd @ '':'' @ base_filename @ '':'' @ show_i32 y)
                  | None \<Rightarrow> Inr (symbol cur_sd @ '':'' @ base_filename)))
          else
            (case line_number cur_sd of
               Some y \<Rightarrow> Inr (symbol cur_sd @ '':'' @ x @ '':'' @ show_i32 y)
             | None \<Rightarrow> Inr (symbol cur_sd @ '':'' @ x))
      | None \<Rightarrow> Inr (symbol cur_sd))"

fun traverse :: "('a \<Rightarrow> 'e + 'b) \<Rightarrow> 'a list \<Rightarrow> 'e + 'b list" where
  "traverse f [] = Inr []"
| "traverse f (x # xs) =
     (case f x of
        Inl e \<Rightarrow> Inl e
      | Inr y \<Rightarrow> (case traverse f xs of Inl e \<Rightarrow> Inl e | Inr ys \<Rightarrow> Inr (y # ys)))"

primrec build_dag ::
  "nat \<Rightarrow> (i64, StackNode) hash_map \<Rightarrow> (i64, StackNodeData) hash_map \<Rightarrow> (i64, StackNode list) hash_map \<Rightarrow>
     i64 \<Rightarrow> panic + D3FlamegraphData" where
  "build_dag 0 sn_id_map sd_map sn_p_id_map cur_id = Inl OutOfFuel"
| "build_dag (Suc fuel) sn_id_map sd_map sn_p_id_map cur_id =
     (case map_of sn_id_map cur_id of
        None \<Rightarrow> Inl UnwrapNoneValue
      | Some cur_sn \<Rightarrow>
          (case map_of sd_map (stack_node_data_id cur_sn) of
             None \<Rightarrow> Inl UnwrapNoneValue
           | Some cur_sd \<Rightarrow>
               (case dag_name cur_sd of
                  Inl e \<Rightarrow> Inl e
                | Inr name \<Rightarrow>
                    (case map_of sn_p_id_map cur_id of
                       None \<Rightarrow>
                         Inr (D3FlamegraphData name (sample_count cur_sn) (data_file cur_sd)
                                (line_number cur_sd) None)
                     | Some id_list \<Rightarrow>
                         (case traverse
                                 (\<lambda>x. build_dag fuel sn_id_map sd_map sn_p_id_map (node_id x)) id_list of
                            Inl e \<Rightarrow> Inl e
                          | Inr cs \<Rightarrow>
                              Inr (D3FlamegraphData name (sample_count cur_sn) (data_file cur_sd)
                                     (line_number cur_sd) (Some cs)))))))"

section \<open>The handlers\<close>

text \<open>Collecting an iterator of pairs into a \<^verbatim>\<open>HashMap\<close>: a later entry replaces an earlier one.\<close>

definition collect_map :: "('r \<Rightarrow> i64) \<Rightarrow> 'r list \<Rightarrow> (i64, 'r) hash_map" where
  "collect_map key rows = fold (\<lambda>r. upsert (\<lambda>_. r) r (key r)) rows []"

definition children_map :: "(i64, StackNode) hash_map \<Rightarrow> (i64, StackNode list) hash_map" where
  "children_map sn_id_map =
     fold (\<lambda>v m. case parent_id v of None \<Rightarrow> m | Some p \<Rightarrow> upsert (\<lambda>e. e @ [v]) [v] p m)
       (filter (\<lambda>v. parent_id v \<noteq> None) (vals sn_id_map)) []"

definition select_nodes :: "i64 \<Rightarrow> db \<Rightarrow> StackNode list" where
  "select_nodes i d = filter (\<lambda>n. executable_id n = i) (vals (stack_node_table d))"

definition select_datas :: "i64 \<Rightarrow> db \<Rightarrow> StackNodeData list" where
  "select_datas i d =
     concat (map (\<lambda>x. map (\<lambda>n. x)
                        (filter (\<lambda>n. stack_node_data_id n = data_id x \<and> executable_id n = i)
                          (vals (stack_node_table d))))
               (vals (stack_node_data_table d)))"

definition metadata :: "i64 \<Rightarrow> db \<Rightarrow> panic + Executable" where
  "metadata i d =
     (case find (\<lambda>x. exe_id x = i) (vals (executable_table d)) of None \<Rightarrow> Inl NoRow | Some pb \<Rightarrow> Inr pb)"

definition junk_data :: D3FlamegraphData where
  "junk_data =
     D3FlamegraphData ''junk test data'' 12 (Some ''/var/asdas/ffff.cpp'') (Some 123)
       (Some [D3FlamegraphData ''dqwd'' 2 None None None, D3FlamegraphData ''dsqwd'' 3 None None None])"

definition dag :: "StackNode list \<Rightarrow> StackNodeData list \<Rightarrow> Executable \<Rightarrow> panic + D3FlamegraphData" where
  "dag sn sd pb =
     (let sd_map = collect_map data_id sd;
          sn_id_map = collect_map node_id sn;
          sn_p_id_map = children_map sn_id_map
      in case traverse (\<lambda>x. build_dag (length sn) sn_id_map sd_map sn_p_id_map (node_id x))
                (filter (\<lambda>x. parent_id x = None) sn) of
           Inl e \<Rightarrow> Inl e
         | Inr cs \<Rightarrow>
             Inr (D3FlamegraphData (basename pb) (sum_list (map d3_value cs)) None None (Some cs)))"

definition data_handler :: "i64 \<Rightarrow> db \<Rightarrow> panic + D3FlamegraphData" where
  "data_handler i d =
     (if i = 123 then Inr junk_data
      else
        (case metadata i d of
           Inl e \<Rightarrow> Inl e
         | Inr pb \<Rightarrow> dag (select_nodes i d) (select_datas i d) pb))"

text \<open>The listing: formatting a time is a parameter, \<^verbatim>\<open>now\<close> is the server's clock.\<close>

record TemplateListing =
  listing_name :: string
  listing_id :: i64
  listing_date :: string

definition index_handler :: "(int \<Rightarrow> string) \<Rightarrow> int \<Rightarrow> db \<Rightarrow> panic + TemplateListing list" where
  "index_handler format now d =
     (case traverse
             (\<lambda>x. case created_at x of
                    None \<Rightarrow> Inl UnwrapNoneValue
                  | Some t \<Rightarrow> Inr \<lparr>listing_name = basename x, listing_id = exe_id x, listing_date = format t\<rparr>)
             (vals (executable_table d)) of
        Inl e \<Rightarrow> Inl e
      | Inr listing \<Rightarrow>
          Inr (listing @ [\<lparr>listing_name = ''somename'', listing_id = 123, listing_date = format now\<rparr>]))"

section \<open>The maps\<close>

lemma map_of_collect: "map_of (collect_map key rows) k = find (\<lambda>r. key r = k) (rev rows)"
  by (induction rows rule: rev_induct) (auto simp: collect_map_def map_of_upsert split: option.split)

lemma find_distinct:
  "distinct (map key xs) \<Longrightarrow> x \<in> set xs \<Longrightarrow> find (\<lambda>r. key r = key x) xs = Some x"
  by (induction xs) (simp, force)

lemma collect_map_distinct:
  "distinct (map key xs) \<Longrightarrow> x \<in> set xs \<Longrightarrow> map_of (collect_map key xs) (key x) = Some x"
  unfolding map_of_collect by (rule find_distinct) (simp_all add: rev_map [symmetric])

lemma vals_collect_distinct: "distinct (map key xs) \<Longrightarrow> vals (collect_map key xs) = xs"
proof (induction xs rule: rev_induct)
  case (snoc x xs)
  have "map fst (collect_map key xs) = map key xs" if "distinct (map key xs)"
    using that
  proof (induction xs rule: rev_induct)
    case (snoc y ys)
    then have "key y \<notin> fst ` set (collect_map key ys)" by (simp flip: set_map)
    with snoc show ?case by (simp add: collect_map_def upsert_new)
  qed (simp add: collect_map_def)
  with snoc.prems have "key x \<notin> fst ` set (collect_map key xs)" by (simp flip: set_map)
  with snoc show ?case by (simp add: collect_map_def upsert_new vals_def)
qed (simp add: collect_map_def vals_def)

lemma map_of_children:
  "map_of (children_map m) p =
     (let cs = filter (\<lambda>v. parent_id v = Some p) (vals m) in if cs = [] then None else Some cs)"
proof -
  have "map_of (fold (\<lambda>v m. case parent_id v of None \<Rightarrow> m | Some p \<Rightarrow> upsert (\<lambda>e. e @ [v]) [v] p m)
      (filter (\<lambda>v. parent_id v \<noteq> None) ns) []) p
    = (let cs = filter (\<lambda>v. parent_id v = Some p) ns in if cs = [] then None else Some cs)" for ns
    by (induction ns rule: rev_induct) (auto simp: map_of_upsert Let_def split: option.split)
  then show ?thesis by (simp add: children_map_def)
qed

lemma rsplit_once_ex: "c \<in> set s \<Longrightarrow> \<exists>a b. rsplit_once c s = Some (a, b)"
  by (induction s) (auto split: option.split)

lemma dag_name_ex: "\<exists>s. dag_name x = Inr s"
  using rsplit_once_ex [of "CHR ''/''"] by (force simp: dag_name_def split: option.split)

lemma traverse_ex:
  "(\<And>x. x \<in> set xs \<Longrightarrow> \<exists>y. f x = Inr y \<and> P x y) \<Longrightarrow> \<exists>ys. traverse f xs = Inr ys \<and> list_all2 P xs ys"
proof (induction xs)
  case (Cons x xs)
  then obtain y ys where "f x = Inr y" "P x y" "traverse f xs = Inr ys" "list_all2 P xs ys" by fastforce
  then show ?case by simp
qed simp

section \<open>Ancestors\<close>

text \<open>The parent of an id among given nodes, its ancestors, and its distance from a root.\<close>

definition par :: "StackNode list \<Rightarrow> i64 \<Rightarrow> i64 option" where
  "par sn i = (case find (\<lambda>n. node_id n = i) sn of None \<Rightarrow> None | Some n \<Rightarrow> parent_id n)"

fun ancestor :: "StackNode list \<Rightarrow> nat \<Rightarrow> i64 \<Rightarrow> i64 option" where
  "ancestor sn 0 i = Some i"
| "ancestor sn (Suc j) i = (case par sn i of None \<Rightarrow> None | Some p \<Rightarrow> ancestor sn j p)"

definition hangs :: "StackNode list \<Rightarrow> nat \<Rightarrow> i64 \<Rightarrow> bool" where
  "hangs sn k i \<longleftrightarrow> (\<exists>n \<in> set sn. ancestor sn k i = Some (node_id n) \<and> parent_id n = None)"

lemma up_add: "ancestor sn (j + k) i = Option.bind (ancestor sn j i) (ancestor sn k)"
  by (induction j arbitrary: i) (auto split: option.split)

lemma par_node: "distinct (map node_id sn) \<Longrightarrow> n \<in> set sn \<Longrightarrow> par sn (node_id n) = parent_id n"
  by (simp add: par_def find_distinct)

lemma par_SomeD: "par sn i = Some p \<Longrightarrow> \<exists>n \<in> set sn. node_id n = i \<and> parent_id n = Some p"
  by (auto simp: par_def find_Some_iff split: option.splits)

lemma hangs_unique:
  assumes d: "distinct (map node_id sn)" and "hangs sn k i" "hangs sn m i"
  shows "k = m"
proof -
  have False if "hangs sn k i" "hangs sn (k + Suc j) i" for k j
  proof -
    from that(1) obtain n where n: "n \<in> set sn" "ancestor sn k i = Some (node_id n)" "parent_id n = None"
      by (auto simp: hangs_def)
    then have "ancestor sn (k + Suc j) i = None" using par_node [OF d n(1)] by (simp add: up_add del: add_Suc_right)
    then show False using that(2) by (simp add: hangs_def)
  qed
  then show ?thesis using assms(2,3) by (metis less_imp_Suc_add add_Suc_right linorder_neqE_nat)
qed

lemma hangs_up: "hangs sn (j + k) i \<Longrightarrow> ancestor sn j i = Some a \<Longrightarrow> hangs sn k a"
  by (simp add: hangs_def up_add)

lemma up_hangs: "ancestor sn j i = Some a \<Longrightarrow> hangs sn k a \<Longrightarrow> hangs sn (j + k) i"
  by (simp add: hangs_def up_add)

lemma hangs_bound:
  assumes d: "distinct (map node_id sn)" and h: "hangs sn k i"
  shows "k < length sn"
proof -
  define f where "f j = the (ancestor sn j i)" for j
  have f: "ancestor sn j i = Some (f j)" if "j \<le> k" for j
  proof -
    have "ancestor sn (j + (k - j)) i \<noteq> None" using h that by (auto simp: hangs_def)
    then show ?thesis unfolding up_add f_def by (cases "ancestor sn j i") auto
  qed
  have depth: "hangs sn (k - j) (f j)" if "j \<le> k" for j
    using hangs_up [OF _ f [OF that], of "k - j"] h that by simp
  have "inj_on f {..k}"
  proof (rule inj_onI)
    fix x y assume "x \<in> {..k}" "y \<in> {..k}" "f x = f y"
    then have "k - x = k - y" using depth [of x] depth [of y] hangs_unique [OF d] by simp
    then show "x = y" using \<open>x \<in> {..k}\<close> \<open>y \<in> {..k}\<close> by simp
  qed
  moreover have "f ` {..k} \<subseteq> node_id ` set sn"
  proof
    fix a assume "a \<in> f ` {..k}"
    then obtain j where j: "j \<le> k" "a = f j" by auto
    show "a \<in> node_id ` set sn"
    proof (cases "k - j")
      case 0
      then show ?thesis using depth [OF j(1)] j by (auto simp: hangs_def)
    next
      case (Suc m)
      then have "par sn (f j) \<noteq> None" using depth [OF j(1)] by (auto simp: hangs_def split: option.splits)
      then obtain p where "par sn (f j) = Some p" by blast
      from par_SomeD [OF this] show ?thesis using j(2) by (metis image_eqI)
    qed
  qed
  ultimately have "card {..k} \<le> card (node_id ` set sn)" by (intro card_inj_on_le) auto
  also have "\<dots> \<le> length sn" using card_image_le card_length le_trans by (metis List.finite_set)
  finally show ?thesis by simp
qed

section \<open>Nodes below a node\<close>

text \<open>The nodes in the order in which the recursion visits them.\<close>

primrec dag_nodes :: "nat \<Rightarrow> StackNode list \<Rightarrow> StackNode \<Rightarrow> StackNode list" where
  "dag_nodes 0 sn n = []"
| "dag_nodes (Suc fuel) sn n =
     n # concat (map (dag_nodes fuel sn) (filter (\<lambda>c. parent_id c = Some (node_id n)) sn))"

definition below :: "StackNode list \<Rightarrow> StackNode \<Rightarrow> StackNode set" where
  "below sn n = {x \<in> set sn. \<exists>j. ancestor sn j (node_id x) = Some (node_id n)}"

lemma finite_below [simp]: "finite (below sn n)"
  by (simp add: below_def)

lemma up_Suc_snoc: "ancestor sn (Suc j) i = Option.bind (ancestor sn j i) (par sn)"
proof -
  have "ancestor sn 1 = par sn" by (rule ext) (simp split: option.split)
  then show ?thesis using up_add [of sn j 1 i] by simp
qed

lemma node_eq: "distinct (map node_id sn) \<Longrightarrow> x \<in> set sn \<Longrightarrow> y \<in> set sn \<Longrightarrow> node_id x = node_id y \<Longrightarrow> x = y"
  by (auto simp: distinct_map dest: inj_onD)

lemma below_rec:
  assumes d: "distinct (map node_id sn)" and n: "n \<in> set sn"
  shows "below sn n = insert n (\<Union>c \<in> {c \<in> set sn. parent_id c = Some (node_id n)}. below sn c)"
proof (intro equalityI subsetI)
  fix x assume x: "x \<in> below sn n"
  then obtain j where j: "x \<in> set sn" "ancestor sn j (node_id x) = Some (node_id n)" by (auto simp: below_def)
  show "x \<in> insert n (\<Union>c \<in> {c \<in> set sn. parent_id c = Some (node_id n)}. below sn c)"
  proof (cases j)
    case 0
    then show ?thesis using j node_eq [OF d j(1) n] by simp
  next
    case (Suc m)
    then obtain a where a: "ancestor sn m (node_id x) = Some a" "par sn a = Some (node_id n)"
      using j(2) up_Suc_snoc [of sn m "node_id x"] by (auto simp: bind_eq_Some_conv simp del: ancestor.simps)
    from par_SomeD [OF a(2)] show ?thesis using a(1) j(1) by (force simp: below_def)
  qed
next
  fix x assume "x \<in> insert n (\<Union>c \<in> {c \<in> set sn. parent_id c = Some (node_id n)}. below sn c)"
  then consider "x = n" | c j where "c \<in> set sn" "parent_id c = Some (node_id n)" "x \<in> set sn"
    "ancestor sn j (node_id x) = Some (node_id c)"
    by (auto simp: below_def)
  then show "x \<in> below sn n"
  proof cases
    case 1
    then show ?thesis using n by (auto simp: below_def intro: exI [of _ 0])
  next
    case 2
    then have "ancestor sn (Suc j) (node_id x) = Some (node_id n)"
      using par_node [OF d 2(1)] by (simp add: up_Suc_snoc del: ancestor.simps)
    then show ?thesis using 2(3) unfolding below_def by blast
  qed
qed

lemma below_hangs: "hangs sn k (node_id n) \<Longrightarrow> x \<in> below sn n \<Longrightarrow> \<exists>j. hangs sn (j + k) (node_id x)"
  by (auto simp: below_def intro: up_hangs)

lemma below_disjoint:
  assumes d: "distinct (map node_id sn)" and "a \<in> set sn" "b \<in> set sn" "a \<noteq> b"
    and h: "hangs sn k (node_id a)" "hangs sn k (node_id b)"
  shows "below sn a \<inter> below sn b = {}"
proof (rule ccontr)
  assume "below sn a \<inter> below sn b \<noteq> {}"
  then obtain x where "x \<in> below sn a" "x \<in> below sn b" by blast
  then obtain j j' where x: "ancestor sn j (node_id x) = Some (node_id a)" "ancestor sn j' (node_id x) = Some (node_id b)"
    unfolding below_def by blast
  then have "j + k = j' + k" using hangs_unique [OF d] up_hangs h by blast
  then show False using x node_eq [OF d assms(2,3)] assms(4) by simp
qed

lemma not_below_child:
  assumes d: "distinct (map node_id sn)" and "hangs sn k (node_id n)" "hangs sn (Suc k) (node_id c)"
  shows "n \<notin> below sn c"
proof
  assume "n \<in> below sn c"
  then obtain j where "hangs sn (j + Suc k) (node_id n)" using below_hangs [OF assms(3)] by blast
  then show False using hangs_unique [OF d assms(2)] by fastforce
qed

lemma mset_concat_disjoint:
  assumes "distinct cs" "\<And>c. c \<in> set cs \<Longrightarrow> mset (g c) = mset_set (S c) \<and> finite (S c)"
    and "\<And>a b. a \<in> set cs \<Longrightarrow> b \<in> set cs \<Longrightarrow> a \<noteq> b \<Longrightarrow> S a \<inter> S b = {}"
  shows "mset (concat (map g cs)) = mset_set (\<Union>c \<in> set cs. S c)"
  using assms
proof (induction cs)
  case (Cons c cs)
  have "S c \<inter> (\<Union>c \<in> set cs. S c) = {}" using Cons.prems(1,3) by fastforce
  then have "mset_set (S c \<union> (\<Union>c \<in> set cs. S c)) = mset_set (S c) + mset_set (\<Union>c \<in> set cs. S c)"
    using Cons.prems(2) by (intro mset_set_Union) auto
  then show ?case using Cons by simp
qed simp

lemma child_hangs:
  "distinct (map node_id sn) \<Longrightarrow> c \<in> set sn \<Longrightarrow> parent_id c = Some (node_id n) \<Longrightarrow> hangs sn k (node_id n) \<Longrightarrow>
     hangs sn (Suc k) (node_id c)"
  using up_hangs [of sn 1 "node_id c" "node_id n" k] by (simp add: par_node)

lemma dag_nodes_below:
  assumes d: "distinct (map node_id sn)"
  shows "n \<in> set sn \<Longrightarrow> hangs sn k (node_id n) \<Longrightarrow> length sn \<le> fuel + k \<Longrightarrow>
    mset (dag_nodes fuel sn n) = mset_set (below sn n)"
proof (induction fuel arbitrary: n k)
  case 0
  then show ?case using hangs_bound [OF d 0(2)] by simp
next
  case (Suc fuel)
  let ?cs = "filter (\<lambda>c. parent_id c = Some (node_id n)) sn"
  have kid: "hangs sn (Suc k) (node_id c)" if "c \<in> set ?cs" for c
    using that child_hangs [OF d _ _ Suc.prems(2)] by simp
  have "mset (concat (map (dag_nodes fuel sn) ?cs)) = mset_set (\<Union>c \<in> set ?cs. below sn c)"
  proof (rule mset_concat_disjoint)
    show "distinct ?cs" using d by (simp add: distinct_map)
    show "mset (dag_nodes fuel sn c) = mset_set (below sn c) \<and> finite (below sn c)" if "c \<in> set ?cs" for c
      using Suc.IH [OF _ kid [OF that]] that Suc.prems(3) by simp
    show "below sn a \<inter> below sn b = {}" if "a \<in> set ?cs" "b \<in> set ?cs" "a \<noteq> b" for a b
      using below_disjoint [OF d _ _ that(3) kid [OF that(1)] kid [OF that(2)]] that by simp
  qed
  moreover have "n \<notin> (\<Union>c \<in> set ?cs. below sn c)"
    using not_below_child [OF d Suc.prems(2) kid] by blast
  ultimately show ?case
    using below_rec [OF d Suc.prems(1)] by simp
qed

lemma below_roots:
  assumes d: "distinct (map node_id sn)"
  shows "mset (concat (map (dag_nodes (length sn) sn) (filter (\<lambda>x. parent_id x = None) sn)))
    = mset (filter (\<lambda>x. \<exists>k. hangs sn k (node_id x)) sn)"
proof -
  let ?rs = "filter (\<lambda>x. parent_id x = None) sn"
  have root: "hangs sn 0 (node_id r)" if "r \<in> set ?rs" for r
    using that by (auto simp: hangs_def)
  have "mset (concat (map (dag_nodes (length sn) sn) ?rs)) = mset_set (\<Union>r \<in> set ?rs. below sn r)"
  proof (rule mset_concat_disjoint)
    show "distinct ?rs" using d by (simp add: distinct_map)
    show "mset (dag_nodes (length sn) sn r) = mset_set (below sn r) \<and> finite (below sn r)" if "r \<in> set ?rs" for r
      using dag_nodes_below [OF d _ root [OF that], of "length sn"] that by simp
    show "below sn a \<inter> below sn b = {}" if "a \<in> set ?rs" "b \<in> set ?rs" "a \<noteq> b" for a b
      using below_disjoint [OF d _ _ that(3) root [OF that(1)] root [OF that(2)]] that by simp
  qed
  also have "(\<Union>r \<in> set ?rs. below sn r) = set (filter (\<lambda>x. \<exists>k. hangs sn k (node_id x)) sn)"
    by (auto simp: below_def hangs_def)
  also have "mset_set \<dots> = mset (filter (\<lambda>x. \<exists>k. hangs sn k (node_id x)) sn)"
    using d by (intro mset_set_set distinct_filter) (simp add: distinct_map)
  finally show ?thesis .
qed

section \<open>The recursion\<close>

text \<open>The names and values of a flame graph, parents before children.\<close>

primrec d3_nodes :: "D3FlamegraphData \<Rightarrow> (string \<times> i64) list" where
  "d3_nodes (D3FlamegraphData nm v f l cs) =
     (nm, v) # (case map_option (map d3_nodes) cs of None \<Rightarrow> [] | Some xs \<Rightarrow> concat xs)"

definition node_label :: "(i64, StackNodeData) hash_map \<Rightarrow> StackNode \<Rightarrow> string" where
  "node_label sd n =
     (case map_of sd (stack_node_data_id n) of
        None \<Rightarrow> []
      | Some x \<Rightarrow> (case dag_name x of Inl _ \<Rightarrow> [] | Inr s \<Rightarrow> s))"

lemma concat_d3_nodes:
  "list_all2 (\<lambda>c t. d3_nodes t = map h (g c) \<and> P c t) cs ts \<Longrightarrow>
     concat (map d3_nodes ts) = map h (concat (map g cs))"
  by (induction rule: list_all2_induct) simp_all

lemma build_dag_ok:
  assumes d: "distinct (map node_id sn)"
    and sd: "\<And>n. n \<in> set sn \<Longrightarrow> \<exists>x. map_of sd (stack_node_data_id n) = Some x"
  shows "n \<in> set sn \<Longrightarrow> hangs sn k (node_id n) \<Longrightarrow> length sn \<le> fuel + k \<Longrightarrow>
    \<exists>t. build_dag fuel (collect_map node_id sn) sd (children_map (collect_map node_id sn)) (node_id n) = Inr t
      \<and> d3_nodes t = map (\<lambda>m. (node_label sd m, sample_count m)) (dag_nodes fuel sn n)
      \<and> d3_value t = sample_count n"
proof (induction fuel arbitrary: n k)
  case 0
  then show ?case using hangs_bound [OF d 0(2)] by simp
next
  case (Suc fuel)
  let ?cs = "filter (\<lambda>c. parent_id c = Some (node_id n)) sn"
  let ?b = "build_dag fuel (collect_map node_id sn) sd (children_map (collect_map node_id sn))"
  obtain x s where x: "map_of sd (stack_node_data_id n) = Some x" "dag_name x = Inr s"
    using sd [OF Suc.prems(1)] dag_name_ex by blast
  have self: "map_of (collect_map node_id sn) (node_id n) = Some n"
    by (rule collect_map_distinct [OF d Suc.prems(1)])
  have kids: "map_of (children_map (collect_map node_id sn)) (node_id n) = (if ?cs = [] then None else Some ?cs)"
    by (simp add: map_of_children vals_collect_distinct [OF d] Let_def)
  have "\<exists>ts. traverse (\<lambda>c. ?b (node_id c)) ?cs = Inr ts
    \<and> list_all2 (\<lambda>c t. d3_nodes t = map (\<lambda>m. (node_label sd m, sample_count m)) (dag_nodes fuel sn c)
        \<and> d3_value t = sample_count c) ?cs ts"
  proof (rule traverse_ex)
    fix c assume "c \<in> set ?cs"
    then have c: "c \<in> set sn" "hangs sn (Suc k) (node_id c)"
      using child_hangs [OF d _ _ Suc.prems(2)] by simp_all
    have "length sn \<le> fuel + Suc k" using Suc.prems(3) by simp
    from Suc.IH [OF c this]
    show "\<exists>t. ?b (node_id c) = Inr t
      \<and> d3_nodes t = map (\<lambda>m. (node_label sd m, sample_count m)) (dag_nodes fuel sn c)
      \<and> d3_value t = sample_count c" .
  qed
  then obtain ts where ts: "traverse (\<lambda>c. ?b (node_id c)) ?cs = Inr ts"
    and all: "list_all2 (\<lambda>c t. d3_nodes t = map (\<lambda>m. (node_label sd m, sample_count m)) (dag_nodes fuel sn c)
        \<and> d3_value t = sample_count c) ?cs ts"
    by blast
  show ?case
  proof (cases "?cs = []")
    case True
    then show ?thesis using x self kids by (simp add: node_label_def)
  next
    case False
    then show ?thesis using x self kids ts concat_d3_nodes [OF all] by (simp add: node_label_def)
  qed
qed

lemma dag_ok:
  assumes d: "distinct (map node_id sn)"
    and sd: "\<And>n. n \<in> set sn \<Longrightarrow> \<exists>x. map_of (collect_map data_id sd) (stack_node_data_id n) = Some x"
  shows "\<exists>root. dag sn sd pb = Inr root \<and> d3_name root = basename pb
    \<and> d3_value root = sum_list (map sample_count (filter (\<lambda>x. parent_id x = None) sn))
    \<and> mset (tl (d3_nodes root)) = image_mset (\<lambda>m. (node_label (collect_map data_id sd) m, sample_count m))
        (mset (filter (\<lambda>x. \<exists>k. hangs sn k (node_id x)) sn))"
proof -
  let ?rs = "filter (\<lambda>x. parent_id x = None) sn"
  let ?h = "\<lambda>m. (node_label (collect_map data_id sd) m, sample_count m)"
  let ?b = "build_dag (length sn) (collect_map node_id sn) (collect_map data_id sd)
    (children_map (collect_map node_id sn))"
  have "\<exists>ts. traverse (\<lambda>c. ?b (node_id c)) ?rs = Inr ts
    \<and> list_all2 (\<lambda>c t. d3_nodes t = map ?h (dag_nodes (length sn) sn c) \<and> d3_value t = sample_count c) ?rs ts"
  proof (rule traverse_ex)
    fix c assume "c \<in> set ?rs"
    then have "c \<in> set sn" "hangs sn 0 (node_id c)" by (auto simp: hangs_def)
    from build_dag_ok [OF d sd this, of "length sn"]
    show "\<exists>t. ?b (node_id c) = Inr t \<and> d3_nodes t = map ?h (dag_nodes (length sn) sn c)
      \<and> d3_value t = sample_count c" by simp
  qed
  then obtain ts where ts: "traverse (\<lambda>c. ?b (node_id c)) ?rs = Inr ts"
    and all: "list_all2 (\<lambda>c t. d3_nodes t = map ?h (dag_nodes (length sn) sn c) \<and> d3_value t = sample_count c) ?rs ts"
    by blast
  have "map d3_value ts = map sample_count ?rs"
    using all by (induction rule: list_all2_induct) simp_all
  moreover have "mset (concat (map d3_nodes ts))
      = image_mset ?h (mset (filter (\<lambda>x. \<exists>k. hangs sn k (node_id x)) sn))"
    unfolding concat_d3_nodes [OF all] mset_map below_roots [OF d] ..
  ultimately show ?thesis using ts by (simp add: dag_def)
qed

section \<open>Handlers over a stored database\<close>

lemma find_vals: "keyed key t \<Longrightarrow> find (\<lambda>x. key x = k) (vals t) = map_of t k"
proof (induction t)
  case (Cons p t)
  then have "keyed key t" by (simp add: keyed_def wf_map_def)
  with Cons show ?case by (auto simp: vals_def keyed_def)
qed (simp add: vals_def)

lemma keyed_vals_key: "keyed key t \<Longrightarrow> map key (vals t) = map fst t"
  by (induction t) (auto simp: keyed_def wf_map_def vals_def)

lemma keyed_find_any:
  assumes "keyed key t" "set rows \<subseteq> set (vals t)" "map_of t k = Some x" "x \<in> set rows"
  shows "find (\<lambda>r. key r = k) rows = Some x"
proof -
  have "key x = k" using keyed_row [OF assms(1,3)] .
  then obtain y where y: "find (\<lambda>r. key r = k) rows = Some y"
    using find_ex [of x rows "\<lambda>r. key r = k"] assms(4) by auto
  then have "y \<in> set (vals t)" "key y = k" using find_SomeD [OF y] assms(2) by auto
  then have "map_of t k = Some y"
    using assms(1) by (auto simp: vals_def keyed_def wf_map_def)
  then show ?thesis using y assms(3) by simp
qed

lemma select_datas_map:
  assumes "db_ok d" "n \<in> set (select_nodes i d)"
  shows "map_of (collect_map data_id (select_datas i d)) (stack_node_data_id n)
    = map_of (stack_node_data_table d) (stack_node_data_id n)"
    and "\<exists>x. map_of (stack_node_data_table d) (stack_node_data_id n) = Some x"
proof -
  let ?k = "stack_node_data_id n"
  let ?F = "\<lambda>x. map (\<lambda>n. x)
    (filter (\<lambda>n. stack_node_data_id n = data_id x \<and> executable_id n = i) (vals (stack_node_table d)))"
  have n: "n \<in> set (vals (stack_node_table d))" "executable_id n = i"
    using assms(2) by (auto simp: select_nodes_def)
  then have "?k \<in> fst ` set (stack_node_data_table d)"
    using assms(1) by (auto simp: db_ok_def foreign_keys_def)
  then obtain x where x: "map_of (stack_node_data_table d) ?k = Some x"
    by (metis map_of_eq_None_iff not_Some_eq)
  then have row: "x \<in> set (vals (stack_node_data_table d))" "data_id x = ?k"
    using assms(1) keyed_row [of data_id "stack_node_data_table d"]
    by (force simp: vals_def db_ok_def dest: map_of_SomeD)+
  have k: "keyed data_id (stack_node_data_table d)" using assms(1) by (simp add: db_ok_def)
  have "n \<in> set (filter (\<lambda>m. stack_node_data_id m = data_id x \<and> executable_id m = i) (vals (stack_node_table d)))"
    using n row(2) by simp
  then have "x \<in> set (?F x)" by auto
  moreover have "?F x \<in> set (map ?F (vals (stack_node_data_table d)))" using row(1) by simp
  ultimately have "x \<in> set (select_datas i d)" unfolding select_datas_def set_concat by (rule UN_I [rotated])
  moreover have "set (select_datas i d) \<subseteq> set (vals (stack_node_data_table d))"
    by (auto simp: select_datas_def)
  ultimately have "find (\<lambda>r. data_id r = ?k) (rev (select_datas i d)) = Some x"
    using x by (intro keyed_find_any [OF k]) simp_all
  then show "map_of (collect_map data_id (select_datas i d)) ?k = map_of (stack_node_data_table d) ?k"
    and "\<exists>x. map_of (stack_node_data_table d) ?k = Some x"
    using x by (simp_all add: map_of_collect)
qed

lemma select_nodes_distinct: "db_ok d \<Longrightarrow> distinct (map node_id (select_nodes i d))"
  using keyed_vals_key [of node_id "stack_node_table d"]
  by (auto simp: db_ok_def select_nodes_def keyed_def wf_map_def intro: distinct_map_filter)

lemma metadata_lookup:
  "db_ok d \<Longrightarrow> metadata i d = (case map_of (executable_table d) i of None \<Rightarrow> Inl NoRow | Some x \<Rightarrow> Inr x)"
  by (simp add: metadata_def db_ok_def find_vals)

lemma data_handler_ok:
  assumes "db_ok d" "i \<noteq> 123" "map_of (executable_table d) i = Some pb"
  shows "\<exists>root. data_handler i d = Inr root \<and> d3_name root = basename pb
    \<and> d3_value root = sum_list (map sample_count (filter (\<lambda>n. parent_id n = None) (select_nodes i d)))
    \<and> mset (tl (d3_nodes root))
      = image_mset (\<lambda>n. (node_label (stack_node_data_table d) n, sample_count n))
          (mset (filter (\<lambda>n. \<exists>k. hangs (select_nodes i d) k (node_id n)) (select_nodes i d)))"
proof -
  let ?sn = "select_nodes i d"
  have label: "node_label (collect_map data_id (select_datas i d)) n = node_label (stack_node_data_table d) n"
    if "n \<in> set ?sn" for n
    using select_datas_map(1) [OF assms(1) that] by (simp add: node_label_def)
  have sd: "\<exists>x. map_of (collect_map data_id (select_datas i d)) (stack_node_data_id n) = Some x"
    if "n \<in> set ?sn" for n
    using select_datas_map [OF assms(1) that] by simp
  have "image_mset (\<lambda>n. (node_label (collect_map data_id (select_datas i d)) n, sample_count n))
      (mset (filter (\<lambda>n. \<exists>k. hangs ?sn k (node_id n)) ?sn))
    = image_mset (\<lambda>n. (node_label (stack_node_data_table d) n, sample_count n))
      (mset (filter (\<lambda>n. \<exists>k. hangs ?sn k (node_id n)) ?sn))"
    by (rule image_mset_cong) (simp add: label)
  then show ?thesis
    using dag_ok [OF select_nodes_distinct [OF assms(1)] sd, of i pb] assms
    by (simp add: data_handler_def metadata_lookup)
qed

section \<open>Properties\<close>

text \<open>
  C9. In every reachable database the flame graph of a stored executable is returned: nothing is
  unwrapped that is missing, and the recursion ends although the stored parents may form cycles.
  Its root carries the executable's name and the total count of the nodes without a parent, and below
  the root every stored node of the executable that hangs, by its parents, under such a node is shown
  exactly once with its own name and count; nodes that do not are left out.
\<close>

theorem flame_graph:
  assumes "reachable_db d" "i \<noteq> 123" "map_of (executable_table d) i = Some pb"
  shows "\<exists>root. data_handler i d = Inr root \<and> d3_name root = basename pb
    \<and> d3_value root = sum_list (map sample_count (filter (\<lambda>n. parent_id n = None) (select_nodes i d)))
    \<and> mset (tl (d3_nodes root))
      = image_mset (\<lambda>n. (node_label (stack_node_data_table d) n, sample_count n))
          (mset (filter (\<lambda>n. \<exists>k. hangs (select_nodes i d) k (node_id n)) (select_nodes i d)))"
  using reachable_db_ok [OF assms(1)] assms(2,3) by (rule data_handler_ok)

theorem flame_graph_witness:
  "\<exists>root. data_handler 5 demo_db = Inr root \<and> d3_name root = ''demo'' \<and> d3_value root = 2"
proof -
  have "map_of (executable_table demo_db) 5 = Some (exe_row 100 99 (profiled_binaries demo_sto ! 0))"
    by (simp add: demo_db_tables)
  from flame_graph [OF demo_db_reachable _ this] show ?thesis
    by (auto simp: exe_row_def demo_sto_def select_nodes_def demo_db_tables vals_def)
qed

text \<open>
  The name of a frame is its symbol, then the part of its file after the last slash, then its line;
  a line without a file is not shown.
\<close>

theorem dag_name_format:
  "dag_name x = Inr (symbol x
     @ (case data_file x of
          None \<Rightarrow> []
        | Some f \<Rightarrow> '':'' @ rev (takeWhile (\<lambda>c. c \<noteq> CHR ''/'') (rev f))
            @ (case line_number x of None \<Rightarrow> [] | Some y \<Rightarrow> '':'' @ show_i32 y)))"
proof -
  have none: "rsplit_once c s = None \<longleftrightarrow> c \<notin> set s" for c s
    by (induction s) (auto split: option.splits)
  have split: "rsplit_once c s = Some (a, b) \<Longrightarrow> s = a @ c # b \<and> c \<notin> set b" for c s a b
    by (induction s arbitrary: a) (auto simp: none split: option.splits if_splits)
  have tail: "rev (takeWhile (\<lambda>c. c \<noteq> CHR ''/'') (rev f)) = b" if "rsplit_once (CHR ''/'') f = Some (a, b)" for f a b
    using split [OF that] by (simp add: takeWhile_append takeWhile_eq_all_conv [THEN iffD2])
  have whole: "rev (takeWhile (\<lambda>c. c \<noteq> CHR ''/'') (rev f)) = f" if "CHR ''/'' \<notin> set f" for f
    using that by (subst takeWhile_eq_all_conv [THEN iffD2]) auto
  show ?thesis
    using whole tail by (auto simp: dag_name_def none split: option.split)
qed

text \<open>
  The listing never panics: it shows every stored executable, in the order of the query, and the
  built-in entry 123 after them.
\<close>

theorem listing_complete:
  assumes "reachable_db d"
  shows "\<exists>l. index_handler format now d = Inr l
    \<and> map listing_id l = map fst (executable_table d) @ [123]
    \<and> map listing_name l = map basename (vals (executable_table d)) @ [''somename'']"
proof -
  have ok: "db_ok d" by (rule reachable_db_ok [OF assms])
  let ?f = "\<lambda>x. case created_at x of None \<Rightarrow> Inl UnwrapNoneValue
    | Some t \<Rightarrow> Inr \<lparr>listing_name = basename x, listing_id = exe_id x, listing_date = format t\<rparr>"
  have "\<exists>l. traverse ?f (vals (executable_table d)) = Inr l
    \<and> list_all2 (\<lambda>x y. listing_id y = exe_id x \<and> listing_name y = basename x) (vals (executable_table d)) l"
  proof (rule traverse_ex)
    fix x assume "x \<in> set (vals (executable_table d))"
    then obtain t where "created_at x = Some t" using ok by (auto simp: db_ok_def)
    then show "\<exists>y. ?f x = Inr y \<and> listing_id y = exe_id x \<and> listing_name y = basename x" by simp
  qed
  then obtain l where l: "traverse ?f (vals (executable_table d)) = Inr l"
    "list_all2 (\<lambda>x y. listing_id y = exe_id x \<and> listing_name y = basename x) (vals (executable_table d)) l"
    by blast
  from l(2) have "map listing_id l = map exe_id (vals (executable_table d))
      \<and> map listing_name l = map basename (vals (executable_table d))"
    by (induction rule: list_all2_induct) simp_all
  then show ?thesis using l(1) ok by (simp add: index_handler_def db_ok_def keyed_vals_key)
qed

theorem listing_complete_witness:
  "\<exists>l. index_handler (\<lambda>t. []) 7 demo_db = Inr l \<and> map listing_id l = [5, 123]"
  using listing_complete [OF demo_db_reachable, of "\<lambda>t. []" 7] by (auto simp: demo_db_tables)

text \<open>
  The row of an executable is returned exactly when it is stored; for any other id both it and the
  flame graph panic, the built-in id 123 excepted.
\<close>

theorem missing_executable:
  assumes "reachable_db d"
  shows "metadata i d = (case map_of (executable_table d) i of None \<Rightarrow> Inl NoRow | Some x \<Rightarrow> Inr x)
    \<and> (map_of (executable_table d) i = None \<and> i \<noteq> 123 \<longrightarrow> data_handler i d = Inl NoRow)"
  using metadata_lookup [OF reachable_db_ok [OF assms], of i] by (simp add: data_handler_def)

theorem missing_executable_witness: "data_handler 7 demo_db = Inl NoRow"
  using missing_executable [OF demo_db_reachable, of 7] by (simp add: demo_db_tables)

end
