(* ===== verification/Server_Sql.thy ===== *)
theory Server_Sql
  imports Server_Dag
begin

text \<open>
  The SQL function \<^verbatim>\<open>subtree\<close> of \<^verbatim>\<open>src/migrations/20230305040305_init.up.sql\<close>, in the second of its
  two definitions, which replaces the first when the migration runs: the stack below a node as a JSON
  value.  A result that is SQL null is \<open>None\<close>.  The recursion is limited by the stack depth the
  database server allows, which is a parameter, and \<^verbatim>\<open>select distinct\<close> gives each row once in an order
  that is not specified, so it is a parameter with that contract.
\<close>

section \<open>JSON\<close>

datatype jsonb =
    JNull
  | JNum int
  | JStr string
  | JArr "jsonb list"
  | JObj "(string \<times> jsonb) list"

datatype sql_error = StackDepthExceeded

definition to_jsonb :: "('a \<Rightarrow> jsonb) \<Rightarrow> 'a option \<Rightarrow> jsonb" where
  "to_jsonb f v = (case v of None \<Rightarrow> JNull | Some x \<Rightarrow> f x)"

text \<open>The aggregate of no rows is null; a null among the aggregated values is a JSON null.\<close>

definition jsonb_agg :: "('a \<Rightarrow> jsonb) \<Rightarrow> 'a list \<Rightarrow> jsonb option" where
  "jsonb_agg f rows = (if rows = [] then None else Some (JArr (map f rows)))"

section \<open>The query\<close>

text \<open>The columns \<^verbatim>\<open>id\<close>, \<^verbatim>\<open>filename\<close>, \<^verbatim>\<open>line_number\<close>, \<^verbatim>\<open>name\<close> and \<^verbatim>\<open>value\<close>, and \<^verbatim>\<open>children\<close>.\<close>

type_synonym sub_key = "i64 \<times> string option \<times> i32 option \<times> string \<times> i64"
type_synonym sub_row = "sub_key \<times> jsonb option"
type_synonym select_distinct = "sub_row list \<Rightarrow> sub_row list"

definition distinct_contract :: "select_distinct \<Rightarrow> bool" where
  "distinct_contract sel \<longleftrightarrow> (\<forall>rows. distinct (sel rows) \<and> set (sel rows) = set rows)"

definition sub_join :: "db \<Rightarrow> i64 \<Rightarrow> (StackNode \<times> StackNode \<times> StackNodeData) list" where
  "sub_join d rootid =
     [(n, c, sd). n \<leftarrow> filter (\<lambda>n. node_id n = rootid) (vals (stack_node_table d)),
                   c \<leftarrow> filter (\<lambda>c. parent_id c = Some (node_id n)) (vals (stack_node_table d)),
                   sd \<leftarrow> filter (\<lambda>sd. stack_node_data_id n = data_id sd) (vals (stack_node_data_table d))]"

definition sub_key_of :: "StackNode \<Rightarrow> StackNodeData \<Rightarrow> sub_key" where
  "sub_key_of n sd = (node_id n, data_file sd, line_number sd, symbol sd, sample_count n)"

text \<open>A row of the outer query: a key with the aggregate of the children of its group.\<close>

definition sub_object :: "sub_key \<Rightarrow> jsonb option \<Rightarrow> jsonb" where
  "sub_object k children =
     (case k of (i, filename, line, name, v) \<Rightarrow>
        JObj [(''id'', JNum (sint i)), (''filename'', to_jsonb JStr filename),
              (''line_number'', to_jsonb (\<lambda>l. JNum (sint l)) line),
              (''name'', JStr name), (''value'', JNum (sint v)),
              (''children'', to_jsonb id children)])"

definition group_rows :: "sub_row list \<Rightarrow> (sub_key \<times> jsonb option) list" where
  "group_rows sub =
     map (\<lambda>k. (k, jsonb_agg (to_jsonb id) (map snd (filter (\<lambda>r. fst r = k) sub))))
       (remdups (map fst sub))"

primrec subtree :: "select_distinct \<Rightarrow> nat \<Rightarrow> db \<Rightarrow> i64 \<Rightarrow> sql_error + jsonb option" where
  "subtree sel 0 d rootid = Inl StackDepthExceeded"
| "subtree sel (Suc depth) d rootid =
     (case traverse (\<lambda>(n, c, sd).
              (case subtree sel depth d (node_id c) of
                 Inl e \<Rightarrow> Inl e
               | Inr children \<Rightarrow> Inr (sub_key_of n sd, children)))
            (sub_join d rootid) of
        Inl e \<Rightarrow> Inl e
      | Inr rows \<Rightarrow> Inr (jsonb_agg (\<lambda>(k, children). sub_object k children) (group_rows (sel rows))))"

section \<open>What it returns\<close>

text \<open>The frames of a JSON value, those objects that carry an id, a name and a value.\<close>

primrec json_frames :: "jsonb \<Rightarrow> (int \<times> string \<times> int) list" where
  "json_frames JNull = []"
| "json_frames (JNum i) = []"
| "json_frames (JStr s) = []"
| "json_frames (JArr xs) = concat (map json_frames xs)"
| "json_frames (JObj fs) =
     (case (map_of fs ''id'', map_of fs ''name'', map_of fs ''value'') of
        (Some (JNum i), Some (JStr s), Some (JNum v)) \<Rightarrow> [(i, s, v)]
      | _ \<Rightarrow> []) @ concat (map snd (map (map_prod id json_frames) fs))"

definition result_frames :: "jsonb option \<Rightarrow> (int \<times> string \<times> int) set" where
  "result_frames j = set (json_frames (to_jsonb id j))"

definition all_nodes :: "db \<Rightarrow> StackNode list" where
  "all_nodes d = vals (stack_node_table d)"

definition calls_on :: "db \<Rightarrow> StackNode \<Rightarrow> bool" where
  "calls_on d n \<longleftrightarrow> (\<exists>c \<in> set (all_nodes d). parent_id c = Some (node_id n))"

definition stored_frame :: "db \<Rightarrow> StackNode \<Rightarrow> int \<times> string \<times> int" where
  "stored_frame d n =
     (sint (node_id n),
      (case map_of (stack_node_data_table d) (stack_node_data_id n) of None \<Rightarrow> [] | Some x \<Rightarrow> symbol x),
      sint (sample_count n))"

lemma filter_key: "distinct (map key xs) \<Longrightarrow> x \<in> set xs \<Longrightarrow> filter (\<lambda>y. key y = key x) xs = [x]"
  by (induction xs) (auto simp: filter_empty_conv, metis imageI)

lemma db_ok_nodes: "db_ok d \<Longrightarrow> distinct (map node_id (all_nodes d))"
  by (simp add: db_ok_def all_nodes_def keyed_vals_key) (simp add: keyed_def wf_map_def)

lemma db_ok_data:
  assumes "db_ok d" "n \<in> set (all_nodes d)"
  obtains x where "map_of (stack_node_data_table d) (stack_node_data_id n) = Some x"
    and "filter (\<lambda>x. stack_node_data_id n = data_id x) (vals (stack_node_data_table d)) = [x]"
proof -
  have k: "keyed data_id (stack_node_data_table d)" using assms(1) by (simp add: db_ok_def)
  have "stack_node_data_id n \<in> fst ` set (stack_node_data_table d)"
    using assms by (simp add: db_ok_def foreign_keys_def all_nodes_def)
  then obtain x where x: "map_of (stack_node_data_table d) (stack_node_data_id n) = Some x"
    by (metis map_of_eq_None_iff not_None_eq)
  have "data_id x = stack_node_data_id n" using keyed_row [OF k x] .
  moreover have "x \<in> set (vals (stack_node_data_table d))"
    using map_of_SomeD [OF x] by (force simp: vals_def)
  moreover have "distinct (map data_id (vals (stack_node_data_table d)))"
    using k by (simp add: keyed_vals_key) (simp add: keyed_def wf_map_def)
  ultimately have "filter (\<lambda>x. stack_node_data_id n = data_id x) (vals (stack_node_data_table d)) = [x]"
    using filter_key [of data_id _ x] by (simp add: eq_commute)
  with x that show thesis by blast
qed

lemma sub_join_node:
  assumes "db_ok d" "n \<in> set (all_nodes d)"
    and "filter (\<lambda>x. stack_node_data_id n = data_id x) (vals (stack_node_data_table d)) = [x]"
  shows "sub_join d (node_id n)
    = map (\<lambda>c. (n, c, x)) (filter (\<lambda>c. parent_id c = Some (node_id n)) (all_nodes d))"
  using filter_key [OF db_ok_nodes [OF assms(1)] assms(2)] assms(3)
  by (simp add: sub_join_def all_nodes_def concat_map_singleton)

lemma remdups_const: "xs \<noteq> [] \<Longrightarrow> (\<And>x. x \<in> set xs \<Longrightarrow> x = k) \<Longrightarrow> remdups xs = [k]"
proof (induction xs)
  case (Cons x xs)
  then show ?case by (cases xs) auto
qed simp

text \<open>All rows of the inner query have the same key, so there is one group.\<close>

lemma group_rows_one:
  assumes "rows \<noteq> []" "\<And>r. r \<in> set rows \<Longrightarrow> fst r = k"
  shows "group_rows rows = [(k, Some (JArr (map (to_jsonb id) (map snd rows))))]"
proof -
  have "remdups (map fst rows) = [k]"
    by (rule remdups_const) (use assms in force)+
  moreover have "filter (\<lambda>r. fst r = k) rows = rows"
    using assms(2) by (simp add: filter_id_conv)
  ultimately show ?thesis using assms(1) by (simp add: group_rows_def jsonb_agg_def)
qed

lemma sub_object_frames:
  "set (json_frames (sub_object (sub_key_of n x) (Some (JArr (map (to_jsonb id) js)))))
     = insert (sint (node_id n), symbol x, sint (sample_count n)) (\<Union>j \<in> set js. result_frames j)"
  by (simp add: sub_object_def sub_key_of_def result_frames_def to_jsonb_def split: option.split)

lemma subtree_step:
  assumes sel: "distinct_contract sel" and join: "sub_join d i = map (\<lambda>c. (n, c, x)) cs"
    and kids: "\<And>c. c \<in> set cs \<Longrightarrow> \<exists>j. subtree sel depth d (node_id c) = Inr j \<and> P c j"
  shows "\<exists>j js. subtree sel (Suc depth) d i = Inr j \<and> list_all2 P cs js
    \<and> result_frames j = (if cs = [] then {}
         else insert (sint (node_id n), symbol x, sint (sample_count n)) (\<Union>j \<in> set js. result_frames j))"
proof -
  let ?f = "\<lambda>(n, c, sd). case subtree sel depth d (node_id c) of
      Inl e \<Rightarrow> Inl e | Inr children \<Rightarrow> Inr (sub_key_of n sd, children)"
  let ?k = "sub_key_of n x"
  have "\<exists>rows. traverse ?f (sub_join d i) = Inr rows
    \<and> list_all2 (\<lambda>(n', c, x') r. fst r = ?k \<and> P c (snd r)) (sub_join d i) rows"
    by (rule traverse_ex) (use kids in \<open>fastforce simp: join\<close>)
  then obtain rows where rows: "traverse ?f (sub_join d i) = Inr rows"
    and all: "list_all2 (\<lambda>c r. fst r = ?k \<and> P c (snd r)) cs rows"
    by (auto simp: join list_all2_map1)
  have set: "set (sel rows) = set rows" using sel by (simp add: distinct_contract_def)
  have js: "list_all2 P cs (map snd rows)"
    using all by (simp add: list_all2_map2 list_all2_mono)
  have keys: "fst r = ?k" if r: "r \<in> set rows" for r
  proof -
    obtain i where "i < length rows" "r = rows ! i" using r unfolding in_set_conv_nth by blast
    then show ?thesis using list_all2_nthD2 [OF all] by blast
  qed
  show ?thesis
  proof (cases "cs = []")
    case True
    then have "sel rows = []" using all set by simp
    then show ?thesis using rows js True by (simp add: group_rows_def jsonb_agg_def result_frames_def to_jsonb_def)
  next
    case False
    then have "sel rows \<noteq> []" using all set by auto
    then have g: "group_rows (sel rows) = [(?k, Some (JArr (map (to_jsonb id) (map snd (sel rows)))))]"
      by (rule group_rows_one) (simp add: set keys)
    have run: "subtree sel (Suc depth) d i = Inr (Some (JArr [sub_object ?k (Some (JArr (map (to_jsonb id) (map snd (sel rows)))))]))"
      unfolding subtree.simps rows by (simp add: g jsonb_agg_def)
    have fr: "result_frames (Some (JArr [sub_object ?k (Some (JArr (map (to_jsonb id) (map snd (sel rows)))))]))
       = insert (sint (node_id n), symbol x, sint (sample_count n)) (\<Union>j \<in> set (map snd rows). result_frames j)"
      using sub_object_frames [of n x "map snd (sel rows)"] set
      by (simp add: result_frames_def to_jsonb_def)
    show ?thesis
      by (intro exI conjI, rule run, rule js, simp only: fr False if_False)
  qed
qed

section \<open>Properties\<close>

text \<open>
  C25. On a node that hangs below a root, at a depth of recursion that the number of stored nodes
  bounds, the function returns; the frames in its result are exactly the stored nodes at or below
  that node that have callees.  So the leaves, where the samples were taken, never appear.
\<close>

theorem subtree_frames:
  assumes "reachable_db d" "distinct_contract sel" "n \<in> set (all_nodes d)"
    and "hangs (all_nodes d) k (node_id n)" "length (all_nodes d) \<le> depth + k"
  shows "\<exists>j. subtree sel depth d (node_id n) = Inr j
    \<and> result_frames j = stored_frame d ` {m \<in> below (all_nodes d) n. calls_on d m}"
proof -
  have ok: "db_ok d" by (rule reachable_db_ok [OF assms(1)])
  note dist = db_ok_nodes [OF ok]
  show ?thesis
    using assms(3-5)
  proof (induction depth arbitrary: n k)
    case 0
    then show ?case using hangs_bound [OF dist 0(2)] by simp
  next
    case (Suc depth)
    let ?cs = "filter (\<lambda>c. parent_id c = Some (node_id n)) (all_nodes d)"
    let ?F = "\<lambda>c. stored_frame d ` {m \<in> below (all_nodes d) c. calls_on d m}"
    obtain x where x: "map_of (stack_node_data_table d) (stack_node_data_id n) = Some x"
      "filter (\<lambda>x. stack_node_data_id n = data_id x) (vals (stack_node_data_table d)) = [x]"
      using db_ok_data [OF ok Suc.prems(1)] .
    have kids: "\<exists>j. subtree sel depth d (node_id c) = Inr j \<and> result_frames j = ?F c" if "c \<in> set ?cs" for c
      using Suc.IH [of c "Suc k"] child_hangs [OF dist _ _ Suc.prems(2)] that Suc.prems(3) by simp
    obtain j js where j: "subtree sel (Suc depth) d (node_id n) = Inr j"
      and js: "list_all2 (\<lambda>c j. result_frames j = ?F c) ?cs js"
      and fr: "result_frames j = (if ?cs = [] then {}
         else insert (sint (node_id n), symbol x, sint (sample_count n)) (\<Union>j \<in> set js. result_frames j))"
      using subtree_step [OF assms(2) sub_join_node [OF ok Suc.prems(1) x(2)] kids] by blast
    have "map result_frames js = map ?F ?cs"
      using js by (induction rule: list_all2_induct) simp_all
    from arg_cong [OF this, of "\<lambda>xs. \<Union> (set xs)"]
    have "(\<Union>j \<in> set js. result_frames j) = (\<Union>c \<in> set ?cs. ?F c)" by simp
    moreover have "calls_on d n \<longleftrightarrow> ?cs \<noteq> []"
      by (auto simp: calls_on_def filter_empty_conv)
    moreover have "stored_frame d n = (sint (node_id n), symbol x, sint (sample_count n))"
      by (simp add: stored_frame_def x)
    moreover have "{m \<in> below (all_nodes d) n. calls_on d m}
      = {m. m = n \<and> calls_on d n} \<union> (\<Union>c \<in> set ?cs. {m \<in> below (all_nodes d) c. calls_on d m})"
      unfolding below_rec [OF dist Suc.prems(1)] set_filter by blast
    ultimately have "result_frames j = ?F n"
      unfolding fr by (cases "?cs = []") (simp_all add: image_Un image_UN)
    with j show ?case by blast
  qed
qed

theorem subtree_frames_witness:
  "\<exists>j. subtree remdups 2 demo_db 1 = Inr j \<and> result_frames j = {(1, ''main'', 2)}"
proof -
  have nodes: "all_nodes demo_db = stack_nodes demo_sto"
    by (simp add: all_nodes_def demo_db_tables vals_def demo_sto_def)
  have contract: "distinct_contract remdups" by (simp add: distinct_contract_def)
  have hang: "hangs (all_nodes demo_db) 0 1" by (simp add: nodes hangs_def demo_sto_def)
  let ?n = "stack_nodes demo_sto ! 0"
  have "?n \<in> set (all_nodes demo_db)" "hangs (all_nodes demo_db) 0 (node_id ?n)"
    "length (all_nodes demo_db) \<le> 2 + 0"
    using hang by (simp_all add: nodes demo_sto_def)
  from subtree_frames [OF demo_db_reachable contract this]
  obtain j where j: "subtree remdups 2 demo_db 1 = Inr j"
    "result_frames j = stored_frame demo_db ` {m \<in> below (all_nodes demo_db) ?n. calls_on demo_db m}"
    by (auto simp: demo_sto_def)
  have "{m \<in> below (all_nodes demo_db) ?n. calls_on demo_db m} = {?n}"
    by (auto simp: below_def calls_on_def nodes demo_sto_def intro: exI [of _ 0])
  then have "result_frames j = {(1, ''main'', 2)}"
    using j(2) by (simp add: stored_frame_def demo_db_tables demo_sto_def)
  with j(1) show ?thesis by blast
qed

section \<open>Cycles\<close>

definition on_cycle :: "db \<Rightarrow> i64 \<Rightarrow> bool" where
  "on_cycle d i \<longleftrightarrow> (\<exists>m. ancestor (all_nodes d) (Suc m) i = Some i)"

lemma on_cycle_child:
  assumes "on_cycle d i"
  shows "\<exists>c \<in> set (all_nodes d). parent_id c = Some i \<and> on_cycle d (node_id c)"
proof -
  from assms obtain m where "ancestor (all_nodes d) (Suc m) i = Some i" by (auto simp: on_cycle_def)
  then obtain b where b: "ancestor (all_nodes d) m i = Some b" "par (all_nodes d) b = Some i"
    by (auto simp: up_Suc_snoc bind_eq_Some_conv simp del: ancestor.simps)
  from par_SomeD [OF b(2)] obtain c where c: "c \<in> set (all_nodes d)" "node_id c = b" "parent_id c = Some i"
    by blast
  have "ancestor (all_nodes d) (Suc m) b = Some b" using b by simp
  then show ?thesis using c unfolding on_cycle_def by blast
qed

lemma traverse_Inl: "x \<in> set xs \<Longrightarrow> f x = Inl e \<Longrightarrow> \<exists>e. traverse f xs = Inl e"
  by (induction xs) (auto split: sum.split)

text \<open>
  C36. On a node whose ancestors lead back to itself the function fails, whatever depth of recursion
  the database server allows.
\<close>

theorem subtree_cycle:
  assumes "reachable_db d" "on_cycle d i"
  shows "subtree sel depth d i = Inl StackDepthExceeded"
proof -
  have ok: "db_ok d" by (rule reachable_db_ok [OF assms(1)])
  show ?thesis
    using assms(2)
  proof (induction depth arbitrary: i)
    case (Suc depth)
    from on_cycle_child [OF Suc.prems] obtain c
      where c: "c \<in> set (all_nodes d)" "parent_id c = Some i" "on_cycle d (node_id c)" by blast
    from Suc.prems obtain n where n: "n \<in> set (all_nodes d)" "node_id n = i"
      by (auto simp: on_cycle_def dest: par_SomeD split: option.splits)
    obtain x where "filter (\<lambda>x. stack_node_data_id n = data_id x) (vals (stack_node_data_table d)) = [x]"
      using db_ok_data [OF ok n(1)] by blast
    from sub_join_node [OF ok n(1) this] have row: "(n, c, x) \<in> set (sub_join d i)"
      using c n(2) by simp
    let ?f = "\<lambda>(n, c, sd). case subtree sel depth d (node_id c) of
        Inl e \<Rightarrow> Inl e | Inr children \<Rightarrow> Inr (sub_key_of n sd, children)"
    have "?f (n, c, x) = Inl StackDepthExceeded" using Suc.IH [OF c(3)] by simp
    from traverse_Inl [OF row, of ?f, OF this] obtain e where "traverse ?f (sub_join d i) = Inl e" by blast
    then show ?case by (cases e) simp
  qed simp
qed

text \<open>A request with one node that is its own parent is accepted.\<close>

definition cyclic_sto :: StoData where
  "cyclic_sto = demo_sto\<lparr>stack_nodes := [(stack_nodes demo_sto ! 0)\<lparr>parent_id := Some 1\<rparr>]\<rparr>"

theorem subtree_cycle_witness:
  "fst (data_ingest (\<lambda>i. 100) 99 cyclic_sto empty_db) = None
   \<and> subtree remdups 1000 (snd (data_ingest (\<lambda>i. 100) 99 cyclic_sto empty_db)) 1 = Inl StackDepthExceeded"
proof -
  let ?r = "data_ingest (\<lambda>i. 100) 99 cyclic_sto empty_db"
  have r: "?r = (None, demo_db\<lparr>stack_node_table := [(1, stack_nodes cyclic_sto ! 0)]\<rparr>)"
    unfolding demo_db_tables by (simp add: cyclic_sto_def demo_sto_def empty_db_def ingest_eval)
  have "ancestor (all_nodes (snd ?r)) (Suc 0) 1 = Some 1"
    unfolding r by (simp add: all_nodes_def vals_def par_def cyclic_sto_def demo_sto_def)
  then have "on_cycle (snd ?r) 1" unfolding on_cycle_def by blast
  from subtree_cycle [OF data_ingest_reachable [OF reachable_db.empty] this] r show ?thesis by simp
qed

end
