(* ===== verification/Wire.thy ===== *)
theory Wire
  imports Server_Sql "HOL-Library.Monad_Syntax"
begin

text \<open>
  The batch on its way from the client to the server: the JSON that the derived \<^verbatim>\<open>Serialize\<close> and
  \<^verbatim>\<open>Deserialize\<close> instances of \<^verbatim>\<open>src/src/defs.rs\<close> write and read, with the attributes of the fields,
  the body of the request, and the size limit of the server.  The printer and the parser of JSON texts are
  \<^verbatim>\<open>serde_json\<close>'s and those of time stamps \<^verbatim>\<open>chrono\<close>'s: parameters with the contract that one undoes
  the other.
\<close>

section \<open>Strings\<close>

text \<open>A string of Rust is valid UTF-8; here it is the list of its bytes.\<close>

definition cont :: "nat \<Rightarrow> bool" where
  "cont b \<longleftrightarrow> 128 \<le> b \<and> b < 192"

text \<open>The number of bytes of the character that starts here, 0 if none does.\<close>

definition utf8_width :: "nat \<Rightarrow> nat \<Rightarrow> nat \<Rightarrow> nat \<Rightarrow> nat" where
  "utf8_width a b c d =
     (if a < 128 then 1
      else if 194 \<le> a \<and> a < 224 \<and> cont b then 2
      else if 224 \<le> a \<and> a < 240 \<and> cont b \<and> cont c \<and> (a = 224 \<longrightarrow> 160 \<le> b) \<and> (a = 237 \<longrightarrow> b < 160) then 3
      else if 240 \<le> a \<and> a < 245 \<and> cont b \<and> cont c \<and> cont d \<and> (a = 240 \<longrightarrow> 144 \<le> b) \<and> (a = 244 \<longrightarrow> b < 144) then 4
      else 0)"

function utf8 :: "nat list \<Rightarrow> bool" where
  "utf8 [] = True"
| "utf8 (a # bs) =
     (let w = utf8_width a (hd (bs @ [0])) (hd (drop 1 bs @ [0])) (hd (drop 2 bs @ [0]))
      in 0 < w \<and> utf8 (drop (w - 1) bs))"
  by pat_completeness auto
termination by (relation "measure length") auto

definition str_ok :: "string \<Rightarrow> bool" where
  "str_ok s \<longleftrightarrow> utf8 (map of_char s)"

lemma utf8_ascii: "\<forall>b \<in> set bs. b < 128 \<Longrightarrow> utf8 bs"
  by (induction bs) (simp_all add: utf8_width_def)

primrec json_ok :: "jsonb \<Rightarrow> bool" where
  "json_ok JNull = True"
| "json_ok (JNum i) = True"
| "json_ok (JStr s) = str_ok s"
| "json_ok (JArr xs) = list_all id (map json_ok xs)"
| "json_ok (JObj fs) = list_all (\<lambda>(k, ok). str_ok k \<and> ok) (map (map_prod id json_ok) fs)"

section \<open>Serialize\<close>

definition json_num :: "'a::len word \<Rightarrow> jsonb" where
  "json_num w = JNum (sint w)"

text \<open>\<^verbatim>\<open>skip_serializing_if = "Option::is_none"\<close>\<close>

definition skip_none :: "string \<Rightarrow> ('a \<Rightarrow> jsonb) \<Rightarrow> 'a option \<Rightarrow> (string \<times> jsonb) list" where
  "skip_none k f v = (case v of None \<Rightarrow> [] | Some x \<Rightarrow> [(k, f x)])"

record time_format =
  show_time :: "int \<Rightarrow> string"
  read_time :: "string \<Rightarrow> int option"

definition json_executable :: "time_format \<Rightarrow> Executable \<Rightarrow> jsonb" where
  "json_executable tf e = JObj
     ([(''id'', json_num (exe_id e)), (''event'', JStr (exe_event e))]
      @ skip_none ''build_id'' JStr (build_id e)
      @ [(''basename'', JStr (basename e))]
      @ skip_none ''updated_at'' (JStr \<circ> show_time tf) (updated_at e)
      @ skip_none ''created_at'' (JStr \<circ> show_time tf) (created_at e)
      @ [(''sample_count'', json_num (exe_sample_count e)), (''raw_data_size'', json_num (raw_data_size e)),
         (''processed_data_size'', json_num (processed_data_size e))])"

definition json_node :: "StackNode \<Rightarrow> jsonb" where
  "json_node n = JObj
     ([(''id'', json_num (node_id n))]
      @ skip_none ''parent_id'' json_num (parent_id n)
      @ [(''stack_node_data_id'', json_num (stack_node_data_id n)), (''executable_id'', json_num (executable_id n)),
         (''sample_count'', json_num (sample_count n))])"

definition json_data :: "StackNodeData \<Rightarrow> jsonb" where
  "json_data x = JObj
     ([(''id'', json_num (data_id x)), (''symbol'', JStr (symbol x))]
      @ skip_none ''file'' JStr (data_file x)
      @ skip_none ''line_number'' json_num (line_number x))"

definition json_sto :: "time_format \<Rightarrow> StoData \<Rightarrow> jsonb" where
  "json_sto tf s = JObj
     [(''stack_nodes'', JArr (map json_node (stack_nodes s))),
      (''stack_node_datas'', JArr (map json_data (stack_node_datas s))),
      (''profiled_binaries'', JArr (map (json_executable tf) (profiled_binaries s)))]"

section \<open>Deserialize\<close>

text \<open>An integer out of range is rejected, and so is a value of another kind.\<close>

fun num_of :: "jsonb \<Rightarrow> 'a::len word option" where
  "num_of (JNum k) =
     (if - (2 ^ (LENGTH('a) - 1)) \<le> k \<and> k < 2 ^ (LENGTH('a) - 1) then Some (of_int k) else None)"
| "num_of j = None"

fun str_of :: "jsonb \<Rightarrow> string option" where
  "str_of (JStr s) = Some s"
| "str_of j = None"

definition time_of :: "time_format \<Rightarrow> jsonb \<Rightarrow> int option" where
  "time_of tf j = Option.bind (str_of j) (read_time tf)"

text \<open>
  The fields of a struct: an object in which no known field occurs twice, unknown ones being ignored, or an
  array of exactly the fields in order.
\<close>

fun struct_fields :: "string list \<Rightarrow> jsonb \<Rightarrow> (string \<Rightarrow> jsonb option) option" where
  "struct_fields names (JObj fs) =
     (if distinct (filter (\<lambda>k. k \<in> set names) (map fst fs)) then Some (map_of fs) else None)"
| "struct_fields names (JArr xs) = (if length xs = length names then Some (map_of (zip names xs)) else None)"
| "struct_fields names j = None"

definition required :: "(jsonb \<Rightarrow> 'a option) \<Rightarrow> (string \<Rightarrow> jsonb option) \<Rightarrow> string \<Rightarrow> 'a option" where
  "required f fs k = (case fs k of None \<Rightarrow> None | Some j \<Rightarrow> f j)"

text \<open>A field of type \<^verbatim>\<open>Option\<close> may be missing or null.\<close>

definition optional :: "(jsonb \<Rightarrow> 'a option) \<Rightarrow> (string \<Rightarrow> jsonb option) \<Rightarrow> string \<Rightarrow> 'a option option" where
  "optional f fs k =
     (case fs k of None \<Rightarrow> Some None | Some JNull \<Rightarrow> Some None | Some j \<Rightarrow> map_option Some (f j))"

fun vec_of :: "(jsonb \<Rightarrow> 'a option) \<Rightarrow> jsonb \<Rightarrow> 'a list option" where
  "vec_of f (JArr xs) = those (map f xs)"
| "vec_of f j = None"

definition read_executable :: "time_format \<Rightarrow> jsonb \<Rightarrow> Executable option" where
  "read_executable tf j = do {
     fs \<leftarrow> struct_fields [''id'', ''event'', ''build_id'', ''basename'', ''updated_at'', ''created_at'',
       ''sample_count'', ''raw_data_size'', ''processed_data_size''] j;
     i \<leftarrow> required num_of fs ''id'';
     ev \<leftarrow> required str_of fs ''event'';
     b \<leftarrow> optional str_of fs ''build_id'';
     nm \<leftarrow> required str_of fs ''basename'';
     up \<leftarrow> optional (time_of tf) fs ''updated_at'';
     cr \<leftarrow> optional (time_of tf) fs ''created_at'';
     sc \<leftarrow> required num_of fs ''sample_count'';
     raw \<leftarrow> required num_of fs ''raw_data_size'';
     proc \<leftarrow> required num_of fs ''processed_data_size'';
     Some \<lparr>exe_id = i, exe_event = ev, build_id = b, basename = nm, updated_at = up, created_at = cr,
           exe_sample_count = sc, raw_data_size = raw, processed_data_size = proc\<rparr>
   }"

definition read_node :: "jsonb \<Rightarrow> StackNode option" where
  "read_node j = do {
     fs \<leftarrow> struct_fields [''id'', ''parent_id'', ''stack_node_data_id'', ''executable_id'', ''sample_count''] j;
     i \<leftarrow> required num_of fs ''id'';
     p \<leftarrow> optional num_of fs ''parent_id'';
     x \<leftarrow> required num_of fs ''stack_node_data_id'';
     e \<leftarrow> required num_of fs ''executable_id'';
     sc \<leftarrow> required num_of fs ''sample_count'';
     Some \<lparr>node_id = i, parent_id = p, stack_node_data_id = x, executable_id = e, sample_count = sc\<rparr>
   }"

definition read_data :: "jsonb \<Rightarrow> StackNodeData option" where
  "read_data j = do {
     fs \<leftarrow> struct_fields [''id'', ''symbol'', ''file'', ''line_number''] j;
     i \<leftarrow> required num_of fs ''id'';
     s \<leftarrow> required str_of fs ''symbol'';
     f \<leftarrow> optional str_of fs ''file'';
     l \<leftarrow> optional num_of fs ''line_number'';
     Some \<lparr>data_id = i, symbol = s, data_file = f, line_number = l\<rparr>
   }"

definition read_sto :: "time_format \<Rightarrow> jsonb \<Rightarrow> StoData option" where
  "read_sto tf j = do {
     fs \<leftarrow> struct_fields [''stack_nodes'', ''stack_node_datas'', ''profiled_binaries''] j;
     ns \<leftarrow> required (vec_of read_node) fs ''stack_nodes'';
     ds \<leftarrow> required (vec_of read_data) fs ''stack_node_datas'';
     es \<leftarrow> required (vec_of (read_executable tf)) fs ''profiled_binaries'';
     Some \<lparr>stack_nodes = ns, stack_node_datas = ds, profiled_binaries = es\<rparr>
   }"

section \<open>The request\<close>

record json_text =
  to_text :: "jsonb \<Rightarrow> string"
  of_text :: "string \<Rightarrow> jsonb option"

definition json_limit :: nat where
  "json_limit = 1000 * 2 ^ 20"

definition request_body :: "json_text \<Rightarrow> time_format \<Rightarrow> StoData \<Rightarrow> string" where
  "request_body jt tf s = to_text jt (json_sto tf s)"

text \<open>What the guard of the route makes of the body: the argument of \<^verbatim>\<open>data_ingest\<close>, or no call.\<close>

definition route_data :: "json_text \<Rightarrow> time_format \<Rightarrow> string \<Rightarrow> StoData option" where
  "route_data jt tf body = (if json_limit < length body then None else Option.bind (of_text jt body) (read_sto tf))"

section \<open>One undoes the other\<close>

definition option_ok :: "('a \<Rightarrow> bool) \<Rightarrow> 'a option \<Rightarrow> bool" where
  "option_ok P v = (case v of None \<Rightarrow> True | Some x \<Rightarrow> P x)"

definition time_ok :: "time_format \<Rightarrow> int \<Rightarrow> bool" where
  "time_ok tf t \<longleftrightarrow> str_ok (show_time tf t) \<and> read_time tf (show_time tf t) = Some t"

text \<open>The strings of a batch are strings, and its time stamps are printed and read faithfully.\<close>

definition executable_ok :: "time_format \<Rightarrow> Executable \<Rightarrow> bool" where
  "executable_ok tf e \<longleftrightarrow> str_ok (exe_event e) \<and> option_ok str_ok (build_id e) \<and> str_ok (basename e)
     \<and> option_ok (time_ok tf) (updated_at e) \<and> option_ok (time_ok tf) (created_at e)"

definition data_ok :: "StackNodeData \<Rightarrow> bool" where
  "data_ok x \<longleftrightarrow> str_ok (symbol x) \<and> option_ok str_ok (data_file x)"

definition sto_ok :: "time_format \<Rightarrow> StoData \<Rightarrow> bool" where
  "sto_ok tf s \<longleftrightarrow> list_all data_ok (stack_node_datas s) \<and> list_all (executable_ok tf) (profiled_binaries s)"

definition text_contract :: "json_text \<Rightarrow> bool" where
  "text_contract jt \<longleftrightarrow> (\<forall>j. json_ok j \<longrightarrow> of_text jt (to_text jt j) = Some j)"

lemma num_of_json [simp]: "num_of (json_num w) = Some (w :: 'a::len word)"
  using sint_range_size [of w] by (simp add: json_num_def word_size)

lemma optional_simps:
  "fs k = None \<Longrightarrow> optional f fs k = Some None"
  "fs k = Some j \<Longrightarrow> j \<noteq> JNull \<Longrightarrow> optional f fs k = map_option Some (f j)"
  by (simp_all add: optional_def split: jsonb.split)

lemma json_num_not_null [simp]: "json_num w \<noteq> JNull"
  by (simp add: json_num_def)

lemmas read_defs = struct_fields.simps required_def optional_simps skip_none_def time_of_def

lemma read_node_json: "read_node (json_node n) = Some n"
  by (cases "parent_id n") (simp_all add: read_node_def json_node_def read_defs)

lemma read_data_json: "read_data (json_data x) = Some x"
  by (cases "data_file x"; cases "line_number x") (simp_all add: read_data_def json_data_def read_defs)

lemma read_executable_json:
  assumes "executable_ok tf e"
  shows "read_executable tf (json_executable tf e) = Some e"
  using assms
  by (cases "build_id e"; cases "updated_at e"; cases "created_at e")
     (simp_all add: read_executable_def json_executable_def read_defs executable_ok_def option_ok_def time_ok_def)

lemma json_ok_num [simp]: "json_ok (json_num w)"
  by (simp add: json_num_def)

lemma str_ok_ascii: "(\<forall>c \<in> set s. (of_char c :: nat) < 128) \<Longrightarrow> str_ok s"
  by (simp add: str_ok_def utf8_ascii)

lemma skip_none_ok:
  "str_ok k \<Longrightarrow> list_all (\<lambda>(k, ok). str_ok k \<and> ok) (map (map_prod id json_ok) (skip_none k f v))
     \<longleftrightarrow> option_ok (\<lambda>x. json_ok (f x)) v"
  by (simp add: skip_none_def option_ok_def split: option.split)

lemma option_ok_mono: "option_ok P v \<Longrightarrow> (\<And>x. P x \<Longrightarrow> Q x) \<Longrightarrow> option_ok Q v"
  by (simp add: option_ok_def split: option.splits)

lemma option_ok_True [simp]: "option_ok (\<lambda>x. True) v"
  by (simp add: option_ok_def split: option.split)

lemma json_ok_node: "json_ok (json_node n)"
  by (simp add: json_node_def skip_none_ok str_ok_ascii)

lemma json_ok_data: "data_ok x \<Longrightarrow> json_ok (json_data x)"
  by (simp add: json_data_def skip_none_ok str_ok_ascii data_ok_def)

lemma json_ok_executable: "executable_ok tf e \<Longrightarrow> json_ok (json_executable tf e)"
  using option_ok_mono [of "time_ok tf" _ "\<lambda>t. str_ok (show_time tf t)"]
  by (simp add: json_executable_def skip_none_ok str_ok_ascii executable_ok_def time_ok_def)

text \<open>What a value written and read back as JSON has, and what lists of such values then have.\<close>

locale json_codec =
  fixes ok :: "'a \<Rightarrow> bool"
    and to_json :: "'a \<Rightarrow> jsonb"
    and from_json :: "jsonb \<Rightarrow> 'a option"
  assumes read_write: "ok x \<Longrightarrow> from_json (to_json x) = Some x"
    and write_ok: "ok x \<Longrightarrow> json_ok (to_json x)"
begin

lemma vec_read_write: "list_all ok xs \<Longrightarrow> vec_of from_json (JArr (map to_json xs)) = Some xs"
  by (induction xs) (simp_all add: read_write)

lemma vec_write_ok: "list_all ok xs \<Longrightarrow> json_ok (JArr (map to_json xs))"
  by (simp add: list_all_iff write_ok)

end

interpretation node_json: json_codec "\<lambda>_. True" json_node read_node
  by unfold_locales (rule read_node_json, rule json_ok_node)

interpretation data_json: json_codec data_ok json_data read_data
  by unfold_locales (rule read_data_json, rule json_ok_data)

interpretation executable_json: json_codec "executable_ok tf" "json_executable tf" "read_executable tf" for tf
  by unfold_locales (rule read_executable_json, assumption, rule json_ok_executable)

lemma all_nodes_ok: "list_all (\<lambda>_. True) ns"
  by (simp add: list_all_iff)

lemmas vec_read_write = node_json.vec_read_write [OF all_nodes_ok] data_json.vec_read_write
  executable_json.vec_read_write

lemmas vec_write_ok = node_json.vec_write_ok [OF all_nodes_ok] data_json.vec_write_ok executable_json.vec_write_ok

interpretation sto_json: json_codec "sto_ok tf" "json_sto tf" "read_sto tf" for tf
proof unfold_locales
  fix s
  assume "sto_ok tf s"
  then have ok: "list_all data_ok (stack_node_datas s)" "list_all (executable_ok tf) (profiled_binaries s)"
    by (simp_all add: sto_ok_def)
  show "read_sto tf (json_sto tf s) = Some s"
    by (simp add: read_sto_def json_sto_def read_defs vec_read_write ok del: vec_of.simps)
  show "json_ok (json_sto tf s)"
    by (simp add: json_sto_def vec_write_ok ok str_ok_ascii del: json_ok.simps(4))
qed

section \<open>Properties\<close>


section \<open>A text format\<close>

text \<open>
  A simple format for the witness: a letter for the kind, then a count in unary where one is needed.  The
  parser has fuel; the length of the text is enough.
\<close>

definition unary :: "nat \<Rightarrow> string" where
  "unary n = replicate n (CHR ''1'') @ ''.''"

fun take_unary :: "string \<Rightarrow> nat \<times> string" where
  "take_unary [] = (0, [])"
| "take_unary (c # s) = (if c = CHR ''1'' then (case take_unary s of (n, r) \<Rightarrow> (Suc n, r)) else (0, s))"

primrec plain_text :: "jsonb \<Rightarrow> string" where
  "plain_text JNull = ''n''"
| "plain_text (JNum k) = (if 0 \<le> k then ''i'' else ''m'') @ unary (nat \<bar>k\<bar>)"
| "plain_text (JStr s) = ''s'' @ unary (length s) @ s"
| "plain_text (JArr xs) = ''a'' @ unary (length xs) @ concat (map plain_text xs)"
| "plain_text (JObj fs) = ''o'' @ unary (length fs)
     @ concat (map (\<lambda>(k, t). unary (length k) @ k @ t) (map (map_prod id plain_text) fs))"

fun take_many :: "(string \<Rightarrow> ('a \<times> string) option) \<Rightarrow> nat \<Rightarrow> string \<Rightarrow> ('a list \<times> string) option" where
  "take_many f 0 s = Some ([], s)"
| "take_many f (Suc n) s =
     (case f s of None \<Rightarrow> None
      | Some (x, s) \<Rightarrow> (case take_many f n s of None \<Rightarrow> None | Some (xs, s) \<Rightarrow> Some (x # xs, s)))"

primrec parse_plain :: "nat \<Rightarrow> string \<Rightarrow> (jsonb \<times> string) option" where
  "parse_plain 0 s = None"
| "parse_plain (Suc fuel) s =
     (case s of
        [] \<Rightarrow> None
      | c # s \<Rightarrow>
          (case take_unary s of (n, r) \<Rightarrow>
             if c = CHR ''n'' then Some (JNull, s)
             else if c = CHR ''i'' then Some (JNum (int n), r)
             else if c = CHR ''m'' then Some (JNum (- int n), r)
             else if c = CHR ''s'' then Some (JStr (take n r), drop n r)
             else if c = CHR ''a'' then map_option (map_prod JArr id) (take_many (parse_plain fuel) n r)
             else map_option (map_prod JObj id)
               (take_many (\<lambda>s. case take_unary s of (l, s) \<Rightarrow>
                  map_option (map_prod (Pair (take l s)) id) (parse_plain fuel (drop l s))) n r)))"

lemma take_unary_unary [simp]: "take_unary (unary n @ s) = (n, s)"
  by (induction n) (simp_all add: unary_def)

lemma take_many_concat:
  "(\<And>x r. x \<in> set xs \<Longrightarrow> f (g x @ r) = Some (x, r)) \<Longrightarrow> take_many f (length xs) (concat (map g xs) @ r) = Some (xs, r)"
  by (induction xs) simp_all

lemma length_concat_member: "x \<in> set xs \<Longrightarrow> length (g x) \<le> length (concat (map g xs))"
  by (induction xs) auto

lemma parse_plain_text: "length (plain_text j) \<le> fuel \<Longrightarrow> parse_plain fuel (plain_text j @ r) = Some (j, r)"
proof (induction j arbitrary: fuel r)
  case (JNum k)
  then show ?case by (cases fuel) (auto split: if_splits)
next
  case (JArr xs)
  then obtain f where f: "fuel = Suc f" by (cases fuel) auto
  have "take_many (parse_plain f) (length xs) (concat (map plain_text xs) @ r) = Some (xs, r)"
    by (rule take_many_concat, rule JArr.IH)
       (use JArr.prems f length_concat_member [of _ xs plain_text] in \<open>fastforce+\<close>)
  then show ?case using f by simp
next
  case (JObj fs)
  then obtain f where f: "fuel = Suc f" by (cases fuel) auto
  let ?g = "\<lambda>(k, v). unary (length k) @ k @ plain_text v"
  have eq: "map (\<lambda>(k, t). unary (length k) @ k @ t) (map (map_prod id plain_text) fs) = map ?g fs" by auto
  have "take_many (\<lambda>s. case take_unary s of (l, s) \<Rightarrow>
      map_option (map_prod (Pair (take l s)) id) (parse_plain f (drop l s))) (length fs) (concat (map ?g fs) @ r)
    = Some (fs, r)"
  proof (rule take_many_concat)
    fix p r assume p: "p \<in> set fs"
    obtain k v where kv: "p = (k, v)" by fastforce
    have "length (plain_text v) \<le> length (concat (map ?g fs))"
      using length_concat_member [OF p, of ?g] kv by simp
    then have "length (plain_text v) \<le> f" using JObj.prems f by (simp add: eq del: map_map)
    then show "(case take_unary (?g p @ r) of (l, s) \<Rightarrow>
        map_option (map_prod (Pair (take l s)) id) (parse_plain f (drop l s))) = Some (p, r)"
      using JObj.IH [OF p, of v f r] kv by simp
  qed
  then show ?case using f by (simp add: eq del: map_map)
qed (case_tac [!] fuel, auto)

definition plain_json :: json_text where
  "plain_json =
     \<lparr>to_text = plain_text,
      of_text = (\<lambda>s. case parse_plain (length s) s of Some (j, []) \<Rightarrow> Some j | _ \<Rightarrow> None)\<rparr>"

lemma plain_json_inverse: "of_text plain_json (plain_text j) = Some j"
  using parse_plain_text [of j "length (plain_text j)" "[]"] by (simp add: plain_json_def)

lemma plain_json_contract: "text_contract plain_json"
  using plain_json_inverse by (simp add: text_contract_def plain_json_def)

definition plain_time :: time_format where
  "plain_time =
     \<lparr>show_time = (\<lambda>t. plain_text (JNum t)),
      read_time = (\<lambda>s. case of_text plain_json s of Some (JNum t) \<Rightarrow> Some t | _ \<Rightarrow> None)\<rparr>"

lemma plain_time_ok: "time_ok plain_time t"
proof -
  have "str_ok (plain_text (JNum t))" by (rule str_ok_ascii) (simp add: unary_def)
  then show ?thesis by (simp add: time_ok_def plain_time_def plain_json_inverse del: plain_text.simps)
qed

text \<open>A batch whose executable carries its time stamps.\<close>

definition stamped_sto :: StoData where
  "stamped_sto = demo_sto\<lparr>profiled_binaries := [exe_row 100 99 (profiled_binaries demo_sto ! 0)]\<rparr>"

lemma stamped_sto_ok: "sto_ok plain_time stamped_sto"
  by (simp add: sto_ok_def stamped_sto_def demo_sto_def exe_row_def data_ok_def executable_ok_def option_ok_def
      str_ok_ascii plain_time_ok)


end
