(* ===== verification/Server_Regress.thy ===== *)
theory Server_Regress
  imports Complex_Main Server_Sql "HOL-Library.Multiset"
begin

text \<open>
  The SQL function \<^verbatim>\<open>findRegressions\<close> of \<^verbatim>\<open>src/migrations/20230305040305_init.up.sql\<close>, which compares
  two versions of an executable frame by frame.  The quotient of two numerics is rounded by the database
  to a scale that it chooses, so the division is a parameter; the sum, difference and product of numerics
  are exact.  \<^verbatim>\<open>start_time\<close> is the instant the argument denotes in the session's time zone, and the order
  of rows with equal keys is a parameter with the contract of \<^verbatim>\<open>order by\<close>.
\<close>

section \<open>The query\<close>

datatype query_error = DivisionByZero

type_synonym numeric_div = "rat \<Rightarrow> rat \<Rightarrow> rat"

definition numeric_quotient :: "numeric_div \<Rightarrow> rat \<Rightarrow> rat \<Rightarrow> query_error + rat" where
  "numeric_quotient ndiv x y = (if y = 0 then Inl DivisionByZero else Inr (ndiv x y))"

text \<open>A row of the common table expression: a group of nodes with the same executable and frame data.\<close>

record presence =
  presence_exe :: Executable
  presence_data :: StackNodeData
  normalized_presence :: rat

definition frame_nodes :: "db \<Rightarrow> Executable \<Rightarrow> StackNodeData \<Rightarrow> StackNode list" where
  "frame_nodes d e x =
     filter (\<lambda>sn. executable_id sn = exe_id e \<and> stack_node_data_id sn = data_id x) (vals (stack_node_table d))"

definition frame_groups :: "db \<Rightarrow> (Executable \<times> StackNodeData) list" where
  "frame_groups d =
     filter (\<lambda>(e, x). frame_nodes d e x \<noteq> [])
       (List.product (vals (executable_table d)) (vals (stack_node_data_table d)))"

definition frame_total :: "db \<Rightarrow> Executable \<Rightarrow> StackNodeData \<Rightarrow> int" where
  "frame_total d e x = sum_list (map (\<lambda>sn. sint (sample_count sn)) (frame_nodes d e x))"

definition symPctPerVersionPerBinary :: "numeric_div \<Rightarrow> db \<Rightarrow> query_error + presence list" where
  "symPctPerVersionPerBinary ndiv d =
     traverse (\<lambda>(e, x).
         case numeric_quotient ndiv (of_int (frame_total d e x)) (of_int (sint (exe_sample_count e))) of
           Inl err \<Rightarrow> Inl err
         | Inr q \<Rightarrow> Inr \<lparr>presence_exe = e, presence_data = x, normalized_presence = q\<rparr>)
       (frame_groups d)"

text \<open>A comparison with null is not true.\<close>

definition later :: "int option \<Rightarrow> int option \<Rightarrow> bool" where
  "later t s = (case (t, s) of (Some t, Some s) \<Rightarrow> s < t | _ \<Rightarrow> False)"

definition regressed :: "int \<Rightarrow> presence \<Rightarrow> presence \<Rightarrow> bool" where
  "regressed start_time a b \<longleftrightarrow>
     basename (presence_exe a) = basename (presence_exe b)
     \<and> exe_id (presence_exe a) \<noteq> exe_id (presence_exe b)
     \<and> data_id (presence_data a) = data_id (presence_data b)
     \<and> 0 < normalized_presence b - normalized_presence a
     \<and> later (created_at (presence_exe b)) (created_at (presence_exe a))
     \<and> later (created_at (presence_exe b)) (Some start_time)
     \<and> later (created_at (presence_exe a)) (Some start_time)"

record regression =
  r_basename :: string
  a_build_id :: "string option"
  b_build_id :: "string option"
  r_file :: "string option"
  r_symbol :: string
  pct_diff :: rat

definition regression_row :: "numeric_div \<Rightarrow> presence \<Rightarrow> presence \<Rightarrow> query_error + regression" where
  "regression_row ndiv a b =
     (case numeric_quotient ndiv (normalized_presence b - normalized_presence a) (normalized_presence a) of
        Inl err \<Rightarrow> Inl err
      | Inr q \<Rightarrow>
          Inr \<lparr>r_basename = basename (presence_exe a), a_build_id = build_id (presence_exe a),
               b_build_id = build_id (presence_exe b), r_file = data_file (presence_data a),
               r_symbol = symbol (presence_data a), pct_diff = q * 100\<rparr>)"

type_synonym order_by = "regression list \<Rightarrow> regression list"

definition order_contract :: "order_by \<Rightarrow> bool" where
  "order_contract ord \<longleftrightarrow>
     (\<forall>rows. mset (ord rows) = mset rows \<and> sorted_wrt (\<lambda>x y. pct_diff y \<le> pct_diff x) (ord rows))"

definition findRegressions :: "numeric_div \<Rightarrow> order_by \<Rightarrow> int \<Rightarrow> db \<Rightarrow> query_error + regression list" where
  "findRegressions ndiv ord start_time d =
     (case symPctPerVersionPerBinary ndiv d of
        Inl err \<Rightarrow> Inl err
      | Inr ps \<Rightarrow>
          (case traverse (\<lambda>(a, b). regression_row ndiv a b)
                 (filter (\<lambda>(a, b). regressed start_time a b) (List.product ps ps)) of
             Inl err \<Rightarrow> Inl err
           | Inr rows \<Rightarrow> Inr (ord rows)))"

section \<open>What it computes\<close>

text \<open>The presence of a frame in a version, the comparison of two versions and its row.\<close>

definition frame_presence :: "numeric_div \<Rightarrow> db \<Rightarrow> Executable \<Rightarrow> StackNodeData \<Rightarrow> rat" where
  "frame_presence ndiv d e x = ndiv (of_int (frame_total d e x)) (of_int (sint (exe_sample_count e)))"

definition increased :: "numeric_div \<Rightarrow> int \<Rightarrow> db \<Rightarrow> (Executable \<times> Executable \<times> StackNodeData) set" where
  "increased ndiv start_time d =
     {(e, f, x). e \<in> set (vals (executable_table d)) \<and> f \<in> set (vals (executable_table d))
        \<and> x \<in> set (vals (stack_node_data_table d)) \<and> frame_nodes d e x \<noteq> [] \<and> frame_nodes d f x \<noteq> []
        \<and> basename e = basename f \<and> frame_presence ndiv d e x < frame_presence ndiv d f x
        \<and> later (created_at f) (created_at e) \<and> later (created_at e) (Some start_time)}"

definition increase :: "numeric_div \<Rightarrow> db \<Rightarrow> Executable \<times> Executable \<times> StackNodeData \<Rightarrow> regression" where
  "increase ndiv d = (\<lambda>(e, f, x).
     \<lparr>r_basename = basename e, a_build_id = build_id e, b_build_id = build_id f, r_file = data_file x,
      r_symbol = symbol x,
      pct_diff = ndiv (frame_presence ndiv d f x - frame_presence ndiv d e x) (frame_presence ndiv d e x) * 100\<rparr>)"

lemma traverse_check:
  "traverse (\<lambda>x. if bad x then Inl e else Inr (f x)) xs = (if \<exists>x \<in> set xs. bad x then Inl e else Inr (map f xs))"
  by (induction xs) auto

lemma later_trans: "later t s \<Longrightarrow> later s r \<Longrightarrow> later t r"
  by (auto simp: later_def split: option.splits)

lemma later_irrefl: "\<not> later t t"
  by (simp add: later_def split: option.split)

definition presence_row :: "numeric_div \<Rightarrow> db \<Rightarrow> Executable \<times> StackNodeData \<Rightarrow> presence" where
  "presence_row ndiv d = (\<lambda>(e, x). \<lparr>presence_exe = e, presence_data = x, normalized_presence = frame_presence ndiv d e x\<rparr>)"

lemma presence_row_inj: "inj (presence_row ndiv d)"
  by (auto simp: inj_def presence_row_def)

lemma symPct_result:
  "symPctPerVersionPerBinary ndiv d =
     (if \<exists>(e, x) \<in> set (frame_groups d). exe_sample_count e = 0 then Inl DivisionByZero
      else Inr (map (presence_row ndiv d) (frame_groups d)))"
proof -
  have "symPctPerVersionPerBinary ndiv d
      = traverse (\<lambda>g. if (\<lambda>(e, x). exe_sample_count e = 0) g then Inl DivisionByZero else Inr (presence_row ndiv d g))
          (frame_groups d)"
    unfolding symPctPerVersionPerBinary_def
    by (rule arg_cong2 [where f = traverse])
       (auto simp: numeric_quotient_def presence_row_def frame_presence_def fun_eq_iff signed_eq_0_iff)
  then show ?thesis by (simp add: traverse_check)
qed

lemma row_check:
  "regression_row ndiv a b = (if normalized_presence a = 0 then Inl DivisionByZero
     else Inr \<lparr>r_basename = basename (presence_exe a), a_build_id = build_id (presence_exe a),
               b_build_id = build_id (presence_exe b), r_file = data_file (presence_data a),
               r_symbol = symbol (presence_data a),
               pct_diff = ndiv (normalized_presence b - normalized_presence a) (normalized_presence a) * 100\<rparr>)"
  by (simp add: regression_row_def numeric_quotient_def)

text \<open>The pairs of rows that the query joins are the triples of \<^term>\<open>increased\<close>.\<close>

definition pair_of :: "numeric_div \<Rightarrow> db \<Rightarrow> Executable \<times> Executable \<times> StackNodeData \<Rightarrow> presence \<times> presence" where
  "pair_of ndiv d = (\<lambda>(e, f, x). (presence_row ndiv d (e, x), presence_row ndiv d (f, x)))"

definition joined :: "numeric_div \<Rightarrow> int \<Rightarrow> db \<Rightarrow> (presence \<times> presence) list" where
  "joined ndiv start_time d =
     (let ps = map (presence_row ndiv d) (frame_groups d)
      in filter (\<lambda>(a, b). regressed start_time a b) (List.product ps ps))"

lemma keyed_unique: "keyed key t \<Longrightarrow> x \<in> set (vals t) \<Longrightarrow> y \<in> set (vals t) \<Longrightarrow> key x = key y \<Longrightarrow> x = y"
  using keyed_vals_key [of key t]
  by (metis distinct_map inj_onD keyed_def wf_map_def)

lemma keyed_distinct: "keyed key t \<Longrightarrow> distinct (vals t)"
  using keyed_vals_key [of key t] by (metis distinct_map keyed_def wf_map_def)

lemma joined_distinct:
  assumes "db_ok d"
  shows "distinct (joined ndiv start_time d)"
proof -
  have "distinct (frame_groups d)"
    unfolding frame_groups_def using assms
    by (intro distinct_filter distinct_product keyed_distinct [of exe_id] keyed_distinct [of data_id])
       (simp_all add: db_ok_def)
  then have "distinct (map (presence_row ndiv d) (frame_groups d))"
    by (simp add: distinct_map inj_on_subset [OF presence_row_inj])
  then show ?thesis by (simp add: joined_def Let_def distinct_product)
qed

lemma joined_set:
  assumes "db_ok d"
  shows "set (joined ndiv start_time d) = pair_of ndiv d ` increased ndiv start_time d"
proof -
  have same: "x = y" if "x \<in> set (vals (stack_node_data_table d))" "y \<in> set (vals (stack_node_data_table d))"
      "data_id x = data_id y" for x y
    using keyed_unique [of data_id "stack_node_data_table d"] assms that by (simp add: db_ok_def)
  show ?thesis
  proof (intro equalityI subsetI)
    fix p assume "p \<in> set (joined ndiv start_time d)"
    then obtain e x f y where g: "(e, x) \<in> set (frame_groups d)" "(f, y) \<in> set (frame_groups d)"
      and p: "p = (presence_row ndiv d (e, x), presence_row ndiv d (f, y))"
      and r: "regressed start_time (presence_row ndiv d (e, x)) (presence_row ndiv d (f, y))"
      by (auto simp: joined_def Let_def)
    then have "x = y" using same by (auto simp: frame_groups_def regressed_def presence_row_def)
    then have "(e, f, x) \<in> increased ndiv start_time d"
      using g r by (auto simp: increased_def frame_groups_def regressed_def presence_row_def)
    moreover have "p = pair_of ndiv d (e, f, x)" using p \<open>x = y\<close> by (simp add: pair_of_def)
    ultimately show "p \<in> pair_of ndiv d ` increased ndiv start_time d" by blast
  next
    fix p assume "p \<in> pair_of ndiv d ` increased ndiv start_time d"
    then obtain e f x where t: "(e, f, x) \<in> increased ndiv start_time d"
      and p: "p = (presence_row ndiv d (e, x), presence_row ndiv d (f, x))" by (auto simp: pair_of_def)
    have l: "later (created_at f) (created_at e)" "later (created_at e) (Some start_time)"
      using t by (simp_all add: increased_def)
    have "exe_id e \<noteq> exe_id f"
    proof
      assume "exe_id e = exe_id f"
      then have "e = f" using keyed_unique [of exe_id "executable_table d" e f] assms t
        by (simp add: db_ok_def increased_def)
      with l(1) show False by (simp add: later_irrefl)
    qed
    then have "regressed start_time (presence_row ndiv d (e, x)) (presence_row ndiv d (f, x))"
      using t later_trans [OF l] by (simp add: increased_def regressed_def presence_row_def)
    then show "p \<in> set (joined ndiv start_time d)"
      using t p by (auto simp: joined_def Let_def increased_def frame_groups_def)
  qed
qed

lemma findRegressions_result:
  "findRegressions ndiv ord start_time d =
     (if (\<exists>(e, x) \<in> set (frame_groups d). exe_sample_count e = 0)
         \<or> (\<exists>(a, b) \<in> set (joined ndiv start_time d). normalized_presence a = 0)
      then Inl DivisionByZero
      else Inr (ord (map (\<lambda>(a, b).
        \<lparr>r_basename = basename (presence_exe a), a_build_id = build_id (presence_exe a),
         b_build_id = build_id (presence_exe b), r_file = data_file (presence_data a),
         r_symbol = symbol (presence_data a),
         pct_diff = ndiv (normalized_presence b - normalized_presence a) (normalized_presence a) * 100\<rparr>)
           (joined ndiv start_time d))))"
proof -
  have "(\<lambda>(a, b). regression_row ndiv a b) =
      (\<lambda>p. if (\<lambda>(a, b). normalized_presence a = 0) p then Inl DivisionByZero
        else Inr ((\<lambda>(a, b). \<lparr>r_basename = basename (presence_exe a), a_build_id = build_id (presence_exe a),
         b_build_id = build_id (presence_exe b), r_file = data_file (presence_data a),
         r_symbol = symbol (presence_data a),
         pct_diff = ndiv (normalized_presence b - normalized_presence a) (normalized_presence a) * 100\<rparr>) p))"
    by (auto simp: row_check fun_eq_iff)
  then show ?thesis
    by (simp add: findRegressions_def symPct_result traverse_check joined_def Let_def)
qed

section \<open>Properties\<close>

text \<open>
  C34. When the function returns, its rows are in descending order of the difference, and they are one for each
  frame and pair of stored versions of an executable, both newer than the given time, where the frame
  occurs in both versions and its share of the samples is larger in the newer one.  So a frame that only
  the newer version has is never reported.
\<close>

theorem findRegressions_rows:
  assumes "reachable_db d" "order_contract ord" "findRegressions ndiv ord start_time d = Inr rows"
  shows "sorted_wrt (\<lambda>x y. pct_diff y \<le> pct_diff x) rows
    \<and> mset rows = image_mset (increase ndiv d) (mset_set (increased ndiv start_time d))"
proof -
  have ok: "db_ok d" by (rule reachable_db_ok [OF assms(1)])
  let ?row = "\<lambda>(a, b). \<lparr>r_basename = basename (presence_exe a), a_build_id = build_id (presence_exe a),
         b_build_id = build_id (presence_exe b), r_file = data_file (presence_data a),
         r_symbol = symbol (presence_data a),
         pct_diff = ndiv (normalized_presence b - normalized_presence a) (normalized_presence a) * 100\<rparr>"
  have rows: "rows = ord (map ?row (joined ndiv start_time d))"
    using assms(3) by (simp add: findRegressions_result split: if_splits)
  have "mset (joined ndiv start_time d) = mset_set (pair_of ndiv d ` increased ndiv start_time d)"
    using joined_distinct [OF ok] joined_set [OF ok] by (metis mset_set_set)
  also have "\<dots> = image_mset (pair_of ndiv d) (mset_set (increased ndiv start_time d))"
    by (rule image_mset_mset_set [symmetric]) (auto simp: inj_on_def pair_of_def presence_row_def)
  finally have "mset (map ?row (joined ndiv start_time d))
      = image_mset (?row \<circ> pair_of ndiv d) (mset_set (increased ndiv start_time d))"
    by (simp add: multiset.map_comp)
  moreover have "?row \<circ> pair_of ndiv d = increase ndiv d"
    by (auto simp: fun_eq_iff pair_of_def increase_def presence_row_def)
  ultimately show ?thesis using assms(2) by (simp add: order_contract_def rows)
qed

text \<open>Two versions of a program: in the second, stored later, the share of \<^verbatim>\<open>work\<close> is twice as large.\<close>

definition second_sto :: StoData where
  "second_sto =
     \<lparr>stack_nodes =
        [\<lparr>node_id = 3, parent_id = None, stack_node_data_id = 10, executable_id = 6, sample_count = 1\<rparr>,
         \<lparr>node_id = 4, parent_id = Some 3, stack_node_data_id = 11, executable_id = 6, sample_count = 2\<rparr>],
      stack_node_datas = stack_node_datas demo_sto,
      profiled_binaries =
        [(profiled_binaries demo_sto ! 0)\<lparr>exe_id := 6, build_id := Some ''v2''\<rparr>]\<rparr>"

definition two_versions :: db where
  "two_versions = snd (data_ingest (\<lambda>i. 200) 199 second_sto demo_db)"

lemma two_versions_tables:
  "two_versions = demo_db\<lparr>
     executable_table := executable_table demo_db @ [(6, exe_row 200 199 (profiled_binaries second_sto ! 0))],
     stack_node_table := stack_node_table demo_db @ [(3, stack_nodes second_sto ! 0), (4, stack_nodes second_sto ! 1)]\<rparr>"
  unfolding two_versions_def demo_db_tables by (simp add: second_sto_def demo_sto_def ingest_eval)

definition descending :: order_by where
  "descending rows = rev (sort_key pct_diff rows)"

lemma descending_contract: "order_contract descending"
  using sorted_sort_key [of "pct_diff :: regression \<Rightarrow> rat"] by (simp add: order_contract_def descending_def sorted_wrt_rev sorted_map)

lemma two_versions_run:
  "findRegressions (/) descending 0 two_versions =
     Inr [\<lparr>r_basename = ''demo'', a_build_id = None, b_build_id = Some ''v2'', r_file = None,
           r_symbol = ''work'', pct_diff = 100\<rparr>]"
  unfolding two_versions_tables demo_db_tables
  by (simp add: findRegressions_def symPctPerVersionPerBinary_def frame_groups_def frame_nodes_def vals_def
      demo_sto_def second_sto_def exe_row_def frame_total_def numeric_quotient_def regressed_def later_def
      regression_row_def descending_def)

theorem findRegressions_rows_witness:
  "\<exists>rows. findRegressions (/) descending 0 two_versions = Inr rows \<and> map pct_diff rows = [100]
    \<and> mset rows = image_mset (increase (/) two_versions) (mset_set (increased (/) 0 two_versions))"
proof -
  have "reachable_db two_versions"
    unfolding two_versions_def by (rule data_ingest_reachable [OF demo_db_reachable])
  from findRegressions_rows [OF this descending_contract two_versions_run] two_versions_run
  show ?thesis by auto
qed

text \<open>
  C35. The function fails exactly when some stored node belongs to an executable with sample count 0, whatever
  the executable's name and age, or a reported frame has presence 0 in the older version.
\<close>

theorem findRegressions_fails:
  assumes "reachable_db d"
  shows "findRegressions ndiv ord start_time d = Inl DivisionByZero \<longleftrightarrow>
    (\<exists>n \<in> set (all_nodes d). \<exists>e \<in> set (vals (executable_table d)). executable_id n = exe_id e \<and> exe_sample_count e = 0)
    \<or> (\<exists>(e, f, x) \<in> increased ndiv start_time d. frame_presence ndiv d e x = 0)"
proof -
  have ok: "db_ok d" by (rule reachable_db_ok [OF assms])
  have "(\<exists>(e, x) \<in> set (frame_groups d). exe_sample_count e = 0) \<longleftrightarrow>
    (\<exists>n \<in> set (all_nodes d). \<exists>e \<in> set (vals (executable_table d)). executable_id n = exe_id e \<and> exe_sample_count e = 0)"
    (is "?L = ?R")
  proof
    assume ?R
    then obtain n e where n: "n \<in> set (all_nodes d)" "e \<in> set (vals (executable_table d))"
      "executable_id n = exe_id e" "exe_sample_count e = 0" by blast
    obtain x where x: "map_of (stack_node_data_table d) (stack_node_data_id n) = Some x"
      using db_ok_data [OF ok n(1)] by blast
    have "data_id x = stack_node_data_id n" "x \<in> set (vals (stack_node_data_table d))"
      using ok keyed_row [OF _ x, of data_id] map_of_SomeD [OF x] by (force simp: db_ok_def vals_def)+
    then have "(e, x) \<in> set (frame_groups d)"
      using n by (auto simp: frame_groups_def frame_nodes_def all_nodes_def filter_empty_conv)
    with n(4) show ?L by blast
  qed (force simp: frame_groups_def frame_nodes_def all_nodes_def filter_empty_conv)
  moreover have "(\<exists>(a, b) \<in> set (joined ndiv start_time d). normalized_presence a = 0) \<longleftrightarrow>
      (\<exists>(e, f, x) \<in> increased ndiv start_time d. frame_presence ndiv d e x = 0)"
    by (simp add: joined_set [OF ok] pair_of_def presence_row_def split_beta)
  ultimately show ?thesis by (simp add: findRegressions_result)
qed

text \<open>One posted executable without samples is enough.\<close>

definition unsampled_sto :: StoData where
  "unsampled_sto = demo_sto\<lparr>profiled_binaries := [(profiled_binaries demo_sto ! 0)\<lparr>exe_sample_count := 0\<rparr>]\<rparr>"

theorem findRegressions_fails_witness:
  "fst (data_ingest (\<lambda>i. 100) 99 unsampled_sto empty_db) = None
   \<and> findRegressions (/) descending 1000 (snd (data_ingest (\<lambda>i. 100) 99 unsampled_sto empty_db)) = Inl DivisionByZero"
proof -
  let ?r = "data_ingest (\<lambda>i. 100) 99 unsampled_sto empty_db"
  have r: "?r = (None, demo_db\<lparr>executable_table := [(5, exe_row 100 99 (profiled_binaries unsampled_sto ! 0))]\<rparr>)"
    unfolding demo_db_tables by (simp add: unsampled_sto_def demo_sto_def empty_db_def ingest_eval)
  have "\<exists>n \<in> set (all_nodes (snd ?r)). \<exists>e \<in> set (vals (executable_table (snd ?r))).
      executable_id n = exe_id e \<and> exe_sample_count e = 0"
    unfolding r demo_db_tables by (simp add: all_nodes_def vals_def exe_row_def unsampled_sto_def demo_sto_def)
  with findRegressions_fails [OF data_ingest_reachable [OF reachable_db.empty, of "\<lambda>i. 100" 99 unsampled_sto],
      of "(/)" descending 1000] r
  show ?thesis by simp
qed

end
