(* ===== verification/Client.thy ===== *)
theory Client
  imports Client_Tree
begin

text \<open>
  The rest of the client, \<^verbatim>\<open>src/src/bin/cli.rs\<close>: raising the locked-memory limit, the ring
  buffer callback, opening one perf event per processor and attaching the program to it, polling, the
  collector that gathers batches, and \<^verbatim>\<open>main\<close>.  System calls and the BPF library are
  parameters; every early return is a value of \<open>client_fail\<close>.
\<close>

datatype client_fail =
    RlimitError | MemlockTooLow | OpenFailed | LoadFailed | RingAddPanic | RingBuildFailed | AttachFailed nat | PollFailed

section \<open>The locked-memory limit\<close>

text \<open>Returns the limits that were set, if the current ones were below 128 MiB.\<close>

definition bump_memlock_rlimit ::
  "(u64 \<times> u64) option \<Rightarrow> (u64 \<Rightarrow> u64 \<Rightarrow> bool) \<Rightarrow> client_fail + (u64 \<times> u64) option" where
  "bump_memlock_rlimit get set_limit =
     (case get of
        None \<Rightarrow> Inl RlimitError
      | Some (ml_soft, ml_hard) \<Rightarrow>
          if min ml_soft ml_hard < push_bit 20 128 then
            (if set_limit (push_bit 20 128) (push_bit 20 128)
             then Inr (Some (push_bit 20 128, push_bit 20 128))
             else Inl MemlockTooLow)
          else Inr None)"

section \<open>The ring buffer callback\<close>

datatype callback_result = CallbackPanic | Ignored | Sent StackInfo

definition ring_callback :: "copy_from_bytes \<Rightarrow> Args \<Rightarrow> u8 list \<Rightarrow> callback_result" where
  "ring_callback copy a data =
     (case copy data of
        Inl TooShort \<Rightarrow> CallbackPanic
      | Inr ev \<Rightarrow> if pid ev = 0 then Ignored else Sent \<lparr>event = ev, args = a\<rparr>)"

section \<open>One perf event per processor\<close>

record perf_attr =
  attr_type :: u32
  attr_size :: u32
  attr_config :: u64
  attr_sample_freq :: u64
  attr_freq :: bool
  attr_exclude_hv :: bool

definition perf_const :: "ctype \<Rightarrow> string \<Rightarrow> int" where
  "perf_const t c = (case enum_const t c of Some v \<Rightarrow> v | None \<Rightarrow> 0)"

definition perf_attrs :: "u32 \<Rightarrow> Args \<Rightarrow> perf_attr" where
  "perf_attrs attr_sz a =
     (case event_type a of
        Cycles \<Rightarrow>
          \<lparr>attr_type = of_int (perf_const enum_perf_type_id ''PERF_TYPE_HARDWARE''), attr_size = attr_sz,
           attr_config = of_int (perf_const enum_perf_hw_id ''PERF_COUNT_HW_CPU_CYCLES''),
           attr_sample_freq = sample_freq a, attr_freq = True, attr_exclude_hv = True\<rparr>
      | Clock \<Rightarrow>
          \<lparr>attr_type = of_int (perf_const enum_perf_type_id ''PERF_TYPE_SOFTWARE''), attr_size = attr_sz,
           attr_config = of_int (perf_const enum_perf_sw_ids ''PERF_COUNT_SW_CPU_CLOCK''),
           attr_sample_freq = sample_freq a, attr_freq = True, attr_exclude_hv = True\<rparr>)"

record ('fd, 'link) perf_api =
  perf_event_open :: "perf_attr \<Rightarrow> i32 \<Rightarrow> nat \<Rightarrow> 'fd"
  attach_perf_event :: "'fd \<Rightarrow> 'link option"

fun attach_cpus ::
  "('fd, 'link) perf_api \<Rightarrow> u32 \<Rightarrow> Args \<Rightarrow> nat list \<Rightarrow> ('fd, 'link) hash_map \<Rightarrow>
     client_fail + ('fd, 'link) hash_map" where
  "attach_cpus api sz a [] perf_fds = Inr perf_fds"
| "attach_cpus api sz a (cpu # cpus) perf_fds =
     (let fd = perf_event_open api (perf_attrs sz a) (arg_pid a) cpu in
      case attach_perf_event api fd of
        None \<Rightarrow> Inl (AttachFailed cpu)
      | Some link \<Rightarrow> attach_cpus api sz a cpus (upsert (\<lambda>_. link) link fd perf_fds))"

text \<open>
  Polling delivers the records the kernel has queued, or fails; the loop has no other end, so its
  behaviour is given for every finite number of polls.
\<close>

fun poll_loop :: "copy_from_bytes \<Rightarrow> Args \<Rightarrow> u8 list list option list \<Rightarrow> callback_result list \<Rightarrow>
    callback_result list \<times> client_fail option" where
  "poll_loop copy a [] out = (out, None)"
| "poll_loop copy a (None # polls) out = (out, Some PollFailed)"
| "poll_loop copy a (Some datas # polls) out = poll_loop copy a polls (out @ map (ring_callback copy a) datas)"

record ('fd, 'link) client_sys =
  num_cpus :: nat
  attr_struct_size :: u32
  rlimit_get :: "(u64 \<times> u64) option"
  rlimit_set :: "u64 \<Rightarrow> u64 \<Rightarrow> bool"
  skel_open :: bool
  skel_load :: bool
  ring_add :: bool
  ring_build :: bool
  copy_event :: copy_from_bytes
  perf :: "('fd, 'link) perf_api"

definition profile_loop ::
  "('fd, 'link) client_sys \<Rightarrow> Args \<Rightarrow> u8 list list option list \<Rightarrow> callback_result list \<times> client_fail option"
where
  "profile_loop sys a polls =
     (case bump_memlock_rlimit (rlimit_get sys) (rlimit_set sys) of
        Inl e \<Rightarrow> ([], Some e)
      | Inr _ \<Rightarrow>
          if \<not> skel_open sys then ([], Some OpenFailed)
          else if \<not> skel_load sys then ([], Some LoadFailed)
          else if \<not> ring_add sys then ([], Some RingAddPanic)
          else if \<not> ring_build sys then ([], Some RingBuildFailed)
          else
            (case attach_cpus (perf sys) (attr_struct_size sys) a [0..<num_cpus sys] [] of
               Inl e \<Rightarrow> ([], Some e)
             | Inr _ \<Rightarrow> poll_loop (copy_event sys) a polls []))"

section \<open>The collector\<close>

text \<open>
  The symbolizer is built anew for each event and asked for all 128 words of the user stack; a failure
  to build it panics the collecting thread.
\<close>

type_synonym blaze = "(u32 \<Rightarrow> u64 list \<Rightarrow> SymbolizedResult list list) option"

definition symbolize :: "blaze \<Rightarrow> StackInfo \<Rightarrow> SymbolizedResult list list option" where
  "symbolize blz stack_info =
     (case blz of
        None \<Rightarrow> None
      | Some f \<Rightarrow> Some (f (arg_pid (args stack_info)) (ustack (event stack_info))))"

record collector =
  buf :: "SymbolizedResult list list list"
  sunk :: "SymbolizedResult list list list list"

definition collect :: "blaze \<Rightarrow> collector \<Rightarrow> StackInfo \<Rightarrow> collector option" where
  "collect blz st data_chunk =
     (if length (buf st) < 200 then
        (case symbolize blz data_chunk of
           None \<Rightarrow> None
         | Some syms \<Rightarrow> Some (st\<lparr>buf := buf st @ [syms]\<rparr>))
      else Some (st\<lparr>buf := [], sunk := sunk st @ [buf st]\<rparr>))"

fun collect_all :: "blaze \<Rightarrow> collector \<Rightarrow> StackInfo list \<Rightarrow> collector option" where
  "collect_all blz st [] = Some st"
| "collect_all blz st (x # xs) =
     (case collect blz st x of None \<Rightarrow> None | Some st \<Rightarrow> collect_all blz st xs)"

section \<open>The entry point\<close>

datatype cli_outcome = ExitFailure | Profile Args

definition cli_main :: "Args \<Rightarrow> cli_outcome" where
  "cli_main a =
     (let a = (if binary a = None then a\<lparr>binary := Some ''provide_a_meaningful_name''\<rparr> else a)
      in if arg_pid a = 0 then ExitFailure else Profile a)"

section \<open>Properties\<close>

lemma collect_all_append:
  "collect_all blz st (xs @ ys) = Option.bind (collect_all blz st xs) (\<lambda>st. collect_all blz st ys)"
  by (induction xs arbitrary: st) (auto split: option.split)

definition symbolized :: "(u32 \<Rightarrow> u64 list \<Rightarrow> SymbolizedResult list list) \<Rightarrow> StackInfo list \<Rightarrow> SymbolizedResult list list list" where
  "symbolized f xs = map (\<lambda>x. f (arg_pid (args x)) (ustack (event x))) xs"

definition batches :: "'a list \<Rightarrow> 'a list list" where
  "batches xs = map (\<lambda>j. take 200 (drop (201 * j) xs)) [0..<length xs div 201]"

lemma chunk_Suc: "Suc n div 201 = (if n mod 201 = 200 then Suc (n div 201) else n div 201)"
  by (simp add: div_Suc mod_Suc)

lemma chunk_full: "n mod 201 = 200 \<Longrightarrow> 201 * Suc (n div 201) = Suc n"
  using mult_div_mod_eq [of 201 n] by simp

lemma length_concat_const: "(\<And>b. b \<in> set bs \<Longrightarrow> length b = k) \<Longrightarrow> length (concat bs) = length bs * k"
  by (induction bs) auto

lemma batches_snoc:
  "batches (xs @ [x]) =
     (if length xs mod 201 = 200 then batches xs @ [drop (201 * (length xs div 201)) xs] else batches xs)"
proof -
  have same: "take 200 (drop (201 * j) (xs @ [x])) = take 200 (drop (201 * j) xs)"
    if "j < length xs div 201" for j
  proof -
    have "201 * j + 201 \<le> length xs" using that by linarith
    then show ?thesis by simp
  qed
  show ?thesis
  proof (cases "length xs mod 201 = 200")
    case True
    have "length xs - 201 * (length xs div 201) = 200"
      using True by (simp add: minus_mult_div_eq_mod)
    then show ?thesis using True same by (simp add: batches_def chunk_Suc)
  next
    case False
    then show ?thesis using same by (simp add: batches_def chunk_Suc)
  qed
qed

lemma collect_all_state:
  "collect_all (Some f) \<lparr>buf = [], sunk = []\<rparr> xs =
     Some \<lparr>buf = drop (201 * (length xs div 201)) (symbolized f xs),
           sunk = batches (symbolized f xs)\<rparr>"
proof (induction xs rule: rev_induct)
  case Nil
  then show ?case by (simp add: symbolized_def batches_def)
next
  case (snoc x xs)
  let ?n = "length xs" and ?ys = "symbolized f xs"
  have len: "length ?ys = ?n" "length (drop (201 * (?n div 201)) ?ys) = ?n mod 201"
    by (simp_all add: symbolized_def minus_mult_div_eq_mod)
  have app: "symbolized f (xs @ [x]) = ?ys @ [f (arg_pid (args x)) (ustack (event x))]"
    by (simp add: symbolized_def)
  show ?case
  proof (cases "?n mod 201 = 200")
    case True
    then have "Suc ?n div 201 = Suc (?n div 201)" "201 * Suc (?n div 201) = Suc ?n"
      by (simp_all add: chunk_Suc chunk_full del: mult_Suc_right)
    then show ?thesis
      using snoc True len
      by (simp add: collect_all_append collect_def app batches_snoc del: mult_Suc_right)
  next
    case False
    then have lt: "?n mod 201 < 200" using mod_less_divisor [of 201 ?n] by linarith
    have "Suc ?n div 201 = ?n div 201" using False by (simp add: chunk_Suc)
    then show ?thesis
      using snoc False lt len by (simp add: collect_all_append collect_def app batches_snoc symbolize_def)
  qed
qed

text \<open>
  C19. After any number of received events the collector has started one upload for every 201 of
  them: batch \<open>j\<close> holds the symbolized events \<open>201 j\<close> to \<open>201 j + 199\<close> in order, and the buffer
  holds what came after the last full round.  Event \<open>201 j + 200\<close>, whose arrival triggers the
  upload, is in no batch and not in the buffer.
\<close>

theorem collector_batches:
  "collect_all (Some f) \<lparr>buf = [], sunk = []\<rparr> xs =
     Some \<lparr>buf = drop (201 * (length xs div 201)) (symbolized f xs),
           sunk = map (\<lambda>j. take 200 (drop (201 * j) (symbolized f xs))) [0..<length xs div 201]\<rparr>"
  by (simp add: collect_all_state batches_def symbolized_def)

text \<open>
  For \<open>n\<close> received events, the events that are uploaded or buffered are \<open>n\<close> less one for
  every 201: each round loses exactly one sample, and the buffer never exceeds 200.
\<close>

theorem collector_loss:
  "\<exists>st. collect_all (Some f) \<lparr>buf = [], sunk = []\<rparr> xs = Some st
    \<and> length (buf st) \<le> 200
    \<and> length (concat (sunk st)) + length (buf st) + length xs div 201 = length xs"
proof -
  let ?n = "length xs"
  have full: "length (take 200 (drop (201 * j) (symbolized f xs))) = 200" if "j < ?n div 201" for j
  proof -
    have "201 * Suc j \<le> 201 * (?n div 201)" using that by (intro mult_le_mono2) simp
    also have "\<dots> \<le> ?n" by simp
    finally show ?thesis by (simp add: symbolized_def)
  qed
  have "length (concat (batches (symbolized f xs))) = length (batches (symbolized f xs)) * 200"
    using full by (intro length_concat_const) (auto simp: batches_def symbolized_def)
  then have "length (concat (batches (symbolized f xs))) = ?n div 201 * 200"
    by (simp add: batches_def symbolized_def)
  moreover have "?n - 201 * (?n div 201) = ?n mod 201" by (simp add: minus_mult_div_eq_mod)
  moreover have "201 * (?n div 201) + ?n mod 201 = ?n" by simp
  moreover have "?n mod 201 \<le> 200" using mod_less_divisor [of 201 ?n] by linarith
  ultimately show ?thesis by (simp add: collect_all_state symbolized_def)
qed

lemma attach_cpus_keys:
  "attach_cpus api sz a cpus m = Inr m' \<Longrightarrow>
     fst ` set m' = fst ` set m \<union> (\<lambda>cpu. perf_event_open api (perf_attrs sz a) (arg_pid a) cpu) ` set cpus"
  by (induction cpus arbitrary: m) (auto simp: Let_def keys_upsert split: option.splits)

lemma attach_cpus_result:
  "(case attach_cpus api sz a cpus m of Inl e \<Rightarrow> Some e | Inr m' \<Rightarrow> None) =
     map_option AttachFailed (find (\<lambda>cpu. attach_perf_event api
       (perf_event_open api (perf_attrs sz a) (arg_pid a) cpu) = None) cpus)"
  by (induction cpus arbitrary: m) (auto simp: Let_def split: option.splits)

text \<open>
  C26. Attaching stops at the first processor whose event cannot be attached; otherwise every processor
  has had an event opened for the requested process with the same attributes, and the map holds a
  link for each descriptor and for nothing else.
\<close>

theorem attach_every_cpu:
  "case attach_cpus api sz a [0..<n] [] of
     Inl e \<Rightarrow> (\<exists>cpu < n. e = AttachFailed cpu
       \<and> attach_perf_event api (perf_event_open api (perf_attrs sz a) (arg_pid a) cpu) = None
       \<and> (\<forall>k < cpu. attach_perf_event api (perf_event_open api (perf_attrs sz a) (arg_pid a) k) \<noteq> None))
   | Inr perf_fds \<Rightarrow>
       (\<forall>k < n. attach_perf_event api (perf_event_open api (perf_attrs sz a) (arg_pid a) k) \<noteq> None)
       \<and> fst ` set perf_fds = (\<lambda>k. perf_event_open api (perf_attrs sz a) (arg_pid a) k) ` {..<n}"
proof (cases "attach_cpus api sz a [0..<n] []")
  case (Inl e)
  then obtain cpu where e: "e = AttachFailed cpu" and f: "find (\<lambda>cpu. attach_perf_event api
       (perf_event_open api (perf_attrs sz a) (arg_pid a) cpu) = None) [0..<n] = Some cpu"
    using attach_cpus_result [of api sz a "[0..<n]" "[]"] by (auto simp: eq_commute [of "Some _"])
  then show ?thesis using Inl by (auto simp: find_Some_iff)
next
  case (Inr m)
  then have "find (\<lambda>cpu. attach_perf_event api
       (perf_event_open api (perf_attrs sz a) (arg_pid a) cpu) = None) [0..<n] = None"
    using attach_cpus_result [of api sz a "[0..<n]" "[]"] by auto
  then show ?thesis using Inr attach_cpus_keys [OF Inr] by (auto simp: find_None_iff)
qed

text \<open>A machine on which the third processor cannot be attached.\<close>

definition demo_perf :: "(nat, unit) perf_api" where
  "demo_perf = \<lparr>perf_event_open = (\<lambda>attr p cpu. cpu + 3),
     attach_perf_event = (\<lambda>fd. if fd = 5 then None else Some ())\<rparr>"

theorem attach_every_cpu_witness:
  "attach_cpus demo_perf 120 demo_args [0..<4] [] = Inl (AttachFailed 2)
    \<and> (\<exists>cpu < 4. AttachFailed 2 = AttachFailed cpu
       \<and> (\<forall>k < cpu. attach_perf_event demo_perf
            (perf_event_open demo_perf (perf_attrs 120 demo_args) (arg_pid demo_args) k) \<noteq> None))"
proof -
  have run: "attach_cpus demo_perf 120 demo_args [0..<4] [] = Inl (AttachFailed 2)"
    by (simp add: demo_perf_def upt_rec Let_def)
  show ?thesis using attach_every_cpu [where api = demo_perf and sz = 120 and a = demo_args and n = 4] run by auto
qed

text \<open>
  C17. From the interrupt to the collector: when a process other than 0 is sampled and the ring buffer has
  room, the record that the BPF program submits makes the client's callback send exactly the sampled
  event, together with the client's arguments.
\<close>

theorem sample_reaches_collector:
  assumes "helper_contract h" "bpf_ringbuf_reserve h events 2080 0 = (Some mem, events')"
    and "plain_contract copy"
    and "drop_bit 32 (bpf_get_current_pid_tgid h) \<noteq> 0"
  shows "\<exists>bs. profile h ctx events = (0, bpf_ringbuf_submit h bs 0 events')
    \<and> ring_callback copy a bs = Sent \<lparr>event = sampled_event h ctx mem, args = a\<rparr>"
proof -
  have "pid (sampled_event h ctx mem) \<noteq> 0"
  proof
    assume "pid (sampled_event h ctx mem) = 0"
    then have zero: "(ucast (drop_bit 32 (bpf_get_current_pid_tgid h)) :: u32) = 0"
      by (simp add: sampled_event_def Let_def)
    have "drop_bit 32 (bpf_get_current_pid_tgid h)
        = ucast (ucast (drop_bit 32 (bpf_get_current_pid_tgid h)) :: u32)"
      by (rule bit_word_eqI) (auto simp: bit_simps dest: bit_imp_le_length)
    then show False using zero assms(4) by simp
  qed
  then show ?thesis
    using profile_submits [OF assms(1,2), of ctx]
    by (auto simp: ring_callback_def plain_copy_ok [OF assms(3)])
qed

theorem sample_reaches_collector_witness:
  "\<exists>bs. profile (demo_helpers 1) () [] = (0, [bs])
    \<and> ring_callback plain_copy demo_args bs
        = Sent \<lparr>event = sampled_event (demo_helpers 1) () (replicate 2080 0), args = demo_args\<rparr>"
proof -
  have r: "bpf_ringbuf_reserve (demo_helpers 1) [] 2080 0 = (Some (replicate 2080 0), [])"
    and p: "drop_bit 32 (bpf_get_current_pid_tgid (demo_helpers 1)) \<noteq> 0"
    by (simp_all add: demo_helpers_def)
  have "bpf_ringbuf_submit (demo_helpers 1) bs 0 [] = [bs]" for bs
    by (simp add: demo_helpers_def)
  then show ?thesis
    using sample_reaches_collector [OF demo_helpers_contract r plain_copy_contract p, of "()" demo_args] by simp
qed

text \<open>
  The client starts profiling only with a process id and a binary name, so that no upload of a
  session fails to unwrap the name: every batch is posted.
\<close>

theorem uploads_never_unwrap_none:
  assumes "cli_main a = Profile a'" "reachable_caches env c"
  shows "arg_pid a' = arg_pid a \<and> arg_pid a' \<noteq> 0
    \<and> (\<exists>up c'. process_and_sink_data env post samples a' c = Inr (up, c') \<and> upload_url up = url a)"
proof -
  obtain name where "binary a' = Some name"
    using assms(1) by (auto simp: cli_main_def Let_def split: if_splits)
  then show ?thesis
    using process_and_sink_data_ok [OF reachable_caches_ok [OF assms(2)]] assms(1)
    by (fastforce simp: cli_main_def Let_def batch_upload_def split: if_splits)
qed

theorem uploads_never_unwrap_none_witness:
  "\<exists>up c'. process_and_sink_data demo_env (\<lambda>u d. PostFailed) demo_samples
       (demo_args\<lparr>binary := Some ''provide_a_meaningful_name''\<rparr>) empty_caches = Inr (up, c')"
proof -
  have "cli_main (demo_args\<lparr>binary := None\<rparr>)
      = Profile (demo_args\<lparr>binary := Some ''provide_a_meaningful_name''\<rparr>)"
    by (simp add: cli_main_def demo_args_def)
  from uploads_never_unwrap_none [OF this reachable_caches.start] show ?thesis by blast
qed

lemma poll_loop_prefix:
  "poll_loop copy a (map Some dss @ None # polls) out = (out @ map (ring_callback copy a) (concat dss), Some PollFailed)"
  by (induction dss arbitrary: out) simp_all

lemma attach_cpus_error: "attach_cpus api sz a cpus m = Inl e \<Longrightarrow> \<exists>cpu. e = AttachFailed cpu"
  by (induction cpus arbitrary: m) (auto simp: Let_def split: option.splits)


definition demo_sys :: "(nat, unit) client_sys" where
  "demo_sys = \<lparr>num_cpus = 2, attr_struct_size = 120, rlimit_get = Some (65536, 65536),
     rlimit_set = (\<lambda>s h. True), skel_open = True, skel_load = True, ring_add = True,
     ring_build = True, copy_event = plain_copy, perf = demo_perf\<rparr>"


end
