(* ===== verification/Client_Worker.thy ===== *)
theory Client_Worker
  imports Client
begin

text \<open>
  The uploading threads of the client.  The collector starts one thread per batch, each runs
  \<^verbatim>\<open>process_and_sink_data\<close> of \<^verbatim>\<open>src/src/bin/cli.rs\<close>, and all of them share the four caches.  Here the
  function is a machine whose steps are the accesses to the shared caches, a lookup or an insertion,
  and the updates of its own maps between them, so that the steps of other threads may come between
  any two of them, also between a lookup that misses and the insertion that follows it.

  The theory shows that such a thread posts, under any interference, what the function posts when
  it runs alone, and that it does so after a number of its own steps that its batch determines.
\<close>

section \<open>The loops\<close>

text \<open>The nested loops over samples, addresses and frames as the sequence of their bodies.\<close>

datatype item =
    NewSample
  | Address "SymbolizedResult list"
  | Frame SymbolizedResult

definition address_items :: "SymbolizedResult list \<Rightarrow> item list" where
  "address_items stack = Address stack # map Frame stack"

definition sample_items :: "SymbolizedResult list list \<Rightarrow> item list" where
  "sample_items symlist = NewSample # concat (map address_items (rev symlist))"

definition batch_items :: "SymbolizedResult list list list \<Rightarrow> item list" where
  "batch_items symlists = concat (map sample_items symlists)"

section \<open>A thread\<close>

text \<open>
  What a thread does next: look up the executable's id or insert it after a miss; take the next item;
  for a frame, look up and insert the demangled name, the id of the frame data and the id of the
  node.  A lookup that hits goes on without the insertion.
\<close>

datatype control =
    NameExecutable
  | InsertMisc string
  | NextItem
  | InsertSym SymbolizedResult
  | LookupData StackNodeData
  | InsertData StackNodeData
  | LookupNode StackNode
  | InsertNode StackNode
  | Finished upload
  | Panicked

record worker =
  w_batch :: "SymbolizedResult list list list"
  w_control :: control
  w_items :: "item list"
  w_executable :: Executable
  w_nodes :: "(i64, StackNode) hash_map"
  w_datas :: "(i64, StackNodeData) hash_map"
  w_executables :: "(i64, Executable) hash_map"
  w_parent :: "i64 option"

definition new_worker :: "Args \<Rightarrow> SymbolizedResult list list list \<Rightarrow> worker" where
  "new_worker a symlists =
     \<lparr>w_batch = symlists, w_control = NameExecutable, w_items = [],
      w_executable = batch_executable a [] 0, w_nodes = [], w_datas = [], w_executables = [],
      w_parent = None\<rparr>"

definition raw_data :: "SymbolizedResult \<Rightarrow> string \<Rightarrow> StackNodeData" where
  "raw_data frame name =
     \<lparr>data_id = 0, symbol = name,
      data_file = (if trim (path frame) = [] then None else Some (trim (path frame))),
      line_number = (if 0 < line_no frame then Some (ucast (line_no frame)) else None)\<rparr>"

text \<open>The continuations after the three ids are known.\<close>

definition with_executable :: "Args \<Rightarrow> string \<Rightarrow> i64 \<Rightarrow> worker \<Rightarrow> worker" where
  "with_executable a name bin_id w =
     w\<lparr>w_executable := batch_executable a name bin_id, w_items := batch_items (w_batch w),
       w_control := NextItem\<rparr>"

definition with_data :: "StackNodeData \<Rightarrow> worker \<Rightarrow> worker" where
  "with_data data w =
     w\<lparr>w_datas := upsert id data (data_id data) (w_datas w),
       w_control := LookupNode
         \<lparr>node_id = 0, parent_id = w_parent w, stack_node_data_id = data_id data,
          executable_id = exe_id (w_executable w), sample_count = 1\<rparr>\<rparr>"

definition with_node :: "StackNode \<Rightarrow> worker \<Rightarrow> worker" where
  "with_node stack_node w =
     w\<lparr>w_nodes := upsert bump_node stack_node (node_id stack_node) (w_nodes w),
       w_parent := Some (node_id stack_node), w_control := NextItem\<rparr>"

definition count_address :: "client_env \<Rightarrow> SymbolizedResult list \<Rightarrow> worker \<Rightarrow> worker" where
  "count_address env stack w =
     (let executable = w_executable w in
      w\<lparr>w_executables :=
        modify (\<lambda>e. e\<lparr>raw_data_size := raw_data_size e + stack_deep_size env stack\<rparr>) (exe_id executable)
          (modify (\<lambda>e. e\<lparr>exe_sample_count := exe_sample_count e + 1\<rparr>) (exe_id executable)
            (upsert id executable (exe_id executable) (w_executables w)))\<rparr>)"

definition finish ::
  "client_env \<Rightarrow> (string \<Rightarrow> StoData \<Rightarrow> post_result) \<Rightarrow> Args \<Rightarrow> worker \<Rightarrow> worker" where
  "finish env post a w =
     (let data_out = \<lparr>stack_nodes = vals (w_nodes w), stack_node_datas = vals (w_datas w),
                      profiled_binaries = vals (w_executables w)\<rparr>;
          executables =
            modify (\<lambda>e. e\<lparr>processed_data_size := processed_data_size e + sto_deep_size env data_out\<rparr>)
              (exe_id (w_executable w)) (w_executables w);
          data_out = data_out\<lparr>profiled_binaries := vals executables\<rparr>
      in w\<lparr>w_executables := executables,
           w_control := Finished
             \<lparr>upload_url = url a, upload_data = data_out,
              upload_log = (case post (url a) data_out of
                              PostOk \<Rightarrow> [] | _ \<Rightarrow> [''failed to post data''])\<rparr>\<rparr>)"

definition misc_key :: "Args \<Rightarrow> string \<Rightarrow> string" where
  "misc_key a name = (case version a of Some x \<Rightarrow> name @ x | None \<Rightarrow> name)"

text \<open>One step, on the thread and the shared caches.\<close>

fun worker_step ::
  "client_env \<Rightarrow> (string \<Rightarrow> StoData \<Rightarrow> post_result) \<Rightarrow> Args \<Rightarrow> worker \<times> caches \<Rightarrow> worker \<times> caches" where
  "worker_step env post a (w, c) =
     (case w_control w of
        NameExecutable \<Rightarrow>
          (case binary a of
             None \<Rightarrow> (w\<lparr>w_control := Panicked\<rparr>, c)
           | Some name \<Rightarrow>
               (case cache_get (MISC_ID_CACHE c) (misc_key a name) of
                  Some x \<Rightarrow> (with_executable a name x w, c)
                | None \<Rightarrow> (w\<lparr>w_control := InsertMisc name\<rparr>, c)))
      | InsertMisc name \<Rightarrow>
          (let id = abs_i64 (hash64 env HASHER_SEED [as_bytes (misc_key a name)])
           in (with_executable a name id w,
               c\<lparr>MISC_ID_CACHE := misc_insert env (MISC_ID_CACHE c) (misc_key a name) id\<rparr>))
      | NextItem \<Rightarrow>
          (case w_items w of
             [] \<Rightarrow> (finish env post a w, c)
           | NewSample # items \<Rightarrow> (w\<lparr>w_parent := None, w_items := items\<rparr>, c)
           | Address stack # items \<Rightarrow> (count_address env stack (w\<lparr>w_items := items\<rparr>), c)
           | Frame frame # items \<Rightarrow>
               (case cache_get (SYM_CACHE c) (frame_symbol frame) of
                  Some hit \<Rightarrow> (w\<lparr>w_items := items, w_control := LookupData (raw_data frame hit)\<rparr>, c)
                | None \<Rightarrow> (w\<lparr>w_items := items, w_control := InsertSym frame\<rparr>, c)))
      | InsertSym frame \<Rightarrow>
          (let demangled = try_demangle env (frame_symbol frame)
           in (w\<lparr>w_control := LookupData (raw_data frame demangled)\<rparr>,
               c\<lparr>SYM_CACHE := sym_insert env (SYM_CACHE c) (frame_symbol frame) demangled\<rparr>))
      | LookupData data \<Rightarrow>
          (case cache_get (DATA_ID_CACHE c) data of
             Some hit \<Rightarrow> (with_data (data\<lparr>data_id := hit\<rparr>) w, c)
           | None \<Rightarrow> (w\<lparr>w_control := InsertData data\<rparr>, c))
      | InsertData data \<Rightarrow>
          (let slices =
                 [as_bytes (symbol data)]
                 @ (case data_file data of Some f \<Rightarrow> [as_bytes f] | None \<Rightarrow> [])
                 @ (case line_number data of Some l \<Rightarrow> [be_bytes 4 l] | None \<Rightarrow> []);
               id = abs_i64 (hash64 env HASHER_SEED slices)
           in (with_data (data\<lparr>data_id := id\<rparr>) w,
               c\<lparr>DATA_ID_CACHE := data_insert env (DATA_ID_CACHE c) data id\<rparr>))
      | LookupNode n \<Rightarrow>
          (case cache_get (NODE_ID_CACHE c) n of
             Some hit \<Rightarrow> (with_node (n\<lparr>node_id := hit\<rparr>) w, c)
           | None \<Rightarrow> (w\<lparr>w_control := InsertNode n\<rparr>, c))
      | InsertNode n \<Rightarrow>
          (let slices =
                 (case parent_id n of Some p \<Rightarrow> [be_bytes 8 p] | None \<Rightarrow> [])
                 @ [be_bytes 8 (stack_node_data_id n)]
                 @ [be_bytes 8 (executable_id n)];
               id = abs_i64 (hash64 env HASHER_SEED slices)
           in (with_node (n\<lparr>node_id := id\<rparr>) w,
               c\<lparr>NODE_ID_CACHE := node_insert env (NODE_ID_CACHE c) n id\<rparr>))
      | Finished up \<Rightarrow> (w, c)
      | Panicked \<Rightarrow> (w, c))"

declare worker_step.simps [simp del]

section \<open>What a thread computes\<close>

text \<open>The effect of one item on the three maps and the current parent, without caches.\<close>

type_synonym maps =
  "(i64, StackNode) hash_map \<times> (i64, StackNodeData) hash_map \<times> (i64, Executable) hash_map \<times> i64 option"

definition frame_effect :: "client_env \<Rightarrow> i64 \<Rightarrow> StackNodeData \<Rightarrow> maps \<Rightarrow> maps" where
  "frame_effect env e d = (\<lambda>(ns, ds, es, p).
     (add_nodes [node_of env e p (data_id d)] ns, add_datas [d] ds, es, Some (child_id env e p (data_id d))))"

fun item_effect :: "client_env \<Rightarrow> Executable \<Rightarrow> item \<Rightarrow> maps \<Rightarrow> maps" where
  "item_effect env exe NewSample (ns, ds, es, p) = (ns, ds, es, None)"
| "item_effect env exe (Address stack) (ns, ds, es, p) = (ns, ds, count_exe env exe stack es, p)"
| "item_effect env exe (Frame fr) m = frame_effect env (exe_id exe) (data_of env fr) m"

definition w_maps :: "worker \<Rightarrow> maps" where
  "w_maps w = (w_nodes w, w_datas w, w_executables w, w_parent w)"

definition run_items :: "client_env \<Rightarrow> Executable \<Rightarrow> item list \<Rightarrow> maps \<Rightarrow> maps" where
  "run_items env exe items m = fold (item_effect env exe) items m"

lemma run_items_simps [simp]:
  "run_items env exe [] m = m"
  "run_items env exe (x # xs) m = run_items env exe xs (item_effect env exe x m)"
  "run_items env exe (xs @ ys) m = run_items env exe ys (run_items env exe xs m)"
  by (simp_all add: run_items_def)

lemma run_frames:
  "run_items env exe (map Frame frs) (ns, ds, es, p) =
     (add_nodes (path_nodes env (exe_id exe) p (frame_ids env frs)) ns, add_datas (map (data_of env) frs) ds,
      es, path_end env (exe_id exe) p (frame_ids env frs))"
proof (induction frs arbitrary: ns ds p)
  case (Cons fr frs)
  then show ?case by (simp add: frame_effect_def flip: add_nodes_append add_datas_append)
qed simp

lemma run_addresses:
  "run_items env exe (concat (map address_items stacks)) (ns, ds, es, p) =
     (add_nodes (path_nodes env (exe_id exe) p (frame_ids env (concat stacks))) ns,
      add_datas (map (data_of env) (concat stacks)) ds, fold (count_exe env exe) stacks es,
      path_end env (exe_id exe) p (frame_ids env (concat stacks)))"
  by (induction stacks arbitrary: ns ds es p)
     (simp_all add: address_items_def run_frames path_nodes_append path_end_append add_nodes_append
        add_datas_append)

lemma run_batch:
  "\<exists>p'. run_items env exe (batch_items samples) (ns, ds, es, p) =
     (add_nodes (batch_nodes env (exe_id exe) samples) ns, add_datas (batch_datas env samples) ds,
      fold (count_exe env exe) (concat (map rev samples)) es, p')"
proof (induction samples arbitrary: ns ds es p)
  case Nil
  then show ?case by (simp add: batch_items_def batch_nodes_def batch_datas_def)
next
  case (Cons s ss)
  then show ?case
    by (simp add: batch_items_def batch_nodes_def batch_datas_def sample_items_def run_addresses
        sample_nodes_def sample_path_def add_nodes_append add_datas_append)
qed

section \<open>The invariant of a thread\<close>

text \<open>
  Finishing the remaining work from where the thread is, without caches, gives the maps of the whole
  batch.
\<close>

definition thread_exe :: "client_env \<Rightarrow> Args \<Rightarrow> string \<Rightarrow> Executable" where
  "thread_exe env a name = batch_executable a name (batch_id env a name)"

definition batch_maps :: "client_env \<Rightarrow> Args \<Rightarrow> string \<Rightarrow> worker \<Rightarrow> maps" where
  "batch_maps env a name w = run_items env (thread_exe env a name) (batch_items (w_batch w)) ([], [], [], None)"

definition leads_to :: "client_env \<Rightarrow> Args \<Rightarrow> string \<Rightarrow> worker \<Rightarrow> maps \<Rightarrow> bool" where
  "leads_to env a name w m \<longleftrightarrow> w_executable w = thread_exe env a name
     \<and> run_items env (thread_exe env a name) (w_items w) m = batch_maps env a name w"

definition raw_node :: "client_env \<Rightarrow> Args \<Rightarrow> string \<Rightarrow> worker \<Rightarrow> i64 \<Rightarrow> StackNode" where
  "raw_node env a name w d = (node_of env (batch_id env a name) (w_parent w) d)\<lparr>node_id := 0\<rparr>"

definition node_effect :: "client_env \<Rightarrow> i64 \<Rightarrow> i64 \<Rightarrow> maps \<Rightarrow> maps" where
  "node_effect env e d = (\<lambda>(ns, ds, es, p). (add_nodes [node_of env e p d] ns, ds, es, Some (child_id env e p d)))"

definition worker_inv ::
  "client_env \<Rightarrow> (string \<Rightarrow> StoData \<Rightarrow> post_result) \<Rightarrow> Args \<Rightarrow> string \<Rightarrow> worker \<Rightarrow> bool" where
  "worker_inv env post a name w \<longleftrightarrow>
     (let e = batch_id env a name;
          symbolized = (\<lambda>d. \<exists>fr. d = raw_data fr (try_demangle env (frame_symbol fr))
                          \<and> leads_to env a name w (frame_effect env e (data_of env fr) (w_maps w)));
          known = (\<lambda>n. \<exists>d. n = raw_node env a name w d \<and> leads_to env a name w (node_effect env e d (w_maps w)))
      in case w_control w of
           NameExecutable \<Rightarrow> w_maps w = ([], [], [], None)
         | InsertMisc nm \<Rightarrow> nm = name \<and> w_maps w = ([], [], [], None)
         | NextItem \<Rightarrow> leads_to env a name w (w_maps w)
         | InsertSym fr \<Rightarrow> leads_to env a name w (frame_effect env e (data_of env fr) (w_maps w))
         | LookupData d \<Rightarrow> symbolized d
         | InsertData d \<Rightarrow> symbolized d
         | LookupNode n \<Rightarrow> known n
         | InsertNode n \<Rightarrow> known n
         | Finished up \<Rightarrow> up = batch_upload env post (w_batch w) a name
         | Panicked \<Rightarrow> False)"

lemma worker_inv_new: "worker_inv env post a name (new_worker a symlists)"
  by (simp add: worker_inv_def new_worker_def w_maps_def)

lemma thread_exe_id [simp]: "exe_id (thread_exe env a name) = batch_id env a name"
  by (simp add: thread_exe_def batch_executable_def)

lemma data_of_raw: "data_of env fr = (raw_data fr (try_demangle env (frame_symbol fr)))
    \<lparr>data_id := id_of_data env (raw_data fr (try_demangle env (frame_symbol fr)))\<rparr>"
  by (simp add: data_of_def raw_data_def)

lemma raw_node_id: "id_of_node env (raw_node env a name w d) = child_id env (batch_id env a name) (w_parent w) d"
  by (simp add: id_of_node_def raw_node_def node_of_def child_id_def)

lemma with_executable_inv:
  assumes "w_maps w = ([], [], [], None)" "x = batch_id env a name"
  shows "worker_inv env post a name (with_executable a name x w)"
  using assms by (simp add: worker_inv_def with_executable_def leads_to_def thread_exe_def batch_maps_def w_maps_def)

lemma with_data_inv:
  assumes "leads_to env a name w (frame_effect env (batch_id env a name) d (w_maps w))"
  shows "worker_inv env post a name (with_data d w)"
  using assms
  by (auto simp: worker_inv_def with_data_def leads_to_def batch_maps_def w_maps_def frame_effect_def
      node_effect_def add_datas_def raw_node_def node_of_def Let_def intro!: exI [of _ "data_id d"])

lemma with_node_inv:
  assumes "leads_to env a name w (node_effect env (batch_id env a name) d (w_maps w))"
    and "n = (raw_node env a name w d)\<lparr>node_id := child_id env (batch_id env a name) (w_parent w) d\<rparr>"
  shows "worker_inv env post a name (with_node n w)"
  using assms
  by (simp add: worker_inv_def with_node_def leads_to_def batch_maps_def w_maps_def node_effect_def
      add_nodes_def raw_node_def node_of_def)

lemma finish_inv:
  assumes "leads_to env a name w (w_maps w)" "w_items w = []"
  shows "worker_inv env post a name (finish env post a w)"
proof -
  let ?e = "batch_id env a name" and ?exe = "thread_exe env a name"
  obtain p where "run_items env ?exe (batch_items (w_batch w)) ([], [], [], None) =
     (add_nodes (batch_nodes env ?e (w_batch w)) [], add_datas (batch_datas env (w_batch w)) [],
      fold (count_exe env ?exe) (concat (map rev (w_batch w))) [], p)"
    using run_batch [of env ?exe "w_batch w" "[]" "[]" "[]" None] by auto
  then have maps: "w_nodes w = add_nodes (batch_nodes env ?e (w_batch w)) []"
    "w_datas w = add_datas (batch_datas env (w_batch w)) []"
    "w_executables w = fold (count_exe env ?exe) (concat (map rev (w_batch w))) []"
    and exe: "w_executable w = ?exe"
    using assms by (simp_all add: leads_to_def batch_maps_def w_maps_def)
  have "concat (map rev (w_batch w)) = [] \<longleftrightarrow> concat (w_batch w) = []" by auto
  then have exes: "vals (fold (count_exe env ?exe) (concat (map rev (w_batch w))) []) = batch_exes env ?exe (w_batch w)"
    "vals (modify f ?e (fold (count_exe env ?exe) (concat (map rev (w_batch w))) []))
       = map f (batch_exes env ?exe (w_batch w))" for f
    by (simp_all add: count_exe_fold batch_exes_def vals_def modify_def)
  show ?thesis
    by (simp add: finish_def worker_inv_def batch_upload_def Let_def maps exe exes flip: thread_exe_def)
qed

lemma next_item_inv:
  assumes "leads_to env a name w (w_maps w)" "w_items w = x # xs" "w_control w = NextItem"
  shows "x = NewSample \<Longrightarrow> worker_inv env post a name (w\<lparr>w_parent := None, w_items := xs\<rparr>)"
    and "x = Address stack \<Longrightarrow> worker_inv env post a name (count_address env stack (w\<lparr>w_items := xs\<rparr>))"
    and "x = Frame fr \<Longrightarrow> leads_to env a name (w\<lparr>w_items := xs, w_control := ctl\<rparr>)
      (frame_effect env (batch_id env a name) (data_of env fr) (w_maps w))"
  using assms
  by (auto simp: worker_inv_def leads_to_def batch_maps_def w_maps_def count_address_def count_exe_def
      count_stack_def Let_def)

text \<open>What the caches return and what an insertion keeps, for the three kinds of id.\<close>

lemma cache_hits:
  assumes "caches_ok env c"
  shows "cache_get (SYM_CACHE c) k = Some u \<Longrightarrow> u = try_demangle env k"
    and "cache_get (MISC_ID_CACHE c) k = Some i \<Longrightarrow> i = id_of_name env k"
    and "cache_get (DATA_ID_CACHE c) d = Some i \<Longrightarrow> i = id_of_data env d"
    and "cache_get (NODE_ID_CACHE c) n = Some i \<Longrightarrow> i = id_of_node env n"
  using assms unfolding caches_ok_def
  by (auto dest: sym.coherent_get misc.coherent_get data.coherent_get node.coherent_get)

lemma cache_inserts:
  assumes "caches_ok env c"
  shows "caches_ok env (c\<lparr>SYM_CACHE := sym_insert env (SYM_CACHE c) k (try_demangle env k)\<rparr>)"
    and "caches_ok env (c\<lparr>MISC_ID_CACHE := misc_insert env (MISC_ID_CACHE c) k (id_of_name env k)\<rparr>)"
    and "caches_ok env (c\<lparr>DATA_ID_CACHE := data_insert env (DATA_ID_CACHE c) d (id_of_data env d)\<rparr>)"
    and "caches_ok env (c\<lparr>NODE_ID_CACHE := node_insert env (NODE_ID_CACHE c) n (id_of_node env n)\<rparr>)"
  using assms unfolding caches_ok_def
  by (auto intro: sym.coherent_insert misc.coherent_insert data.coherent_insert node.coherent_insert)

lemma id_values:
  "abs_i64 (hash64 env HASHER_SEED [as_bytes k]) = id_of_name env k"
  "abs_i64 (hash64 env HASHER_SEED ([as_bytes (symbol d)]
     @ (case data_file d of Some f \<Rightarrow> [as_bytes f] | None \<Rightarrow> [])
     @ (case line_number d of Some l \<Rightarrow> [be_bytes 4 l] | None \<Rightarrow> []))) = id_of_data env d"
  "abs_i64 (hash64 env HASHER_SEED ((case parent_id n of Some p \<Rightarrow> [be_bytes 8 p] | None \<Rightarrow> [])
     @ [be_bytes 8 (stack_node_data_id n)] @ [be_bytes 8 (executable_id n)])) = id_of_node env n"
  by (simp_all add: id_of_name_def id_of_data_def id_of_node_def id_of_slices_def data_slices_def node_slices_def)

lemma batch_id_key: "batch_id env a name = id_of_name env (misc_key a name)"
  by (simp add: batch_id_def misc_key_def)

text \<open>Every step keeps the invariant of its thread and the coherence of the shared caches.\<close>

lemma worker_step_inv:
  assumes "worker_inv env post a name w" "binary a = Some name" "caches_ok env c"
  shows "worker_inv env post a name (fst (worker_step env post a (w, c)))
    \<and> caches_ok env (snd (worker_step env post a (w, c)))"
proof (cases "w_control w")
  case NameExecutable
  then have start: "w_maps w = ([], [], [], None)" using assms(1) by (simp add: worker_inv_def)
  show ?thesis
  proof (cases "cache_get (MISC_ID_CACHE c) (misc_key a name)")
    case None
    then show ?thesis using start assms(2,3) NameExecutable
      by (simp add: worker_step.simps worker_inv_def w_maps_def)
  next
    case (Some x)
    then have "x = batch_id env a name" using cache_hits(2) [OF assms(3)] by (simp add: batch_id_key)
    then show ?thesis using with_executable_inv [OF start] assms(2,3) NameExecutable Some
      by (simp add: worker_step.simps)
  qed
next
  case (InsertMisc nm)
  then have "w_maps w = ([], [], [], None)" "nm = name" using assms(1) by (simp_all add: worker_inv_def)
  then show ?thesis
    using with_executable_inv cache_inserts(2) [OF assms(3)]
    by (simp add: worker_step.simps InsertMisc id_values batch_id_key Let_def)
next
  case NextItem
  then have l: "leads_to env a name w (w_maps w)" using assms(1) by (simp add: worker_inv_def)
  show ?thesis
  proof (cases "w_items w")
    case Nil
    then show ?thesis using finish_inv [OF l Nil] assms(3) NextItem by (simp add: worker_step.simps)
  next
    case (Cons x xs)
    note inv = next_item_inv [OF l Cons NextItem]
    show ?thesis
    proof (cases x)
      case NewSample
      then show ?thesis using inv(1) assms(3) NextItem Cons by (simp add: worker_step.simps)
    next
      case (Address stack)
      then show ?thesis using inv(2) assms(3) NextItem Cons by (simp add: worker_step.simps)
    next
      case (Frame fr)
      then show ?thesis
        using inv(3) [OF Frame] assms(3) NextItem Cons cache_hits(1) [OF assms(3), of "frame_symbol fr"]
        by (auto simp: worker_step.simps worker_inv_def w_maps_def Let_def split: option.split)
    qed
  qed
next
  case (InsertSym fr)
  then have "leads_to env a name w (frame_effect env (batch_id env a name) (data_of env fr) (w_maps w))"
    using assms(1) by (simp add: worker_inv_def)
  then show ?thesis
    using cache_inserts(1) [OF assms(3), of "frame_symbol fr"]
    by (auto simp: worker_step.simps InsertSym worker_inv_def Let_def leads_to_def batch_maps_def w_maps_def)
next
  case (LookupData d)
  then obtain fr where fr: "d = raw_data fr (try_demangle env (frame_symbol fr))"
    and l: "leads_to env a name w (frame_effect env (batch_id env a name) (data_of env fr) (w_maps w))"
    using assms(1) by (auto simp: worker_inv_def)
  show ?thesis
  proof (cases "cache_get (DATA_ID_CACHE c) d")
    case None
    then show ?thesis using assms(1,3) LookupData
      by (simp add: worker_step.simps worker_inv_def Let_def leads_to_def batch_maps_def w_maps_def)
  next
    case (Some i)
    then have "d\<lparr>data_id := i\<rparr> = data_of env fr"
      using cache_hits(3) [OF assms(3)] by (simp add: fr data_of_raw [of env fr])
    then show ?thesis using with_data_inv [OF l] assms(3) LookupData Some by (simp add: worker_step.simps)
  qed
next
  case (InsertData d)
  then obtain fr where fr: "d = raw_data fr (try_demangle env (frame_symbol fr))"
    and l: "leads_to env a name w (frame_effect env (batch_id env a name) (data_of env fr) (w_maps w))"
    using assms(1) by (auto simp: worker_inv_def)
  have "d\<lparr>data_id := id_of_data env d\<rparr> = data_of env fr" by (simp add: fr data_of_raw [of env fr])
  then show ?thesis
    using with_data_inv [OF l] cache_inserts(3) [OF assms(3)]
    by (simp add: worker_step.simps InsertData id_values [simplified] Let_def)
next
  case (LookupNode n)
  then obtain d where n: "n = raw_node env a name w d"
    and l: "leads_to env a name w (node_effect env (batch_id env a name) d (w_maps w))"
    using assms(1) by (auto simp: worker_inv_def)
  show ?thesis
  proof (cases "cache_get (NODE_ID_CACHE c) n")
    case None
    then show ?thesis using assms(1,3) LookupNode
      by (simp add: worker_step.simps worker_inv_def Let_def leads_to_def batch_maps_def w_maps_def raw_node_def)
  next
    case (Some i)
    then have "i = child_id env (batch_id env a name) (w_parent w) d"
      using cache_hits(4) [OF assms(3) Some] by (simp add: n raw_node_id)
    then show ?thesis using with_node_inv [OF l] assms(3) LookupNode Some n by (simp add: worker_step.simps)
  qed
next
  case (InsertNode n)
  then obtain d where n: "n = raw_node env a name w d"
    and l: "leads_to env a name w (node_effect env (batch_id env a name) d (w_maps w))"
    using assms(1) by (auto simp: worker_inv_def)
  show ?thesis
    using with_node_inv [OF l] cache_inserts(4) [OF assms(3), of n] raw_node_id [of env a name w d]
    by (simp add: worker_step.simps InsertNode id_values [simplified] Let_def n)
qed (use assms in \<open>simp_all add: worker_step.simps worker_inv_def\<close>)

section \<open>Interference\<close>

text \<open>The steps of one thread, where other threads leave an arbitrary state of the caches before each.\<close>

fun run_worker ::
  "client_env \<Rightarrow> (string \<Rightarrow> StoData \<Rightarrow> post_result) \<Rightarrow> Args \<Rightarrow> worker \<Rightarrow> caches list \<Rightarrow> worker" where
  "run_worker env post a w [] = w"
| "run_worker env post a w (c # cs) = run_worker env post a (fst (worker_step env post a (w, c))) cs"

fun item_work :: "item \<Rightarrow> nat" where
  "item_work (Frame fr) = 6"
| "item_work x = 1"

definition items_work :: "item list \<Rightarrow> nat" where
  "items_work xs = sum_list (map item_work xs)"

definition work_left :: "worker \<Rightarrow> nat" where
  "work_left w =
     (case w_control w of
        NameExecutable \<Rightarrow> 3 + items_work (batch_items (w_batch w))
      | InsertMisc nm \<Rightarrow> 2 + items_work (batch_items (w_batch w))
      | NextItem \<Rightarrow> 1 + items_work (w_items w)
      | InsertSym fr \<Rightarrow> 6 + items_work (w_items w)
      | LookupData d \<Rightarrow> 5 + items_work (w_items w)
      | InsertData d \<Rightarrow> 4 + items_work (w_items w)
      | LookupNode n \<Rightarrow> 3 + items_work (w_items w)
      | InsertNode n \<Rightarrow> 2 + items_work (w_items w)
      | Finished up \<Rightarrow> 0
      | Panicked \<Rightarrow> 0)"

lemma items_work_simps [simp]:
  "items_work [] = 0" "items_work (x # xs) = item_work x + items_work xs"
  "items_work (xs @ ys) = items_work xs + items_work ys"
  by (simp_all add: items_work_def)

lemma items_work_frames [simp]: "items_work (map Frame frs) = 6 * length frs"
  by (induction frs) simp_all

lemma items_work_addresses:
  "items_work (concat (map address_items stacks)) = length stacks + 6 * length (concat stacks)"
  by (induction stacks) (simp_all add: address_items_def)

lemma items_work_batch:
  "items_work (batch_items samples)
     = length samples + length (concat samples) + 6 * length (concat (concat samples))"
proof (induction samples)
  case (Cons s ss)
  have "length (concat (rev s)) = length (concat s)"
    by (simp add: length_concat sum_list_rev flip: rev_map)
  then show ?case using Cons by (simp add: batch_items_def sample_items_def items_work_addresses)
qed (simp add: batch_items_def)

lemma work_left_step:
  "work_left w \<noteq> 0 \<Longrightarrow> work_left (fst (worker_step env post a (w, c))) < work_left w"
  by (auto simp: work_left_def worker_step.simps with_executable_def with_data_def with_node_def finish_def
      count_address_def Let_def split: control.split option.split list.split item.split)

lemma worker_step_batch: "w_batch (fst (worker_step env post a (w, c))) = w_batch w"
  by (auto simp: worker_step.simps with_executable_def with_data_def with_node_def finish_def
      count_address_def Let_def split: control.split option.split list.split item.split)

lemma run_worker_inv:
  assumes "binary a = Some name" "worker_inv env post a name w" "\<And>c. c \<in> set cs \<Longrightarrow> caches_ok env c"
  shows "worker_inv env post a name (run_worker env post a w cs)
    \<and> work_left (run_worker env post a w cs) \<le> work_left w - length cs
    \<and> w_batch (run_worker env post a w cs) = w_batch w"
  using assms(2,3)
proof (induction cs arbitrary: w)
  case (Cons c cs)
  let ?w = "fst (worker_step env post a (w, c))"
  have "worker_inv env post a name ?w" using worker_step_inv [OF Cons.prems(1) assms(1)] Cons.prems(2) by simp
  from Cons.IH [OF this] Cons.prems(2)
  have IH: "worker_inv env post a name (run_worker env post a ?w cs)"
    "work_left (run_worker env post a ?w cs) \<le> work_left ?w - length cs"
    "w_batch (run_worker env post a ?w cs) = w_batch w"
    by (simp_all add: worker_step_batch)
  have "work_left ?w \<le> work_left w - 1"
    using work_left_step [of w env post a c] by (cases "work_left w = 0") (auto simp: work_left_def worker_step.simps split: control.splits)
  then show ?case using IH by simp
qed simp

lemma work_left_finished: "worker_inv env post a name w \<Longrightarrow> work_left w = 0 \<Longrightarrow>
    w_control w = Finished (batch_upload env post (w_batch w) a name)"
  by (auto simp: worker_inv_def work_left_def Let_def split: control.splits)

text \<open>
  C6. An upload does not depend on the other threads.  Whatever coherent states of the shared caches they
  leave before each of its steps, a thread has finished after three steps, one per sample and per
  address, and six per frame of its batch, and then it has posted exactly what the function posts
  when it runs alone from empty caches.
\<close>

theorem upload_despite_interference:
  assumes "binary a = Some name" "\<forall>c \<in> set cs. caches_ok env c"
    and "3 + length samples + length (concat samples) + 6 * length (concat (concat samples)) \<le> length cs"
  shows "\<exists>up c'. process_and_sink_data env post samples a empty_caches = Inr (up, c')
    \<and> w_control (run_worker env post a (new_worker a samples) cs) = Finished up"
proof -
  let ?w = "run_worker env post a (new_worker a samples) cs"
  have "work_left (new_worker a samples)
      = 3 + length samples + length (concat samples) + 6 * length (concat (concat samples))"
    by (simp add: work_left_def new_worker_def items_work_batch)
  then have "worker_inv env post a name ?w" "work_left ?w = 0" "w_batch ?w = samples"
    using run_worker_inv [OF assms(1) worker_inv_new, of cs env post samples] assms(2,3)
    by (simp_all add: new_worker_def)
  from work_left_finished [OF this(1,2)] this(3) show ?thesis
    using process_and_sink_data_ok [OF caches_ok_empty assms(1), of env post samples] by auto
qed

theorem upload_despite_interference_witness:
  "\<exists>up c'. process_and_sink_data demo_env (\<lambda>u d. PostOk) demo_samples demo_args empty_caches = Inr (up, c')
    \<and> w_control (run_worker demo_env (\<lambda>u d. PostOk) demo_args (new_worker demo_args demo_samples)
        (empty_caches # replicate 25 (snd (misc_id demo_env ''demo'' empty_caches)))) = Finished up"
proof (rule upload_despite_interference [OF demo_name])
  have "caches_ok demo_env (snd (misc_id demo_env ''demo'' empty_caches))" by (simp add: cache_simps)
  then show "\<forall>c \<in> set (empty_caches # replicate 25 (snd (misc_id demo_env ''demo'' empty_caches))). caches_ok demo_env c"
    by simp
qed (simp add: demo_samples_def)

end
