(* ===== verification/Client_System.thy ===== *)
theory Client_System
  imports Client_Worker "HOL-Library.Multiset"
begin

text \<open>
  The client as a whole, \<^verbatim>\<open>process\<close> of \<^verbatim>\<open>src/src/bin/cli.rs\<close>: the main thread that polls the ring
  buffer, one short thread per event that sends it into the channel, the collector at the other end of the
  channel, and one uploading thread per batch, in any interleaving of their steps.  The sending
  threads may be scheduled in any order, so the channel need not hold the events in the order of the
  ring buffer.  When a poll fails or the callback panics the main thread ends and the process with it.
\<close>

section \<open>State\<close>

text \<open>
  The components \<open>polled\<close>, \<open>received\<close> and \<open>undelivered\<close> record history: the events handed to sending
  threads, those the collector has taken, and those whose thread found the receiver gone.
\<close>

record client_state =
  running :: bool
  polled :: "StackInfo list"
  senders :: "StackInfo list"
  channel :: "StackInfo list"
  undelivered :: "StackInfo list"
  received :: "StackInfo list"
  collecting :: "collector option"
  workers :: "worker list"
  shared_caches :: caches

definition client_start :: client_state where
  "client_start =
     \<lparr>running = True, polled = [], senders = [], channel = [], undelivered = [], received = [],
      collecting = Some \<lparr>buf = [], sunk = []\<rparr>, workers = [], shared_caches = empty_caches\<rparr>"

definition remove_nth :: "nat \<Rightarrow> 'a list \<Rightarrow> 'a list" where
  "remove_nth j xs = take j xs @ drop (Suc j) xs"

section \<open>Steps\<close>

text \<open>The collector starts a thread for each batch that \<^term>\<open>collect\<close> hands out.\<close>

definition started :: "Args \<Rightarrow> collector \<Rightarrow> collector \<Rightarrow> worker list" where
  "started a st st' = map (new_worker a) (drop (length (sunk st)) (sunk st'))"

inductive client_step ::
  "client_env \<Rightarrow> (string \<Rightarrow> StoData \<Rightarrow> post_result) \<Rightarrow> copy_from_bytes \<Rightarrow> blaze \<Rightarrow> Args \<Rightarrow>
     client_state \<Rightarrow> client_state \<Rightarrow> bool"
  for env post copy blz a where
  poll_sent: "running s \<Longrightarrow> ring_callback copy a data = Sent x \<Longrightarrow>
    client_step env post copy blz a s (s\<lparr>polled := polled s @ [x], senders := senders s @ [x]\<rparr>)"
| poll_ignored: "running s \<Longrightarrow> ring_callback copy a data = Ignored \<Longrightarrow>
    client_step env post copy blz a s s"
| poll_panic: "running s \<Longrightarrow> ring_callback copy a data = CallbackPanic \<Longrightarrow>
    client_step env post copy blz a s (s\<lparr>running := False\<rparr>)"
| poll_failed: "running s \<Longrightarrow> client_step env post copy blz a s (s\<lparr>running := False\<rparr>)"
| send: "running s \<Longrightarrow> j < length (senders s) \<Longrightarrow> collecting s \<noteq> None \<Longrightarrow>
    client_step env post copy blz a s
      (s\<lparr>senders := remove_nth j (senders s), channel := channel s @ [senders s ! j]\<rparr>)"
| send_panic: "running s \<Longrightarrow> j < length (senders s) \<Longrightarrow> collecting s = None \<Longrightarrow>
    client_step env post copy blz a s
      (s\<lparr>senders := remove_nth j (senders s), undelivered := undelivered s @ [senders s ! j]\<rparr>)"
| recv: "running s \<Longrightarrow> channel s = x # xs \<Longrightarrow> collecting s = Some st \<Longrightarrow> collect blz st x = Some st' \<Longrightarrow>
    client_step env post copy blz a s
      (s\<lparr>channel := xs, received := received s @ [x], collecting := Some st',
         workers := workers s @ started a st st'\<rparr>)"
| recv_panic: "running s \<Longrightarrow> channel s = x # xs \<Longrightarrow> collecting s = Some st \<Longrightarrow> collect blz st x = None \<Longrightarrow>
    client_step env post copy blz a s
      (s\<lparr>channel := xs, received := received s @ [x], collecting := None\<rparr>)"
| work: "running s \<Longrightarrow> j < length (workers s) \<Longrightarrow>
    worker_step env post a (workers s ! j, shared_caches s) = (w, c) \<Longrightarrow>
    client_step env post copy blz a s (s\<lparr>workers := (workers s)[j := w], shared_caches := c\<rparr>)"
| evict: "running s \<Longrightarrow>
    client_step env post copy blz a s (s\<lparr>shared_caches := discard_some P Q R S (shared_caches s)\<rparr>)"

inductive_cases client_stepE: "client_step env post copy blz a s s'"

inductive client_reachable ::
  "client_env \<Rightarrow> (string \<Rightarrow> StoData \<Rightarrow> post_result) \<Rightarrow> copy_from_bytes \<Rightarrow> blaze \<Rightarrow> Args \<Rightarrow> client_state \<Rightarrow> bool"
  for env post copy blz a where
  init: "client_reachable env post copy blz a client_start"
| step: "client_reachable env post copy blz a s \<Longrightarrow> client_step env post copy blz a s s' \<Longrightarrow>
    client_reachable env post copy blz a s'"

section \<open>The events\<close>

lemma mset_remove_nth: "j < length xs \<Longrightarrow> add_mset (xs ! j) (mset (remove_nth j xs)) = mset xs"
  by (subst (3) id_take_nth_drop [of j xs]) (simp_all add: remove_nth_def)

text \<open>Every event is in exactly one place, and the collector is where the events it received put it.\<close>

definition events_inv :: "blaze \<Rightarrow> client_state \<Rightarrow> bool" where
  "events_inv blz s \<longleftrightarrow>
     mset (polled s) = mset (senders s) + mset (channel s) + mset (received s) + mset (undelivered s)
     \<and> collecting s = collect_all blz \<lparr>buf = [], sunk = []\<rparr> (received s)
     \<and> (\<forall>st. collecting s = Some st \<longrightarrow> map w_batch (workers s) = sunk st \<and> undelivered s = [])"

lemma collect_sunk: "collect blz st x = Some st' \<Longrightarrow> \<exists>bs. sunk st' = sunk st @ bs"
  by (auto simp: collect_def split: if_splits option.splits)

lemma events_inv_step:
  assumes "client_step env post copy blz a s s'" "events_inv blz s"
  shows "events_inv blz s'"
  using assms(1)
proof cases
  case (send j)
  then show ?thesis using assms(2) mset_remove_nth [of j "senders s"]
    by (auto simp: events_inv_def)
next
  case (send_panic j)
  then show ?thesis using assms(2) mset_remove_nth [of j "senders s"]
    by (auto simp: events_inv_def)
next
  case (recv x xs st st')
  obtain bs where "sunk st' = sunk st @ bs" using collect_sunk [OF recv(5)] ..
  moreover have "collect_all blz \<lparr>buf = [], sunk = []\<rparr> (received s) = Some st"
    using assms(2) recv(4) by (simp add: events_inv_def)
  ultimately show ?thesis using assms(2) recv
    by (auto simp: events_inv_def collect_all_append started_def new_worker_def comp_def)
next
  case (recv_panic x xs st)
  have "collect_all blz \<lparr>buf = [], sunk = []\<rparr> (received s) = Some st"
    using assms(2) recv_panic(4) by (simp add: events_inv_def)
  then show ?thesis using assms(2) recv_panic by (auto simp: events_inv_def collect_all_append)
next
  case (work j w c)
  then have "map w_batch ((workers s)[j := w]) = map w_batch (workers s)"
    using worker_step_batch [of env post a "workers s ! j" "shared_caches s"]
    by (simp add: map_update) (metis list_update_id map_update nth_map length_map)
  then show ?thesis using assms(2) work by (simp add: events_inv_def)
qed (use assms(2) in \<open>auto simp: events_inv_def\<close>)

lemma events_inv_reachable: "client_reachable env post copy blz a s \<Longrightarrow> events_inv blz s"
proof (induction rule: client_reachable.induct)
  case init
  then show ?case by (simp add: events_inv_def client_start_def)
qed (rule events_inv_step)

lemma client_state_batches:
  "client_reachable env post copy (Some f) a s \<Longrightarrow> map w_batch (workers s) = batches (symbolized f (received s))"
  using events_inv_reachable [of env post copy "Some f" a s] by (simp add: events_inv_def collect_all_state)

section \<open>The uploads\<close>

definition uploads_inv ::
  "client_env \<Rightarrow> (string \<Rightarrow> StoData \<Rightarrow> post_result) \<Rightarrow> Args \<Rightarrow> string \<Rightarrow> client_state \<Rightarrow> bool" where
  "uploads_inv env post a name s \<longleftrightarrow>
     caches_ok env (shared_caches s) \<and> (\<forall>w \<in> set (workers s). worker_inv env post a name w)"

lemma uploads_inv_step:
  assumes "client_step env post copy blz a s s'" "binary a = Some name" "uploads_inv env post a name s"
  shows "uploads_inv env post a name s'"
  using assms(1)
proof cases
  case (work j w c)
  have "worker_inv env post a name (workers s ! j)" "caches_ok env (shared_caches s)"
    using assms(3) work(3) by (simp_all add: uploads_inv_def)
  from worker_step_inv [OF this(1) assms(2) this(2)] work(4)
  have "worker_inv env post a name w \<and> caches_ok env c" by simp
  then show ?thesis using assms(3) work
    by (auto simp: uploads_inv_def dest!: set_update_subset_insert [THEN subsetD])
qed (use assms(3) in \<open>auto simp: uploads_inv_def started_def worker_inv_new cache_simps\<close>)

lemma uploads_inv_reachable:
  "client_reachable env post copy blz a s \<Longrightarrow> binary a = Some name \<Longrightarrow> uploads_inv env post a name s"
proof (induction rule: client_reachable.induct)
  case init
  then show ?case by (simp add: uploads_inv_def client_start_def)
qed (rule uploads_inv_step)

section \<open>Draining\<close>

text \<open>What the threads still have to do for the events that were polled.\<close>

definition pending :: "client_state \<Rightarrow> nat" where
  "pending s = 2 * length (senders s) + length (channel s)"

definition upload_work :: "client_state \<Rightarrow> nat" where
  "upload_work s = sum_list (map work_left (workers s))"

definition drained :: "client_state \<Rightarrow> bool" where
  "drained s \<longleftrightarrow> senders s = [] \<and> channel s = [] \<and> (\<forall>w \<in> set (workers s). work_left w = 0)"

lemma sum_list_update_less:
  fixes f :: "'a \<Rightarrow> nat"
  shows "j < length xs \<Longrightarrow> f y < f (xs ! j) \<Longrightarrow> sum_list (map f (xs[j := y])) < sum_list (map f xs)"
  by (induction xs arbitrary: j) (auto split: nat.split simp: less_Suc_eq_0_disj nth_Cons')

lemma collect_defined: "\<exists>st'. collect (Some f) st x = Some st'"
  by (simp add: collect_def symbolize_def)

lemma drain_step:
  assumes "running s" "collecting s = Some st" "\<not> drained s"
  shows "\<exists>s'. client_step env post copy (Some f) a s s' \<and> running s' \<and> collecting s' \<noteq> None \<and> polled s' = polled s
    \<and> (pending s' < pending s \<or> pending s' = pending s \<and> upload_work s' < upload_work s)"
proof -
  consider (send) "senders s \<noteq> []" | (recv) "senders s = []" "channel s \<noteq> []"
    | (work) "senders s = []" "channel s = []" "\<exists>w \<in> set (workers s). work_left w \<noteq> 0"
    using assms(3) unfolding drained_def by blast
  then show ?thesis
  proof cases
    case send
    then obtain y ys where y: "senders s = y # ys" by (cases "senders s") auto
    then have "0 < length (senders s)" "collecting s \<noteq> None" using assms(2) by simp_all
    from client_step.send [OF assms(1) this, of env post copy "Some f" a] show ?thesis
      using assms y by - (intro exI conjI, assumption, auto simp: pending_def remove_nth_def)
  next
    case recv
    then obtain x xs where x: "channel s = x # xs" by (cases "channel s") auto
    obtain st' where "collect (Some f) st x = Some st'" using collect_defined by blast
    from client_step.recv [OF assms(1) x assms(2) this, of env post copy a] show ?thesis
      using assms x by - (intro exI conjI, assumption, auto simp: pending_def)
  next
    case work
    then obtain j where j: "j < length (workers s)" "work_left (workers s ! j) \<noteq> 0"
      by (metis in_set_conv_nth)
    obtain w c where w: "worker_step env post a (workers s ! j, shared_caches s) = (w, c)" by fastforce
    have "work_left w < work_left (workers s ! j)"
      using work_left_step [OF j(2), of env post a "shared_caches s"] w by simp
    then have "upload_work (s\<lparr>workers := (workers s)[j := w], shared_caches := c\<rparr>) < upload_work s"
      using sum_list_update_less [OF j(1), of work_left w] by (simp add: upload_work_def)
    with client_step.work [OF assms(1) j(1) w, of copy "Some f"] show ?thesis
      using assms by - (intro exI conjI, assumption, auto simp: pending_def)
  qed
qed

lemma drain:
  assumes "running s" "collecting s \<noteq> None"
  shows "\<exists>s'. (client_step env post copy (Some f) a)\<^sup>*\<^sup>* s s' \<and> running s' \<and> polled s' = polled s \<and> drained s'"
  using assms
proof (induction "(pending s, upload_work s)" arbitrary: s rule: wf_induct_rule [OF wf_lex_prod [OF wf_less_than wf_less_than]])
  case 1
  show ?case
  proof (cases "drained s")
    case False
    obtain st where "collecting s = Some st" using 1(3) by blast
    from drain_step [OF 1(2) this False, of env post copy f a] obtain s1
      where s1: "client_step env post copy (Some f) a s s1" "running s1" "collecting s1 \<noteq> None" "polled s1 = polled s"
        "pending s1 < pending s \<or> pending s1 = pending s \<and> upload_work s1 < upload_work s"
      by blast
    from 1(1) [OF _ s1(2,3)] s1(5) obtain s'
      where "(client_step env post copy (Some f) a)\<^sup>*\<^sup>* s1 s'" "running s'" "polled s' = polled s1" "drained s'"
      by auto
    then show ?thesis using s1(1,4) by (metis converse_rtranclp_into_rtranclp)
  qed (use 1 in blast)
qed

lemma reachable_steps:
  "(client_step env post copy blz a)\<^sup>*\<^sup>* s s' \<Longrightarrow> client_reachable env post copy blz a s \<Longrightarrow>
     client_reachable env post copy blz a s'"
  by (induction rule: rtranclp_induct) (auto intro: client_reachable.step)

lemma drained_state:
  assumes "client_reachable env post copy (Some f) a s" "binary a = Some name" "running s"
  shows "\<exists>s'. (client_step env post copy (Some f) a)\<^sup>*\<^sup>* s s' \<and> polled s' = polled s
    \<and> mset (received s') = mset (polled s) \<and> length (workers s') = length (polled s) div 201
    \<and> (\<forall>w \<in> set (workers s'). w_control w = Finished (batch_upload env post (w_batch w) a name))"
proof -
  have "collecting s \<noteq> None"
    using events_inv_reachable [OF assms(1)] by (simp add: events_inv_def collect_all_state)
  from drain [OF assms(3) this, of env post copy f a] obtain s'
    where s': "(client_step env post copy (Some f) a)\<^sup>*\<^sup>* s s'" "polled s' = polled s" "drained s'"
    by blast
  then have r: "client_reachable env post copy (Some f) a s'" using reachable_steps assms(1) by blast
  have inv: "events_inv (Some f) s'" by (rule events_inv_reachable [OF r])
  then have "collecting s' = Some \<lparr>buf = drop (201 * (length (received s') div 201)) (symbolized f (received s')),
      sunk = batches (symbolized f (received s'))\<rparr>"
    by (simp add: events_inv_def collect_all_state)
  then have m: "mset (received s') = mset (polled s)"
    and b: "map w_batch (workers s') = batches (symbolized f (received s'))"
    using inv s'(2,3) by (simp_all add: events_inv_def drained_def)
  have "length (workers s') = length (polled s) div 201"
    using arg_cong [OF b, of length] mset_eq_length [OF m] by (simp add: batches_def symbolized_def)
  moreover have "w_control w = Finished (batch_upload env post (w_batch w) a name)" if "w \<in> set (workers s')" for w
    using work_left_finished uploads_inv_reachable [OF r assms(2)] that s'(3)
    by (simp add: uploads_inv_def drained_def)
  ultimately show ?thesis using s' m by blast
qed

section \<open>Properties\<close>

text \<open>
  C7. The threads of the client lose nothing but what the collector's code drops.  In every state the
  threads can reach, each event handed out by the callback is waiting to be sent, in the channel, or
  received; the collector has put the received events, in the order in which it received them, into
  batches of 200 of which every 201st event is left out, and into its buffer; one thread works on each
  batch, none of them has panicked, and one that has finished has posted what
  \<^verbatim>\<open>process_and_sink_data\<close> computes from its batch.
\<close>

theorem client_delivers:
  assumes "client_reachable env post copy (Some f) a s" "binary a = Some name"
  shows "mset (polled s) = mset (senders s) + mset (channel s) + mset (received s)
    \<and> collecting s = Some
        \<lparr>buf = drop (201 * (length (received s) div 201)) (symbolized f (received s)),
         sunk = batches (symbolized f (received s))\<rparr>
    \<and> map w_batch (workers s) = batches (symbolized f (received s))
    \<and> (\<forall>w \<in> set (workers s). w_control w \<noteq> Panicked
         \<and> (\<forall>up. w_control w = Finished up \<longrightarrow> up = batch_upload env post (w_batch w) a name))"
proof -
  have "events_inv (Some f) s" by (rule events_inv_reachable [OF assms(1)])
  moreover have "worker_inv env post a name w" if "w \<in> set (workers s)" for w
    using uploads_inv_reachable [OF assms] that by (simp add: uploads_inv_def)
  then have "w_control w \<noteq> Panicked \<and> (\<forall>up. w_control w = Finished up \<longrightarrow> up = batch_upload env post (w_batch w) a name)"
    if "w \<in> set (workers s)" for w
    using that by (fastforce simp: worker_inv_def Let_def)
  ultimately show ?thesis by (simp add: events_inv_def collect_all_state)
qed


text \<open>
  Two events of the witness: the second is sent and received before the first, which is still in the channel.
\<close>

definition demo_event :: "u32 \<Rightarrow> stacktrace_event" where
  "demo_event k = default_event\<lparr>pid := k\<rparr>"

lemma demo_event_sent:
  assumes "k \<noteq> 0"
  shows "ring_callback plain_copy a (event_bytes (demo_event k)) = Sent \<lparr>event = demo_event k, args = a\<rparr>"
proof -
  have wf: "wf_event (demo_event k)" by (simp add: wf_event_def demo_event_def default_event_def event_defs)
  then have "plain_copy (event_bytes (demo_event k)) = Inr (demo_event k)"
    using event_bytes_read [OF wf, of "[]"] by (simp add: plain_copy_ok [OF plain_copy_contract] event_bytes_length)
  then show ?thesis using assms by (simp add: ring_callback_def demo_event_def)
qed

theorem client_delivers_witness:
  "\<exists>s. client_reachable demo_env (\<lambda>u d. PostOk) plain_copy (Some (\<lambda>p us. [])) demo_args s
    \<and> map (pid \<circ> event) (polled s) = [1, 2] \<and> map (pid \<circ> event) (received s) = [2]
    \<and> mset (polled s) = mset (senders s) + mset (channel s) + mset (received s)
    \<and> collecting s = Some \<lparr>buf = [[]], sunk = []\<rparr>"
proof -
  let ?step = "client_step demo_env (\<lambda>u d. PostOk) plain_copy (Some (\<lambda>p us. [])) demo_args"
  let ?reach = "client_reachable demo_env (\<lambda>u d. PostOk) plain_copy (Some (\<lambda>p us. [])) demo_args"
  let ?x = "\<lambda>k. \<lparr>event = demo_event k, args = demo_args\<rparr>"
  let ?s2 = "client_start\<lparr>polled := [?x 1, ?x 2], senders := [?x 1, ?x 2]\<rparr>"
  let ?s4 = "?s2\<lparr>senders := [], channel := [?x 2, ?x 1]\<rparr>"
  let ?s5 = "?s4\<lparr>channel := [?x 1], received := [?x 2], collecting := Some \<lparr>buf = [[]], sunk = []\<rparr>\<rparr>"
  note next_state = client_reachable.step [of demo_env "\<lambda>u d. PostOk" plain_copy "Some (\<lambda>p us. [])" demo_args]
  have "?reach (client_start\<lparr>polled := [?x 1], senders := [?x 1]\<rparr>)"
    using next_state [OF client_reachable.init client_step.poll_sent [OF _ demo_event_sent [of 1]]]
    by (simp add: client_start_def)
  from next_state [OF this client_step.poll_sent [OF _ demo_event_sent [of 2]]]
  have "?reach ?s2" by (simp add: client_start_def)
  from next_state [OF this client_step.send [of _ 1]]
  have "?reach (?s2\<lparr>senders := [?x 1], channel := [?x 2]\<rparr>)" by (simp add: client_start_def remove_nth_def)
  from next_state [OF this client_step.send [of _ 0]]
  have "?reach ?s4" by (simp add: client_start_def remove_nth_def)
  from next_state [OF this client_step.recv [where st' = "\<lparr>buf = [[]], sunk = []\<rparr>"]]
  have s5: "?reach ?s5" by (simp add: client_start_def collect_def symbolize_def started_def)
  from client_delivers [OF this demo_name]
  have "mset (polled ?s5) = mset (senders ?s5) + mset (channel ?s5) + mset (received ?s5)" by blast
  with s5 show ?thesis
    by (intro exI [of _ ?s5]) (simp add: client_start_def demo_event_def)
qed


end
