(* ===== verification/Server_Runs.thy ===== *)
theory Server_Runs
  imports Server_Ingest
begin

text \<open>
  Requests served concurrently.  \<^verbatim>\<open>data_ingest\<close> of \<^verbatim>\<open>src/src/bin/server.rs\<close> awaits three transactions
  one after the other; the server runs any number of such handlers at a time, so their transactions
  interleave.  A handler is the data it was posted and the point it has reached; a step of the server
  takes a new request or lets one handler run its next transaction.
\<close>

section \<open>One handler\<close>

datatype stage = AtData | AtExe | AtNode | Stored | PanicData | PanicExe | PanicNode

definition advance :: "(nat \<Rightarrow> int) \<Rightarrow> int \<Rightarrow> StoData \<Rightarrow> stage \<Rightarrow> db \<Rightarrow> stage \<times> db" where
  "advance clock tx_start data st d =
     (case st of
        AtData \<Rightarrow> (case data_tx (stack_node_datas data) d of
                     Inl e \<Rightarrow> (PanicData, d) | Inr d \<Rightarrow> (AtExe, d))
      | AtExe \<Rightarrow> (case exe_tx clock tx_start (profiled_binaries data) d of
                    Inl e \<Rightarrow> (PanicExe, d) | Inr d \<Rightarrow> (AtNode, d))
      | AtNode \<Rightarrow> (case node_tx (stack_nodes data) d of
                     Inl e \<Rightarrow> (PanicNode, d) | Inr d \<Rightarrow> (Stored, d))
      | st \<Rightarrow> (st, d))"

lemma advance_cases:
  assumes "advance clock tx data st d = (st', d')"
  obtains (data) "st = AtData" "data_tx (stack_node_datas data) d = Inr d'" "st' = AtExe"
    | (exe) "st = AtExe" "exe_tx clock tx (profiled_binaries data) d = Inr d'" "st' = AtNode"
    | (node) "st = AtNode" "node_tx (stack_nodes data) d = Inr d'" "st' = Stored"
    | (data_panic) "st = AtData" "d' = d" "st' = PanicData"
    | (exe_panic) "st = AtExe" "d' = d" "st' = PanicExe"
    | (node_panic) "st = AtNode" "d' = d" "st' = PanicNode"
    | (idle) "d' = d" "st' = st"
  using assms by (auto simp: advance_def split: stage.splits sum.splits)

section \<open>The server\<close>

type_synonym serving = "db \<times> (StoData \<times> stage) list"

inductive serve_step :: "serving \<Rightarrow> serving \<Rightarrow> bool" where
  arrive: "serve_step (d, rs) (d, rs @ [(data, AtData)])"
| turn: "j < length rs \<Longrightarrow> rs ! j = (data, st) \<Longrightarrow> advance clock tx data st d = (st', d') \<Longrightarrow>
    serve_step (d, rs) (d', rs[j := (data, st')])"

inductive_cases serve_stepE: "serve_step (d, rs) s'"

inductive served :: "serving \<Rightarrow> bool" where
  start: "served (empty_db, [])"
| step: "served s \<Longrightarrow> serve_step s s' \<Longrightarrow> served s'"

text \<open>
  What the handlers have added to the counters of an id: a handler that stored its executables or its
  nodes has added all it posted, and no other has added anything.
\<close>

definition nodes_added :: "i64 \<Rightarrow> StoData \<times> stage \<Rightarrow> int" where
  "nodes_added i r = (if snd r = Stored
     then posted_count node_id sample_count (take 16383 (stack_nodes (fst r))) i else 0)"

definition exes_added :: "(Executable \<Rightarrow> i64) \<Rightarrow> i64 \<Rightarrow> StoData \<times> stage \<Rightarrow> int" where
  "exes_added count i r = (if snd r \<in> {AtNode, Stored, PanicNode}
     then posted_count exe_id count (take 16383 (profiled_binaries (fst r))) i else 0)"

definition counters_match :: "i64 \<Rightarrow> serving \<Rightarrow> bool" where
  "counters_match i s \<longleftrightarrow>
     stored_count sample_count (stack_node_table (fst s)) i = sum_list (map (nodes_added i) (snd s))
     \<and> stored_count exe_sample_count (executable_table (fst s)) i
       = sum_list (map (exes_added exe_sample_count i) (snd s))
     \<and> stored_count raw_data_size (executable_table (fst s)) i
       = sum_list (map (exes_added raw_data_size i) (snd s))
     \<and> stored_count processed_data_size (executable_table (fst s)) i
       = sum_list (map (exes_added processed_data_size i) (snd s))"

lemma sum_list_map_update:
  fixes f :: "'a \<Rightarrow> int"
  shows "j < length xs \<Longrightarrow> sum_list (map f (xs[j := y])) = sum_list (map f xs) + f y - f (xs ! j)"
  by (induction xs arbitrary: j) (auto split: nat.split)

lemma counters_match_step:
  assumes "serve_step s s'" "counters_match i s"
  shows "counters_match i s'"
  using assms(1)
proof cases
  case (arrive d rs data)
  then show ?thesis using assms(2) by (simp add: counters_match_def nodes_added_def exes_added_def)
next
  case (turn j rs data st clock tx d st' d')
  note upd = sum_list_map_update [OF turn(3), unfolded turn(4)]
  from turn(5) show ?thesis
  proof (cases rule: advance_cases)
    case data
    then show ?thesis using assms(2) data_tx_tables [OF data(2)]
      by (simp add: turn counters_match_def upd nodes_added_def exes_added_def)
  next
    case exe
    then show ?thesis using assms(2) exe_tx_tables(1) [OF exe(2)] exe_tx_tables(3-5) [OF exe(2), of i]
      by (simp add: turn counters_match_def upd nodes_added_def exes_added_def)
  next
    case node
    then show ?thesis using assms(2) node_tx_tables(1) [OF node(2)] node_tx_tables(2) [OF node(2), of i]
      by (simp add: turn counters_match_def upd nodes_added_def exes_added_def)
  qed (use assms(2) in \<open>simp_all add: turn counters_match_def upd nodes_added_def exes_added_def\<close>)
qed

lemma served_invariant: "served s \<Longrightarrow> counters_match i s \<and> reachable_db (fst s)"
proof (induction rule: served.induct)
  case start
  then show ?case by (simp add: counters_match_def empty_db_def stored_count_def reachable_db.empty [unfolded empty_db_def])
next
  case (step s s')
  have "reachable_db (fst s')"
    using step(2)
  proof cases
    case (turn j rs data st clock tx d st' d')
    with step.IH show ?thesis
      by (cases rule: advance_cases [OF turn(5)])
         (auto intro: reachable_db.data reachable_db.executable reachable_db.node)
  qed (use step.IH in simp)
  then show ?case using counters_match_step [OF step(2)] step.IH by blast
qed

lemma served_counters: "served s \<Longrightarrow> counters_match i s"
  by (simp add: served_invariant)

text \<open>
  C12. However the transactions of concurrent requests interleave, the stored counters of every id are
  the sums of what the requests posted: a node's over the requests that completed, an executable's over
  those that got past their second transaction, so also over those that then panicked.  No update is
  lost and the order does not matter.
\<close>

theorem concurrent_counts:
  assumes "served s"
  shows "counters_match i s \<and> reachable_db (fst s)"
  using assms by (rule served_invariant)

section \<open>One request on its own\<close>

text \<open>A handler that runs without interleaving is \<^term>\<open>data_ingest\<close>.\<close>

lemma data_ingest_advance:
  "advance clock tx data AtData d = (st1, d1) \<Longrightarrow> advance clock tx data st1 d1 = (st2, d2) \<Longrightarrow>
   advance clock tx data st2 d2 = (st3, d3) \<Longrightarrow>
   snd (data_ingest clock tx data d) = d3 \<and> (fst (data_ingest clock tx data d) = None \<longleftrightarrow> st3 = Stored)"
  by (auto simp: advance_def data_ingest_def split: sum.splits)

text \<open>
  Two requests with the same data whose transactions alternate: the second runs its first transaction
  while the first has not stored its nodes yet.
\<close>

lemma demo_turn:
  "served (d, rs) \<Longrightarrow> j < length rs \<Longrightarrow> rs ! j = (data, st) \<Longrightarrow>
   advance (\<lambda>i. 100) 99 data st d = (st', d') \<Longrightarrow> served (d', rs[j := (data, st')])"
  by (rule served.step, assumption) (rule serve_step.turn)

lemma demo_interleaving:
  "\<exists>d. served (d, [(demo_sto, Stored), (demo_sto, AtExe)])"
proof -
  have arrive: "served (d, rs) \<Longrightarrow> served (d, rs @ [(demo_sto, AtData)])" for d rs
    by (rule served.step) (assumption, rule serve_step.arrive)
  have two: "served (empty_db, [(demo_sto, AtData), (demo_sto, AtData)])"
    using arrive [OF arrive [OF served.start]] by simp
  let ?d1 = "empty_db\<lparr>stack_node_data_table := stack_node_data_table demo_db\<rparr>"
  let ?d2 = "?d1\<lparr>executable_table := executable_table demo_db\<rparr>"
  have a1: "advance (\<lambda>i. 100) 99 demo_sto AtData empty_db = (AtExe, ?d1)"
    unfolding demo_db_tables by (simp add: advance_def demo_sto_def empty_db_def ingest_eval)
  have a2: "advance (\<lambda>i. 100) 99 demo_sto AtExe ?d1 = (AtNode, ?d2)"
    unfolding demo_db_tables by (simp add: advance_def demo_sto_def empty_db_def ingest_eval)
  have a3: "advance (\<lambda>i. 100) 99 demo_sto AtData ?d2 = (AtExe, ?d2)"
    unfolding demo_db_tables by (simp add: advance_def demo_sto_def empty_db_def ingest_eval)
  have a4: "advance (\<lambda>i. 100) 99 demo_sto AtNode ?d2 = (Stored, demo_db)"
    unfolding demo_db_tables by (simp add: advance_def demo_sto_def empty_db_def ingest_eval)
  have "served (?d1, [(demo_sto, AtExe), (demo_sto, AtData)])"
    using demo_turn [OF two, of 0, OF _ _ a1] by simp
  then have "served (?d2, [(demo_sto, AtNode), (demo_sto, AtData)])"
    using demo_turn [of ?d1 _ 0, OF _ _ _ a2] by fastforce
  then have "served (?d2, [(demo_sto, AtNode), (demo_sto, AtExe)])"
    using demo_turn [of ?d2 _ 1, OF _ _ _ a3] by fastforce
  then show ?thesis
    using demo_turn [of ?d2 _ 0, OF _ _ _ a4] by fastforce
qed

theorem concurrent_counts_witness:
  "\<exists>d. served (d, [(demo_sto, Stored), (demo_sto, AtExe)])
    \<and> stored_count sample_count (stack_node_table d) 1 = 2
    \<and> stored_count exe_sample_count (executable_table d) 5 = 3"
proof -
  obtain d where d: "served (d, [(demo_sto, Stored), (demo_sto, AtExe)])"
    using demo_interleaving by blast
  have "posted_count node_id sample_count (take 16383 (stack_nodes demo_sto)) 1 = 2"
    "posted_count exe_id exe_sample_count (take 16383 (profiled_binaries demo_sto)) 5 = 3"
    by (simp_all add: posted_count_def demo_sto_def)
  with concurrent_counts [OF d, of 1] concurrent_counts [OF d, of 5] d show ?thesis
    by (auto simp: counters_match_def nodes_added_def exes_added_def)
qed

end
