(* ===== verification/Full_System.thy ===== *)
theory Full_System
  imports Client_System Server_Runs
begin

text \<open>
  Both ends together: the threads of the client, in any interleaving, and the requests of the server, in
  any interleaving of their transactions.  When the server has completed one request for each upload
  the client has posted, its counters are the sizes of what the collector put into batches: no count is
  lost or made up on the way, whatever the hash, the caches and the schedulers do.
\<close>

section \<open>Exact counts\<close>

lemma posted_count_total:
  fixes key :: "'r \<Rightarrow> i64"
  shows "(\<Sum>i \<in> UNIV. posted_count key cnt rows i) = sum_list (map (\<lambda>r. sint (cnt r)) rows)"
proof (induction rows)
  case (Cons r rows)
  have "posted_count key cnt (r # rows) i = (if key r = i then sint (cnt r) else 0) + posted_count key cnt rows i"
    for i by (simp add: posted_count_def)
  then show ?case using Cons by (simp add: sum.distrib)
qed (simp add: posted_count_def)

lemma sint_bump:
  assumes "0 \<le> sint c" "sint c < 2 ^ 63 - 1"
  shows "sint (c + 1 :: i64) = sint c + 1"
proof -
  have "sint (c + 1) = signed_take_bit 63 (sint c + 1)"
    by (simp add: sint_word_add)
  then show ?thesis using assms by (simp add: signed_take_bit_int_eq_self)
qed

text \<open>The counters of the posted nodes as integers.\<close>

lemma upsert_exact:
  fixes m :: "(i64, StackNode) hash_map"
  assumes "\<forall>x \<in> set (vals m). 0 \<le> sint (sample_count x) \<and> sint (sample_count x) \<le> int k"
    and "int k < 2 ^ 63 - 1" "sample_count n = 1"
  shows "sum_list (map (\<lambda>x. sint (sample_count x)) (vals (upsert bump_node n i m)))
      = sum_list (map (\<lambda>x. sint (sample_count x)) (vals m)) + 1
    \<and> (\<forall>x \<in> set (vals (upsert bump_node n i m)). 0 \<le> sint (sample_count x) \<and> sint (sample_count x) \<le> int (Suc k))"
  using assms(1)
proof (induction m)
  case Nil
  then show ?case using assms(2,3) by (simp add: vals_def)
next
  case (Cons p m)
  obtain j x where p: "p = (j, x)" by fastforce
  have "0 \<le> sint (sample_count x)" "sint (sample_count x) \<le> int k" using Cons.prems p by (simp_all add: vals_def)
  then have "sint (sample_count x + 1) = sint (sample_count x) + 1"
    using assms(2) by (intro sint_bump) linarith+
  then have x: "sint (sample_count (bump_node x)) = sint (sample_count x) + 1" by (simp add: bump_node_def)
  have m: "\<forall>x \<in> set (vals m). 0 \<le> sint (sample_count x) \<and> sint (sample_count x) \<le> int k"
    using Cons.prems by (simp add: vals_def)
  have cons: "vals ((j', x') # m') = x' # vals m'" for j' x' and m' :: "(i64, StackNode) hash_map"
    by (simp add: vals_def)
  show ?case
  proof (cases "j = i")
    case True
    have "\<forall>x \<in> set (vals m). 0 \<le> sint (sample_count x) \<and> sint (sample_count x) \<le> int (Suc k)"
      using m by force
    then show ?thesis using True p x \<open>0 \<le> sint (sample_count x)\<close> \<open>sint (sample_count x) \<le> int k\<close>
      by (simp add: cons)
  next
    case False
    then show ?thesis using p Cons.IH [OF m] \<open>0 \<le> sint (sample_count x)\<close> \<open>sint (sample_count x) \<le> int k\<close>
      by (simp add: cons)
  qed
qed

lemma add_nodes_exact:
  assumes "\<And>n. n \<in> set ns \<Longrightarrow> sample_count n = 1" "length ns < 2 ^ 63"
  shows "sum_list (map (\<lambda>x. sint (sample_count x)) (vals (add_nodes ns []))) = int (length ns)
    \<and> (\<forall>x \<in> set (vals (add_nodes ns [])). 0 \<le> sint (sample_count x) \<and> sint (sample_count x) \<le> int (length ns))"
  using assms
proof (induction ns rule: rev_induct)
  case (snoc n ns)
  have "int (length ns) < 2 ^ 63 - 1" using snoc.prems(2) by simp
  then show ?case
    using upsert_exact [of "add_nodes ns []" "length ns" n "node_id n"] snoc
    by (simp add: add_nodes_append add_nodes_def [of "[n]"])
qed (simp add: vals_def)

lemma batch_node_total:
  assumes "length (concat (concat samples)) < 2 ^ 63"
  shows "sum_list (map (\<lambda>x. sint (sample_count x)) (stack_nodes (upload_data (batch_upload env post samples a name))))
    = int (length (concat (concat samples)))"
  using add_nodes_exact [of "batch_nodes env (batch_id env a name) samples"] assms
  by (simp add: batch_upload_def Let_def batch_nodes_count batch_nodes_length)

lemma batch_exe_total:
  assumes "length (concat samples) < 2 ^ 63"
  shows "posted_count exe_id exe_sample_count
      (take 16383 (profiled_binaries (upload_data (batch_upload env post samples a name)))) (batch_id env a name)
    = int (length (concat samples))"
proof -
  have len: "length (concat (map rev samples)) = length (concat samples)"
    by (induction samples) simp_all
  have "sint (of_nat (length (concat samples)) :: i64) = int (length (concat samples))"
    using assms by (simp add: signed_of_nat signed_take_bit_int_eq_self)
  then show ?thesis
    using len by (auto simp: batch_upload_def Let_def batch_exes_def posted_count_def counted_exe_def
        batch_executable_def)
qed

section \<open>The counters of the database\<close>

definition posted_data :: "worker \<Rightarrow> StoData" where
  "posted_data w =
     (case w_control w of
        Finished up \<Rightarrow> upload_data up
      | _ \<Rightarrow> \<lparr>stack_nodes = [], stack_node_datas = [], profiled_binaries = []\<rparr>)"

lemma posted_by_worker:
  assumes "client_reachable env post copy blz a s" "binary a = Some name" "w \<in> set (workers s)"
    and "\<forall>w \<in> set (workers s). \<exists>up. w_control w = Finished up"
  shows "posted_data w = upload_data (batch_upload env post (w_batch w) a name)"
proof -
  obtain u where "w_control w = Finished u" using assms(3,4) by blast
  moreover have "worker_inv env post a name w"
    using uploads_inv_reachable [OF assms(1,2)] assms(3) by (simp add: uploads_inv_def)
  ultimately show ?thesis by (simp add: worker_inv_def posted_data_def)
qed

lemma sum_over_requests:
  fixes F :: "StoData \<Rightarrow> int"
  assumes "mset (map fst rs) = mset (map posted_data ws)" "\<forall>r \<in> set rs. G r = F (fst r)"
    and "\<forall>w \<in> set ws. F (posted_data w) = H (w_batch w)"
  shows "sum_list (map G rs) = sum_list (map H (map w_batch ws))"
proof -
  have "map G rs = map F (map fst rs)" using assms(2) by simp
  also have "sum_list (map F (map fst rs)) = sum_list (map F (map posted_data ws))"
    using assms(1) by (metis mset_map sum_mset_sum_list)
  also have "map F (map posted_data ws) = map H (map w_batch ws)" using assms(3) by simp
  finally show ?thesis .
qed

lemma batch_sizes:
  "int (length (concat (concat B))) = sum_list (map (\<lambda>b. int (length (concat b))) B)"
  "int (length (concat (concat (concat C)))) = sum_list (map (\<lambda>b. int (length (concat (concat b)))) C)"
  by (induction B, simp_all) (induction C, simp_all)


section \<open>A run of both ends\<close>

text \<open>
  201 events with the same two addresses: the collector hands out one batch of 200 samples, its thread posts
  it and the server completes the request.
\<close>

lemma polled_events:
  assumes "ring_callback copy a data = Sent x"
  shows "client_reachable env post copy blz a (client_start\<lparr>polled := replicate n x, senders := replicate n x\<rparr>)"
proof (induction n)
  case 0
  have "client_start\<lparr>polled := replicate 0 x, senders := replicate 0 x\<rparr> = client_start"
    by (simp add: client_start_def)
  then show ?case using client_reachable.init by metis
next
  case (Suc n)
  from client_reachable.step [OF Suc client_step.poll_sent [OF _ assms]] show ?case
    by (simp add: client_start_def replicate_append_same)
qed

lemma ingest_served:
  assumes "served (d, rs)" "data_ingest clock tx data d = (None, d')"
  shows "served (d', rs @ [(data, Stored)])"
proof -
  obtain st1 d1 where 1: "advance clock tx data AtData d = (st1, d1)" by fastforce
  obtain st2 d2 where 2: "advance clock tx data st1 d1 = (st2, d2)" by fastforce
  obtain st3 d3 where 3: "advance clock tx data st2 d2 = (st3, d3)" by fastforce
  have run: "d3 = d'" "st3 = Stored" using data_ingest_advance [OF 1 2 3] assms(2) by simp_all
  have turn: "served (d, rs @ [(data, st)]) \<Longrightarrow> advance clock tx data st d = (st', d') \<Longrightarrow>
      served (d', rs @ [(data, st')])" for st d st' d'
    using served.step [OF _ serve_step.turn [of "length rs" "rs @ [(data, st)]" data st]] by simp
  have "served (d, rs @ [(data, AtData)])" using served.step [OF assms(1) serve_step.arrive] .
  with turn 1 2 3 run show ?thesis by blast
qed

definition demo_stacks :: "SymbolizedResult list list" where
  "demo_stacks = [[demo_frame ''work''], [demo_frame ''main'']]"

definition demo_batch :: "SymbolizedResult list list list" where
  "demo_batch = replicate 200 demo_stacks"

lemma demo_batch_sizes:
  "length (concat demo_batch) = 400" "length (concat (concat demo_batch)) = 400"
  "set (concat (concat demo_batch)) = {demo_frame ''work'', demo_frame ''main''}"
proof -
  have n: "length (concat (replicate n demo_stacks)) = 2 * n"
    "length (concat (concat (replicate n demo_stacks))) = 2 * n" for n
    by (induction n) (simp_all add: demo_stacks_def)
  show "length (concat demo_batch) = 400" "length (concat (concat demo_batch)) = 400"
    by (simp_all add: demo_batch_def n)
  show "set (concat (concat demo_batch)) = {demo_frame ''work'', demo_frame ''main''}"
    by (auto simp: demo_batch_def demo_stacks_def)
qed

lemma demo_batch_stored:
  obtains d where "served (d, [(upload_data (batch_upload demo_env (\<lambda>u d. PostOk) demo_batch demo_args ''demo''), Stored)])"
proof -
  let ?data = "upload_data (batch_upload demo_env (\<lambda>u d. PostOk) demo_batch demo_args ''demo'')"
  have frame: "text_ok (symbol (data_of demo_env fr)) \<and> opt_text_ok (data_file (data_of demo_env fr))"
    if "fr \<in> {demo_frame ''work'', demo_frame ''main''}" for fr
    using that by (auto simp: demo_frame_def demo_env_def data_of_def Let_def text_ok_def opt_text_ok_def trim_blank)
  have "sto_fits ?data"
    by (rule upload_fits [OF _ frame])
       (simp_all only: demo_batch_sizes, simp_all add: demo_args_def text_ok_def opt_text_ok_def)
  moreover have "concat (concat demo_batch) \<noteq> []" using demo_batch_sizes(2) by force
  moreover have "counters_fit ?data empty_db" by (simp add: empty_db_def counters_fit_def)
  ultimately obtain d where "data_ingest (\<lambda>i. 100) 99 ?data empty_db = (None, d)"
    using upload_accepted [OF reachable_db_ok [OF reachable_db.empty] demo_batch_ok(2) refl] by blast
  from that [of d] ingest_served [OF served.start this] show thesis by simp
qed

lemma demo_full_run:
  obtains s d where
    "client_reachable demo_env (\<lambda>u d. PostOk) plain_copy (Some (\<lambda>p us. demo_stacks)) demo_args s"
    "length (polled s) = 201" "\<forall>w \<in> set (workers s). \<exists>up. w_control w = Finished up"
    "batches (symbolized (\<lambda>p us. demo_stacks) (received s)) = [demo_batch]" "map w_batch (workers s) = [demo_batch]"
    "served (d, map (\<lambda>w. (posted_data w, Stored)) (workers s))"
    "\<forall>w \<in> set (workers s). length (stack_nodes (posted_data w)) \<le> 16383"
proof -
  let ?x = "\<lparr>event = demo_event 1, args = demo_args\<rparr>" and ?f = "\<lambda>(p :: u32) (us :: u64 list). demo_stacks"
  let ?s = "client_start\<lparr>polled := replicate 201 ?x, senders := replicate 201 ?x\<rparr>"
  let ?up = "batch_upload demo_env (\<lambda>u d. PostOk) demo_batch demo_args ''demo''"
  note start = polled_events [OF demo_event_sent [of 1], of demo_env "\<lambda>u d. PostOk" "Some ?f" demo_args 201, OF one_neq_zero]
  have "running ?s" by (simp add: client_start_def)
  from drained_state [OF start demo_name this] obtain s
    where s: "(client_step demo_env (\<lambda>u d. PostOk) plain_copy (Some ?f) demo_args)\<^sup>*\<^sup>* ?s s"
      "polled s = replicate 201 ?x" "mset (received s) = mset (polled s)"
      "\<forall>w \<in> set (workers s). w_control w = Finished (batch_upload demo_env (\<lambda>u d. PostOk) (w_batch w) demo_args ''demo'')"
    by auto
  have reach: "client_reachable demo_env (\<lambda>u d. PostOk) plain_copy (Some ?f) demo_args s"
    by (rule reachable_steps [OF s(1) start])
  have "set (received s) = {?x}" "length (received s) = 201"
    using mset_eq_setD [OF s(3)] mset_eq_length [OF s(3)] s(2) by simp_all
  then have "received s = replicate 201 ?x"
    by (metis replicate_eqI singletonD)
  then have batch: "batches (symbolized ?f (received s)) = [demo_batch]"
    by (simp add: batches_def symbolized_def demo_batch_def)
  then have ws: "map w_batch (workers s) = [demo_batch]" using client_state_batches [OF reach] by simp
  then obtain w where w: "workers s = [w]" "w_batch w = demo_batch" by auto
  then have data: "posted_data w = upload_data ?up" using s(4) by (simp add: posted_data_def)
  obtain d where d: "served (d, [(upload_data ?up, Stored)])" by (rule demo_batch_stored)
  have "length (stack_nodes (upload_data ?up)) \<le> 16383"
    using length_add_nodes [of "batch_nodes demo_env (batch_id demo_env demo_args ''demo'') demo_batch" "[]"]
    by (simp add: batch_upload_def Let_def vals_def batch_nodes_length demo_batch_sizes)
  with that [OF reach _ _ batch ws, of d] s(2,4) d show thesis by (simp add: w data)
qed


end
