(* ===== verification/End_To_End.thy ===== *)
theory End_To_End
  imports Server_Dag
begin

text \<open>
  From the symbolized samples to the flame graph: a batch that \<^verbatim>\<open>process_and_sink_data\<close> posts is
  stored by \<^verbatim>\<open>data_ingest\<close> and shown by \<^verbatim>\<open>data\<close> as the tree of the sampled stacks.
\<close>

section \<open>Rows that are new\<close>

lemma upsert_rows_fresh:
  "distinct (map key rs) \<Longrightarrow> key ` set rs \<inter> fst ` set t = {} \<Longrightarrow>
     upsert_rows key merge rs t = Inr (t @ map (\<lambda>r. (key r, r)) rs)"
proof (induction rs arbitrary: t)
  case (Cons r rs)
  have "map_of t (key r) = None" using Cons.prems(2) by (auto simp: map_of_eq_None_iff)
  moreover have "key ` set rs \<inter> fst ` set (t @ [(key r, r)]) = {}" using Cons.prems by auto
  ultimately show ?case using Cons by simp
qed simp

text \<open>What a request does to a database that knows neither its executable nor its nodes.\<close>

lemma data_ingest_fresh:
  assumes "data_ingest clock tx s d = (None, d')" "length (stack_nodes s) \<le> 16383" "profiled_binaries s = [pb]"
    and "distinct (map node_id (stack_nodes s))" "node_id ` set (stack_nodes s) \<inter> fst ` set (stack_node_table d) = {}"
    and "exe_id pb \<notin> fst ` set (executable_table d)"
  shows "stack_node_table d' = stack_node_table d @ map (\<lambda>n. (node_id n, n)) (stack_nodes s)"
    and "executable_table d' = executable_table d @ [(exe_id pb, exe_row (clock 0) tx pb)]"
proof -
  from assms(1) obtain d1 d2 where tx: "data_tx (stack_node_datas s) d = Inr d1"
    "exe_tx clock tx [pb] d1 = Inr d2" "node_tx (stack_nodes s) d2 = Inr d'"
    by (auto simp: data_ingest_def assms(3) split: sum.splits)
  have t1: "executable_table d1 = executable_table d" "stack_node_table d1 = stack_node_table d"
    using data_tx_tables [OF tx(1)] by simp_all
  have "upsert_rows exe_id merge_executable [exe_row (clock 0) tx pb] (executable_table d1)
      = Inr (executable_table d @ [(exe_id pb, exe_row (clock 0) tx pb)])"
    using upsert_rows_fresh [of exe_id "[exe_row (clock 0) tx pb]" "executable_table d" merge_executable]
      assms(6) t1 by (simp add: exe_row_def)
  then have d2: "executable_table d2 = executable_table d @ [(exe_id pb, exe_row (clock 0) tx pb)]"
    using tx(2)
    by (auto simp: exe_tx_def Let_def BIND_LIMIT_def simp del: upsert_rows.simps split: option.splits if_splits)
  have "upsert_rows node_id merge_node (stack_nodes s) (stack_node_table d2)
      = Inr (stack_node_table d @ map (\<lambda>n. (node_id n, n)) (stack_nodes s))"
    using upsert_rows_fresh [OF assms(4,5)] exe_tx_tables(1) [OF tx(2)] t1 by simp
  then show "stack_node_table d' = stack_node_table d @ map (\<lambda>n. (node_id n, n)) (stack_nodes s)"
    using tx(3) assms(2) by (auto simp: node_tx_def Let_def BIND_LIMIT_def split: option.splits if_splits)
  show "executable_table d' = executable_table d @ [(exe_id pb, exe_row (clock 0) tx pb)]"
    using node_tx_tables(1) [OF tx(3)] d2 by simp
qed

section \<open>The posted tree\<close>

lemma indicator_sum: "distinct ds \<Longrightarrow> sum_list (map (\<lambda>x. if x = h then 1 else 0) ds) = (if h \<in> set ds then 1 else 0 :: nat)"
  by (induction ds) auto

lemma count_heads:
  assumes "distinct ds" "\<And>q. q \<in> set Q \<Longrightarrow> q \<noteq> [] \<Longrightarrow> hd q \<in> set ds"
  shows "sum_list (map (\<lambda>x. length (filter (prefix [x]) Q)) ds) = length (filter (\<lambda>q. q \<noteq> []) Q)"
  using assms(2)
proof (induction Q)
  case (Cons q Q)
  have "sum_list (map (\<lambda>x. length (filter (prefix [x]) (q # Q))) ds)
      = sum_list (map (\<lambda>x. (if prefix [x] q then 1 else 0) + length (filter (prefix [x]) Q)) ds)"
    by (rule arg_cong [of _ _ sum_list]) simp
  also have "\<dots> = sum_list (map (\<lambda>x. if prefix [x] q then 1 else 0) ds)
      + sum_list (map (\<lambda>x. length (filter (prefix [x]) Q)) ds)"
    by (rule sum_list_addf)
  also have "sum_list (map (\<lambda>x. if prefix [x] q then 1 else 0) ds) = (if q = [] then 0 else 1 :: nat)"
  proof (cases q)
    case (Cons h r)
    then show ?thesis using indicator_sum [OF assms(1), of h] Cons.prems [of q] by simp
  qed simp
  finally show ?case using Cons by simp
qed simp

section \<open>Rows that form the tree of stack prefixes\<close>

definition stack_prefixes :: "i64 list list \<Rightarrow> i64 list set" where
  "stack_prefixes Q = {p. p \<noteq> [] \<and> (\<exists>q \<in> set Q. prefix p q)}"

definition separates :: "client_env \<Rightarrow> i64 \<Rightarrow> i64 list list \<Rightarrow> bool" where
  "separates env e Q \<longleftrightarrow> inj_on (path_end env e None) {p. \<exists>q \<in> set Q. prefix p q}"

lemma finite_stack_prefixes: "finite (stack_prefixes Q)"
proof -
  have "stack_prefixes Q \<subseteq> (\<Union>q \<in> set Q. set (prefixes q))" by (auto simp: stack_prefixes_def)
  then show ?thesis by (rule finite_subset) simp
qed

lemma hd_stack_prefix: "q \<in> set Q \<Longrightarrow> q \<noteq> [] \<Longrightarrow> [hd q] \<in> stack_prefixes Q"
proof -
  assume q: "q \<in> set Q" "q \<noteq> []"
  have "prefix [hd q] q" using q(2) by (cases q) simp_all
  with q(1) show ?thesis unfolding stack_prefixes_def by blast
qed

text \<open>
  The tables of a client and of the server hold such rows, once the ids separate the prefixes.  Every row then
  hangs under a root, the roots count the stacks that are not empty, and the rows are one for each prefix.
\<close>

locale prefix_rows =
  fixes env :: client_env
    and e :: i64
    and Q :: "i64 list list"
    and rows :: "StackNode list"
  assumes rows_distinct: "distinct (map node_id rows)"
    and prefix_row: "separates env e Q \<Longrightarrow> p \<in> stack_prefixes Q \<Longrightarrow>
      \<exists>n \<in> set rows. Some (node_id n) = path_end env e None p \<and> parent_id n = path_end env e None (butlast p)
        \<and> stack_node_data_id n = last p \<and> sample_count n = of_nat (length (filter (prefix p) Q))"
    and row_prefix: "separates env e Q \<Longrightarrow> n \<in> set rows \<Longrightarrow>
      \<exists>p \<in> stack_prefixes Q. Some (node_id n) = path_end env e None p"
begin

lemma row_of_prefix:
  assumes "separates env e Q" "n \<in> set rows" "p \<in> stack_prefixes Q" "Some (node_id n) = path_end env e None p"
  shows "parent_id n = path_end env e None (butlast p) \<and> stack_node_data_id n = last p
    \<and> sample_count n = of_nat (length (filter (prefix p) Q))"
proof -
  obtain m where m: "m \<in> set rows" "Some (node_id m) = path_end env e None p"
    "parent_id m = path_end env e None (butlast p)" "stack_node_data_id m = last p"
    "sample_count m = of_nat (length (filter (prefix p) Q))"
    using prefix_row [OF assms(1,3)] by blast
  have "Some (node_id m) = Some (node_id n)" using m(2) assms(4) by simp
  then have "m = n" using node_eq [OF rows_distinct m(1), of n] assms(2) by simp
  with m show ?thesis by simp
qed

lemma hangs_prefix:
  assumes "separates env e Q"
  shows "p \<in> stack_prefixes Q \<Longrightarrow> path_end env e None p = Some i \<Longrightarrow> hangs rows (length p - 1) i"
proof (induction p arbitrary: i rule: rev_induct)
  case (snoc x r)
  obtain n where n: "n \<in> set rows" "node_id n = i" "parent_id n = path_end env e None r"
    using prefix_row [OF assms snoc.prems(1)] snoc.prems(2) by auto
  show ?case
  proof (cases "r = []")
    case True
    then show ?thesis using n by (auto simp: hangs_def intro!: bexI [of _ n])
  next
    case False
    then obtain j where j: "path_end env e None r = Some j" using path_end_ne by blast
    have "r \<in> stack_prefixes Q"
      using snoc.prems(1) False by (auto simp: stack_prefixes_def prefix_def)
    then have "hangs rows (length r - 1) j" using j by (rule snoc.IH)
    moreover have "ancestor rows 1 i = Some j" using n j par_node [OF rows_distinct n(1)] by simp
    ultimately have "hangs rows (1 + (length r - 1)) i" by (intro up_hangs)
    then show ?thesis using False by simp
  qed
qed (simp add: stack_prefixes_def)

lemma all_rows_hang:
  assumes "separates env e Q"
  shows "filter (\<lambda>n. \<exists>k. hangs rows k (node_id n)) rows = rows"
  using row_prefix [OF assms] hangs_prefix [OF assms] by (metis filter_True)

lemma root_stack:
  assumes "separates env e Q" "r \<in> set rows" "parent_id r = None"
  shows "path_end env e None [stack_node_data_id r] = Some (node_id r)
    \<and> sample_count r = of_nat (length (filter (prefix [stack_node_data_id r]) Q))"
proof -
  from row_prefix [OF assms(1,2)] obtain p where p: "p \<in> stack_prefixes Q" "Some (node_id r) = path_end env e None p"
    by blast
  note r = row_of_prefix [OF assms(1,2) p]
  then have "path_end env e None (butlast p) = None" using assms(3) by simp
  then have "butlast p = []" using path_end_ne [of "butlast p" env e None] by auto
  then have "p = [stack_node_data_id r]"
    using p(1) r by (cases p rule: rev_cases) (auto simp: stack_prefixes_def)
  then show ?thesis using p(2) r by simp
qed

lemma roots_total:
  assumes sep: "separates env e Q"
  shows "sum_list (map sample_count (filter (\<lambda>n. parent_id n = None) rows)) = of_nat (length (filter (\<lambda>q. q \<noteq> []) Q))"
proof -
  let ?rs = "filter (\<lambda>n. parent_id n = None) rows"
  have root: "path_end env e None [stack_node_data_id r] = Some (node_id r)"
    "sample_count r = of_nat (length (filter (prefix [stack_node_data_id r]) Q))" if "r \<in> set ?rs" for r
    using root_stack [OF sep] that by simp_all
  have "inj_on stack_node_data_id (set ?rs)"
  proof (rule inj_onI)
    fix x y assume "x \<in> set ?rs" "y \<in> set ?rs" "stack_node_data_id x = stack_node_data_id y"
    then have "node_id x = node_id y" using root(1) [of x] root(1) [of y] by simp
    then show "x = y" using node_eq [OF rows_distinct] \<open>x \<in> set ?rs\<close> \<open>y \<in> set ?rs\<close> by simp
  qed
  then have "distinct (map stack_node_data_id ?rs)" using rows_distinct by (simp add: distinct_map)
  moreover have "hd q \<in> set (map stack_node_data_id ?rs)" if "q \<in> set Q" "q \<noteq> []" for q
  proof -
    from prefix_row [OF sep hd_stack_prefix [OF that]] show ?thesis by force
  qed
  ultimately have "sum_list (map (\<lambda>x. length (filter (prefix [x]) Q)) (map stack_node_data_id ?rs))
      = length (filter (\<lambda>q. q \<noteq> []) Q)"
    by (rule count_heads)
  moreover have "map sample_count ?rs
      = map of_nat (map (\<lambda>x. length (filter (prefix [x]) Q)) (map stack_node_data_id ?rs))"
    using root(2) by simp
  ultimately show ?thesis by (simp only: sum_list_of_nat)
qed

lemma rows_by_prefix:
  assumes sep: "separates env e Q"
    and same: "\<And>n p. n \<in> set rows \<Longrightarrow> p \<in> stack_prefixes Q \<Longrightarrow> Some (node_id n) = path_end env e None p \<Longrightarrow> h n = k p"
  shows "image_mset h (mset rows) = image_mset k (mset_set (stack_prefixes Q))"
proof -
  have "\<forall>p \<in> stack_prefixes Q. \<exists>n. n \<in> set rows \<and> Some (node_id n) = path_end env e None p"
    using prefix_row [OF sep] by blast
  then obtain f where f: "\<forall>p \<in> stack_prefixes Q. f p \<in> set rows \<and> Some (node_id (f p)) = path_end env e None p"
    unfolding bchoice_iff by blast
  have "inj_on f (stack_prefixes Q)"
    using f sep by (auto simp: inj_on_def separates_def stack_prefixes_def) metis
  moreover have "f ` stack_prefixes Q = set rows"
  proof (intro equalityI subsetI)
    fix n assume n: "n \<in> set rows"
    from row_prefix [OF sep n] obtain p where p: "p \<in> stack_prefixes Q" "Some (node_id n) = path_end env e None p"
      by blast
    then have "f p \<in> set rows" "node_id (f p) = node_id n" using f by (metis option.inject)+
    then have "f p = n" using node_eq [OF rows_distinct _ n] by simp
    with p show "n \<in> f ` stack_prefixes Q" by blast
  qed (use f in blast)
  ultimately have "mset_set (set rows) = image_mset f (mset_set (stack_prefixes Q))"
    using image_mset_mset_set by metis
  moreover have "mset rows = mset_set (set rows)"
    using rows_distinct by (metis distinct_map mset_set_set)
  ultimately have "image_mset h (mset rows) = image_mset (h \<circ> f) (mset_set (stack_prefixes Q))"
    by (simp add: multiset.map_comp)
  also have "\<dots> = image_mset k (mset_set (stack_prefixes Q))"
    by (rule multiset.map_cong0) (use f same in \<open>simp add: finite_stack_prefixes\<close>)
  finally show ?thesis .
qed

end

text \<open>The rows of an upload, for every batch.\<close>

interpretation batch_rows: prefix_rows env "batch_id env a name" "sample_paths env samples"
  "stack_nodes (upload_data (batch_upload env post samples a name))"
  for env a name samples post
proof unfold_locales
  let ?rows = "stack_nodes (upload_data (batch_upload env post samples a name))"
  let ?e = "batch_id env a name" and ?Q = "sample_paths env samples"
  show "distinct (map node_id ?rows)"
    using batch_upload_integrity by (simp add: sto_integrity_def)
  assume "separates env ?e ?Q"
  note tree = batch_prefix_tree [where post = post, OF refl refl refl this [unfolded separates_def]]
  show "p \<in> stack_prefixes ?Q \<Longrightarrow> \<exists>n \<in> set ?rows. Some (node_id n) = path_end env ?e None p
      \<and> parent_id n = path_end env ?e None (butlast p) \<and> stack_node_data_id n = last p
      \<and> sample_count n = of_nat (length (filter (prefix p) ?Q))" for p
    using tree(1) [of p] unfolding stack_prefixes_def by blast
  show "n \<in> set ?rows \<Longrightarrow> \<exists>p \<in> stack_prefixes ?Q. Some (node_id n) = path_end env ?e None p" for n
    using tree(2) [of n] unfolding stack_prefixes_def by blast
qed

section \<open>From the client to the page\<close>

lemma upload_rows:
  "concat samples \<noteq> [] \<Longrightarrow> \<exists>pb. profiled_binaries (upload_data (batch_upload env post samples a name)) = [pb]
     \<and> exe_id pb = batch_id env a name \<and> basename pb = name"
  "n \<in> set (stack_nodes (upload_data (batch_upload env post samples a name))) \<Longrightarrow>
     executable_id n = batch_id env a name"
proof -
  show "concat samples \<noteq> [] \<Longrightarrow> \<exists>pb. profiled_binaries (upload_data (batch_upload env post samples a name)) = [pb]
     \<and> exe_id pb = batch_id env a name \<and> basename pb = name"
    by (simp add: batch_upload_def Let_def batch_exes_def counted_exe_def batch_executable_def
        del: concat_eq_Nil_conv)
  assume "n \<in> set (stack_nodes (upload_data (batch_upload env post samples a name)))"
  then have "n \<in> set (vals (add_nodes (batch_nodes env (batch_id env a name) samples) []))"
    by (simp add: batch_upload_def Let_def)
  from add_nodes_row [OF _ this] show "executable_id n = batch_id env a name"
    using batch_nodes_count by fastforce
qed

lemma fresh_counters_fit:
  assumes "profiled_binaries s = [pb]" "exe_id pb \<notin> fst ` set (executable_table d)"
    and fresh: "node_id ` set (stack_nodes s) \<inter> fst ` set (stack_node_table d) = {}"
  shows "counters_fit s d"
  unfolding counters_fit_def
proof (intro conjI ballI allI impI)
  fix n old assume "n \<in> set (stack_nodes s)" "map_of (stack_node_table d) (node_id n) = Some old"
  then show "\<exists>new. merge_node old n = Inr new" using fresh by (force dest: map_of_SomeD)
next
  fix x old assume "x \<in> set (profiled_binaries s)" "map_of (executable_table d) (exe_id x) = Some old"
  then show "\<exists>new. merge_executable old x = Inr new" using assms(1,2) by (force dest: map_of_SomeD)
qed



end
