(* ===== verification/Full_Tree.thy ===== *)
theory Full_Tree
  imports Full_System End_To_End
begin

text \<open>
  The content of the database after a run of both ends: the tree of the stack prefixes of all samples that
  the collector put into batches, whatever the interleaving in which they were uploaded and stored.
\<close>

section \<open>Where the stored nodes come from\<close>

definition node_row :: "StackNode \<Rightarrow> i64 \<times> i64 option \<times> i64 \<times> i64" where
  "node_row n = (node_id n, parent_id n, stack_node_data_id n, executable_id n)"

interpretation node_rows: counted_table node_id merge_node sample_count node_row
  by unfold_locales (auto simp: merge_node_def add_bigint_sint node_row_def split: sum.splits)

lemma node_tx_rows:
  assumes "node_tx rows d = Inr d'"
  shows "node_row ` set (vals (stack_node_table d')) \<subseteq> node_row ` set (vals (stack_node_table d)) \<union> node_row ` set rows"
proof -
  have "upsert_rows node_id merge_node (take 16383 rows) (stack_node_table d) = Inr (stack_node_table d')"
    using assms by (auto simp: node_tx_def Let_def BIND_LIMIT_def split: option.splits if_splits sum.splits)
  from node_rows.upsert_same [OF this] show ?thesis by (auto dest: in_set_takeD)
qed

text \<open>
  What a table shows of its rows comes from the requests, if every transaction adds only what its own
  request shows.
\<close>

lemma served_from:
  fixes T :: "db \<Rightarrow> 'x set"
  assumes "T empty_db = {}"
    and step: "\<And>clock tx data st d st' d'. advance clock tx data st d = (st', d') \<Longrightarrow> T d' \<subseteq> T d \<union> G data"
  shows "served s \<Longrightarrow> T (fst s) \<subseteq> (\<Union>data \<in> fst ` set (snd s). G data)"
proof (induction rule: served.induct)
  case start
  then show ?case using assms(1) by simp
next
  case (step s s')
  from step(2) show ?case
  proof cases
    case (arrive d rs data)
    then show ?thesis using step.IH by auto
  next
    case (turn j rs data st clock tx d st' d')
    have "fst ` set (rs[j := (data, st')]) = fst ` set rs"
      using turn(3,4) by (metis fst_conv list.set_map list_update_id map_update)
    moreover have "(data, st) \<in> set rs" using nth_mem [OF turn(3)] turn(4) by simp
    then have "data \<in> fst ` set rs" by force
    moreover have "T d' \<subseteq> T d \<union> G data" by (rule assms(2) [OF turn(5)])
    ultimately show ?thesis using step.IH turn(1,2) by (simp only: fst_conv snd_conv) blast
  qed
qed

lemma served_rows:
  assumes "served s"
  shows "node_row ` set (vals (stack_node_table (fst s)))
    \<subseteq> (\<Union>data \<in> fst ` set (snd s). node_row ` set (stack_nodes data))"
proof (rule served_from [OF _ _ assms])
  fix clock tx data st d st' d'
  assume a: "advance clock tx data st d = (st', d')"
  then show "node_row ` set (vals (stack_node_table d'))
      \<subseteq> node_row ` set (vals (stack_node_table d)) \<union> node_row ` set (stack_nodes data)"
  proof (cases rule: advance_cases)
    case node
    then show ?thesis using node_tx_rows [OF node(2)] by simp
  qed (auto simp: data_tx_tables exe_tx_tables(1))
qed (simp add: empty_db_def vals_def)

section \<open>The counts of one batch\<close>

lemma posted_vals: "keyed key m \<Longrightarrow> posted_count key cnt (vals m) i = stored_count cnt m i"
proof (induction m)
  case (Cons p m)
  then have "keyed key m" by (simp add: keyed_def wf_map_def)
  moreover have "stored_count cnt m (fst p) = 0"
    using Cons.prems by (simp add: keyed_def wf_map_def stored_count_def map_of_eq_None_iff [THEN iffD2])
  ultimately show ?case
    using Cons by (auto simp: keyed_def posted_count_def stored_count_def vals_def split: if_splits)
qed (simp add: posted_count_def stored_count_def vals_def)

lemma add_nodes_keyed: "keyed node_id (add_nodes ns [])"
proof -
  have "map (\<lambda>p. node_id (snd p)) (add_nodes ns []) = map fst (add_nodes ns [])"
    using add_nodes_keys [of ns] by (simp add: vals_def o_def)
  then show ?thesis by (auto simp: keyed_def wf_map_add map_eq_conv)
qed

lemma batch_posted_count:
  assumes "length (concat (concat samples)) < 2 ^ 63"
  shows "posted_count node_id sample_count (stack_nodes (upload_data (batch_upload env post samples a name))) i
    = int (count_list (map node_id (batch_nodes env (batch_id env a name) samples)) i)"
proof -
  let ?ns = "batch_nodes env (batch_id env a name) samples"
  have one: "n \<in> set ?ns \<Longrightarrow> sample_count n = 1" for n using batch_nodes_count by blast
  let ?c = "count_list (map node_id ?ns) i"
  have "?c \<le> length ?ns" using count_le_length [of "map node_id ?ns" i] by simp
  then have c: "sint (of_nat ?c :: i64) = int ?c"
    using assms by (simp add: batch_nodes_length signed_of_nat signed_take_bit_int_eq_self)
  have "stored_count sample_count (add_nodes ?ns []) i = int ?c"
  proof (cases "find (\<lambda>n. node_id n = i) ?ns")
    case None
    then have "?c = 0" by (auto simp: find_None_iff count_list_0_iff)
    then show ?thesis using None by (simp add: stored_count_def map_of_add_nodes [OF one])
  next
    case (Some n)
    then show ?thesis using c by (simp add: stored_count_def map_of_add_nodes [OF one])
  qed
  then show ?thesis
    using posted_vals [OF add_nodes_keyed] by (simp add: batch_upload_def Let_def)
qed

lemma batch_row_prefix:
  assumes Q: "Q = sample_paths env samples" and e: "e = batch_id env a name"
    and m: "m \<in> set (stack_nodes (upload_data (batch_upload env post samples a name)))"
    and inj: "inj_on (path_end env e None) {p. \<exists>q \<in> set Q. prefix p q}"
  shows "\<exists>p. p \<noteq> [] \<and> (\<exists>q \<in> set Q. prefix p q) \<and> Some (node_id m) = path_end env e None p
    \<and> parent_id m = path_end env e None (butlast p) \<and> stack_node_data_id m = last p \<and> executable_id m = e"
proof -
  note tree = batch_prefix_tree [where post = post, OF e Q refl inj]
  from tree(2) [OF m] obtain p where p: "p \<noteq> []" "\<exists>q \<in> set Q. prefix p q" "Some (node_id m) = path_end env e None p"
    by blast
  from tree(1) [OF p(1,2)] obtain n where
    n: "n \<in> set (stack_nodes (upload_data (batch_upload env post samples a name)))" "Some (node_id n) = path_end env e None p"
      "parent_id n = path_end env e None (butlast p)" "stack_node_data_id n = last p" "executable_id n = e"
    by blast
  have "distinct (map node_id (stack_nodes (upload_data (batch_upload env post samples a name))))"
    using batch_upload_integrity [of env post samples a name] by (simp add: sto_integrity_def)
  moreover have "node_id n = node_id m" using n(2) p(3) by (metis option.inject)
  ultimately have "n = m" using n(1) m by (metis distinct_map inj_onD)
  with p n show ?thesis by blast
qed

lemma batch_counts:
  "sum_list (map (\<lambda>b. int (count_list (map node_id (batch_nodes env e b)) i)) B)
     = int (count_list (map node_id (batch_nodes env e (concat B))) i)"
  by (induction B) (simp_all add: batch_nodes_def)

section \<open>A complete run\<close>

text \<open>
  Every upload of the client has been posted and the server has completed one request for each, with all
  nodes of a batch in one statement and counts within 63 bits.
\<close>

definition complete_run ::
  "client_env \<Rightarrow> (string \<Rightarrow> StoData \<Rightarrow> post_result) \<Rightarrow> copy_from_bytes \<Rightarrow>
     (u32 \<Rightarrow> u64 list \<Rightarrow> SymbolizedResult list list) \<Rightarrow> Args \<Rightarrow> string \<Rightarrow> client_state \<Rightarrow> db \<Rightarrow>
     (StoData \<times> stage) list \<Rightarrow> bool" where
  "complete_run env post copy f a name s d rs \<longleftrightarrow>
     client_reachable env post copy (Some f) a s \<and> binary a = Some name
     \<and> (\<forall>w \<in> set (workers s). \<exists>up. w_control w = Finished up)
     \<and> served (d, rs) \<and> (\<forall>r \<in> set rs. snd r = Stored)
     \<and> mset (map fst rs) = mset (map posted_data (workers s))
     \<and> (\<forall>w \<in> set (workers s). length (stack_nodes (posted_data w)) \<le> 16383
          \<and> length (concat (concat (w_batch w))) < 2 ^ 63)"

definition collected ::
  "client_env \<Rightarrow> (u32 \<Rightarrow> u64 list \<Rightarrow> SymbolizedResult list list) \<Rightarrow> client_state \<Rightarrow> i64 list list" where
  "collected env f s = sample_paths env (concat (batches (symbolized f (received s))))"

lemma complete_run_posted:
  assumes "complete_run env post copy f a name s d rs" "data \<in> fst ` set rs"
  obtains b where "b \<in> set (batches (symbolized f (received s)))" "data = upload_data (batch_upload env post b a name)"
proof -
  have run: "client_reachable env post copy (Some f) a s" "binary a = Some name"
    "\<forall>w \<in> set (workers s). \<exists>up. w_control w = Finished up" "mset (map fst rs) = mset (map posted_data (workers s))"
    using assms(1) by (simp_all add: complete_run_def)
  have "fst ` set rs = posted_data ` set (workers s)" using mset_eq_setD [OF run(4)] by simp
  with assms(2) obtain w where w: "w \<in> set (workers s)" "data = posted_data w" by blast
  moreover have "w_batch w \<in> set (batches (symbolized f (received s)))"
    using w(1) client_state_batches [OF run(1)] by (metis image_eqI list.set_map)
  ultimately show thesis using that posted_by_worker [OF run(1,2) w(1) run(3)] by blast
qed

lemma complete_run_row:
  assumes run: "complete_run env post copy f a name s d rs" and e: "e = batch_id env a name"
    and sep: "separates env e (collected env f s)" and n: "n \<in> set (vals (stack_node_table d))"
  shows "\<exists>p \<in> stack_prefixes (collected env f s). Some (node_id n) = path_end env e None p
    \<and> parent_id n = path_end env e None (butlast p) \<and> stack_node_data_id n = last p \<and> executable_id n = e"
proof -
  have "served (d, rs)" using run by (simp add: complete_run_def)
  from served_rows [OF this] n obtain data m where
    m: "data \<in> fst ` set rs" "m \<in> set (stack_nodes data)" "node_row m = node_row n"
    by (force simp: image_iff)
  obtain b where b: "b \<in> set (batches (symbolized f (received s)))" "data = upload_data (batch_upload env post b a name)"
    by (rule complete_run_posted [OF run m(1)])
  have sub: "set (sample_paths env b) \<subseteq> set (collected env f s)"
    using b(1) unfolding collected_def sample_paths_def by auto
  then have "inj_on (path_end env e None) {p. \<exists>q \<in> set (sample_paths env b). prefix p q}"
    using sep unfolding separates_def by (elim inj_on_subset) blast
  from batch_row_prefix [OF refl e _ this, of m post] m(2) b(2)
  obtain p where p: "p \<noteq> []" "\<exists>q \<in> set (sample_paths env b). prefix p q" "Some (node_id m) = path_end env e None p"
    "parent_id m = path_end env e None (butlast p)" "stack_node_data_id m = last p" "executable_id m = e"
    by blast
  then have "p \<in> stack_prefixes (collected env f s)" using sub by (auto simp: stack_prefixes_def)
  then show ?thesis using p m(3) by (auto simp: node_row_def)
qed

lemma complete_run_count:
  assumes run: "complete_run env post copy f a name s d rs" and e: "e = batch_id env a name"
    and sep: "separates env e (collected env f s)"
    and p: "p \<in> stack_prefixes (collected env f s)" "path_end env e None p = Some i"
  shows "stored_count sample_count (stack_node_table d) i = int (length (filter (prefix p) (collected env f s)))"
proof -
  let ?B = "batches (symbolized f (received s))"
  have r: "client_reachable env post copy (Some f) a s" "binary a = Some name"
    "\<forall>w \<in> set (workers s). \<exists>up. w_control w = Finished up" "served (d, rs)" "\<forall>r \<in> set rs. snd r = Stored"
    "mset (map fst rs) = mset (map posted_data (workers s))"
    "\<forall>w \<in> set (workers s). length (stack_nodes (posted_data w)) \<le> 16383 \<and> length (concat (concat (w_batch w))) < 2 ^ 63"
    using run unfolding complete_run_def by blast+
  have b: "map w_batch (workers s) = ?B" by (rule client_state_batches [OF r(1)])
  have "sum_list (map (nodes_added i) rs)
      = sum_list (map (\<lambda>b. int (count_list (map node_id (batch_nodes env e b)) i)) (map w_batch (workers s)))"
    by (rule sum_over_requests [OF r(6), where F = "\<lambda>data. posted_count node_id sample_count
          (take 16383 (stack_nodes data)) i"])
       (use r(5,7) in \<open>simp_all add: nodes_added_def posted_by_worker [OF r(1,2) _ r(3)] batch_posted_count flip: e\<close>)
  also have "\<dots> = int (count_list (map node_id (batch_nodes env e (concat ?B))) i)"
    unfolding b by (rule batch_counts)
  also have "\<dots> = int (length (filter (prefix p) (collected env f s)))"
    using batch_count [OF sep [unfolded separates_def] subset_refl _ _ p(2)] p(1)
    by (simp add: batch_nodes_paths stack_prefixes_def collected_def)
  finally show ?thesis using served_counters [OF r(4), of i] by (simp add: counters_match_def)
qed

text \<open>So the node table holds such rows as \<open>prefix_rows\<close> describes, for all collected samples together.\<close>

lemma complete_run_node:
  assumes run: "complete_run env post copy f a name s d rs" and e: "e = batch_id env a name"
    and sep: "separates env e (collected env f s)" and p: "p \<in> stack_prefixes (collected env f s)"
  shows "\<exists>n \<in> set (vals (stack_node_table d)). Some (node_id n) = path_end env e None p
    \<and> parent_id n = path_end env e None (butlast p) \<and> stack_node_data_id n = last p \<and> executable_id n = e
    \<and> sint (sample_count n) = int (length (filter (prefix p) (collected env f s)))"
proof -
  have "served (d, rs)" using run by (simp add: complete_run_def)
  then have keyed: "keyed node_id (stack_node_table d)"
    using served_invariant reachable_db_ok by (fastforce simp: db_ok_def)
  obtain i where i: "path_end env e None p = Some i"
    using path_end_ne [of p env e None] p by (auto simp: stack_prefixes_def)
  have "filter (prefix p) (collected env f s) \<noteq> []" using p by (auto simp: filter_empty_conv stack_prefixes_def)
  then obtain n where n: "map_of (stack_node_table d) i = Some n"
    "sint (sample_count n) = int (length (filter (prefix p) (collected env f s)))"
    using complete_run_count [OF run e sep p i]
    by (cases "map_of (stack_node_table d) i") (simp_all add: stored_count_def)
  then have t: "n \<in> set (vals (stack_node_table d))" "node_id n = i"
    using keyed_row [OF keyed] map_of_SomeD [OF n(1)] by (force simp: vals_def)+
  from complete_run_row [OF run e sep t(1)] obtain p' where p': "p' \<in> stack_prefixes (collected env f s)"
    "Some (node_id n) = path_end env e None p'" "parent_id n = path_end env e None (butlast p')"
    "stack_node_data_id n = last p'" "executable_id n = e"
    by blast
  have "p' = p"
    using sep p p'(1,2) i t(2) unfolding separates_def stack_prefixes_def by (auto dest!: inj_onD [of _ _ p' p])
  with p' n(2) t(1) show ?thesis by blast
qed

lemma complete_run_prefix_rows:
  assumes run: "complete_run env post copy f a name s d rs" and e: "e = batch_id env a name"
  shows "prefix_rows env e (collected env f s) (vals (stack_node_table d))"
proof unfold_locales
  have "served (d, rs)" using run by (simp add: complete_run_def)
  then have "keyed node_id (stack_node_table d)"
    using served_invariant reachable_db_ok by (fastforce simp: db_ok_def)
  then show "distinct (map node_id (vals (stack_node_table d)))"
    by (simp add: keyed_vals_key) (simp add: keyed_def wf_map_def)
  assume sep: "separates env e (collected env f s)"
  show "\<exists>n \<in> set (vals (stack_node_table d)). Some (node_id n) = path_end env e None p
      \<and> parent_id n = path_end env e None (butlast p) \<and> stack_node_data_id n = last p
      \<and> sample_count n = of_nat (length (filter (prefix p) (collected env f s)))"
    if p: "p \<in> stack_prefixes (collected env f s)" for p
  proof -
    from complete_run_node [OF run e sep p] obtain n where n: "n \<in> set (vals (stack_node_table d))"
      "Some (node_id n) = path_end env e None p" "parent_id n = path_end env e None (butlast p)"
      "stack_node_data_id n = last p" "sint (sample_count n) = int (length (filter (prefix p) (collected env f s)))"
      by blast
    have "sample_count n = of_int (sint (sample_count n))" by simp
    then have "sample_count n = of_nat (length (filter (prefix p) (collected env f s)))"
      unfolding n(5) by simp
    with n show ?thesis by blast
  qed
  show "\<exists>p \<in> stack_prefixes (collected env f s). Some (node_id n) = path_end env e None p"
    if "n \<in> set (vals (stack_node_table d))" for n
    using complete_run_row [OF run e sep that] by blast
qed

section \<open>Properties\<close>

text \<open>
  C4. The database after a run.  When every upload of the client has been posted and the server has completed one
  request for each, and the hash separates the stack prefixes that occur, the stored nodes are exactly the
  tree of those prefixes: every non-empty prefix of a collected stack has one node, whose parent is the
  node of the prefix without its last frame, whose data is that frame's, and whose count is the number
  of collected samples, of all batches together, whose stack starts with the prefix.
\<close>

theorem database_is_prefix_tree:
  assumes "client_reachable env post copy (Some f) a s" "binary a = Some name"
    and finished: "\<forall>w \<in> set (workers s). \<exists>up. w_control w = Finished up"
    and served: "served (d, rs)" "\<forall>r \<in> set rs. snd r = Stored"
    and requests: "mset (map fst rs) = mset (map posted_data (workers s))"
    and bounds: "\<forall>w \<in> set (workers s). length (stack_nodes (posted_data w)) \<le> 16383
      \<and> length (concat (concat (w_batch w))) < 2 ^ 63"
    and e: "e = batch_id env a name" and Q: "Q = sample_paths env (concat (batches (symbolized f (received s))))"
    and inj: "inj_on (path_end env e None) {p. \<exists>q \<in> set Q. prefix p q}"
  shows "(\<forall>p. p \<noteq> [] \<and> (\<exists>q \<in> set Q. prefix p q) \<longrightarrow>
      (\<exists>n \<in> set (vals (stack_node_table d)). Some (node_id n) = path_end env e None p
         \<and> parent_id n = path_end env e None (butlast p) \<and> stack_node_data_id n = last p \<and> executable_id n = e
         \<and> sint (sample_count n) = int (length (filter (prefix p) Q))))
    \<and> (\<forall>n \<in> set (vals (stack_node_table d)).
         \<exists>p. p \<noteq> [] \<and> (\<exists>q \<in> set Q. prefix p q) \<and> Some (node_id n) = path_end env e None p)"
proof -
  have Q': "Q = collected env f s" by (simp add: Q collected_def)
  have run: "complete_run env post copy f a name s d rs"
    using assms(1,2) finished served requests bounds by (simp add: complete_run_def)
  have sep: "separates env e (collected env f s)" using inj by (simp add: separates_def Q')
  show ?thesis
    using complete_run_node [OF run e sep] complete_run_row [OF run e sep]
    unfolding Q' stack_prefixes_def by blast
qed

text \<open>The run of 201 events: the node of \<^verbatim>\<open>work\<close> below \<^verbatim>\<open>main\<close> has the 200 samples of the batch.\<close>

lemma demo_batch_paths: "set (sample_paths demo_env demo_batch) = {[545, 575]}"
  "filter (prefix [545, 575]) (sample_paths demo_env demo_batch) = sample_paths demo_env demo_batch"
  "length (sample_paths demo_env demo_batch) = 200"
proof -
  have "sample_paths demo_env [demo_stacks] = [[545, 575]]"
    using demo_paths by (simp add: sample_paths_def demo_samples_def demo_stacks_def)
  then have "sample_paths demo_env demo_batch = replicate 200 [545, 575]"
    by (simp add: sample_paths_def demo_batch_def)
  then show "set (sample_paths demo_env demo_batch) = {[545, 575]}"
    "filter (prefix [545, 575]) (sample_paths demo_env demo_batch) = sample_paths demo_env demo_batch"
    "length (sample_paths demo_env demo_batch) = 200"
    by simp_all
qed

lemma demo_batch_inj:
  "inj_on (path_end demo_env (batch_id demo_env demo_args ''demo'') None)
     {p. \<exists>q \<in> set (sample_paths demo_env demo_batch). prefix p q}"
  by (rule inj_on_subset [OF demo_inj]) (auto simp: demo_batch_paths demo_paths)

theorem database_is_prefix_tree_witness:
  "\<exists>s d. client_reachable demo_env (\<lambda>u d. PostOk) plain_copy (Some (\<lambda>p us. demo_stacks)) demo_args s
    \<and> length (polled s) = 201
    \<and> served (d, map (\<lambda>w. (posted_data w, Stored)) (workers s))
    \<and> (\<exists>n \<in> set (vals (stack_node_table d)). node_id n = 432 \<and> parent_id n = Some 201 \<and> sint (sample_count n) = 200)"
proof (rule demo_full_run)
  fix s d
  assume run: "client_reachable demo_env (\<lambda>u d. PostOk) plain_copy (Some (\<lambda>p us. demo_stacks)) demo_args s"
    "length (polled s) = 201" "\<forall>w \<in> set (workers s). \<exists>up. w_control w = Finished up"
    "batches (symbolized (\<lambda>p us. demo_stacks) (received s)) = [demo_batch]" "map w_batch (workers s) = [demo_batch]"
    "served (d, map (\<lambda>w. (posted_data w, Stored)) (workers s))"
    "\<forall>w \<in> set (workers s). length (stack_nodes (posted_data w)) \<le> 16383"
  have "\<forall>w \<in> set (workers s). w_batch w = demo_batch" using run(5) by auto
  with run(7) have bounds: "\<forall>w \<in> set (workers s). length (stack_nodes (posted_data w)) \<le> 16383
      \<and> length (concat (concat (w_batch w))) < 2 ^ 63"
    by (simp add: demo_batch_sizes)
  have Q: "sample_paths demo_env demo_batch = sample_paths demo_env
      (concat (batches (symbolized (\<lambda>p us. demo_stacks) (received s))))"
    by (simp add: run(4))
  have requests: "mset (map fst (map (\<lambda>w. (posted_data w, Stored)) (workers s))) = mset (map posted_data (workers s))"
    by (simp add: o_def)
  from conjunct1 [OF database_is_prefix_tree [OF run(1) demo_name run(3,6) _ requests bounds refl Q demo_batch_inj],
      rule_format, of "[545, 575]"]
  have "\<exists>n \<in> set (vals (stack_node_table d)).
      Some (node_id n) = path_end demo_env (batch_id demo_env demo_args ''demo'') None [545, 575]
      \<and> parent_id n = path_end demo_env (batch_id demo_env demo_args ''demo'') None (butlast [545, 575])
      \<and> sint (sample_count n) = int (length (filter (prefix [545, 575]) (sample_paths demo_env demo_batch)))"
    by (force simp: demo_batch_paths simp del: path_end.simps)
  then have "\<exists>n \<in> set (vals (stack_node_table d)). node_id n = 432 \<and> parent_id n = Some 201 \<and> sint (sample_count n) = 200"
    by (simp add: demo_ends demo_batch_paths del: path_end.simps)
  with run(1,2,6) show ?thesis by blast
qed

end
