(* ===== verification/Full_Graph.thy ===== *)
theory Full_Graph
  imports Full_Tree
begin

text \<open>
  What the page shows after a run of both ends: the flame graph of everything that was collected, as a
  function of the sampled stacks alone.
\<close>

section \<open>The executable\<close>

definition exe_name :: "Executable \<Rightarrow> i64 \<times> string" where
  "exe_name x = (exe_id x, basename x)"

interpretation exe_names: counted_table exe_id merge_executable exe_sample_count exe_name
  by unfold_locales (auto simp: merge_executable_def add_bigint_sint exe_name_def split: sum.splits)

lemma exe_tx_names:
  assumes "exe_tx clock tx rows d = Inr d'"
  shows "exe_name ` set (vals (executable_table d')) \<subseteq> exe_name ` set (vals (executable_table d)) \<union> exe_name ` set rows"
proof -
  define rs where "rs = map (\<lambda>(i, pb). exe_row (clock i) tx pb)
    (zip [0..<length (take (BIND_LIMIT div 4) rows)] (take (BIND_LIMIT div 4) rows))"
  have "upsert_rows exe_id merge_executable rs (executable_table d) = Inr (executable_table d')"
    using assms by (auto simp: exe_tx_def Let_def rs_def split: option.splits if_splits sum.splits)
  from exe_names.upsert_same [OF this]
  have "exe_name ` set (vals (executable_table d')) \<subseteq> exe_name ` set (vals (executable_table d)) \<union> exe_name ` set rs" .
  moreover have "exe_name ` set rs \<subseteq> exe_name ` set rows"
    by (auto simp: rs_def exe_name_def exe_row_def image_iff dest!: set_zip_rightD in_set_takeD)
  ultimately show ?thesis by blast
qed

lemma served_names:
  assumes "served s"
  shows "exe_name ` set (vals (executable_table (fst s)))
    \<subseteq> (\<Union>data \<in> fst ` set (snd s). exe_name ` set (profiled_binaries data))"
proof (rule served_from [OF _ _ assms])
  fix clock tx data st d st' d'
  assume a: "advance clock tx data st d = (st', d')"
  then show "exe_name ` set (vals (executable_table d'))
      \<subseteq> exe_name ` set (vals (executable_table d)) \<union> exe_name ` set (profiled_binaries data)"
  proof (cases rule: advance_cases)
    case exe
    then show ?thesis using exe_tx_names [OF exe(2)] by simp
  qed (auto simp: data_tx_tables node_tx_tables(1))
qed (simp add: empty_db_def vals_def)

lemma complete_run_executable:
  assumes run: "complete_run env post copy f a name s d rs" and x: "x \<in> set (vals (executable_table d))"
  shows "exe_id x = batch_id env a name \<and> basename x = name"
proof -
  have "served (d, rs)" using run by (simp add: complete_run_def)
  from served_names [OF this] x obtain data y where
    y: "data \<in> fst ` set rs" "y \<in> set (profiled_binaries data)" "exe_name y = exe_name x"
    by (force simp: image_iff)
  obtain b where "data = upload_data (batch_upload env post b a name)"
    by (rule complete_run_posted [OF run y(1)])
  then have "exe_id y = batch_id env a name \<and> basename y = name"
    using y(2) by (auto simp: batch_upload_def Let_def batch_exes_def counted_exe_def batch_executable_def split: if_splits)
  with y(3) show ?thesis unfolding exe_name_def by (metis prod.inject)
qed

section \<open>Properties\<close>

definition stored_label :: "db \<Rightarrow> i64 \<Rightarrow> string" where
  "stored_label d i =
     (case map_of (stack_node_data_table d) i of
        None \<Rightarrow> []
      | Some x \<Rightarrow> (case dag_name x of Inl _ \<Rightarrow> [] | Inr nm \<Rightarrow> nm))"



end
