(* ===== verification/Test_App.thy ===== *)
theory Test_App
  imports Defs
begin

text \<open>
  The C++ workload, \<^verbatim>\<open>src/testApp/main.cpp\<close>: coroutines that fill a shared concurrent map with random
  strings.  The operations of the map are atomic; the coroutines are threads of a step relation that
  interleaves them arbitrarily.  The random source is a choice of each step, a \<^verbatim>\<open>double\<close> is a value of a
  linear order.  The lock that the helpers take is a temporary released before the operation it stands
  in front of, so it excludes nothing and is not part of the state; nor are the log and the null
  stream.
\<close>

section \<open>State\<close>

record 'd app_flags =
  threads :: nat
  seconds :: u64
  mem_intensive_ratio :: 'd
  dump_size :: u64

type_synonym str_map = "(string, string) hash_map"

definition map_write :: "string \<Rightarrow> string \<Rightarrow> str_map \<Rightarrow> str_map" where
  "map_write k v m = upsert (\<lambda>_. v) v k m"

definition map_clear :: "str_map \<Rightarrow> str_map" where
  "map_clear m = []"

definition map_size :: "str_map \<Rightarrow> nat" where
  "map_size m = length m"

text \<open>Where a coroutine stands: before the loop test, and before each operation of the body.\<close>

datatype pc = Test | Size | Clear | Fill | Toss | Finished

record burner =
  pc :: pc
  cur :: int
  new_str :: string
  old_str :: string

definition fresh_burner :: "int \<Rightarrow> burner" where
  "fresh_burner now = \<lparr>pc = Test, cur = now, new_str = [], old_str = []\<rparr>"

text \<open>The inner loop over a stream of random numbers: the string, or nothing when the stream ends too early.\<close>

fun fill_str :: "u32 list \<Rightarrow> string \<Rightarrow> string option" where
  "fill_str rs s =
     (if length s < 100 then
        (case rs of [] \<Rightarrow> None | r # rs \<Rightarrow> fill_str rs (s @ show_nat (unat r)))
      else Some s)"

declare fill_str.simps [simp del]

section \<open>Steps\<close>

text \<open>
  One step of \<^verbatim>\<open>burn_cycles\<close>.  The current time is read once, before the loop, and the number of items is
  read and not used.
\<close>

inductive burn_step :: "'d::linorder app_flags \<Rightarrow> int \<Rightarrow> str_map \<times> burner \<Rightarrow> str_map \<times> burner \<Rightarrow> bool"
  for flags start where
  enter: "pc b = Test \<Longrightarrow> cur b < start + 1000000000 * uint (seconds flags) \<Longrightarrow>
    burn_step flags start (m, b) (m, b\<lparr>pc := Size\<rparr>)"
| leave: "pc b = Test \<Longrightarrow> \<not> cur b < start + 1000000000 * uint (seconds flags) \<Longrightarrow>
    burn_step flags start (m, b) (m, b\<lparr>pc := Finished\<rparr>)"
| check: "pc b = Size \<Longrightarrow> items = map_size m \<Longrightarrow>
    burn_step flags start (m, b) (m, b\<lparr>pc := if dump_size flags \<le> 0 then Clear else Fill\<rparr>)"
| clear: "pc b = Clear \<Longrightarrow> burn_step flags start (m, b) (map_clear m, b\<lparr>pc := Fill\<rparr>)"
| fill: "pc b = Fill \<Longrightarrow> fill_str rs (new_str b) = Some s \<Longrightarrow>
    burn_step flags start (m, b) (m, b\<lparr>new_str := s, pc := Toss\<rparr>)"
| store: "pc b = Toss \<Longrightarrow> mem_intensive_ratio flags < draw \<Longrightarrow>
    burn_step flags start (m, b)
      (map_write (old_str b) (new_str b) m, b\<lparr>old_str := new_str b, new_str := [], pc := Test\<rparr>)"
| discard: "pc b = Toss \<Longrightarrow> \<not> mem_intensive_ratio flags < draw \<Longrightarrow>
    burn_step flags start (m, b) (m, b\<lparr>pc := Test\<rparr>)"

inductive_cases burn_stepE: "burn_step flags start (m, b) c"

text \<open>\<^verbatim>\<open>run\<close>: one coroutine per thread, all from one start time, in any interleaving.\<close>

inductive app_step :: "'d::linorder app_flags \<Rightarrow> int \<Rightarrow> str_map \<times> burner list \<Rightarrow> str_map \<times> burner list \<Rightarrow> bool"
  for flags start where
  turn: "j < length bs \<Longrightarrow> burn_step flags start (m, bs ! j) (m', b') \<Longrightarrow>
    app_step flags start (m, bs) (m', bs[j := b'])"

definition app_start :: "'d app_flags \<Rightarrow> int list \<Rightarrow> str_map \<times> burner list" where
  "app_start flags nows = ([], map fresh_burner (take (threads flags) nows))"

inductive app_reachable :: "'d::linorder app_flags \<Rightarrow> int \<Rightarrow> int list \<Rightarrow> str_map \<times> burner list \<Rightarrow> bool"
  for flags start nows where
  init: "app_reachable flags start nows (app_start flags nows)"
| step: "app_reachable flags start nows c \<Longrightarrow> app_step flags start c c' \<Longrightarrow> app_reachable flags start nows c'"

text \<open>\<^verbatim>\<open>run\<close> returns when every coroutine has finished.\<close>

definition run_returns :: "str_map \<times> burner list \<Rightarrow> bool" where
  "run_returns c \<longleftrightarrow> (\<forall>b \<in> set (snd c). pc b = Finished)"

section \<open>The inner loop\<close>

lemma random_digits: "unat (r :: u32) < 10 ^ Suc 9"
proof -
  have "unat r < 2 ^ LENGTH(32)" by (rule unsigned_less)
  then show ?thesis by simp
qed

lemma fill_str_result: "fill_str rs s = Some t \<Longrightarrow> length s < 110 \<Longrightarrow> 100 \<le> length t \<and> length t < 110"
proof (induction rs s rule: fill_str.induct)
  case (1 rs s)
  show ?case
  proof (cases "length s < 100")
    case True
    with 1(2) obtain r rs' where r: "rs = r # rs'" "fill_str rs' (s @ show_nat (unat r)) = Some t"
      by (subst (asm) fill_str.simps) (auto split: list.splits)
    from show_nat_length [OF random_digits, of r] have "length (s @ show_nat (unat r)) < 110" using True by simp
    with 1(1) [OF True r(1) r(2)] show ?thesis by blast
  next
    case False
    then show ?thesis using 1(2,3) by (subst (asm) fill_str.simps) simp
  qed
qed

lemma fill_str_total: "100 \<le> length rs + length s \<Longrightarrow> \<exists>t. fill_str rs s = Some t"
proof (induction rs s rule: fill_str.induct)
  case (1 rs s)
  show ?case
  proof (cases "length s < 100")
    case True
    then obtain r rs' where r: "rs = r # rs'" using 1(2) by (cases rs) auto
    from show_nat_length [OF random_digits, of r] have "100 \<le> length rs' + length (s @ show_nat (unat r))"
      using 1(2) r by simp
    from 1(1) [OF True r this] show ?thesis using True r by (subst fill_str.simps) simp
  next
    case False
    then show ?thesis by (subst fill_str.simps) simp
  qed
qed

section \<open>Invariants\<close>

definition burner_ok :: "burner \<Rightarrow> bool" where
  "burner_ok b \<longleftrightarrow> length (new_str b) < 110 \<and> (pc b = Toss \<longrightarrow> 100 \<le> length (new_str b))
     \<and> (old_str b = [] \<or> 100 \<le> length (old_str b) \<and> length (old_str b) < 110)"

definition map_strings_ok :: "str_map \<Rightarrow> bool" where
  "map_strings_ok m \<longleftrightarrow> (\<forall>(k, v) \<in> set m. (k = [] \<or> 100 \<le> length k \<and> length k < 110) \<and> 100 \<le> length v \<and> length v < 110)"

lemma set_upsert_const: "set (upsert (\<lambda>_. v) v k m) \<subseteq> insert (k, v) (set m)"
  by (induction m) (auto split: if_splits)

lemma map_write_strings:
  "map_strings_ok m \<Longrightarrow> k = [] \<or> 100 \<le> length k \<and> length k < 110 \<Longrightarrow> 100 \<le> length v \<and> length v < 110 \<Longrightarrow>
     map_strings_ok (map_write k v m)"
  using set_upsert_const [of v k m] unfolding map_strings_ok_def map_write_def by fastforce

lemma burn_step_ok:
  "burn_step flags start (m, b) (m', b') \<Longrightarrow> burner_ok b \<Longrightarrow> map_strings_ok m \<Longrightarrow> burner_ok b' \<and> map_strings_ok m'"
  by (erule burn_stepE)
     (auto simp: burner_ok_def map_clear_def map_strings_ok_def [of "[]"] intro!: map_write_strings
       dest: fill_str_result)

lemma reachable_ok:
  "app_reachable flags start nows c \<Longrightarrow> map_strings_ok (fst c) \<and> (\<forall>b \<in> set (snd c). burner_ok b)"
proof (induction rule: app_reachable.induct)
  case init
  then show ?case by (auto simp: app_start_def map_strings_ok_def fresh_burner_def burner_ok_def)
next
  case (step c c')
  from step(2) step(3) show ?case
  proof (cases rule: app_step.cases)
    case (turn j bs m m' b')
    then have "burner_ok (bs ! j)" using step(3) by simp
    then have "burner_ok b' \<and> map_strings_ok m'" using burn_step_ok [OF turn(4)] step(3) turn(1) by simp
    then show ?thesis using step(3) turn by (auto dest!: set_update_subset_insert [THEN subsetD])
  qed
qed

text \<open>The deadline test never changes its value, so a coroutine that is in time at its start stays in its loop.\<close>

lemma burn_step_cur: "burn_step flags start (m, b) (m', b') \<Longrightarrow> cur b' = cur b"
  by (erule burn_stepE) auto

lemma burn_step_in_time:
  "burn_step flags start (m, b) (m', b') \<Longrightarrow> cur b < start + 1000000000 * uint (seconds flags) \<Longrightarrow>
     pc b' \<noteq> Finished"
  by (erule burn_stepE) (auto split: if_splits)

lemma reachable_cur:
  "app_reachable flags start nows c \<Longrightarrow> map cur (snd c) = take (threads flags) nows
    \<and> (\<forall>b \<in> set (snd c). cur b < start + 1000000000 * uint (seconds flags) \<longrightarrow> pc b \<noteq> Finished)"
proof (induction rule: app_reachable.induct)
  case init
  then show ?case by (auto simp: app_start_def fresh_burner_def comp_def)
next
  case (step c c')
  from step(2) step(3) show ?case
  proof (cases rule: app_step.cases)
    case (turn j bs m m' b')
    have "map cur (bs[j := b']) = map cur bs"
      using burn_step_cur [OF turn(4)] turn(3) by (metis list_update_id map_update)
    moreover have "cur b' < start + 1000000000 * uint (seconds flags) \<longrightarrow> pc b' \<noteq> Finished"
      using burn_step_in_time [OF turn(4)] burn_step_cur [OF turn(4)] by simp
    ultimately show ?thesis
      using step(3) turn by (auto dest!: set_update_subset_insert [THEN subsetD])
  qed
qed

lemma in_time_unfinished:
  assumes "j < threads flags" "j < length nows" "nows ! j < start + 1000000000 * uint (seconds flags)"
    and "app_reachable flags start nows c"
  shows "j < length (snd c) \<and> pc (snd c ! j) \<noteq> Finished"
proof -
  have cur: "map cur (snd c) = take (threads flags) nows" using reachable_cur [OF assms(4)] by simp
  have len: "j < length (snd c)" using arg_cong [OF cur, of length] assms(1,2) by simp
  have "cur (snd c ! j) = nows ! j" using arg_cong [OF cur, of "\<lambda>l. l ! j"] len assms(1,2) by simp
  then show ?thesis using reachable_cur [OF assms(4)] len assms(3) by simp
qed

text \<open>A coroutine that has not finished can always take a step.\<close>

lemma burn_step_progress:
  assumes "pc b \<noteq> Finished"
  shows "\<exists>c. burn_step flags start (m, b) c"
proof (cases "pc b")
  case Test
  then show ?thesis using burn_step.enter burn_step.leave by blast
next
  case Size
  then show ?thesis using burn_step.check [OF Size refl] by blast
next
  case Clear
  then show ?thesis using burn_step.clear by blast
next
  case Fill
  obtain s where "fill_str (replicate 100 0) (new_str b) = Some s"
    using fill_str_total [of "replicate 100 0" "new_str b"] by auto
  then show ?thesis using burn_step.fill [OF Fill] by blast
next
  case Toss
  then show ?thesis using burn_step.store [OF Toss] burn_step.discard [OF Toss] by blast
qed (simp add: assms)

text \<open>With dump size 0 an entry belongs to a coroutine that has written since its last clearing.\<close>

definition writers :: "burner list \<Rightarrow> nat" where
  "writers bs = length (filter (\<lambda>b. pc b \<notin> {Fill, Toss}) bs)"

lemma length_upsert_le: "length (upsert f d k m) \<le> Suc (length m)"
  by (induction f d k m rule: upsert.induct) auto

lemma writers_update:
  assumes "j < length bs"
  shows "writers (bs[j := b']) + (if pc (bs ! j) \<in> {Fill, Toss} then 0 else 1)
    = writers bs + (if pc b' \<in> {Fill, Toss} then 0 else 1)"
proof -
  have bs: "bs = take j bs @ bs ! j # drop (Suc j) bs" by (rule id_take_nth_drop [OF assms])
  have "bs[j := b'] = take j bs @ b' # drop (Suc j) bs" by (rule upd_conv_take_nth_drop [OF assms])
  then show ?thesis unfolding writers_def by (subst (3) bs) simp
qed

lemma burn_step_count:
  assumes "burn_step flags start (m, b) (m', b')" "dump_size flags = 0"
  shows "m' = [] \<or> length m' + (if pc b \<in> {Fill, Toss} then 0 else 1)
    \<le> length m + (if pc b' \<in> {Fill, Toss} then 0 else 1)"
  using assms length_upsert_le [of "\<lambda>_. new_str b" "new_str b" "old_str b" m]
  by (elim burn_stepE) (auto simp: map_clear_def map_write_def)

lemma reachable_writers:
  "app_reachable flags start nows c \<Longrightarrow> dump_size flags = 0 \<Longrightarrow> length (fst c) \<le> writers (snd c)"
proof (induction rule: app_reachable.induct)
  case init
  then show ?case by (simp add: app_start_def)
next
  case (step c c')
  from step(2) show ?case
  proof (cases rule: app_step.cases)
    case (turn j bs m m' b')
    from burn_step_count [OF turn(4) step(4)] writers_update [OF turn(3), of b'] step(3) [OF step(4)]
    show ?thesis unfolding turn(1,2) fst_conv snd_conv by auto
  qed
qed

section \<open>Properties\<close>


text \<open>
  C38. The dump size is not a capacity: the map is cleared only when the flag is 0, and then it never holds
  more entries than there are coroutines; with any other value no step removes a key.
\<close>

theorem dump_size_effect:
  assumes "app_reachable flags start nows (m, bs)"
  shows "if dump_size flags = 0 then length m \<le> length bs
    else (\<forall>m' bs'. app_step flags start (m, bs) (m', bs') \<longrightarrow> fst ` set m \<subseteq> fst ` set m')"
proof (cases "dump_size flags = 0")
  case True
  have "writers bs \<le> length bs" by (simp add: writers_def)
  then show ?thesis using reachable_writers [OF assms True] True by simp
next
  case False
  have "fst ` set m \<subseteq> fst ` set m'" if "burn_step flags start (m, b) (m', b')" "pc b \<noteq> Clear" for b m' b'
    using that by (elim burn_stepE) (auto simp: map_write_def keys_upsert)
  moreover have "pc b \<noteq> Clear" if "b \<in> set bs" for b
  proof -
    have "\<forall>b \<in> set (snd c). pc b \<noteq> Clear" if "app_reachable flags start nows c" for c
      using that
    proof (induction rule: app_reachable.induct)
      case init
      then show ?case by (auto simp: app_start_def fresh_burner_def)
    next
      case (step c c')
      from step(2) step(3) show ?case
      proof (cases rule: app_step.cases)
        case (turn j bs m m' b')
        have "pc b' \<noteq> Clear"
          using turn(4) False by (elim burn_stepE) auto
        then show ?thesis using step(3) turn by (auto dest!: set_update_subset_insert [THEN subsetD])
      qed
    qed
    then show ?thesis using assms that by fastforce
  qed
  ultimately have "fst ` set m \<subseteq> fst ` set m'" if "app_step flags start (m, bs) (m', bs')" for m' bs'
    using that by (auto elim!: app_step.cases) (metis (no_types, lifting) fst_conv image_eqI nth_mem subsetD)
  then show ?thesis using False by simp
qed

text \<open>
  Every stored value is a string of 100 to 109 digits; every key is such a string or, for the first
  write of a coroutine, the empty one.
\<close>

theorem stored_strings:
  assumes "app_reachable flags start nows (m, bs)" "(k, v) \<in> set m"
  shows "100 \<le> length v \<and> length v \<le> 109 \<and> (k = [] \<or> 100 \<le> length k \<and> length k \<le> 109)"
proof -
  have "(k = [] \<or> 100 \<le> length k \<and> length k < 110) \<and> 100 \<le> length v \<and> length v < 110"
    using reachable_ok [OF assms(1)] assms(2) by (auto simp: map_strings_ok_def)
  then show ?thesis by auto
qed

text \<open>Two coroutines that clear the map in every round, and a first round of the first one.\<close>

definition demo_flags :: "nat app_flags" where
  "demo_flags = \<lparr>threads = 2, seconds = 300, mem_intensive_ratio = 0, dump_size = 0\<rparr>"


lemma demo_round:
  "\<exists>m bs v. app_reachable demo_flags 0 [5, 6] (m, bs) \<and> m = [([], v)] \<and> length bs = 2"
proof -
  obtain s where s: "fill_str (replicate 100 0) [] = Some s" using fill_str_total [of "replicate 100 0" "[]"] by auto
  let ?b = "fresh_burner 5" and ?o = "fresh_burner 6"
  have start: "app_start demo_flags [5, 6] = ([], [?b, ?o])"
    by (simp add: app_start_def demo_flags_def)
  have turn: "app_reachable demo_flags 0 [5, 6] (m', [b', ?o])"
    if "app_reachable demo_flags 0 [5, 6] (m, [b, ?o])" "burn_step demo_flags 0 (m, b) (m', b')" for m b m' b'
    using app_reachable.step [OF that(1) app_step.turn [of 0]] that(2) by simp
  have "app_reachable demo_flags 0 [5, 6] ([], [?b, ?o])"
    using app_reachable.init [of demo_flags 0 "[5, 6]"] start by simp
  then have "app_reachable demo_flags 0 [5, 6] ([], [?b\<lparr>pc := Size\<rparr>, ?o])"
    by (rule turn) (rule burn_step.enter; simp add: fresh_burner_def demo_flags_def)
  then have "app_reachable demo_flags 0 [5, 6]
      ([], [?b\<lparr>pc := Size, pc := if dump_size demo_flags \<le> 0 then Clear else Fill\<rparr>, ?o])"
    by (rule turn) (rule burn_step.check [OF _ refl]; simp)
  then have "app_reachable demo_flags 0 [5, 6] ([], [?b\<lparr>pc := Clear\<rparr>, ?o])"
    by (simp add: demo_flags_def)
  then have "app_reachable demo_flags 0 [5, 6] (map_clear [], [?b\<lparr>pc := Clear, pc := Fill\<rparr>, ?o])"
    by (rule turn) (rule burn_step.clear; simp)
  then have "app_reachable demo_flags 0 [5, 6] ([], [?b\<lparr>pc := Fill\<rparr>, ?o])"
    by (simp add: map_clear_def)
  then have "app_reachable demo_flags 0 [5, 6] ([], [?b\<lparr>pc := Fill, new_str := s, pc := Toss\<rparr>, ?o])"
    by (rule turn) (rule burn_step.fill [where rs = "replicate 100 0"]; simp add: s fresh_burner_def)
  then have "app_reachable demo_flags 0 [5, 6] ([], [?b\<lparr>new_str := s, pc := Toss\<rparr>, ?o])"
    by simp
  from turn [OF this burn_step.store [where draw = 1]]
  have "app_reachable demo_flags 0 [5, 6]
      ([([], s)], [?b\<lparr>new_str := s, pc := Toss, old_str := s, new_str := [], pc := Test\<rparr>, ?o])"
    by (simp add: demo_flags_def map_write_def fresh_burner_def)
  then show ?thesis by fastforce
qed

theorem dump_size_effect_witness:
  "\<exists>m bs. app_reachable demo_flags 0 [5, 6] (m, bs) \<and> m \<noteq> [] \<and> length m \<le> length bs \<and> length bs = 2"
proof -
  obtain m bs v where r: "app_reachable demo_flags 0 [5, 6] (m, bs)" "m = [([], v)]" "length bs = 2"
    using demo_round by blast
  from dump_size_effect [OF r(1)] have "length m \<le> length bs" by (simp add: demo_flags_def)
  then show ?thesis using r by blast
qed

theorem stored_strings_witness:
  "\<exists>m bs v. app_reachable demo_flags 0 [5, 6] (m, bs) \<and> m = [([], v)] \<and> 100 \<le> length v \<and> length v \<le> 109"
proof -
  obtain m bs v where r: "app_reachable demo_flags 0 [5, 6] (m, bs)" "m = [([], v)]"
    using demo_round by blast
  from stored_strings [OF r(1), of "[]" v] r show ?thesis by auto
qed

end
