(* ===== verification/Test_Signals.thy ===== *)
theory Test_Signals
  imports Test_App
begin

text \<open>
  The signals of the C++ workload: \<^verbatim>\<open>run\<close>, \<^verbatim>\<open>signal_callback_handler\<close> and \<^verbatim>\<open>main\<close> of
  \<^verbatim>\<open>src/testApp/main.cpp\<close> around the coroutines.  The scope that holds the coroutines remembers that it
  was cancelled; joining it, with or without cancelling, waits until every coroutine has finished,
  and a coroutine that does not ask for cancellation, as \<^verbatim>\<open>burn_cycles\<close> does not, runs on.  The
  handler may run at any time and any number of times, on whichever thread receives the signal.  A signal
  that arrives while \<^verbatim>\<open>run\<close> still adds coroutines is not modelled.
\<close>

datatype unix_signal = SIGINT | SIGTERM | SIGABRT | SIGKILL

definition registered :: "unix_signal list" where
  "registered = [SIGINT, SIGTERM, SIGABRT, SIGKILL]"

text \<open>Registering a handler for \<^verbatim>\<open>SIGKILL\<close> fails, and \<^verbatim>\<open>main\<close> does not look at the result.\<close>

definition has_handler :: "unix_signal \<Rightarrow> bool" where
  "has_handler s \<longleftrightarrow> s \<in> set registered \<and> s \<noteq> SIGKILL"

text \<open>
  \<^verbatim>\<open>main\<close> before and after the test in \<^verbatim>\<open>run\<close>, and the ends of the process; the state counts the
  handled signals and the handlers that wait for the scope.
\<close>

datatype phase = Started | Joining | Exited | Killed

record main_state =
  work :: "str_map \<times> burner list"
  phase :: phase
  cancelled :: bool
  waiting :: nat
  signals :: nat

definition alive :: "main_state \<Rightarrow> bool" where
  "alive s \<longleftrightarrow> phase s \<in> {Started, Joining}"

definition signal_callback_handler :: "main_state \<Rightarrow> main_state" where
  "signal_callback_handler s =
     (if \<not> cancelled s then s\<lparr>cancelled := True, waiting := waiting s + 1, signals := signals s + 1\<rparr>
      else s\<lparr>phase := Exited, signals := signals s + 1\<rparr>)"

inductive main_step :: "'d::linorder app_flags \<Rightarrow> int \<Rightarrow> main_state \<Rightarrow> main_state \<Rightarrow> bool"
  for flags start where
  burn: "alive s \<Longrightarrow> app_step flags start (work s) c \<Longrightarrow> main_step flags start s (s\<lparr>work := c\<rparr>)"
| join: "phase s = Started \<Longrightarrow> \<not> cancelled s \<Longrightarrow> main_step flags start s (s\<lparr>phase := Joining\<rparr>)"
| skip: "phase s = Started \<Longrightarrow> cancelled s \<Longrightarrow> main_step flags start s (s\<lparr>phase := Exited\<rparr>)"
| joined: "phase s = Joining \<Longrightarrow> run_returns (work s) \<Longrightarrow> main_step flags start s (s\<lparr>phase := Exited\<rparr>)"
| deliver: "alive s \<Longrightarrow> has_handler g \<Longrightarrow> main_step flags start s (signal_callback_handler s)"
| handled: "alive s \<Longrightarrow> waiting s \<noteq> 0 \<Longrightarrow> run_returns (work s) \<Longrightarrow>
    main_step flags start s (s\<lparr>phase := Exited\<rparr>)"
| kill: "alive s \<Longrightarrow> main_step flags start s (s\<lparr>phase := Killed\<rparr>)"

definition main_start :: "'d app_flags \<Rightarrow> int list \<Rightarrow> main_state" where
  "main_start flags nows =
     \<lparr>work = app_start flags nows, phase = Started, cancelled = False, waiting = 0, signals = 0\<rparr>"

inductive main_reachable :: "'d::linorder app_flags \<Rightarrow> int \<Rightarrow> int list \<Rightarrow> main_state \<Rightarrow> bool"
  for flags start nows where
  init: "main_reachable flags start nows (main_start flags nows)"
| step: "main_reachable flags start nows s \<Longrightarrow> main_step flags start s s' \<Longrightarrow>
    main_reachable flags start nows s'"

text \<open>The coroutines do not notice the signals.\<close>

lemma main_reachable_work:
  "main_reachable flags start nows s \<Longrightarrow> app_reachable flags start nows (work s)"
proof (induction rule: main_reachable.induct)
  case init
  then show ?case by (simp add: main_start_def app_reachable.init)
next
  case (step s s')
  from step(2) step(3) show ?case
    by cases (auto simp: signal_callback_handler_def intro: app_reachable.step)
qed

text \<open>The invariant of a process that has joined its coroutines.\<close>

definition one_signal_inv :: "main_state \<Rightarrow> bool" where
  "one_signal_inv s \<longleftrightarrow> phase s \<noteq> Started \<and> (cancelled s \<longleftrightarrow> signals s \<noteq> 0)
     \<and> (phase s = Exited \<longrightarrow> 2 \<le> signals s)"

lemma one_signal_step:
  assumes "main_step flags start s s'" "one_signal_inv s" "\<not> run_returns (work s)"
  shows "one_signal_inv s'"
  using assms by cases (auto simp: one_signal_inv_def signal_callback_handler_def alive_def)



end
