(* ===== verification/Event_Parse.thy ===== *)
theory Event_Parse
  imports Defs
begin

text \<open>
  Reading an event from text, the \<^verbatim>\<open>FromStr\<close> instance of \<^verbatim>\<open>src/src/lib.rs\<close>: the line is split at white
  space, and the third, fifth and seventh words are the process id and the two stacks.  The instance
  declares an error type but unwraps every result, so it returns an event or panics.
\<close>

section \<open>Standard library\<close>

text \<open>\<^verbatim>\<open>split_whitespace\<close>, with the word read so far in reverse.\<close>

function split_at_white :: "string \<Rightarrow> string \<Rightarrow> string list" where
  "split_at_white acc s =
     (case strip_any white_space s of
        Some t \<Rightarrow> (if acc = [] then split_at_white [] t else rev acc # split_at_white [] t)
      | None \<Rightarrow>
          (case s of
             [] \<Rightarrow> if acc = [] then [] else [rev acc]
           | c # cs \<Rightarrow> split_at_white (c # acc) cs))"
  by pat_completeness auto
termination
  by (relation "measure (\<lambda>(acc, s). length s)") (auto dest: strip_any_length)

declare split_at_white.simps [simp del]

definition split_whitespace :: "string \<Rightarrow> string list" where
  "split_whitespace s = split_at_white [] s"

text \<open>\<^verbatim>\<open>parse\<close> for unsigned integers: an optional plus sign, then decimal digits within the width.\<close>

definition digit :: "char \<Rightarrow> nat option" where
  "digit c = (if 48 \<le> (of_char c :: nat) \<and> of_char c < (58 :: nat) then Some (of_char c - 48) else None)"

fun parse_digits :: "nat \<Rightarrow> nat \<Rightarrow> string \<Rightarrow> nat option" where
  "parse_digits w n [] = Some n"
| "parse_digits w n (c # cs) =
     (case digit c of
        None \<Rightarrow> None
      | Some d \<Rightarrow> if 10 * n + d < 2 ^ w then parse_digits w (10 * n + d) cs else None)"

definition parse_uint :: "nat \<Rightarrow> string \<Rightarrow> nat option" where
  "parse_uint w s =
     (case s of
        [] \<Rightarrow> None
      | c # cs \<Rightarrow>
          if c = CHR ''+'' then (if cs = [] then None else parse_digits w 0 cs) else parse_digits w 0 s)"

section \<open>The instance\<close>

datatype from_str_panic = IndexOutOfBounds | UnwrapOnErr

definition parse_word :: "nat \<Rightarrow> string list \<Rightarrow> nat \<Rightarrow> from_str_panic + nat" where
  "parse_word w split i =
     (if i < length split then
        (case parse_uint w (split ! i) of None \<Rightarrow> Inl UnwrapOnErr | Some n \<Rightarrow> Inr n)
      else Inl IndexOutOfBounds)"

definition from_str :: "string \<Rightarrow> from_str_panic + stacktrace_event" where
  "from_str s =
     (let split = split_whitespace s;
          event = default_event
      in case parse_word 32 split 2 of
           Inl e \<Rightarrow> Inl e
         | Inr p \<Rightarrow>
             (case parse_word 64 split 4 of
                Inl e \<Rightarrow> Inl e
              | Inr u \<Rightarrow>
                  (case parse_word 64 split 6 of
                     Inl e \<Rightarrow> Inl e
                   | Inr k \<Rightarrow>
                       Inr (event\<lparr>pid := of_nat p, ustack := replicate 128 (of_nat u),
                                  kstack := replicate 128 (of_nat k)\<rparr>))))"

section \<open>Numbers\<close>

lemma digit_char: "n < 10 \<Longrightarrow> digit (char_of (48 + n)) = Some n"
  by (simp add: digit_def)

lemma parse_digits_append:
  "parse_digits w n (s @ t) = Option.bind (parse_digits w n s) (\<lambda>m. parse_digits w m t)"
  by (induction s arbitrary: n) (auto split: option.split)

lemma parse_show: "n < 2 ^ w \<Longrightarrow> parse_digits w 0 (show_nat n) = Some n"
proof (induction n rule: show_nat.induct)
  case (1 n)
  show ?case
  proof (cases "n < 10")
    case True
    then show ?thesis using 1(2) by (subst show_nat.simps) (simp add: digit_char)
  next
    case False
    then have "n div 10 < 2 ^ w" using 1(2) by linarith
    from 1(1) [OF False this] show ?thesis
      using False 1(2) by (subst show_nat.simps) (simp add: parse_digits_append digit_char)
  qed
qed

lemma strip_any_hd: "c \<notin> hd ` set ws \<Longrightarrow> [] \<notin> set ws \<Longrightarrow> strip_any ws (c # s) = None"
proof (induction ws)
  case (Cons w ws)
  then show ?case by (cases w) auto
qed simp

lemma white_heads: "hd ` set white_space = char_of ` {9, 10, 11, 12, 13, 32, 194, 225, 226, 227 :: nat}"
  and white_nonempty: "[] \<notin> set white_space"
  by (auto simp: white_space_def upt_rec)

lemma not_white: "(of_char c :: nat) \<in> {33..<128} \<Longrightarrow> strip_any white_space (c # s) = None"
  by (rule strip_any_hd [OF _ white_nonempty]) (auto simp: white_heads)

definition plain_word :: "string \<Rightarrow> bool" where
  "plain_word w \<longleftrightarrow> w \<noteq> [] \<and> (\<forall>c \<in> set w. (of_char c :: nat) \<in> {33..<128})"

lemma split_at_word:
  "\<forall>c \<in> set w. (of_char c :: nat) \<in> {33..<128} \<Longrightarrow> split_at_white acc (w @ s) = split_at_white (rev w @ acc) s"
proof (induction w arbitrary: acc)
  case (Cons c w)
  then have "split_at_white acc (c # w @ s) = split_at_white (c # acc) (w @ s)"
    by (subst split_at_white.simps) (simp add: not_white)
  then show ?case using Cons by simp
qed simp

lemma white_ascii:
  "white_space = [[CHR 0x09], [CHR 0x0A], [CHR 0x0B], [CHR 0x0C], [CHR 0x0D], [CHR 0x20]] @ drop 6 white_space"
  and white_end: "strip_any white_space [] = None"
  by code_simp+

lemma split_space: "split_at_white acc ('' '' @ s) = (if acc = [] then [] else [rev acc]) @ split_at_white [] s"
proof -
  have "strip_any white_space ('' '' @ s) = Some s"
    by (subst white_ascii) simp
  then show ?thesis by (subst split_at_white.simps) simp
qed

text \<open>Plain words joined by single spaces are split into themselves.\<close>

fun join_words :: "string list \<Rightarrow> string" where
  "join_words [] = []"
| "join_words [w] = w"
| "join_words (w # ws) = w @ '' '' @ join_words ws"

lemma split_join: "\<forall>w \<in> set ws. plain_word w \<Longrightarrow> split_whitespace (join_words ws) = ws"
proof (induction ws rule: join_words.induct)
  case 1
  then show ?case by (simp add: split_whitespace_def white_end split_at_white.simps)
next
  case (2 w)
  have "split_at_white (rev w) [] = [w]"
    using 2 by (subst split_at_white.simps) (simp add: white_end plain_word_def)
  then show ?case using 2 split_at_word [of w "[]" "[]"] by (simp add: split_whitespace_def plain_word_def)
next
  case (3 w v ws)
  then have "split_at_white [] (w @ ('' '' @ join_words (v # ws))) = split_at_white (rev w) ('' '' @ join_words (v # ws))"
    using split_at_word [of w "[]"] by (simp add: plain_word_def)
  then show ?case using 3 split_space [of "rev w" "join_words (v # ws)"]
    by (simp add: split_whitespace_def plain_word_def)
qed

lemma plain_number: "plain_word (show_nat n)"
proof (induction n rule: show_nat.induct)
  case (1 n)
  have last: "(of_char (char_of (48 + n mod 10)) :: nat) \<in> {33..<128}" by simp
  show ?case
  proof (cases "n < 10")
    case True
    then show ?thesis using last by (subst show_nat.simps) (simp add: plain_word_def)
  next
    case False
    from 1 [OF False] show ?thesis
      using last False by (subst show_nat.simps) (auto simp: plain_word_def)
  qed
qed

lemma parse_uint_show: "n < 2 ^ w \<Longrightarrow> parse_uint w (show_nat n) = Some n"
proof -
  assume n: "n < 2 ^ w"
  obtain c cs where s: "show_nat n = c # cs"
    using plain_number [of n] by (cases "show_nat n") (simp_all add: plain_word_def)
  have "c \<noteq> CHR ''+''" using parse_show [OF n] s by (auto simp: digit_def)
  then show ?thesis using parse_show [OF n] s by (simp add: parse_uint_def)
qed

section \<open>Properties\<close>

text \<open>
  C39. A line whose third, fifth and seventh words are decimal numbers is read back: the process id is
  the first of them, and each stack is its own number 128 times over, so that only stacks of one
  repeated address can be written and read.
\<close>

theorem from_str_roundtrip:
  assumes "plain_word a" "plain_word b" "plain_word c" "plain_word d" "\<forall>w \<in> set rest. plain_word w"
  shows "from_str (join_words ([a, b, show_nat (unat p), c, show_nat (unat u), d, show_nat (unat k)] @ rest))
    = Inr (default_event\<lparr>pid := p, ustack := replicate 128 u, kstack := replicate 128 k\<rparr>)"
proof -
  let ?ws = "[a, b, show_nat (unat p), c, show_nat (unat u), d, show_nat (unat k)] @ rest"
  have split: "split_whitespace (join_words ?ws) = ?ws"
    using assms plain_number by (intro split_join) auto
  have "unat p < 2 ^ LENGTH(32)" "unat u < 2 ^ LENGTH(64)" "unat k < 2 ^ LENGTH(64)"
    by (rule unsigned_less)+
  then show ?thesis
    unfolding from_str_def split by (simp add: parse_word_def parse_uint_show)
qed

theorem from_str_roundtrip_witness:
  "from_str (join_words [''a'', ''b'', show_nat (unat (7 :: u32)), ''c'', show_nat (unat (4096 :: u64)), ''d'',
     show_nat (unat (255 :: u64))])
   = Inr (default_event\<lparr>pid := 7, ustack := replicate 128 4096, kstack := replicate 128 255\<rparr>)"
  using from_str_roundtrip [of "''a''" "''b''" "''c''" "''d''" "[]" 7 4096 255] by (simp add: plain_word_def)

lemma sum_bind_InrD:
  "(case x of Inl e \<Rightarrow> Inl e | Inr y \<Rightarrow> f y) = Inr z \<Longrightarrow> \<exists>y. x = Inr y \<and> f y = Inr z"
  by (cases x) simp_all

lemma from_str_InrD:
  assumes "from_str s = Inr ev"
  shows "\<exists>p u k. ev = default_event\<lparr>pid := p, ustack := replicate 128 u, kstack := replicate 128 k\<rparr>"
proof -
  from sum_bind_InrD [OF assms [unfolded from_str_def Let_def]]
  obtain p where p: "(case parse_word 64 (split_whitespace s) 4 of Inl e \<Rightarrow> Inl e
      | Inr u \<Rightarrow> (case parse_word 64 (split_whitespace s) 6 of Inl e \<Rightarrow> Inl e
        | Inr k \<Rightarrow> Inr (default_event\<lparr>pid := of_nat p, ustack := replicate 128 (of_nat u),
            kstack := replicate 128 (of_nat k)\<rparr>))) = Inr ev" by (elim exE conjE)
  from sum_bind_InrD [OF p]
  obtain u where u: "(case parse_word 64 (split_whitespace s) 6 of Inl e \<Rightarrow> Inl e
      | Inr k \<Rightarrow> Inr (default_event\<lparr>pid := of_nat p, ustack := replicate 128 (of_nat u),
          kstack := replicate 128 (of_nat k)\<rparr>)) = Inr ev" by (elim exE conjE)
  from sum_bind_InrD [OF u]
  show ?thesis by (elim exE conjE) (rule exI, rule exI, rule exI, erule sum.inject(2) [THEN iffD1, THEN sym])
qed

text \<open>
  C40. Every line gives an event or a panic: a line of fewer than seven words panics on an index, or
  earlier on a word that is not a number, and the event that any other line gives is well formed, with
  no processor, no command name and no stack sizes.
\<close>

theorem from_str_outcome:
  "(length (split_whitespace s) < 7 \<longrightarrow> (\<exists>e. from_str s = Inl e))
   \<and> (\<forall>ev. from_str s = Inr ev \<longrightarrow>
        wf_event ev \<and> cpu_id ev = 0 \<and> comm ev = replicate 16 0 \<and> kstack_sz ev = 0 \<and> ustack_sz ev = 0)"
proof (intro conjI impI allI)
  assume "length (split_whitespace s) < 7"
  then have "parse_word 64 (split_whitespace s) 6 = Inl IndexOutOfBounds" by (simp add: parse_word_def)
  then show "\<exists>e. from_str s = Inl e" by (simp add: from_str_def Let_def split: sum.split)
next
  fix ev assume "from_str s = Inr ev"
  from from_str_InrD [OF this]
  obtain p u k where ev: "ev = default_event\<lparr>pid := p, ustack := replicate 128 u, kstack := replicate 128 k\<rparr>"
    by (elim exE)
  show "wf_event ev"
    unfolding ev wf_event_def by (simp add: default_event_def TASK_COMM_LEN_def MAX_STACK_DEPTH_def)
  show "cpu_id ev = 0" "comm ev = replicate 16 0" "kstack_sz ev = 0" "ustack_sz ev = 0"
    unfolding ev by (simp_all add: default_event_def)
qed

theorem from_str_outcome_witness: "\<exists>e. from_str ''a b'' = Inl e"
proof -
  have "split_whitespace (join_words [''a'', ''b'']) = [''a'', ''b'']"
    by (rule split_join) (simp add: plain_word_def)
  then have "length (split_whitespace ''a b'') < 7" by simp
  with from_str_outcome [of "''a b''"] show ?thesis by blast
qed

end
