(* ===== verification/Demo.thy ===== *)
theory Demo
  imports Prelude
begin

text \<open>
  The demonstration workload, \<^verbatim>\<open>src/demo/demo.c\<close>: a loop that spends a million iterations on
  business logic and, with a given percentage, ten million on logging.  C's \<^verbatim>\<open>int\<close> is 32 bits
  wide and its overflow is undefined, which is a value of the model.  \<^verbatim>\<open>rand\<close> is a
  parameter: the stream of its results.
\<close>

section \<open>C integers\<close>

datatype undefined_behaviour = SignedOverflow

definition in_int :: "int \<Rightarrow> bool" where
  "in_int x \<longleftrightarrow> - (2 ^ 31) \<le> x \<and> x < 2 ^ 31"

definition mul_int :: "int \<Rightarrow> int \<Rightarrow> undefined_behaviour + int" where
  "mul_int x y = (if in_int (x * y) then Inr (x * y) else Inl SignedOverflow)"

text \<open>The remainder of C's truncating division.\<close>

definition rem_int :: "int \<Rightarrow> int \<Rightarrow> int" where
  "rem_int x y = sgn x * (\<bar>x\<bar> mod \<bar>y\<bar>)"

section \<open>The workload\<close>

text \<open>The empty loop of \<^verbatim>\<open>simulateWork\<close>: the counter at its end and the iterations it ran.\<close>

function work_loop :: "int \<Rightarrow> nat \<Rightarrow> int \<times> nat" where
  "work_loop i n = (if i > 0 then work_loop (i - 1) (Suc n) else (i, n))"
  by pat_completeness auto
termination
  by (relation "measure (\<lambda>(i, n). nat i)") auto

declare work_loop.simps [simp del]

definition simulateWork :: "int \<Rightarrow> undefined_behaviour + nat" where
  "simulateWork x =
     (case mul_int 1000000 x of Inl e \<Rightarrow> Inl e | Inr i \<Rightarrow> Inr (snd (work_loop i 0)))"

record work =
  business :: nat
  logging :: nat

definition doBusinessLogic :: "int \<Rightarrow> work \<Rightarrow> undefined_behaviour + work" where
  "doBusinessLogic x w =
     (case simulateWork x of Inl e \<Rightarrow> Inl e | Inr n \<Rightarrow> Inr (w\<lparr>business := business w + n\<rparr>))"

definition doLogging :: "int \<Rightarrow> work \<Rightarrow> undefined_behaviour + work" where
  "doLogging x w =
     (case simulateWork x of Inl e \<Rightarrow> Inl e | Inr n \<Rightarrow> Inr (w\<lparr>logging := logging w + n\<rparr>))"

definition applicationLogic :: "int \<Rightarrow> int \<Rightarrow> work \<Rightarrow> undefined_behaviour + work" where
  "applicationLogic rand logPct w =
     (if rem_int rand 100 < logPct then
        (case doBusinessLogic 1 w of Inl e \<Rightarrow> Inl e | Inr w \<Rightarrow> doLogging 10 w)
      else doBusinessLogic 1 w)"

text \<open>The main loop never ends; this is the work done by its first iterations, one per random number.\<close>

fun main_loop :: "int list \<Rightarrow> work \<Rightarrow> undefined_behaviour + work" where
  "main_loop [] w = Inr w"
| "main_loop (r # rs) w =
     (case applicationLogic r 50 w of Inl e \<Rightarrow> Inl e | Inr w \<Rightarrow> main_loop rs w)"

section \<open>Properties\<close>

lemma work_loop_result: "work_loop i n = (min i 0, n + nat i)"
proof (induction i n rule: work_loop.induct)
  case (1 i n)
  show ?case
  proof (cases "i > 0")
    case True
    with 1 show ?thesis by (subst work_loop.simps) (simp add: min_def nat_diff_distrib)
  next
    case False
    then show ?thesis by (subst work_loop.simps) (simp add: min_def)
  qed
qed

text \<open>
  The busy loop terminates for every argument: it runs a million iterations per unit and none for
  a negative argument, unless the multiplication overflows, which happens exactly outside
  \<open>-2147 .. 2147\<close>.
\<close>

theorem simulateWork_iterations:
  "simulateWork x = (if -2147 \<le> x \<and> x \<le> 2147 then Inr (nat (1000000 * x)) else Inl SignedOverflow)"
proof -
  have "in_int (1000000 * x) \<longleftrightarrow> -2147 \<le> x \<and> x \<le> 2147"
    unfolding in_int_def by auto
  then show ?thesis by (simp add: simulateWork_def mul_int_def work_loop_result)
qed

lemma simulateWork_values: "simulateWork 1 = Inr 1000000" "simulateWork 10 = Inr 10000000"
  by (simp_all add: simulateWork_def mul_int_def in_int_def work_loop_result)

text \<open>
  The main loop never overflows.  After any number of iterations the business work is a million loop
  iterations each, and the logging work ten million for each random number whose last two digits
  are below 50.
\<close>

theorem main_loop_work:
  "main_loop rs w = Inr
     (w\<lparr>business := business w + 1000000 * length rs,
        logging := logging w + 10000000 * length (filter (\<lambda>r. rem_int r 100 < 50) rs)\<rparr>)"
  by (induction rs arbitrary: w)
     (simp_all add: applicationLogic_def doBusinessLogic_def doLogging_def simulateWork_values)

end
