(* ===== verification/Workloads.thy ===== *)
theory Workloads
  imports Defs
begin

text \<open>
  The two small workloads beside the C and C++ ones: \<^verbatim>\<open>testAppTwo/src/main.rs\<close>, which formats numbers
  for ever, and \<^verbatim>\<open>SlowCacheApp/src/main/kotlin/Main.kt\<close>, which fills a map with random entries and
  converts it.  The random draws are parameters; times are measured but never used.
\<close>

section \<open>The Rust program\<close>

text \<open>
  The state is the next number of the range \<^verbatim>\<open>1..10000000\<close>; a step formats it.  After the last number the
  outer loop starts the range again.
\<close>

definition format_step :: "nat \<Rightarrow> string \<times> nat" where
  "format_step i = (show_nat i, if Suc i < 10000000 then Suc i else 1)"

fun formatted :: "nat \<Rightarrow> nat \<Rightarrow> string list" where
  "formatted i 0 = []"
| "formatted i (Suc n) = (case format_step i of (s, j) \<Rightarrow> s # formatted j n)"

lemma formatted_values:
  "1 \<le> i \<Longrightarrow> i < 10000000 \<Longrightarrow> formatted i n = map (\<lambda>k. show_nat (1 + (i - 1 + k) mod 9999999)) [0..<n]"
proof (induction n arbitrary: i)
  case (Suc n)
  let ?j = "snd (format_step i)"
  have j: "1 \<le> ?j" "?j < 10000000" "\<And>k. (?j - 1 + k) mod 9999999 = (i - 1 + Suc k) mod 9999999"
  proof -
    show "1 \<le> ?j" "?j < 10000000" by (simp_all add: format_step_def)
    show "(?j - 1 + k) mod 9999999 = (i - 1 + Suc k) mod 9999999" for k
    proof (cases "Suc i < 10000000")
      case False
      then have "i - 1 + Suc k = 9999999 + k" using Suc.prems by linarith
      then show ?thesis using False by (simp add: format_step_def)
    qed (use Suc.prems in \<open>simp add: format_step_def\<close>)
  qed
  have "formatted i (Suc n) = show_nat i # formatted ?j n" by (simp add: format_step_def)
  also have "\<dots> = show_nat (1 + (i - 1 + 0) mod 9999999) # map (\<lambda>k. show_nat (1 + (i - 1 + Suc k) mod 9999999)) [0..<n]"
    using Suc.IH [OF j(1,2)] Suc.prems by (simp only: j(3)) simp
  also have "\<dots> = map (\<lambda>k. show_nat (1 + (i - 1 + k) mod 9999999)) [0..<Suc n]"
    by (simp add: upt_conv_Cons map_Suc_upt [symmetric] comp_def del: upt_Suc)
  finally show ?case .
qed simp

text \<open>The numbers the program formats, in order and without end.\<close>

lemma formatted_in_rounds:
  "formatted 1 n = map (\<lambda>k. show_nat (1 + k mod 9999999)) [0..<n]"
  by (simp add: formatted_values)

section \<open>The Kotlin program\<close>

record ImportantDataInMemory =
  timeStamp :: u64
  randoData :: "unit option"

record ImportantDataSerialized =
  s_timeStamp :: string
  s_randoData :: "unit option"

record ImportantDataSerializedFast =
  f_timeStamp :: u64
  f_randoData :: "unit option"

definition newImportantData :: "u64 \<Rightarrow> ImportantDataInMemory" where
  "newImportantData next_ulong = \<lparr>timeStamp = next_ulong, randoData = None\<rparr>"

text \<open>The slow conversion formats the stamp as an instant; its signed reading may lie before the epoch.\<close>

definition serialized :: "(int \<Rightarrow> string) \<Rightarrow> ImportantDataInMemory \<Rightarrow> ImportantDataSerialized" where
  "serialized instant d = \<lparr>s_timeStamp = instant (sint (timeStamp d)), s_randoData = randoData d\<rparr>"

definition serialized_fast :: "ImportantDataInMemory \<Rightarrow> ImportantDataSerializedFast" where
  "serialized_fast d = \<lparr>f_timeStamp = timeStamp d, f_randoData = randoData d\<rparr>"

text \<open>Entry \<open>i\<close> draws a key and then a stamp; \<^verbatim>\<open>toMap\<close> keeps the last value of a key.\<close>

definition toMap :: "('k \<times> 'v) list \<Rightarrow> ('k, 'v) hash_map" where
  "toMap ps = fold (\<lambda>(k, v). upsert (\<lambda>_. v) v k) ps []"

definition genEntries :: "(nat \<Rightarrow> i32) \<Rightarrow> (nat \<Rightarrow> u64) \<Rightarrow> nat \<Rightarrow> (i32, ImportantDataInMemory) hash_map" where
  "genEntries next_int next_ulong n = toMap (map (\<lambda>i. (next_int i, newImportantData (next_ulong i))) [1..<Suc n])"

definition convert :: "('k, ImportantDataInMemory) hash_map \<Rightarrow> ('k \<times> ImportantDataSerializedFast) list" where
  "convert m = map (\<lambda>(k, d). (k, serialized_fast d)) m"

lemma toMap_snoc: "toMap (ps @ [(k, v)]) = upsert (\<lambda>_. v) v k (toMap ps)"
  by (simp add: toMap_def)

lemma toMap_lookup: "map_of (toMap ps) k = map_of (rev ps) k"
proof (induction ps rule: rev_induct)
  case (snoc p ps)
  obtain k' v where "p = (k', v)" by fastforce
  then show ?case using snoc by (simp add: toMap_snoc map_of_upsert split: option.split)
qed (simp add: toMap_def)

lemma toMap_keys: "wf_map (toMap ps) \<and> fst ` set (toMap ps) = fst ` set ps"
proof (induction ps rule: rev_induct)
  case (snoc p ps)
  obtain k v where "p = (k, v)" by fastforce
  then show ?case using snoc by (simp add: toMap_snoc wf_map_upsert keys_upsert)
qed (simp add: toMap_def)

definition genData :: "(nat \<Rightarrow> i32) \<Rightarrow> (nat \<Rightarrow> u64) \<Rightarrow> (i32, ImportantDataInMemory) hash_map" where
  "genData next_int next_ulong = genEntries next_int next_ulong 50000000"

text \<open>
  The generated map has one entry for each key that was drawn, with the stamp of its last draw, so never more
  than were asked for; the conversion keeps every key and stamp.
\<close>

lemma genEntries_entries:
  "length (genEntries next_int next_ulong n) = card (next_int ` {1..n}) \<and> length (genEntries next_int next_ulong n) \<le> n
   \<and> (\<forall>i \<in> {1..n}. (\<forall>j \<in> {i<..n}. next_int j \<noteq> next_int i) \<longrightarrow>
        map_of (convert (genEntries next_int next_ulong n)) (next_int i)
          = Some \<lparr>f_timeStamp = next_ulong i, f_randoData = None\<rparr>)"
proof -
  let ?ps = "map (\<lambda>i. (next_int i, newImportantData (next_ulong i))) [1..<Suc n]"
  have keys: "wf_map (toMap ?ps)" "fst ` set (toMap ?ps) = next_int ` {1..n}"
    using toMap_keys [of ?ps] by (auto simp: image_image atLeastLessThanSuc_atLeastAtMost simp del: upt_Suc)
  have size: "length (toMap ?ps) = card (next_int ` {1..n})"
    using keys distinct_card [of "map fst (toMap ?ps)"] by (simp add: wf_map_def)
  have lookup: "map_of (toMap ?ps) (next_int i) = Some (newImportantData (next_ulong i))"
    if i: "i \<in> {1..n}" "\<forall>j \<in> {i<..n}. next_int j \<noteq> next_int i" for i
  proof -
    have "[1..<Suc n] = [1..<i] @ i # [Suc i..<Suc n]"
      using i(1) upt_add_eq_append [of 1 i "Suc n - i"] upt_conv_Cons [of i "Suc n"] by (simp del: upt_Suc)
    moreover have "map_of (rev (map (\<lambda>j. (next_int j, newImportantData (next_ulong j))) [Suc i..<Suc n])) (next_int i) = None"
      unfolding map_of_eq_None_iff using i(2) by force
    ultimately show ?thesis by (simp add: toMap_lookup map_add_def del: upt_Suc)
  qed
  have "map_of (convert m) k = map_option serialized_fast (map_of m k)" for m :: "(i32, ImportantDataInMemory) hash_map" and k
    by (induction m) (auto simp: convert_def)
  then show ?thesis
    using size lookup card_image_le [of "{1..n}" next_int]
    by (simp add: genEntries_def serialized_fast_def newImportantData_def)
qed

end
