(* ===== verification/Spec2Isabelle.thy ===== *)
theory Spec2Isabelle
  imports Skeleton Ring_Buffer Wire Server_Regress Full_Graph Test_Signals Event_Parse Demo Workloads
begin

text \<open>
  A verification development for \<^verbatim>\<open>sto\<close>, a sampling profiler that stores its stacks in a database
  (paths below are relative to the repository's root, \<^verbatim>\<open>src/\<close>).

  \<^bold>\<open>The program.\<close>  An eBPF program attached to perf events takes a sample (\<^verbatim>\<open>src/bpf/bpftune.bpf.c\<close>,
  \<^verbatim>\<open>src/bpf/bpftune.h\<close>) and puts it into a ring buffer.  The client (\<^verbatim>\<open>src/bin/cli.rs\<close>) reads the
  ring buffer, symbolizes the user stack, gathers batches of 200 samples, turns a batch into a tree of
  stack prefixes with hashed ids and posts it.  The server (\<^verbatim>\<open>src/bin/server.rs\<close>) adds the batch to
  three tables (\<^verbatim>\<open>migrations/\<close>) and shows an executable as a flame graph.  Four workloads to be
  profiled are in the repository, in C (\<^verbatim>\<open>demo/demo.c\<close>), in C++ (\<^verbatim>\<open>testApp/main.cpp\<close>), in Rust
  (\<^verbatim>\<open>testAppTwo/src/main.rs\<close>) and in Kotlin (\<^verbatim>\<open>SlowCacheApp\<close>).

  \<^bold>\<open>Theories.\<close>

  \<^item> \<open>Prelude\<close>: collections of rewrite rules, word synonyms, alignment, decimal numbers.
  \<^item> \<open>CTypes\<close>: C types as data, their size, alignment and member offsets under the x86-64 ABI, with
    the general facts that a well-formed type has its members in order, disjoint, aligned and
    inside it.
  \<^item> \<open>Vmlinux_Base\<close>, \<open>Vmlinux_Task\<close>, \<open>Vmlinux_Process\<close>, \<open>Vmlinux_Perf\<close>, \<open>Vmlinux_Bpf\<close>,
    \<open>Vmlinux_Verifier\<close>, \<open>Vmlinux_Machine\<close>, \<open>Vmlinux_Context\<close>: 475 declarations of
    \<^verbatim>\<open>src/bpf/vmlinux.h\<close>, the kernel's records behind tasks, perf events, the ring buffer, the BPF
    verifier, the performance counters and the contexts of BPF programs, each with its computed layout; \<open>Vmlinux\<close> collects
    them and states the layouts the profiler relies on.
  \<^item> \<open>Bytes\<close>: words and arrays of words as bytes.
  \<^item> \<open>Bpftune\<close>: the event record in C and in the generated Rust (\<^verbatim>\<open>src/bpf/bpftune.skel.rs\<close>), the eBPF
    program over the kernel's helpers, and what the client reads from the bytes it submits.
  \<^item> \<open>Bpf_Code\<close>: the compiled program, decoded from the object file embedded in the skeleton and run on
    an eBPF machine with checked memory accesses, and its equality with the source.
  \<^item> \<open>Skeleton\<close>: how the generated skeleton opens, loads and attaches the embedded object and reaches its maps,
    programs and links.
  \<^item> \<open>Ring_Buffer\<close>: the declaration of the map \<^verbatim>\<open>events\<close> and the number of samples it holds between two polls.
  \<^item> \<open>Defs\<close>: the records of \<^verbatim>\<open>src/defs.rs\<close>, strings as UTF-8 bytes, hash maps as association lists.
  \<^item> \<open>Cache\<close>, \<open>Client_Ids\<close>: the contract of a memoising cache, its interpretation for every replacement
    policy, and the four caches with the functions that compute ids.
  \<^item> \<open>Client_Sink\<close>, \<open>Client_Tree\<close>: \<^verbatim>\<open>process_and_sink_data\<close>, and what it posts as a function of the
    samples: the prefix tree, referential integrity, totals.
  \<^item> \<open>Client\<close>: memory limit, ring buffer callback, perf events, polling, the collector, \<^verbatim>\<open>main\<close>.
  \<^item> \<open>Client_Worker\<close>: an uploading thread as a machine whose steps are its accesses to the caches it shares
    with other threads, and what it posts under their interference.
  \<^item> \<open>Client_System\<close>: the threads of the client, in any interleaving: what each state keeps of the events,
    and that everything polled can be brought to its end.
  \<^item> \<open>Server_Db\<close>, \<open>Server_Ingest\<close>: tables, statements and transactions of \<^verbatim>\<open>data_ingest\<close>, the database
    invariant under every interleaving of requests, and the acceptance of the client's batches.
  \<^item> \<open>Server_Runs\<close>: requests served at the same time, as interleaved transactions, and the counters
    they leave.
  \<^item> \<open>Server_Dag\<close>: the handlers \<^verbatim>\<open>data\<close>, \<^verbatim>\<open>metadata\<close> and \<^verbatim>\<open>index\<close>.
  \<^item> \<open>Server_Sql\<close>: the SQL function \<^verbatim>\<open>subtree\<close> of the migration, which gives the stack below a node as
    JSON.
  \<^item> \<open>Wire\<close>: a batch as JSON, as the client writes it and the server reads it.
  \<^item> \<open>Server_Regress\<close>: the SQL function \<^verbatim>\<open>findRegressions\<close>, which compares two versions of an executable.
  \<^item> \<open>End_To_End\<close>: one batch from its samples to the flame graph.
  \<^item> \<open>Full_System\<close>: both ends with all their threads and requests, and the exact counts between them.
  \<^item> \<open>Full_Tree\<close>: the database after such a run, as the tree of the stack prefixes of all collected samples.
  \<^item> \<open>Full_Graph\<close>: the page after such a run, as a function of the sampled stacks.
  \<^item> \<open>Event_Parse\<close>: the \<^verbatim>\<open>FromStr\<close> instance of \<^verbatim>\<open>src/lib.rs\<close>.
  \<^item> \<open>Demo\<close>, \<open>Test_App\<close>, \<open>Test_Signals\<close>: the workloads in C and C++, the latter with its signal
    handler; \<open>Workloads\<close>: those in Rust and Kotlin.

  \<^bold>\<open>Conventions.\<close>  A record or enumeration of the code is a record or datatype with its names; a
  machine integer is a word of its width; a panic or early return is a value of a sum type; a hash map
  is an association list with distinct keys whose order stands for the unspecified iteration order.
  Code outside the repository is a parameter: the kernel's helpers (\<open>bpf_helpers\<close>), libbpf and system
  calls (\<open>client_sys\<close>, \<open>libbpf_contract\<close>), the copy of bytes into a record (\<open>plain_contract\<close>), the symbolizer, the
  demangler, the keyed hash and the replacement policies (\<open>client_env\<close>), the HTTP client, the texts of
  JSON and of time stamps (\<open>text_contract\<close>), the database's numeric division (\<open>numeric_div\<close>) and the kernel's ring
  buffer (\<open>ring_contract\<close>).  What a theorem needs of them is a named hypothesis.

  \<^bold>\<open>Interfaces.\<close>  \<open>memo_cache\<close> is what the client relies on of its caches; it is interpreted for a cache
  with an arbitrary policy and for the four caches of the program.  \<open>counted_table\<close> is what the two
  upserts of the server share; it is interpreted for the three counters of the executable table and for
  the node table, and again with the names of both tables.  \<open>prefix_rows\<close> is a table that holds one row for each
  stack prefix; it is interpreted for the rows of an upload, and the rows of the database after a complete run
  are shown to satisfy it (\<open>complete_run_prefix_rows\<close>).  \<open>json_codec\<close> is a value that JSON carries; it is interpreted for the rows and for the batch.

  \<^bold>\<open>Fuel.\<close>  The recursion of the flame graph, \<open>build_dag\<close>, carries fuel.  The handler gives it the number
  of selected nodes, and \<open>flame_graph\<close> shows that this is enough for every stored database: a node that
  is reached from a root is at a distance below the number of nodes, because distances from a root are
  unique.  The compiled eBPF program runs with the fuel of its 45 instruction slots, and it has no
  backward jump.  The recursion of the SQL function is limited by the database server's stack depth,
  which is a parameter; \<open>subtree_frames\<close> says which depth is enough.  An uploading thread
  has a number of steps that its batch determines (\<open>upload_despite_interference\<close>).  All other loops are
  structural or have a measure; the loops without an end (polling, the collector, the demonstration
  program, the coroutines) are described for every finite number of rounds or as step relations.

  \<^bold>\<open>Not modelled.\<close>  Logging, argument parsing, HTTP, the texts of JSON values and page rendering; of the object file embedded
  in the generated skeleton all but the code, its relocation and a symbol; the splitting of
  \<open>process_and_sink_data\<close> below the accesses to its caches, each of which is one step, and the moment at which the
  process ends when \<^verbatim>\<open>main\<close> fails (its other threads stop with it); deadlocks, lost connections and storage limits of the
  database (a transaction is atomic); the first definition of the SQL function \<^verbatim>\<open>subtree\<close>, which the
  second replaces; the declarations of the kernel dump that the profiler's records do not reach; signals
  that reach the C++ workload while it still starts its coroutines; the times that the Kotlin workload measures and prints; the build script and the page template,
  which carry no logic of the profiler.
\<close>

end
